(* ===== verification/Go_Prelude.thy ===== *)
theory Go_Prelude
  imports Main "HOL-Library.Sublist" "HOL-Library.Signed_Division"
begin

text \<open>
  What every component of the model shares: how a Go function that returns an error, panics and
  mutates state is written in HOL, Go's 64-bit integers, the string operations of the standard
  library that the code calls, and the automation over them.

  A Go function that mutates a state \<open>'s\<close> and returns \<open>(T, error)\<close> is a function of type
  \<open>('s, T) go\<close>: from the state to an outcome and the state it leaves. An outcome is a value
  (\<open>Ok\<close>), a returned error (\<open>Err\<close>) or a run-time panic (\<open>Panic\<close>). The state is kept in all
  three cases, because Go does not undo the writes that precede an error.
\<close>

named_theorems go_simps "combinators of the go type, unfolded at a state"
named_theorems keeps_intros "rules that propagate a state predicate through the combinators"

section \<open>Outcomes\<close>

text \<open>
  The errors the code tells apart are the Kubernetes status reasons NotFound and Conflict; every
  other error is a message of a dependency (\<open>ApiError\<close>) or one the source builds with
  \<open>fmt.Errorf\<close> or \<open>errors.New\<close> (\<open>Errorf\<close>).
\<close>

datatype go_error = NotFoundErr | ConflictErr | ApiError string | Errorf string

datatype go_panic =
    NilDeref
  | NilFunc
  | NilMapWrite
  | DivideByZero
  | IndexOutOfRange
  | ExplicitPanic string

datatype 'a outcome = Ok 'a | Err go_error | Panic go_panic

type_synonym ('s, 'a) go = "'s \<Rightarrow> 'a outcome \<times> 's"

text \<open>What a dependency outside the repository answers: an error or a value.\<close>

type_synonym 'a reply = "go_error + 'a"

fun replied :: "'a reply \<Rightarrow> 'a outcome" where
  "replied (Inl e) = Err e"
| "replied (Inr x) = Ok x"

text \<open>Sequencing of outcomes, for the code that computes a result without touching the state.\<close>

fun bindO :: "'a outcome \<Rightarrow> ('a \<Rightarrow> 'b outcome) \<Rightarrow> 'b outcome" where
  "bindO (Ok x) k = k x"
| "bindO (Err e) k = Err e"
| "bindO (Panic p) k = Panic p"

lemma bindO_Ok_iff [simp]: "bindO m k = Ok y \<longleftrightarrow> (\<exists>x. m = Ok x \<and> k x = Ok y)"
  by (cases m) auto

lemma replied_Ok_iff [simp]: "replied r = Ok x \<longleftrightarrow> r = Inr x"
  by (cases r) auto

fun is_ok :: "'a outcome \<Rightarrow> bool" where
  "is_ok (Ok _) = True"
| "is_ok _ = False"

fun is_panic :: "'a outcome \<Rightarrow> bool" where
  "is_panic (Panic _) = True"
| "is_panic _ = False"

definition ret :: "'a \<Rightarrow> ('s, 'a) go" where
  "ret x s = (Ok x, s)"

definition raise :: "go_error \<Rightarrow> ('s, 'a) go" where
  "raise e s = (Err e, s)"

definition panic :: "go_panic \<Rightarrow> ('s, 'a) go" where
  "panic p s = (Panic p, s)"

definition bindG :: "('s, 'a) go \<Rightarrow> ('a \<Rightarrow> ('s, 'b) go) \<Rightarrow> ('s, 'b) go" where
  "bindG m k s =
     (case m s of
        (Ok x, t) \<Rightarrow> k x t
      | (Err e, t) \<Rightarrow> (Err e, t)
      | (Panic p, t) \<Rightarrow> (Panic p, t))"

definition seqG :: "('s, 'a) go \<Rightarrow> ('s, 'b) go \<Rightarrow> ('s, 'b) go" where
  "seqG m k = bindG m (\<lambda>_. k)"

definition reads :: "('s \<Rightarrow> 'a) \<Rightarrow> ('s, 'a) go" where
  "reads f s = (Ok (f s), s)"

definition writes :: "('s \<Rightarrow> 's) \<Rightarrow> ('s, unit) go" where
  "writes f s = (Ok (), f s)"

text \<open>Reading through a pointer: \<open>None\<close> is nil, and the run time panics on it.\<close>

definition deref :: "'a option \<Rightarrow> ('s, 'a) go" where
  "deref p = (case p of None \<Rightarrow> panic NilDeref | Some x \<Rightarrow> ret x)"

definition answer :: "'a reply \<Rightarrow> ('s, 'a) go" where
  "answer r = (case r of Inl e \<Rightarrow> raise e | Inr x \<Rightarrow> ret x)"

text \<open>An error that the caller logs and drops; a panic is not caught.\<close>

definition logged :: "('s, unit) go \<Rightarrow> ('s, unit) go" where
  "logged m s = (case m s of (Err _, t) \<Rightarrow> (Ok (), t) | (r, t) \<Rightarrow> (r, t))"

text \<open>A loop that returns at the first error.\<close>

fun forEach :: "('a \<Rightarrow> ('s, unit) go) \<Rightarrow> 'a list \<Rightarrow> ('s, unit) go" where
  "forEach f [] = ret ()"
| "forEach f (x # xs) = seqG (f x) (forEach f xs)"

text \<open>The message of an error.\<close>

fun errorText :: "go_error \<Rightarrow> string" where
  "errorText (Errorf s) = s"
| "errorText (ApiError s) = s"
| "errorText NotFoundErr = ''not found''"
| "errorText ConflictErr = ''conflict''"

text \<open>\<open>fmt.Errorf\<close> with the verb w: the message gains a prefix, the status reason is still found.\<close>

fun wrap :: "string \<Rightarrow> go_error \<Rightarrow> go_error" where
  "wrap pre (Errorf s) = Errorf (pre @ s)"
| "wrap pre (ApiError s) = ApiError (pre @ s)"
| "wrap pre NotFoundErr = NotFoundErr"
| "wrap pre ConflictErr = ConflictErr"

fun wrapped :: "string \<Rightarrow> 'a reply \<Rightarrow> 'a reply" where
  "wrapped pre (Inl e) = Inl (wrap pre e)"
| "wrapped pre (Inr x) = Inr x"

lemma wrapped_Inr_iff [simp]: "wrapped pre r = Inr x \<longleftrightarrow> r = Inr x"
  by (cases r) simp_all

text \<open>An operation of a sub-component, run on its part of the state.\<close>

definition zoom :: "('s \<Rightarrow> 't) \<Rightarrow> ('t \<Rightarrow> 's \<Rightarrow> 's) \<Rightarrow> ('t, 'a) go \<Rightarrow> ('s, 'a) go" where
  "zoom get put m s = (case m (get s) of (r, t) \<Rightarrow> (r, put t s))"

lemmas [go_simps] = ret_def raise_def panic_def seqG_def reads_def writes_def

lemma bindG_Ok_iff [go_simps]:
  "bindG m k s = (Ok y, t) \<longleftrightarrow> (\<exists>x u. m s = (Ok x, u) \<and> k x u = (Ok y, t))"
  by (auto simp: bindG_def split: prod.splits outcome.splits)

lemma bindG_eq [simp]:
  "m s = (Ok x, t) \<Longrightarrow> bindG m k s = k x t"
  "m s = (Err e, t) \<Longrightarrow> bindG m k s = (Err e, t)"
  "m s = (Panic p, t) \<Longrightarrow> bindG m k s = (Panic p, t)"
  by (simp_all add: bindG_def)

lemma seqG_Ok_iff: "seqG m k s = (Ok y, t) \<longleftrightarrow> (\<exists>x u. m s = (Ok x, u) \<and> k u = (Ok y, t))"
  by (simp add: seqG_def bindG_Ok_iff)

lemma bindG_ret [simp]: "bindG (ret x) k = k x"
  by (auto simp: bindG_def ret_def)

lemma bindG_reads [simp]: "bindG (reads f) k s = k (f s) s"
  by (simp add: bindG_def reads_def)

lemma bindG_writes [simp]: "bindG (writes f) k s = k () (f s)"
  by (simp add: bindG_def writes_def)

lemma bindG_raise [simp]: "bindG (raise e) k s = (Err e, s)"
  and bindG_panic [simp]: "bindG (panic p) k s = (Panic p, s)"
  by (auto simp: bindG_def raise_def panic_def)

lemma deref_simps [simp]: "deref None = panic NilDeref" "deref (Some x) = ret x"
  by (simp_all add: deref_def)

lemma answer_simps [simp]: "answer (Inl e) = raise e" "answer (Inr x) = ret x"
  by (simp_all add: answer_def)

lemma deref_Ok_iff [go_simps]: "deref p s = (Ok x, t) \<longleftrightarrow> p = Some x \<and> t = s"
  by (cases p) (auto simp: ret_def panic_def)

lemma answer_Ok_iff [go_simps]: "answer r s = (Ok x, t) \<longleftrightarrow> r = Inr x \<and> t = s"
  by (cases r) (auto simp: ret_def raise_def)

lemma zoom_writes [simp]: "zoom get put (writes f) = writes (\<lambda>s. put (f (get s)) s)"
  by (auto simp: zoom_def writes_def)

lemma zoom_eq: "zoom get put m s = (fst (m (get s)), put (snd (m (get s))) s)"
  by (simp add: zoom_def split: prod.splits)

lemma zoom_Ok_iff: "zoom get put m s = (Ok x, t) \<longleftrightarrow> (\<exists>u. m (get s) = (Ok x, u) \<and> t = put u s)"
  by (auto simp: zoom_def split: prod.splits)

lemma seqG_simps [simp]:
  "seqG (writes f) k s = k (f s)"
  "seqG (ret x) k = k"
  "seqG (raise e) k s = (Err e, s)"
  "seqG (panic p) k s = (Panic p, s)"
  by (simp_all add: seqG_def)

section \<open>Predicates kept by an operation\<close>

text \<open>
  \<open>keeps P m\<close>: whatever \<open>m\<close> returns (a value, an error or a panic), it leaves \<open>P\<close> true if it
  was true before. The rules below carry an invariant through a whole handler.
\<close>

definition keeps :: "('s \<Rightarrow> bool) \<Rightarrow> ('s, 'a) go \<Rightarrow> bool" where
  "keeps P m \<longleftrightarrow> (\<forall>s. P s \<longrightarrow> P (snd (m s)))"

lemma keepsI: "(\<And>s. P s \<Longrightarrow> P (snd (m s))) \<Longrightarrow> keeps P m"
  by (simp add: keeps_def)

lemma keepsD: "keeps P m \<Longrightarrow> P s \<Longrightarrow> P (snd (m s))"
  by (simp add: keeps_def)

lemma keeps_ret [keeps_intros]: "keeps P (ret x)"
  and keeps_raise [keeps_intros]: "keeps P (raise e)"
  and keeps_panic [keeps_intros]: "keeps P (panic p)"
  and keeps_reads [keeps_intros]: "keeps P (reads f)"
  by (simp_all add: keeps_def go_simps)

lemma keeps_deref [keeps_intros]: "keeps P (deref p)"
  by (cases p) (simp_all add: keeps_intros)

lemma keeps_answer [keeps_intros]: "keeps P (answer r)"
  by (cases r) (simp_all add: keeps_intros)

lemma keeps_writes: "(\<And>s. P s \<Longrightarrow> P (f s)) \<Longrightarrow> keeps P (writes f)"
  by (simp add: keeps_def writes_def)

lemma keeps_bindG [keeps_intros]:
  assumes "keeps P m" and "\<And>x. keeps P (k x)"
  shows "keeps P (bindG m k)"
proof (rule keepsI)
  fix s assume "P s"
  with assms(1) have "P (snd (m s))" by (rule keepsD)
  then show "P (snd (bindG m k s))"
    using keepsD [OF assms(2)] by (auto simp: bindG_def split: prod.splits outcome.splits)
qed

lemma keeps_seqG [keeps_intros]: "keeps P m \<Longrightarrow> keeps P k \<Longrightarrow> keeps P (seqG m k)"
  by (simp add: seqG_def keeps_bindG)

lemma keeps_logged [keeps_intros]: "keeps P m \<Longrightarrow> keeps P (logged m)"
  by (fastforce simp: keeps_def logged_def split: prod.splits outcome.splits)

lemma snd_logged [simp]: "snd (logged m s) = snd (m s)"
  by (simp add: logged_def split: prod.splits outcome.splits)

lemma keeps_forEach: "(\<And>x. x \<in> set xs \<Longrightarrow> keeps P (f x)) \<Longrightarrow> keeps P (forEach f xs)"
  by (induction xs) (auto intro: keeps_intros)

lemma keeps_if [keeps_intros]: "keeps P m \<Longrightarrow> keeps P k \<Longrightarrow> keeps P (if b then m else k)"
  by simp

section \<open>Operations that do not panic\<close>

definition no_panic :: "('s, 'a) go \<Rightarrow> 's \<Rightarrow> bool" where
  "no_panic m s \<longleftrightarrow> \<not> is_panic (fst (m s))"

lemma no_panic_bindG:
  "no_panic m s \<Longrightarrow> (\<And>x t. m s = (Ok x, t) \<Longrightarrow> no_panic (k x) t) \<Longrightarrow> no_panic (bindG m k) s"
  by (auto simp: no_panic_def bindG_def split: prod.splits outcome.splits)

lemma no_panic_seqG:
  "no_panic m s \<Longrightarrow> (\<And>x t. m s = (Ok x, t) \<Longrightarrow> no_panic k t) \<Longrightarrow> no_panic (seqG m k) s"
  unfolding seqG_def by (rule no_panic_bindG)

lemma no_panic_zoom: "no_panic m (get s) \<Longrightarrow> no_panic (zoom get put m) s"
  by (auto simp: no_panic_def zoom_def split: prod.splits)

lemma no_panic_basic [simp]: "no_panic (ret x) s" "no_panic (raise e) s" "no_panic (writes f) s"
  "no_panic (answer r) s"
  by (simp_all add: no_panic_def go_simps answer_def split: sum.splits)

lemma no_panic_reads [simp]: "no_panic (reads f) s"
  by (simp add: no_panic_def reads_def)

lemma no_panic_panic [simp]: "\<not> no_panic (panic p) s"
  by (simp add: no_panic_def panic_def)

lemma no_panic_cases:
  assumes "no_panic m s"
  obtains x t where "m s = (Ok x, t)" | e t where "m s = (Err e, t)"
  using assms by (cases "m s"; cases "fst (m s)") (auto simp: no_panic_def)

lemmas no_panic_intros = no_panic_bindG no_panic_seqG no_panic_zoom

section \<open>Go integers\<close>

text \<open>
  \<open>int\<close> and \<open>int64\<close> are 64-bit two's complement values; arithmetic is written over \<open>int\<close> with
  the wrap-around made explicit by \<open>i64\<close>. Division truncates towards zero and panics on a zero
  divisor.
\<close>

definition i64 :: "int \<Rightarrow> int" where
  "i64 x = (x + 2 ^ 63) mod 2 ^ 64 - 2 ^ 63"

definition i32 :: "int \<Rightarrow> int" where
  "i32 x = (x + 2 ^ 31) mod 2 ^ 32 - 2 ^ 31"

lemma i64_id [simp]: "- (2 ^ 63) \<le> x \<Longrightarrow> x < 2 ^ 63 \<Longrightarrow> i64 x = x"
  by (simp add: i64_def)

lemma i64_range: "- (2 ^ 63) \<le> i64 x \<and> i64 x < 2 ^ 63"
proof -
  have "0 \<le> (x + 2 ^ 63) mod 2 ^ 64" and "(x + 2 ^ 63) mod 2 ^ 64 < 2 ^ 64"
    by simp_all
  then show ?thesis unfolding i64_def by simp
qed

definition quo :: "int \<Rightarrow> int \<Rightarrow> int outcome" where
  "quo a b = (if b = 0 then Panic DivideByZero else Ok (i64 (a sdiv b)))"

lemma div_nonneg_bounds:
  fixes a b :: int
  assumes "0 \<le> a" and "0 < b"
  shows "0 \<le> a div b" and "a div b \<le> a"
  using assms zdiv_mono2 [of a 1 b] by (simp_all add: pos_imp_zdiv_nonneg_iff)

lemma quo_nonneg:
  assumes "0 \<le> a" and "a < 2 ^ 63" and "0 < b"
  shows "quo a b = Ok (a div b)"
proof -
  have "a sdiv b = a div b" using assms by (auto simp: signed_divide_int_def sgn_if)
  with div_nonneg_bounds [OF assms(1,3)] assms show ?thesis by (simp add: quo_def)
qed

section \<open>Strings\<close>

definition has_prefix :: "string \<Rightarrow> string \<Rightarrow> bool" where
  "has_prefix s p \<longleftrightarrow> take (length p) s = p"

definition has_suffix :: "string \<Rightarrow> string \<Rightarrow> bool" where
  "has_suffix s p \<longleftrightarrow> length p \<le> length s \<and> drop (length s - length p) s = p"

lemma has_prefix_append [simp]: "has_prefix (p @ s) p"
  by (simp add: has_prefix_def)

lemma has_prefix_Nil [simp]: "has_prefix s []"
  by (simp add: has_prefix_def)

text \<open>\<open>strings.TrimPrefix\<close>.\<close>

definition trim_prefix :: "string \<Rightarrow> string \<Rightarrow> string" where
  "trim_prefix s p = (if has_prefix s p then drop (length p) s else s)"

lemma trim_prefix_append [simp]: "trim_prefix (p @ s) p = s"
  by (simp add: trim_prefix_def)

text \<open>\<open>strings.Split\<close> with a one-byte separator: always at least one piece.\<close>

fun split_on :: "char \<Rightarrow> string \<Rightarrow> string list" where
  "split_on c [] = [[]]"
| "split_on c (x # xs) =
     (if x = c then [] # split_on c xs
      else case split_on c xs of [] \<Rightarrow> [[x]] | w # ws \<Rightarrow> (x # w) # ws)"

lemma split_on_not_Nil [simp]: "split_on c s \<noteq> []"
  by (cases s) (auto split: list.splits)

lemma hd_split_on: "hd (split_on c s) = takeWhile (\<lambda>x. x \<noteq> c) s"
  by (induction s) (auto split: list.splits dest: arg_cong [where f = hd])

lemma length_split_on: "length (split_on c s) = Suc (count_list s c)"
  by (induction s) (auto split: list.splits)

text \<open>\<open>strings.ReplaceAll\<close> for a non-empty old string, the only way the code calls it.\<close>

function replace_all :: "string \<Rightarrow> string \<Rightarrow> string \<Rightarrow> string" where
  "replace_all old new [] = []"
| "replace_all old new (c # cs) =
     (if old \<noteq> [] \<and> has_prefix (c # cs) old
      then new @ replace_all old new (drop (length old) (c # cs))
      else c # replace_all old new cs)"
  by pat_completeness auto
termination
  by (relation "measure (\<lambda>(old, new, s). length s)") (auto simp: neq_Nil_conv)

lemma replace_all_no_occurrence:
  assumes "old = c # old'" and "c \<notin> set s"
  shows "replace_all old new s = s"
  using assms by (induction s) (auto simp: has_prefix_def)

text \<open>\<open>fmt.Sprintf\<close> of an integer with the verb d.\<close>

fun show_nat :: "nat \<Rightarrow> string" where
  "show_nat n =
     (if n < 10 then [char_of (48 + n)] else show_nat (n div 10) @ [char_of (48 + n mod 10)])"

declare show_nat.simps [simp del]

definition show_int :: "int \<Rightarrow> string" where
  "show_int x = (if x < 0 then ''-'' @ show_nat (nat (- x)) else show_nat (nat x))"

text \<open>The map keys the controller builds: two parts joined by a slash.\<close>

definition slash_key :: "string \<Rightarrow> string \<Rightarrow> string" where
  "slash_key a b = a @ ''/'' @ b"

lemma takeWhile_slash_key:
  assumes "CHR ''/'' \<notin> set a"
  shows "takeWhile (\<lambda>x. x \<noteq> CHR ''/'') (slash_key a b) = a"
proof -
  have "\<And>x. x \<in> set a \<Longrightarrow> x \<noteq> CHR ''/''" using assms by blast
  then show ?thesis by (simp add: slash_key_def)
qed

lemma slash_key_inject:
  assumes "slash_key a b = slash_key c d" and "CHR ''/'' \<notin> set a" and "CHR ''/'' \<notin> set c"
  shows "a = c \<and> b = d"
proof -
  from assms have "a = c" by (metis takeWhile_slash_key)
  with assms(1) show ?thesis by (simp add: slash_key_def)
qed

end
