(* ===== verification/Route_Store.thy ===== *)
theory Route_Store
  imports Go_Prelude
begin

text \<open>
  The gateway's route types (\<^verbatim>\<open>gateway/api/v1alpha1\<close>) and its route store
  (\<^verbatim>\<open>gateway/internal/persistence\<close>): the \<open>PersistenceV1Alpha1\<close> interface as a locale, the
  in-memory provider \<open>InMem\<close>, and what every provider of the interface guarantees for a sequence
  of calls: the store refines a finite map from route names to routes.

  A Go map that is only looked up is a map \<open>string \<rightharpoonup> _\<close>. A Go map that is iterated over
  (\<open>HeadersToAdd\<close>) is an association list, in the order of that iteration; a nil and an empty
  slice or map are not told apart by the code and are both the empty list.
\<close>

section \<open>Types\<close>

record oauth =
  oClientID :: string
  oClientSecret :: string
  oTokenURL :: string

record auth =
  aType :: string
  aOAuth :: "oauth option"

definition AuthTypeOAuth :: string where
  "AuthTypeOAuth = ''oauth''"

record backend =
  bHost :: string
  bWeight :: int
  bAuth :: "auth option"
  bPathPrefix :: string
  bHeadersToAdd :: "(string \<times> string) list"
  bScheme :: string

record route =
  rName :: string
  rHostnames :: "string list"
  rBackends :: "backend list"

definition ErrRouteNotFound :: go_error where
  "ErrRouteNotFound = Errorf ''route not found''"

section \<open>The in-memory provider\<close>

type_synonym inmem = "string \<rightharpoonup> route"

definition NewInMemV1Alpha1 :: inmem where
  "NewInMemV1Alpha1 = Map.empty"

definition InMem_RegisterRoute :: "route \<Rightarrow> (inmem, route) go" where
  "InMem_RegisterRoute r i = (Ok r, i(rName r \<mapsto> r))"

definition InMem_GetRoute :: "string \<Rightarrow> (inmem, route) go" where
  "InMem_GetRoute name i =
     (case i name of None \<Rightarrow> (Err ErrRouteNotFound, i) | Some r \<Rightarrow> (Ok r, i))"

definition InMem_UpdateRoute :: "route \<Rightarrow> (inmem, route) go" where
  "InMem_UpdateRoute r i = (Ok r, i(rName r \<mapsto> r))"

definition InMem_DeleteRoute :: "string \<Rightarrow> (inmem, route) go" where
  "InMem_DeleteRoute name i =
     (case i name of None \<Rightarrow> (Err ErrRouteNotFound, i) | Some r \<Rightarrow> (Ok r, i(name := None)))"

section \<open>The interface\<close>

text \<open>
  The write calls of the interface, and the finite map they are meant to act on. \<open>spec_exec\<close>
  says what a sequence of calls promises; it mentions no provider.
\<close>

datatype route_op = RegisterOp route | UpdateOp route | DeleteOp string

fun spec_op :: "route_op \<Rightarrow> (string \<rightharpoonup> route) \<Rightarrow> (string \<rightharpoonup> route)" where
  "spec_op (RegisterOp r) m = m(rName r \<mapsto> r)"
| "spec_op (UpdateOp r) m = m(rName r \<mapsto> r)"
| "spec_op (DeleteOp n) m = m(n := None)"

fun spec_exec :: "route_op list \<Rightarrow> (string \<rightharpoonup> route) \<Rightarrow> (string \<rightharpoonup> route)" where
  "spec_exec [] m = m"
| "spec_exec (p # ps) m = spec_exec ps (spec_op p m)"

text \<open>Running the calls against a provider; an error of one call does not stop the next.\<close>

fun exec_ops ::
  "(route \<Rightarrow> ('s, route) go) \<Rightarrow> (route \<Rightarrow> ('s, route) go) \<Rightarrow> (string \<Rightarrow> ('s, route) go)
   \<Rightarrow> route_op list \<Rightarrow> 's \<Rightarrow> 's" where
  "exec_ops reg upd del [] s = s"
| "exec_ops reg upd del (RegisterOp r # ps) s = exec_ops reg upd del ps (snd (reg r s))"
| "exec_ops reg upd del (UpdateOp r # ps) s = exec_ops reg upd del ps (snd (upd r s))"
| "exec_ops reg upd del (DeleteOp n # ps) s = exec_ops reg upd del ps (snd (del n s))"

text \<open>A route is filed under its own name.\<close>

definition keyed_by_name :: "(string \<rightharpoonup> route) \<Rightarrow> bool" where
  "keyed_by_name m \<longleftrightarrow> (\<forall>n r. m n = Some r \<longrightarrow> rName r = n)"

lemma keyed_by_name_spec_op: "keyed_by_name m \<Longrightarrow> keyed_by_name (spec_op p m)"
  by (cases p) (auto simp: keyed_by_name_def)

lemma keyed_by_name_spec_exec: "keyed_by_name m \<Longrightarrow> keyed_by_name (spec_exec ps m)"
  by (induction ps arbitrary: m) (auto intro: keyed_by_name_spec_op)

locale persistence_v1alpha1 =
  fixes register :: "route \<Rightarrow> ('s, route) go"
    and get :: "string \<Rightarrow> ('s, route) go"
    and update :: "route \<Rightarrow> ('s, route) go"
    and delete :: "string \<Rightarrow> ('s, route) go"
    and stored :: "'s \<Rightarrow> string \<rightharpoonup> route"
  assumes register_result: "fst (register r s) = Ok r"
    and stored_register: "stored (snd (register r s)) = (stored s)(rName r \<mapsto> r)"
    and get_result: "fst (get n s) =
          (case stored s n of None \<Rightarrow> Err ErrRouteNotFound | Some r \<Rightarrow> Ok r)"
    and stored_get: "snd (get n s) = s"
    and update_result: "fst (update r s) = Ok r"
    and stored_update: "stored (snd (update r s)) = (stored s)(rName r \<mapsto> r)"
    and delete_result: "fst (delete n s) =
          (case stored s n of None \<Rightarrow> Err ErrRouteNotFound | Some r \<Rightarrow> Ok r)"
    and stored_delete: "stored (snd (delete n s)) = (stored s)(n := None)"
begin

lemmas results = register_result get_result update_result delete_result
lemmas effects = stored_register stored_get stored_update stored_delete

lemma get_after_register: "fst (get (rName r) (snd (register r s))) = Ok r"
  by (simp add: results effects)

lemma get_after_delete: "fst (get n (snd (delete n s))) = Err ErrRouteNotFound"
  by (simp add: results effects)

lemma delete_twice: "fst (delete n (snd (delete n s))) = Err ErrRouteNotFound"
  by (simp add: results effects)

lemma other_routes_untouched:
  "n \<noteq> rName r \<Longrightarrow> fst (get n (snd (register r s))) = fst (get n s)"
  "n \<noteq> rName r \<Longrightarrow> fst (get n (snd (update r s))) = fst (get n s)"
  "n \<noteq> m \<Longrightarrow> fst (get n (snd (delete m s))) = fst (get n s)"
  by (simp_all add: results effects)

lemma exec_refines_spec:
  "stored (exec_ops register update delete ps s) = spec_exec ps (stored s)"
proof (induction ps arbitrary: s)
  case Nil
  then show ?case by simp
next
  case (Cons p ps)
  then show ?case by (cases p) (simp_all add: effects fun_upd_def)
qed

lemma exec_keyed_by_name:
  "keyed_by_name (stored s) \<Longrightarrow> keyed_by_name (stored (exec_ops register update delete ps s))"
  by (simp add: exec_refines_spec keyed_by_name_spec_exec)

end

interpretation inmem: persistence_v1alpha1
  InMem_RegisterRoute InMem_GetRoute InMem_UpdateRoute InMem_DeleteRoute "\<lambda>i. i"
  by unfold_locales
    (auto simp: InMem_RegisterRoute_def InMem_GetRoute_def InMem_UpdateRoute_def
       InMem_DeleteRoute_def fun_eq_iff split: option.splits)

end
