(* ===== verification/Gateway_Proxy.thy ===== *)
theory Gateway_Proxy
  imports Route_Store
begin

text \<open>
  The gateway's proxy (\<^verbatim>\<open>gateway/internal/proxy\<close>): the route tables of \<open>ProxyV1Alpha1\<close>, the
  weighted choice of a backend, the rewriting of a request, and the two failover paths
  (\<open>ErrorHandler\<close> and \<open>ModifyResponse\<close>).

  What the code asks of its environment while it handles one attempt is an \<open>env_answers\<close> record: the number
  drawn by \<open>rand.Intn\<close>, the answer of the OAuth server, whether \<open>http.NewRequest\<close> accepts the
  request, and the answer of the backend. A retry loop takes one such record per attempt.
\<close>

section \<open>Requests, responses, the response writer\<close>

record url =
  uScheme :: string
  uHost :: string
  uPath :: string
  uQuery :: string

text \<open>\<open>pBodyErr\<close> is the error met while the body is read; \<open>pBodyClosed\<close> says the body was closed.\<close>

record response =
  pStatus :: string
  pStatusCode :: int
  pHeader :: "string \<rightharpoonup> string list"
  pBody :: string
  pBodyErr :: "go_error option"
  pBodyClosed :: bool

text \<open>
  \<open>qResponse\<close> is \<open>Request.Response\<close>, which the standard library fills on client redirects only;
  \<open>qClientIP\<close> is the host part of \<open>RemoteAddr\<close> when it splits. An empty \<open>qBody\<close> is a request without a
  body; \<open>qBodyClosed\<close> says that the body has been closed, after which it cannot be read again.
\<close>

record request =
  qMethod :: string
  qURL :: url
  qHost :: string
  qHeader :: "string \<rightharpoonup> string list"
  qBody :: string
  qBodyClosed :: bool
  qProto :: string
  qClientIP :: "string option"
  qTLS :: bool
  qResponse :: "response option"

record writer =
  wHeader :: "string \<rightharpoonup> string list"
  wStatus :: "int option"
  wBody :: string

text \<open>The first status written is the one sent; later ones are superfluous and ignored.\<close>

definition WriteHeader :: "int \<Rightarrow> writer \<Rightarrow> writer" where
  "WriteHeader c w = (case wStatus w of None \<Rightarrow> w\<lparr>wStatus := Some c\<rparr> | Some _ \<Rightarrow> w)"

text \<open>A body write without a status sends 200 first.\<close>

definition WriteBody :: "string \<Rightarrow> writer \<Rightarrow> writer" where
  "WriteBody s w = (WriteHeader 200 w)\<lparr>wBody := wBody w @ s\<rparr>"

text \<open>Header keys are stored in their canonical form, as \<open>textproto.CanonicalMIMEHeaderKey\<close>.\<close>

definition is_token_char :: "char \<Rightarrow> bool" where
  "is_token_char c \<longleftrightarrow>
     (let n = of_char c :: nat in
        (48 \<le> n \<and> n \<le> 57) \<or> (65 \<le> n \<and> n \<le> 90) \<or> (97 \<le> n \<and> n \<le> 122))
     \<or> c \<in> set ''!#$%&*+-.^_`|~'' \<or> c = CHR 0x27"

definition to_upper :: "char \<Rightarrow> char" where
  "to_upper c = (let n = of_char c :: nat in if 97 \<le> n \<and> n \<le> 122 then char_of (n - 32) else c)"

definition to_lower :: "char \<Rightarrow> char" where
  "to_lower c = (let n = of_char c :: nat in if 65 \<le> n \<and> n \<le> 90 then char_of (n + 32) else c)"

fun canonical_from :: "bool \<Rightarrow> string \<Rightarrow> string" where
  "canonical_from upper [] = []"
| "canonical_from upper (c # cs) =
     (if upper then to_upper c else to_lower c) # canonical_from (c = CHR ''-'') cs"

definition CanonicalHeaderKey :: "string \<Rightarrow> string" where
  "CanonicalHeaderKey k = (if list_all is_token_char k then canonical_from True k else k)"

definition header_values :: "(string \<rightharpoonup> string list) \<Rightarrow> string \<Rightarrow> string list" where
  "header_values h k = (case h k of None \<Rightarrow> [] | Some vs \<Rightarrow> vs)"

definition Header_Set :: "string \<Rightarrow> string \<Rightarrow> (string \<rightharpoonup> string list) \<Rightarrow> (string \<rightharpoonup> string list)" where
  "Header_Set k v h = h(CanonicalHeaderKey k \<mapsto> [v])"

definition Header_Add :: "string \<Rightarrow> string \<Rightarrow> (string \<rightharpoonup> string list) \<Rightarrow> (string \<rightharpoonup> string list)" where
  "Header_Add k v h = h(CanonicalHeaderKey k \<mapsto> header_values h (CanonicalHeaderKey k) @ [v])"

section \<open>Utilities\<close>

record weightedBackend =
  wbBackend :: backend
  wbWeight :: int

definition extractHost :: "string \<Rightarrow> string" where
  "extractHost h = hd (split_on CHR '':'' h)"

fun pickBackend :: "int \<Rightarrow> int \<Rightarrow> weightedBackend list \<Rightarrow> backend option" where
  "pickBackend randomIndex lastWeight [] = None"
| "pickBackend randomIndex lastWeight (wb # wbs) =
     (let lastWeight' = i64 (lastWeight + wbWeight wb)
      in if randomIndex < lastWeight' then Some (wbBackend wb)
         else pickBackend randomIndex lastWeight' wbs)"

text \<open>\<open>rand.Intn\<close> panics on an argument that is not positive.\<close>

definition weightedRandomBackend ::
  "(int \<Rightarrow> int) \<Rightarrow> weightedBackend list \<Rightarrow> int \<Rightarrow> backend outcome" where
  "weightedRandomBackend intn backends totalWeight =
     (if totalWeight \<le> 0 then Panic (ExplicitPanic ''invalid argument to Intn'')
      else case pickBackend (intn totalWeight) 0 backends of
             Some b \<Rightarrow> Ok b
           | None \<Rightarrow> if backends = [] then Panic IndexOutOfRange
                     else Ok (wbBackend (last backends)))"

text \<open>\<open>handleOAuth\<close> answers a nil token when there is no OAuth configuration.\<close>

definition handleOAuth :: "(oauth \<Rightarrow> string reply) \<Rightarrow> auth \<Rightarrow> (string option) reply" where
  "handleOAuth token a =
     (case aOAuth a of
        None \<Rightarrow> Inr None
      | Some cfg \<Rightarrow> (case token cfg of Inl e \<Rightarrow> Inl e | Inr t \<Rightarrow> Inr (Some t)))"

definition removePathPrefix :: "string \<Rightarrow> string \<Rightarrow> string" where
  "removePathPrefix path pfx =
     (let pfx' = (if \<not> has_prefix path ''/'' \<and> has_prefix pfx ''/'' then drop 1 pfx else pfx)
      in if \<not> has_prefix path pfx' then path else drop (length pfx') path)"

section \<open>The proxy's tables\<close>

record proxy =
  persistence :: inmem
  routesPerHost :: "string \<rightharpoonup> string"
  backendHostToRoute :: "string \<rightharpoonup> string"

definition New :: proxy where
  "New = \<lparr>persistence = NewInMemV1Alpha1, routesPerHost = Map.empty,
          backendHostToRoute = Map.empty\<rparr>"

fun storeHosts :: "string list \<Rightarrow> string \<Rightarrow> (string \<rightharpoonup> string) \<Rightarrow> (string \<rightharpoonup> string)" where
  "storeHosts [] name m = m"
| "storeHosts (h # hs) name m = storeHosts hs name (m(h \<mapsto> name))"

definition indexRoute :: "route \<Rightarrow> proxy \<Rightarrow> proxy" where
  "indexRoute r p = p\<lparr>
     routesPerHost := storeHosts (rHostnames r) (rName r) (routesPerHost p),
     backendHostToRoute :=
       storeHosts (map (\<lambda>b. hd (split_on CHR '':'' (bHost b))) (rBackends r)) (rName r)
         (backendHostToRoute p)\<rparr>"

definition onPersistence :: "(inmem, 'a) go \<Rightarrow> (proxy, 'a) go" where
  "onPersistence = zoom persistence (\<lambda>i p. p\<lparr>persistence := i\<rparr>)"

definition RegisterRoute :: "route \<Rightarrow> (proxy, route) go" where
  "RegisterRoute r = seqG (writes (indexRoute r)) (onPersistence (InMem_RegisterRoute r))"

definition GetRoute :: "string \<Rightarrow> (proxy, route) go" where
  "GetRoute name = onPersistence (InMem_GetRoute name)"

definition UpdateRoute :: "route \<Rightarrow> (proxy, route) go" where
  "UpdateRoute r = seqG (writes (indexRoute r)) (onPersistence (InMem_UpdateRoute r))"

definition DeleteRoute :: "string \<Rightarrow> (proxy, route) go" where
  "DeleteRoute name = onPersistence (InMem_DeleteRoute name)"

section \<open>Sending a request to a backend\<close>

fun addHeaders :: "(string \<times> string) list \<Rightarrow> (string \<rightharpoonup> string list) \<Rightarrow> (string \<rightharpoonup> string list)" where
  "addHeaders [] h = h"
| "addHeaders ((k, v) # kvs) h = addHeaders kvs (Header_Add k v h)"

definition authorize :: "(oauth \<Rightarrow> string reply) \<Rightarrow> backend \<Rightarrow> (request, unit) go" where
  "authorize token b =
     (case bAuth b of
        None \<Rightarrow> ret ()
      | Some a \<Rightarrow>
          if aType a = AuthTypeOAuth
          then bindG (answer (handleOAuth token a)) (\<lambda>t.
               bindG (deref t) (\<lambda>accessToken.
               writes (\<lambda>r. r\<lparr>qHeader :=
                 Header_Set ''Authorization'' (''Bearer '' @ accessToken) (qHeader r)\<rparr>)))
          else ret ())"

definition retarget :: "backend \<Rightarrow> request \<Rightarrow> request" where
  "retarget b r =
     r\<lparr>qURL := (qURL r)\<lparr>uScheme := bScheme b, uHost := bHost b,
          uPath := (if bPathPrefix b \<noteq> [] then bPathPrefix b @ uPath (qURL r)
                    else uPath (qURL r))\<rparr>,
        qHost := extractHost (bHost b),
        qHeader := addHeaders (bHeadersToAdd b) (qHeader r)\<rparr>"

definition handleBackend :: "(oauth \<Rightarrow> string reply) \<Rightarrow> backend \<Rightarrow> (request, unit) go" where
  "handleBackend token b = seqG (authorize token b) (writes (retarget b))"

section \<open>Rewriting an incoming request\<close>

text \<open>The loops that sum the weights and collect the weighted backends.\<close>

fun weighBackends ::
  "backend list \<Rightarrow> int \<Rightarrow> weightedBackend list \<Rightarrow> int \<times> weightedBackend list" where
  "weighBackends [] totalWeight wbs = (totalWeight, wbs)"
| "weighBackends (b # bs) totalWeight wbs =
     weighBackends bs (i64 (totalWeight + bWeight b))
       (wbs @ [\<lparr>wbBackend = b, wbWeight = bWeight b\<rparr>])"

text \<open>The answer 404 is written into \<open>Out.Response\<close>, through a pointer.\<close>

definition respondNotFound :: "(request, unit) go" where
  "respondNotFound =
     bindG (reads qResponse) (\<lambda>p.
     bindG (deref p) (\<lambda>resp.
     writes (\<lambda>r. r\<lparr>qResponse := Some (resp\<lparr>pStatus := ''Not Found'', pStatusCode := 404,
       pBody := ''not found'', pBodyErr := None, pBodyClosed := False\<rparr>)\<rparr>)))"

text \<open>\<open>httputil.ProxyRequest.SetXForwarded\<close>.\<close>

definition forwardedFor :: "request \<Rightarrow> request \<Rightarrow> string list option" where
  "forwardedFor rin rout =
     (case qClientIP rin of
        None \<Rightarrow> None
      | Some ip \<Rightarrow>
          Some [concat (map (\<lambda>v. v @ '', '') (header_values (qHeader rout) ''X-Forwarded-For'')) @ ip])"

definition SetXForwarded :: "request \<Rightarrow> request \<Rightarrow> request" where
  "SetXForwarded rin rout = rout\<lparr>qHeader :=
     Header_Set ''X-Forwarded-Proto'' (if qTLS rin then ''https'' else ''http'')
       (Header_Set ''X-Forwarded-Host'' (qHost rin)
         ((qHeader rout)(''X-Forwarded-For'' := forwardedFor rin rout)))\<rparr>"

record env_answers =
  oIntn :: "int \<Rightarrow> int"
  oToken :: "oauth \<Rightarrow> string reply"
  oNewRequest :: "request \<Rightarrow> go_error option"
  oDo :: "request \<Rightarrow> response reply"

definition chosen :: "'a outcome \<Rightarrow> ('s, 'a) go" where
  "chosen res s = (res, s)"

definition forwardTo :: "env_answers \<Rightarrow> request \<Rightarrow> route \<Rightarrow> (request, unit) go" where
  "forwardTo orc rin route =
     (let (totalWeight, wbs) = weighBackends (rBackends route) 0 []
      in if totalWeight = 0 then ret ()
         else bindG (chosen (weightedRandomBackend (oIntn orc) wbs totalWeight)) (\<lambda>b.
              seqG (logged (handleBackend (oToken orc) b))
                   (writes (SetXForwarded rin))))"

definition RewriteV1Alpha1 :: "env_answers \<Rightarrow> proxy \<Rightarrow> request \<Rightarrow> (request, unit) go" where
  "RewriteV1Alpha1 orc p rin =
     (case routesPerHost p (extractHost (qHost rin)) of
        None \<Rightarrow> respondNotFound
      | Some routeName \<Rightarrow>
          (case fst (GetRoute routeName p) of
             Ok route \<Rightarrow> forwardTo orc rin route
           | _ \<Rightarrow> respondNotFound))"

section \<open>Failover\<close>

text \<open>
  The state of one exchange on the error path: the outgoing request, which the handler mutates
  across attempts, and the response writer.
\<close>

record exchange =
  xReq :: request
  xWriter :: writer

definition onReq :: "(request, 'a) go \<Rightarrow> (exchange, 'a) go" where
  "onReq = zoom xReq (\<lambda>r x. x\<lparr>xReq := r\<rparr>)"

definition toWriter :: "(writer \<Rightarrow> writer) \<Rightarrow> (exchange, unit) go" where
  "toWriter f = writes (\<lambda>x. x\<lparr>xWriter := f (xWriter x)\<rparr>)"

text \<open>
  The candidates of a failover: every backend that is not skipped, a weight of 0 counted as 1;
  the request path loses the prefix of each candidate in turn.
\<close>

fun failoverScan ::
  "(backend \<Rightarrow> bool) \<Rightarrow> backend list \<Rightarrow> int \<Rightarrow> weightedBackend list \<Rightarrow> string
   \<Rightarrow> int \<times> weightedBackend list \<times> string" where
  "failoverScan skip [] totalWeight wbs path = (totalWeight, wbs, path)"
| "failoverScan skip (b # bs) totalWeight wbs path =
     (if skip b then failoverScan skip bs totalWeight wbs path
      else let b' = (if bWeight b = 0 then b\<lparr>bWeight := 1\<rparr> else b)
           in failoverScan skip bs (i64 (totalWeight + bWeight b'))
                (wbs @ [\<lparr>wbBackend = b', wbWeight = bWeight b'\<rparr>])
                (removePathPrefix path (bPathPrefix b')))"

definition setPath :: "string \<Rightarrow> request \<Rightarrow> request" where
  "setPath path r = r\<lparr>qURL := (qURL r)\<lparr>uPath := path\<rparr>\<rparr>"

definition copyResponse :: "response \<Rightarrow> (exchange, unit) go" where
  "copyResponse resp =
     seqG (toWriter (\<lambda>w. w\<lparr>wHeader := wHeader w ++ pHeader resp\<rparr>))
    (seqG (toWriter (WriteHeader (pStatusCode resp)))
    (seqG (toWriter (WriteBody (pBody resp)))
          (case pBodyErr resp of
             None \<Rightarrow> ret ()
           | Some e \<Rightarrow> raise (wrap ''error copying response: '' e))))"

text \<open>\<open>http.Client.Do\<close> closes the body of the request it sends, also when it returns an error.\<close>

definition closeBody :: "request \<Rightarrow> request" where
  "closeBody r = r\<lparr>qBodyClosed := True\<rparr>"

definition contact :: "env_answers \<Rightarrow> (exchange, response) go" where
  "contact orc =
     bindG (reads xReq) (\<lambda>r.
       case oNewRequest orc r of
         Some e \<Rightarrow> raise (wrap ''error creating request: '' e)
       | None \<Rightarrow> seqG (onReq (writes closeBody))
                      (answer (wrapped ''error contacting backend: '' (oDo orc r))))"

definition errorHandler :: "env_answers \<Rightarrow> proxy \<Rightarrow> string \<Rightarrow> (exchange, unit) go" where
  "errorHandler orc p routeName =
     (case fst (GetRoute routeName p) of
        Ok route \<Rightarrow>
          bindG (reads xReq) (\<lambda>r.
            let (totalWeight, wbs, path) =
                  failoverScan (\<lambda>b. bHost b = qHost r) (rBackends route) 0 [] (uPath (qURL r))
            in seqG (onReq (writes (setPath path)))
                 (if totalWeight = 0 then raise (Errorf ''no backends'')
                  else bindG (chosen (weightedRandomBackend (oIntn orc) wbs totalWeight)) (\<lambda>b.
                       seqG (onReq (handleBackend (oToken orc) b))
                      (bindG (contact orc) copyResponse))))
      | _ \<Rightarrow> raise (Errorf ''not found''))"

text \<open>The four attempts of \<open>ErrorHandler\<close>; between two attempts it sleeps \<open>10^i\<close> milliseconds.\<close>

fun attempts :: "(nat \<Rightarrow> env_answers) \<Rightarrow> proxy \<Rightarrow> string \<Rightarrow> nat \<Rightarrow> nat \<Rightarrow> (exchange, unit) go" where
  "attempts orc p routeName i 0 x =
     seqG (toWriter (WriteHeader 503)) (toWriter (WriteBody ''service unavailable'')) x"
| "attempts orc p routeName i (Suc n) x =
     (case errorHandler (orc i) p routeName x of
        (Ok _, y) \<Rightarrow> (Ok (), y)
      | (Err _, y) \<Rightarrow> attempts orc p routeName (Suc i) n y
      | (Panic q, y) \<Rightarrow> (Panic q, y))"

definition ErrorHandler :: "(nat \<Rightarrow> env_answers) \<Rightarrow> proxy \<Rightarrow> (exchange, unit) go" where
  "ErrorHandler orc p =
     bindG (reads xReq) (\<lambda>r.
       case backendHostToRoute p (qHost r) of
         None \<Rightarrow> seqG (toWriter (WriteHeader 404)) (toWriter (WriteBody ''not found''))
       | Some routeName \<Rightarrow> attempts orc p routeName 0 4)"

definition retryDelay :: "nat \<Rightarrow> nat" where
  "retryDelay i = Bit_Operations.xor 10 i"

text \<open>
  \<open>ModifyResponse\<close> works on the response of the chosen backend and on the request that led to it.
  The body of the second response replaces the first one, and the deferred \<open>Close\<close> runs after
  that assignment.
\<close>

record upstream =
  vReq :: request
  vResp :: response

definition setStatus :: "int \<Rightarrow> (upstream, unit) go" where
  "setStatus c = writes (\<lambda>u. u\<lparr>vResp := (vResp u)\<lparr>pStatusCode := c\<rparr>\<rparr>)"

definition replaceResponse :: "response \<Rightarrow> (upstream, unit) go" where
  "replaceResponse resp = writes (\<lambda>u. u\<lparr>vResp := (vResp u)\<lparr>
     pHeader := pHeader (vResp u) ++ pHeader resp, pStatusCode := pStatusCode resp,
     pStatus := pStatus resp, pBody := pBody resp, pBodyErr := pBodyErr resp,
     pBodyClosed := True\<rparr>\<rparr>)"

definition onUpstream :: "(request, 'a) go \<Rightarrow> (upstream, 'a) go" where
  "onUpstream = zoom vReq (\<lambda>q u. u\<lparr>vReq := q\<rparr>)"

text \<open>The second request is made from the first one, except for its Host, which the code does not copy.\<close>

definition contactInstead :: "env_answers \<Rightarrow> backend \<Rightarrow> (upstream, unit) go" where
  "contactInstead orc b =
     seqG (onUpstream (handleBackend (oToken orc) b))
    (bindG (reads vReq) (\<lambda>r.
       case oNewRequest orc r of
         Some e \<Rightarrow> raise e
       | None \<Rightarrow> seqG (onUpstream (writes closeBody))
                (bindG (answer (oDo orc (r\<lparr>qHost := uHost (qURL r)\<rparr>))) replaceResponse)))"

definition ModifyResponse :: "env_answers \<Rightarrow> proxy \<Rightarrow> (upstream, unit) go" where
  "ModifyResponse orc p =
     bindG (reads vResp) (\<lambda>resp0.
     bindG (reads vReq) (\<lambda>r.
       if pStatusCode resp0 < 399 then ret ()
       else case backendHostToRoute p (qHost r) of
         None \<Rightarrow> setStatus 404
       | Some routeName \<Rightarrow>
           (case fst (GetRoute routeName p) of
              Ok route \<Rightarrow>
                (let (totalWeight, wbs, path) =
                       failoverScan (\<lambda>b. bHost b = qHost r \<and> bScheme b = uScheme (qURL r))
                         (rBackends route) 0 [] (uPath (qURL r))
                 in seqG (onUpstream (writes (setPath path)))
                      (if totalWeight = 0 then ret ()
                       else bindG (chosen (weightedRandomBackend (oIntn orc) wbs totalWeight))
                              (contactInstead orc)))
            | _ \<Rightarrow> setStatus 404)))"

end
