(* ===== verification/Gateway_API.thy ===== *)
theory Gateway_API
  imports Gateway_Proxy
begin

text \<open>
  The gateway's management API (\<^verbatim>\<open>gateway/api/v1alpha1.go\<close>, \<^verbatim>\<open>router.go\<close>) and the client of it that
  the controller uses (\<^verbatim>\<open>gateway/clientset/v1alpha1.go\<close>).

  \<open>encoding/json\<close> is modelled on documents rather than bytes: a body is a JSON document or a
  text that is none. YAML comes from a third-party package: its encoder and decoder are the
  parameter \<open>yaml_codec\<close>.
\<close>

section \<open>JSON documents of routes\<close>

datatype json =
    JNull
  | JBool bool
  | JNum int
  | JStr string
  | JArr "json list"
  | JObj "(string \<times> json) list"

text \<open>
  Encoding. The tags of the structs name the fields; no field is omitted when empty. The entries of
  a map keep the order of the list that stands for it.
\<close>

definition encodeOAuth :: "oauth \<Rightarrow> json" where
  "encodeOAuth x = JObj [(''client_id'', JStr (oClientID x)), (''client_secret'', JStr (oClientSecret x)),
     (''token_url'', JStr (oTokenURL x))]"

definition encodePtr :: "('a \<Rightarrow> json) \<Rightarrow> 'a option \<Rightarrow> json" where
  "encodePtr enc p = (case p of None \<Rightarrow> JNull | Some x \<Rightarrow> enc x)"

definition encodeAuth :: "auth \<Rightarrow> json" where
  "encodeAuth x = JObj [(''type'', JStr (aType x)), (''oauth'', encodePtr encodeOAuth (aOAuth x))]"

definition encodeBackend :: "backend \<Rightarrow> json" where
  "encodeBackend x = JObj [(''host'', JStr (bHost x)), (''weight'', JNum (bWeight x)),
     (''auth'', encodePtr encodeAuth (bAuth x)), (''path_prefix'', JStr (bPathPrefix x)),
     (''headers'', JObj (map (\<lambda>(k, v). (k, JStr v)) (bHeadersToAdd x))),
     (''scheme'', JStr (bScheme x))]"

definition encodeRoute :: "route \<Rightarrow> json" where
  "encodeRoute x = JObj [(''name'', JStr (rName x)),
     (''hostnames'', JArr (map JStr (rHostnames x))),
     (''backends'', JArr (map encodeBackend (rBackends x)))]"

text \<open>
  Decoding into a struct: keys are matched without regard to case, the last match wins, keys that
  match no field are ignored, and an absent or null value leaves the zero value. A value of the
  wrong type is an error.
\<close>

definition unmarshalTypeError :: go_error where
  "unmarshalTypeError = Errorf ''json: cannot unmarshal value into Go struct field''"

definition lookupKey :: "string \<Rightarrow> (string \<times> json) list \<Rightarrow> json" where
  "lookupKey name kvs =
     (case filter (\<lambda>(k, v). map to_lower k = map to_lower name) kvs of
        [] \<Rightarrow> JNull
      | ms \<Rightarrow> snd (last ms))"

fun decodeString :: "json \<Rightarrow> string reply" where
  "decodeString JNull = Inr []"
| "decodeString (JStr s) = Inr s"
| "decodeString _ = Inl unmarshalTypeError"

fun decodeInt :: "json \<Rightarrow> int reply" where
  "decodeInt JNull = Inr 0"
| "decodeInt (JNum n) = (if - (2 ^ 63) \<le> n \<and> n < 2 ^ 63 then Inr n else Inl unmarshalTypeError)"
| "decodeInt _ = Inl unmarshalTypeError"

text \<open>The sequencing of replies, and decoding every element of a list.\<close>

fun bindR :: "'a reply \<Rightarrow> ('a \<Rightarrow> 'b reply) \<Rightarrow> 'b reply" where
  "bindR (Inl e) k = Inl e"
| "bindR (Inr x) k = k x"

lemma bindR_Inr_iff [simp]: "bindR m k = Inr y \<longleftrightarrow> (\<exists>x. m = Inr x \<and> k x = Inr y)"
  by (cases m) auto

fun mapR :: "('a \<Rightarrow> 'b reply) \<Rightarrow> 'a list \<Rightarrow> 'b list reply" where
  "mapR f [] = Inr []"
| "mapR f (x # xs) = bindR (f x) (\<lambda>y. bindR (mapR f xs) (\<lambda>ys. Inr (y # ys)))"

fun decodeList :: "(json \<Rightarrow> 'a reply) \<Rightarrow> json \<Rightarrow> 'a list reply" where
  "decodeList dec JNull = Inr []"
| "decodeList dec (JArr js) = mapR dec js"
| "decodeList dec _ = Inl unmarshalTypeError"

fun decodePtr :: "(json \<Rightarrow> 'a reply) \<Rightarrow> json \<Rightarrow> 'a option reply" where
  "decodePtr dec JNull = Inr None"
| "decodePtr dec j = bindR (dec j) (\<lambda>x. Inr (Some x))"

text \<open>A key that is repeated in a JSON object overwrites the entry of the map.\<close>

fun putAll :: "(string \<times> string) list \<Rightarrow> (string \<times> string) list \<Rightarrow> (string \<times> string) list" where
  "putAll [] m = m"
| "putAll ((k, v) # kvs) m = putAll kvs (filter (\<lambda>(k', _). k' \<noteq> k) m @ [(k, v)])"

fun decodeStringMap :: "json \<Rightarrow> (string \<times> string) list reply" where
  "decodeStringMap JNull = Inr []"
| "decodeStringMap (JObj kvs) =
     bindR (mapR (\<lambda>(k, j). bindR (decodeString j) (\<lambda>v. Inr (k, v))) kvs) (\<lambda>m. Inr (putAll m []))"
| "decodeStringMap _ = Inl unmarshalTypeError"

fun decodeFields :: "((string \<times> json) list \<Rightarrow> 'a reply) \<Rightarrow> json \<Rightarrow> 'a reply" where
  "decodeFields dec JNull = dec []"
| "decodeFields dec (JObj kvs) = dec kvs"
| "decodeFields dec _ = Inl unmarshalTypeError"

definition decodeOAuth :: "json \<Rightarrow> oauth reply" where
  "decodeOAuth = decodeFields (\<lambda>kvs.
     bindR (decodeString (lookupKey ''client_id'' kvs)) (\<lambda>cid.
     bindR (decodeString (lookupKey ''client_secret'' kvs)) (\<lambda>secret.
     bindR (decodeString (lookupKey ''token_url'' kvs)) (\<lambda>tokenURL.
     Inr \<lparr>oClientID = cid, oClientSecret = secret, oTokenURL = tokenURL\<rparr>))))"

definition decodeAuth :: "json \<Rightarrow> auth reply" where
  "decodeAuth = decodeFields (\<lambda>kvs.
     bindR (decodeString (lookupKey ''type'' kvs)) (\<lambda>type.
     bindR (decodePtr decodeOAuth (lookupKey ''oauth'' kvs)) (\<lambda>oauth.
     Inr \<lparr>aType = type, aOAuth = oauth\<rparr>)))"

definition decodeBackend :: "json \<Rightarrow> backend reply" where
  "decodeBackend = decodeFields (\<lambda>kvs.
     bindR (decodeString (lookupKey ''host'' kvs)) (\<lambda>host.
     bindR (decodeInt (lookupKey ''weight'' kvs)) (\<lambda>weight.
     bindR (decodePtr decodeAuth (lookupKey ''auth'' kvs)) (\<lambda>auth.
     bindR (decodeString (lookupKey ''path_prefix'' kvs)) (\<lambda>pathPrefix.
     bindR (decodeStringMap (lookupKey ''headers'' kvs)) (\<lambda>headers.
     bindR (decodeString (lookupKey ''scheme'' kvs)) (\<lambda>scheme.
     Inr \<lparr>bHost = host, bWeight = weight, bAuth = auth, bPathPrefix = pathPrefix,
          bHeadersToAdd = headers, bScheme = scheme\<rparr>)))))))"

definition decodeRoute :: "json \<Rightarrow> route reply" where
  "decodeRoute = decodeFields (\<lambda>kvs.
     bindR (decodeString (lookupKey ''name'' kvs)) (\<lambda>name.
     bindR (decodeList decodeString (lookupKey ''hostnames'' kvs)) (\<lambda>hostnames.
     bindR (decodeList decodeBackend (lookupKey ''backends'' kvs)) (\<lambda>backends.
     Inr \<lparr>rName = name, rHostnames = hostnames, rBackends = backends\<rparr>))))"

section \<open>Requests to the API\<close>

datatype body = JsonDoc json | Text string

record yaml_codec =
  yEncode :: "route \<Rightarrow> string reply"
  yDecode :: "body \<Rightarrow> route reply"

record api_request =
  arMethod :: string
  arPath :: string
  arAccept :: string
  arContentType :: string
  arBody :: body

record api_response =
  asStatus :: int
  asBody :: body

definition APIV1Alpha1Routes :: string where
  "APIV1Alpha1Routes = ''/v1alpha1/routes''"

definition ContentTypeJSON :: string where "ContentTypeJSON = ''application/json''"

definition ContentTypeYAML :: string where "ContentTypeYAML = ''application/yaml''"

fun decodeBody :: "body \<Rightarrow> route reply" where
  "decodeBody (JsonDoc j) = decodeRoute j"
| "decodeBody (Text s) = Inl (Errorf ''invalid character looking for beginning of value'')"

text \<open>\<open>http.Error\<close>.\<close>

definition httpError :: "string \<Rightarrow> int \<Rightarrow> api_response" where
  "httpError msg code = \<lparr>asStatus = code, asBody = Text (msg @ [CHR 0x0A])\<rparr>"

definition sendJSON :: "route \<Rightarrow> api_response" where
  "sendJSON r = \<lparr>asStatus = 200, asBody = JsonDoc (encodeRoute r)\<rparr>"

definition sendYAML :: "yaml_codec \<Rightarrow> route \<Rightarrow> api_response" where
  "sendYAML y r =
     (case yEncode y r of
        Inl e \<Rightarrow> httpError (errorText e) 500
      | Inr s \<Rightarrow> \<lparr>asStatus = 200, asBody = Text s\<rparr>)"

definition sendAccepted :: "yaml_codec \<Rightarrow> string \<Rightarrow> route \<Rightarrow> api_response" where
  "sendAccepted y accept r =
     (if accept = ContentTypeJSON then sendJSON r
      else if accept = ContentTypeYAML then sendYAML y r
      else sendJSON r)"

text \<open>A call of the proxy whose error becomes a response with the given status.\<close>

definition orStatus ::
  "int \<Rightarrow> (proxy, route) go \<Rightarrow> (route \<Rightarrow> api_response) \<Rightarrow> (proxy, api_response) go" where
  "orStatus code m send p =
     (case m p of
        (Ok r, p') \<Rightarrow> (Ok (send r), p')
      | (Err e, p') \<Rightarrow> (Ok (httpError (errorText e) code), p')
      | (Panic q, p') \<Rightarrow> (Panic q, p'))"

text \<open>The branches of a handler that decodes a route by content type and stores it.\<close>

definition storeBody ::
  "yaml_codec \<Rightarrow> (route \<Rightarrow> (proxy, route) go) \<Rightarrow> api_request \<Rightarrow> (proxy, api_response) go" where
  "storeBody y store req =
     (if arContentType req = ContentTypeJSON then
        (case decodeBody (arBody req) of
           Inl e \<Rightarrow> ret (httpError (errorText e) 400)
         | Inr r \<Rightarrow> orStatus 500 (store r) sendJSON)
      else if arContentType req = ContentTypeYAML then
        (case yDecode y (arBody req) of
           Inl e \<Rightarrow> ret (httpError (errorText e) 400)
         | Inr r \<Rightarrow> orStatus 500 (store r) (sendYAML y))
      else ret (httpError ''unsupported content type'' 415))"

definition handleRoute :: "yaml_codec \<Rightarrow> api_request \<Rightarrow> (proxy, api_response) go" where
  "handleRoute y req =
     (let name = trim_prefix (arPath req) (APIV1Alpha1Routes @ ''/'') in
      if arMethod req = ''GET'' then orStatus 404 (GetRoute name) (sendAccepted y (arAccept req))
      else if arMethod req = ''PUT'' then storeBody y UpdateRoute req
      else if arMethod req = ''DELETE''
      then orStatus 500 (DeleteRoute name) (sendAccepted y (arAccept req))
      else ret (httpError ''method not allowed'' 405))"

definition handleRoutes :: "yaml_codec \<Rightarrow> api_request \<Rightarrow> (proxy, api_response) go" where
  "handleRoutes y req =
     (if arMethod req = ''POST'' then storeBody y RegisterRoute req
      else ret (httpError ''method not allowed'' 405))"

text \<open>
  \<open>http.ServeMux\<close>: a path that is not in its clean form is redirected to it; otherwise the
  longest matching pattern decides.
\<close>

definition cleanSegments :: "string \<Rightarrow> bool" where
  "cleanSegments path \<longleftrightarrow>
     (case split_on CHR ''/'' path of
        [] # segs \<Rightarrow>
          list_all (\<lambda>s. s \<noteq> [] \<and> s \<noteq> ''.'' \<and> s \<noteq> ''..'') (butlast segs)
          \<and> (segs \<noteq> [] \<longrightarrow> last segs \<noteq> ''.'' \<and> last segs \<noteq> ''..'')
      | _ \<Rightarrow> False)"

definition serveAPI :: "yaml_codec \<Rightarrow> api_request \<Rightarrow> (proxy, api_response) go" where
  "serveAPI y req =
     (if \<not> cleanSegments (arPath req) then ret \<lparr>asStatus = 301, asBody = Text []\<rparr>
      else if has_prefix (arPath req) (APIV1Alpha1Routes @ ''/'') then handleRoute y req
      else if arPath req = APIV1Alpha1Routes then handleRoutes y req
      else if arPath req = ''/healthz'' then ret \<lparr>asStatus = 200, asBody = Text []\<rparr>
      else ret (httpError ''404 page not found'' 404))"

section \<open>The client\<close>

text \<open>
  The path that \<open>http.NewRequest\<close> reads from a URL, after the host: up to a query or fragment,
  with percent escapes decoded; a control character or a broken escape is an error.
\<close>

definition hexValue :: "char \<Rightarrow> nat option" where
  "hexValue c =
     (let n = of_char c :: nat in
      if 48 \<le> n \<and> n \<le> 57 then Some (n - 48)
      else if 65 \<le> n \<and> n \<le> 70 then Some (n - 55)
      else if 97 \<le> n \<and> n \<le> 102 then Some (n - 87)
      else None)"

fun unescape :: "string \<Rightarrow> string option" where
  "unescape [] = Some []"
| "unescape (c # cs) =
     (if c = CHR ''%'' then
        (case cs of
           h # l # rest \<Rightarrow>
             (case (hexValue h, hexValue l) of
                (Some a, Some b) \<Rightarrow> map_option ((#) (char_of (16 * a + b))) (unescape rest)
              | _ \<Rightarrow> None)
         | _ \<Rightarrow> None)
      else map_option ((#) c) (unescape cs))"

definition urlPath :: "string \<Rightarrow> string reply" where
  "urlPath rest =
     (if list_ex (\<lambda>c. (of_char c :: nat) < 32 \<or> of_char c = (127 :: nat)) rest
      then Inl (Errorf ''net/url: invalid control character in URL'')
      else case unescape (takeWhile (\<lambda>c. c \<noteq> CHR ''?'' \<and> c \<noteq> CHR ''#'') rest) of
             None \<Rightarrow> Inl (Errorf ''invalid URL escape'')
           | Some p \<Rightarrow> Inr p)"

text \<open>
  One exchange of the client: the request is built and sent, and the body of the answer is decoded
  as a route whatever the status. \<open>send\<close> is the network with the server behind it.
\<close>

definition clientCall ::
  "(api_request \<Rightarrow> ('s, api_response) go) \<Rightarrow> string \<Rightarrow> string \<Rightarrow> string \<Rightarrow> string \<Rightarrow> body
   \<Rightarrow> ('s, route) go" where
  "clientCall send verb urlRest accept contentType b =
     bindG (answer (urlPath urlRest)) (\<lambda>path.
     bindG (send \<lparr>arMethod = verb, arPath = path, arAccept = accept, arContentType = contentType,
                  arBody = b\<rparr>) (\<lambda>resp.
     answer (decodeBody (asBody resp))))"

definition v1Alpha1RoutePath :: string where
  "v1Alpha1RoutePath = ''v1alpha1/routes''"

definition Client_GetRoute ::
  "(api_request \<Rightarrow> ('s, api_response) go) \<Rightarrow> string \<Rightarrow> ('s, route) go" where
  "Client_GetRoute send name =
     clientCall send ''GET'' (''/'' @ v1Alpha1RoutePath @ ''/'' @ name) ''application/json'' [] (Text [])"

definition Client_RegisterRoute ::
  "(api_request \<Rightarrow> ('s, api_response) go) \<Rightarrow> route \<Rightarrow> ('s, route) go" where
  "Client_RegisterRoute send r =
     clientCall send ''POST'' (''/'' @ v1Alpha1RoutePath) [] ''application/json''
       (JsonDoc (encodeRoute r))"

definition Client_DeleteRoute ::
  "(api_request \<Rightarrow> ('s, api_response) go) \<Rightarrow> string \<Rightarrow> ('s, route) go" where
  "Client_DeleteRoute send name =
     clientCall send ''DELETE'' (''/'' @ v1Alpha1RoutePath @ ''/'' @ name) ''application/json'' []
       (Text [])"

definition Client_UpdateRoute ::
  "(api_request \<Rightarrow> ('s, api_response) go) \<Rightarrow> route \<Rightarrow> ('s, route) go" where
  "Client_UpdateRoute send r =
     clientCall send ''PUT'' (''/'' @ v1Alpha1RoutePath @ ''/'' @ rName r) ''application/json''
       ''application/json'' (JsonDoc (encodeRoute r))"

end
