(* ===== verification/Gateway_Server.thy ===== *)
theory Gateway_Server
  imports Gateway_API
begin

text \<open>
  The gateway as a process: the proxy's \<open>ServeHTTP\<close> (\<^verbatim>\<open>gateway/internal/proxy/proxy.go\<close>), the command
  \<^verbatim>\<open>run\<close> (\<^verbatim>\<open>gateway/cmd/run.go\<close>) and the router of the management API
  (\<^verbatim>\<open>gateway/api/router.go\<close>).

  \<open>ServeHTTP\<close> hands the request to \<open>httputil.ReverseProxy\<close> with the hooks \<open>RewriteV1Alpha1\<close>,
  \<open>ModifyResponse\<close> and \<open>ErrorHandler\<close>. What the reverse proxy does around the hooks is modelled here,
  less trailers, informational responses and the copying of an upgraded connection. A body of a
  response that is empty can be read after it was closed; a request or response body that is not
  empty cannot.
\<close>

section \<open>Headers\<close>

definition Header_Del :: "string \<Rightarrow> (string \<rightharpoonup> string list) \<Rightarrow> (string \<rightharpoonup> string list)" where
  "Header_Del k h = h(CanonicalHeaderKey k := None)"

fun delAll :: "string list \<Rightarrow> (string \<rightharpoonup> string list) \<Rightarrow> (string \<rightharpoonup> string list)" where
  "delAll [] h = h"
| "delAll (k # ks) h = delAll ks (Header_Del k h)"

definition is_space :: "char \<Rightarrow> bool" where
  "is_space c \<longleftrightarrow> c \<in> set [CHR '' '', CHR 0x09, CHR 0x0A, CHR 0x0D]"

definition TrimString :: "string \<Rightarrow> string" where
  "TrimString s = rev (dropWhile is_space (rev (dropWhile is_space s)))"

text \<open>The elements of a comma-separated header.\<close>

definition header_tokens :: "string list \<Rightarrow> string list" where
  "header_tokens vs = filter (\<lambda>s. s \<noteq> []) (map TrimString (concat (map (split_on CHR '','') vs)))"

definition containsToken :: "string list \<Rightarrow> string \<Rightarrow> bool" where
  "containsToken vs t \<longleftrightarrow> list_ex (\<lambda>x. map to_lower x = map to_lower t) (header_tokens vs)"

definition upgradeType :: "(string \<rightharpoonup> string list) \<Rightarrow> string" where
  "upgradeType h =
     (if containsToken (header_values h ''Connection'') ''Upgrade''
      then (case header_values h ''Upgrade'' of [] \<Rightarrow> [] | v # _ \<Rightarrow> v)
      else [])"

definition is_print :: "string \<Rightarrow> bool" where
  "is_print s \<longleftrightarrow> list_all (\<lambda>c. 32 \<le> (of_char c :: nat) \<and> (of_char c :: nat) \<le> 126) s"

definition hopHeaders :: "string list" where
  "hopHeaders = [''Connection'', ''Proxy-Connection'', ''Keep-Alive'', ''Proxy-Authenticate'',
     ''Proxy-Authorization'', ''Te'', ''Trailer'', ''Transfer-Encoding'', ''Upgrade'']"

definition removeHopByHopHeaders :: "(string \<rightharpoonup> string list) \<Rightarrow> (string \<rightharpoonup> string list)" where
  "removeHopByHopHeaders h = delAll (header_tokens (header_values h ''Connection'') @ hopHeaders) h"

section \<open>The reverse proxy\<close>

text \<open>
  What the environment answers while one request is served: the cleaning of the query, the answers to
  each of the three hooks, the answer of the transport, and the copying of an upgraded connection.
\<close>

record serve_env =
  seCleanQuery :: "string \<Rightarrow> string"
  seRewrite :: env_answers
  seRoundTrip :: "request \<Rightarrow> response reply"
  seUpgrade :: "request \<Rightarrow> response \<Rightarrow> (exchange, unit) go"
  seModify :: env_answers
  seRetry :: "nat \<Rightarrow> env_answers"

record reverse_proxy =
  rpRewrite :: "request \<Rightarrow> (request, unit) go"
  rpModifyResponse :: "(upstream, unit) go"
  rpErrorHandler :: "(exchange, unit) go"

text \<open>The request that is handed to \<open>Rewrite\<close>: a clone of the one that came in.\<close>

definition forwardedHeaders :: "string list" where
  "forwardedHeaders = [''Forwarded'', ''X-Forwarded-For'', ''X-Forwarded-Host'', ''X-Forwarded-Proto'']"

definition outgoing :: "(string \<Rightarrow> string) \<Rightarrow> request \<Rightarrow> request" where
  "outgoing clean r =
     (let h = qHeader r;
          up = upgradeType h;
          h1 = removeHopByHopHeaders h;
          h2 = (if containsToken (header_values h ''Te'') ''trailers''
                then Header_Set ''Te'' ''trailers'' h1 else h1);
          h3 = (if up \<noteq> [] then Header_Set ''Upgrade'' up (Header_Set ''Connection'' ''Upgrade'' h2) else h2)
      in r\<lparr>qHeader := delAll forwardedHeaders h3,
           qURL := (qURL r)\<lparr>uQuery := clean (uQuery (qURL r))\<rparr>\<rparr>)"

definition defaultUserAgent :: "request \<Rightarrow> request" where
  "defaultUserAgent r =
     (if qHeader r ''User-Agent'' = None then r\<lparr>qHeader := Header_Set ''User-Agent'' [] (qHeader r)\<rparr>
      else r)"

text \<open>\<open>http.RoundTripper\<close> closes the body of the request, also when it returns an error.\<close>

definition RoundTrip :: "(request \<Rightarrow> response reply) \<Rightarrow> (request, response) go" where
  "RoundTrip send = bindG (reads (\<lambda>r. r)) (\<lambda>r. seqG (writes closeBody) (answer (send r)))"

definition copyHeader :: "(string \<rightharpoonup> string list) \<Rightarrow> (string \<rightharpoonup> string list) \<Rightarrow> (string \<rightharpoonup> string list)" where
  "copyHeader dst src =
     (\<lambda>k. case src k of None \<Rightarrow> dst k | Some vs \<Rightarrow> if vs = [] then dst k else Some (header_values dst k @ vs))"

definition ErrAbortHandler :: go_panic where
  "ErrAbortHandler = ExplicitPanic ''net/http: abort Handler''"

text \<open>A copy of the body that fails aborts the connection: the status has been given by then.\<close>

definition copyOut :: "response \<Rightarrow> (exchange, unit) go" where
  "copyOut resp =
     seqG (toWriter (\<lambda>w. w\<lparr>wHeader := copyHeader (wHeader w) (pHeader resp)\<rparr>))
    (seqG (toWriter (WriteHeader (pStatusCode resp)))
          (if pBodyClosed resp \<and> pBody resp \<noteq> [] then panic ErrAbortHandler
           else seqG (toWriter (WriteBody (pBody resp)))
                     (if pBodyErr resp \<noteq> None then panic ErrAbortHandler else ret ())))"

text \<open>\<open>modifyResponse\<close>: the hook works on the request that was sent; its error goes to \<open>ErrorHandler\<close>.\<close>

definition modifyThen ::
  "reverse_proxy \<Rightarrow> response \<Rightarrow> (response \<Rightarrow> (exchange, unit) go) \<Rightarrow> (exchange, unit) go" where
  "modifyThen rp resp k x =
     (case rpModifyResponse rp \<lparr>vReq = xReq x, vResp = resp\<rparr> of
        (Ok _, u) \<Rightarrow> k (vResp u) (x\<lparr>xReq := vReq u\<rparr>)
      | (Err e, u) \<Rightarrow> rpErrorHandler rp (x\<lparr>xReq := vReq u\<rparr>)
      | (Panic q, u) \<Rightarrow> (Panic q, x\<lparr>xReq := vReq u\<rparr>))"

definition serveResponse :: "serve_env \<Rightarrow> reverse_proxy \<Rightarrow> response \<Rightarrow> (exchange, unit) go" where
  "serveResponse env rp resp =
     (if pStatusCode resp = 101
      then modifyThen rp resp (\<lambda>resp'. bindG (reads xReq) (\<lambda>r. seUpgrade env r resp'))
      else modifyThen rp (resp\<lparr>pHeader := removeHopByHopHeaders (pHeader resp)\<rparr>) copyOut)"

definition serveOutgoing :: "serve_env \<Rightarrow> reverse_proxy \<Rightarrow> request \<Rightarrow> (exchange, unit) go" where
  "serveOutgoing env rp rin =
     seqG (onReq (rpRewrite rp rin))
    (seqG (onReq (writes defaultUserAgent))
    (\<lambda>x. case onReq (RoundTrip (seRoundTrip env)) x of
            (Ok resp, y) \<Rightarrow> serveResponse env rp resp y
          | (Err e, y) \<Rightarrow> rpErrorHandler rp y
          | (Panic q, y) \<Rightarrow> (Panic q, y)))"

definition ReverseProxy_ServeHTTP :: "serve_env \<Rightarrow> reverse_proxy \<Rightarrow> request \<Rightarrow> (writer, unit) go" where
  "ReverseProxy_ServeHTTP env rp rin w =
     (let (res, x) =
        (if is_print (upgradeType (qHeader rin))
         then serveOutgoing env rp rin \<lparr>xReq = outgoing (seCleanQuery env) rin, xWriter = w\<rparr>
         else rpErrorHandler rp \<lparr>xReq = rin, xWriter = w\<rparr>)
      in (res, xWriter x))"

text \<open>The hooks that \<open>New\<close> installs.\<close>

definition New_proxy :: "serve_env \<Rightarrow> proxy \<Rightarrow> reverse_proxy" where
  "New_proxy env p = \<lparr>rpRewrite = RewriteV1Alpha1 (seRewrite env) p,
     rpModifyResponse = ModifyResponse (seModify env) p, rpErrorHandler = ErrorHandler (seRetry env) p\<rparr>"

definition ServeHTTP :: "serve_env \<Rightarrow> proxy \<Rightarrow> request \<Rightarrow> (writer, unit) go" where
  "ServeHTTP env p r = ReverseProxy_ServeHTTP env (New_proxy env p) r"

section \<open>The process\<close>

text \<open>The values of the flags, as given on the command line; the command-line library finds them.\<close>

record gateway_flags =
  gfListenAddr :: string
  gfApiAddr :: string

definition flagOr :: "(string \<rightharpoonup> string) \<Rightarrow> string \<Rightarrow> string \<Rightarrow> string" where
  "flagOr given name dflt = (case given name of None \<Rightarrow> dflt | Some v \<Rightarrow> v)"

definition registerFlags :: "(string \<rightharpoonup> string) \<Rightarrow> gateway_flags" where
  "registerFlags given = \<lparr>gfListenAddr = flagOr given ''listen-addr'' '':8080'',
     gfApiAddr = flagOr given ''api-addr'' '':8081''\<rparr>"

text \<open>
  The router shares the proxy with the process, so only its address is kept here. \<open>Run\<close> serves the
  management API on that address; the health check is a pattern of \<open>serveAPI\<close>.
\<close>

record router =
  rtApiAddr :: string

definition NewRouter :: "string \<Rightarrow> router" where
  "NewRouter addr = \<lparr>rtApiAddr = addr\<rparr>"

datatype process =
    Running router string proxy
  | Exited int

definition run :: "(string \<rightharpoonup> string) \<Rightarrow> process" where
  "run given = (let f = registerFlags given
     in Running (NewRouter (gfApiAddr f)) (gfListenAddr f) New)"

text \<open>
  What can reach the process: a request on the address of the API or of the proxy, or the failure of
  one of the two listeners, after which the process exits. A handler that panics loses its
  connection, not the process.
\<close>

datatype gateway_event =
    ApiRequest string api_request
  | ProxiedRequest string serve_env request
  | ListenerFailed string go_error

datatype gateway_reply =
    ApiAnswer api_response
  | HttpAnswer writer
  | Dropped
  | NoReply

definition freshWriter :: writer where
  "freshWriter = \<lparr>wHeader = Map.empty, wStatus = None, wBody = []\<rparr>"

fun gatewayTurn :: "yaml_codec \<Rightarrow> gateway_event \<Rightarrow> process \<Rightarrow> gateway_reply \<times> process" where
  "gatewayTurn y ev (Exited c) = (NoReply, Exited c)"
| "gatewayTurn y (ApiRequest addr req) (Running rt listenAddr p) =
     (if addr = rtApiAddr rt
      then (case serveAPI y req p of
              (Ok resp, p') \<Rightarrow> (ApiAnswer resp, Running rt listenAddr p')
            | (_, p') \<Rightarrow> (Dropped, Running rt listenAddr p'))
      else (NoReply, Running rt listenAddr p))"
| "gatewayTurn y (ProxiedRequest addr env req) (Running rt listenAddr p) =
     (if addr = listenAddr
      then (case ServeHTTP env p req freshWriter of
              (Ok _, w) \<Rightarrow> (HttpAnswer w, Running rt listenAddr p)
            | _ \<Rightarrow> (Dropped, Running rt listenAddr p))
      else (NoReply, Running rt listenAddr p))"
| "gatewayTurn y (ListenerFailed addr e) (Running rt listenAddr p) =
     (if addr = rtApiAddr rt \<or> addr = listenAddr then (NoReply, Exited 1)
      else (NoReply, Running rt listenAddr p))"

inductive gateway_step :: "yaml_codec \<Rightarrow> process \<Rightarrow> process \<Rightarrow> bool" for y where
  turn: "gatewayTurn y ev s = (reply, s') \<Longrightarrow> gateway_step y s s'"

end
