(* ===== verification/Gateway_Facts.thy ===== *)
theory Gateway_Facts
  imports Gateway_Proxy
begin

text \<open>
  What the gateway's proxy guarantees: its tables refine a map of routes and index every stored
  route, a backend is drawn in exact proportion to its weight, a request for a known host goes to
  a backend of positive weight, the error path always answers; and where the failover paths miss
  what they aim at.
\<close>

section \<open>The tables\<close>

lemma storeHosts_apply: "storeHosts hs n m h = (if h \<in> set hs then Some n else m h)"
  by (induction hs arbitrary: m) auto

lemma extractHost_eq: "extractHost h = takeWhile (\<lambda>c. c \<noteq> CHR '':'') h"
  by (simp add: extractHost_def hd_split_on)

lemma extractHost_no_port: "CHR '':'' \<notin> set h \<Longrightarrow> extractHost h = h"
  unfolding extractHost_eq by (rule takeWhile_eq_all_conv [THEN iffD2]) blast

lemma extractHost_port [simp]: "extractHost (h @ CHR '':'' # q) = extractHost h"
proof (cases "CHR '':'' \<in> set h")
  case True
  then show ?thesis by (simp add: extractHost_eq takeWhile_append1)
next
  case False
  then have "\<And>c. c \<in> set h \<Longrightarrow> c \<noteq> CHR '':''" by blast
  with False show ?thesis by (simp add: extractHost_no_port) (simp add: extractHost_eq)
qed

lemma extractHost_no_colon: "CHR '':'' \<notin> set (extractHost h)"
  by (auto simp: extractHost_eq dest: set_takeWhileD)

lemmas proxy_ops = RegisterRoute_def GetRoute_def UpdateRoute_def DeleteRoute_def
  onPersistence_def zoom_def seqG_def indexRoute_def
  InMem_RegisterRoute_def InMem_GetRoute_def InMem_UpdateRoute_def InMem_DeleteRoute_def

interpretation gw: persistence_v1alpha1 RegisterRoute GetRoute UpdateRoute DeleteRoute persistence
  by unfold_locales (auto simp: proxy_ops fun_eq_iff split: option.splits)

text \<open>Every stored route is filed under its name and can be reached through both indexes.\<close>

definition indexed :: "proxy \<Rightarrow> bool" where
  "indexed p \<longleftrightarrow> (\<forall>n r. persistence p n = Some r \<longrightarrow>
     rName r = n
     \<and> (\<forall>h \<in> set (rHostnames r). routesPerHost p h \<noteq> None)
     \<and> (\<forall>b \<in> set (rBackends r). backendHostToRoute p (extractHost (bHost b)) \<noteq> None))"

lemma indexed_New: "indexed New"
  by (simp add: indexed_def New_def NewInMemV1Alpha1_def)

lemma indexed_register: "indexed p \<Longrightarrow> indexed (snd (RegisterRoute r p))"
  and indexed_update: "indexed p \<Longrightarrow> indexed (snd (UpdateRoute r p))"
  and indexed_delete: "indexed p \<Longrightarrow> indexed (snd (DeleteRoute n p))"
  by (auto simp: indexed_def proxy_ops storeHosts_apply extractHost_def split: option.splits
      if_splits)

lemma indexed_exec_ops:
  "indexed p \<Longrightarrow> indexed (exec_ops RegisterRoute UpdateRoute DeleteRoute ps p)"
proof (induction ps arbitrary: p)
  case Nil
  then show ?case by simp
next
  case (Cons q ps)
  then show ?case
    by (cases q) (simp_all add: indexed_register indexed_update indexed_delete)
qed

section \<open>The weighted choice\<close>

abbreviation total_weight :: "weightedBackend list \<Rightarrow> int" where
  "total_weight wbs \<equiv> sum_list (map wbWeight wbs)"

definition nonneg_weights :: "weightedBackend list \<Rightarrow> bool" where
  "nonneg_weights wbs \<longleftrightarrow> (\<forall>wb \<in> set wbs. 0 \<le> wbWeight wb)"

lemma nonneg_weights_Cons [simp]:
  "nonneg_weights (wb # wbs) \<longleftrightarrow> 0 \<le> wbWeight wb \<and> nonneg_weights wbs"
  by (simp add: nonneg_weights_def)

lemma total_weight_nonneg: "nonneg_weights wbs \<Longrightarrow> 0 \<le> total_weight wbs"
  by (induction wbs) auto

declare pickBackend.simps(2) [simp del]

lemma pickBackend_Cons_below:
  assumes "0 \<le> l" and "nonneg_weights (wb # wbs)" and "l + total_weight (wb # wbs) < 2 ^ 63"
  shows "pickBackend k l (wb # wbs) =
    (if k < l + wbWeight wb then Some (wbBackend wb) else pickBackend k (l + wbWeight wb) wbs)"
proof -
  have "0 \<le> total_weight wbs" using assms(2) by (simp add: total_weight_nonneg)
  then have "i64 (l + wbWeight wb) = l + wbWeight wb" using assms by simp
  then show ?thesis by (simp add: pickBackend.simps(2) Let_def)
qed

lemma pickBackend_in_range:
  assumes "0 \<le> l" and "nonneg_weights wbs" and "l + total_weight wbs < 2 ^ 63"
    and "l \<le> k" and "k < l + total_weight wbs"
  shows "\<exists>wb \<in> set wbs. 0 < wbWeight wb \<and> pickBackend k l wbs = Some (wbBackend wb)"
  using assms
proof (induction wbs arbitrary: l)
  case Nil
  then show ?case by simp
next
  case (Cons wb wbs)
  note step = pickBackend_Cons_below [OF Cons.prems(1-3), of k]
  show ?case
  proof (cases "k < l + wbWeight wb")
    case True
    then show ?thesis using step Cons.prems(4) by auto
  next
    case False
    with Cons.prems have "\<exists>w \<in> set wbs. 0 < wbWeight w
        \<and> pickBackend k (l + wbWeight wb) wbs = Some (wbBackend w)"
      by (intro Cons.IH) auto
    with False step show ?thesis by auto
  qed
qed

text \<open>How many of the possible draws select a given backend: exactly its weight.\<close>

lemma pickBackend_draws:
  assumes "0 \<le> l" and "nonneg_weights wbs" and "l + total_weight wbs < 2 ^ 63"
  shows "int (card {k. l \<le> k \<and> k < l + total_weight wbs \<and> pickBackend k l wbs = Some b})
    = total_weight (filter (\<lambda>wb. wbBackend wb = b) wbs)"
  using assms
proof (induction wbs arbitrary: l)
  case Nil
  then show ?case by simp
next
  case (Cons wb wbs)
  let ?w = "wbWeight wb" and ?t = "total_weight wbs"
  let ?hit = "{k. l \<le> k \<and> k < l + ?w \<and> wbBackend wb = b}"
  let ?rest = "{k. l + ?w \<le> k \<and> k < (l + ?w) + ?t \<and> pickBackend k (l + ?w) wbs = Some b}"
  have w: "0 \<le> ?w" and t: "0 \<le> ?t" using Cons.prems by (simp_all add: total_weight_nonneg)
  have split: "{k. l \<le> k \<and> k < l + total_weight (wb # wbs) \<and> pickBackend k l (wb # wbs) = Some b}
      = ?hit \<union> ?rest"
    using w t by (auto simp: pickBackend_Cons_below [OF Cons.prems])
  have rest: "int (card ?rest) = total_weight (filter (\<lambda>wb. wbBackend wb = b) wbs)"
    using Cons.prems w by (intro Cons.IH) auto
  have hit: "int (card ?hit) = (if wbBackend wb = b then ?w else 0)"
  proof -
    have "?hit = (if wbBackend wb = b then {l..<l + ?w} else {})" by auto
    then show ?thesis using w by simp
  qed
  have "finite ?hit" and "finite ?rest"
    by (rule finite_subset [of _ "{l..<l + ?w}"], auto)
       (rule finite_subset [of _ "{l + ?w..<l + ?w + ?t}"], auto)
  then have "card (?hit \<union> ?rest) = card ?hit + card ?rest"
    by (intro card_Un_disjoint) auto
  with split hit rest show ?case by simp
qed

definition weighted :: "backend \<Rightarrow> weightedBackend" where
  "weighted b = \<lparr>wbBackend = b, wbWeight = bWeight b\<rparr>"

lemma weighted_sel [simp]: "wbBackend (weighted b) = b" "wbWeight (weighted b) = bWeight b"
  by (simp_all add: weighted_def)

lemma sum_list_nonneg_of: "(\<And>x. x \<in> set xs \<Longrightarrow> 0 \<le> (f x :: int)) \<Longrightarrow> 0 \<le> sum_list (map f xs)"
  by (rule sum_list_nonneg) auto

lemma weighBackends_eq:
  assumes "0 \<le> t" and "\<forall>b \<in> set bs. 0 \<le> bWeight b" and "t + sum_list (map bWeight bs) < 2 ^ 63"
  shows "weighBackends bs t wbs = (t + sum_list (map bWeight bs), wbs @ map weighted bs)"
  using assms
proof (induction bs arbitrary: t wbs)
  case Nil
  then show ?case by simp
next
  case (Cons b bs)
  then have "0 \<le> sum_list (map bWeight bs)" by (intro sum_list_nonneg_of) auto
  with Cons.prems have "i64 (t + bWeight b) = t + bWeight b" by simp
  with Cons show ?case by (simp add: weighted_def)
qed

lemma nonneg_weights_map: "nonneg_weights (map weighted bs) \<longleftrightarrow> (\<forall>b \<in> set bs. 0 \<le> bWeight b)"
  by (auto simp: nonneg_weights_def)

lemma total_weight_map: "total_weight (map weighted bs) = sum_list (map bWeight bs)"
  by (simp add: comp_def)

lemma weightedRandomBackend_Ok:
  assumes "nonneg_weights wbs" and "total_weight wbs < 2 ^ 63"
    and "0 \<le> intn (total_weight wbs)" and "intn (total_weight wbs) < total_weight wbs"
  shows "\<exists>wb \<in> set wbs. 0 < wbWeight wb
    \<and> weightedRandomBackend intn wbs (total_weight wbs) = Ok (wbBackend wb)"
  using pickBackend_in_range [of 0 wbs "intn (total_weight wbs)"] assms
  by (fastforce simp: weightedRandomBackend_def)

lemma weightedRandomBackend_member:
  "weightedRandomBackend intn wbs t = Ok b \<Longrightarrow> \<exists>wb \<in> set wbs. b = wbBackend wb"
proof -
  have pick: "pickBackend k l ws = Some c \<Longrightarrow> \<exists>wb \<in> set ws. c = wbBackend wb" for k l ws c
    by (induction ws arbitrary: l) (auto simp: pickBackend.simps(2) Let_def split: if_splits)
  assume "weightedRandomBackend intn wbs t = Ok b"
  then show ?thesis
    by (auto simp: weightedRandomBackend_def dest: pick split: if_splits option.splits)
qed

lemma weightedRandomBackend_no_panic:
  "0 < t \<Longrightarrow> wbs \<noteq> [] \<Longrightarrow> \<exists>b. weightedRandomBackend intn wbs t = Ok b"
  by (auto simp: weightedRandomBackend_def split: option.splits)

section \<open>Failover candidates\<close>

definition bumped :: "backend \<Rightarrow> backend" where
  "bumped b = (if bWeight b = 0 then b\<lparr>bWeight := 1\<rparr> else b)"

lemma bumped_simps [simp]: "bHost (bumped b) = bHost b" "bPathPrefix (bumped b) = bPathPrefix b"
  "bAuth (bumped b) = bAuth b" "bScheme (bumped b) = bScheme b"
  by (simp_all add: bumped_def)

lemma bumped_pos: "0 \<le> bWeight b \<Longrightarrow> 0 < bWeight (bumped b)"
  by (simp add: bumped_def)

lemma bumped_nonneg: "0 \<le> bWeight b \<Longrightarrow> 0 \<le> bWeight (bumped b)"
  by (simp add: bumped_def)

lemma failoverScan_candidates:
  "failoverScan skip bs t wbs path = (t', wbs', path') \<Longrightarrow>
     wbs' = wbs @ map (\<lambda>b. weighted (bumped b)) (filter (\<lambda>b. \<not> skip b) bs)
     \<and> path' = foldl removePathPrefix path (map bPathPrefix (filter (\<lambda>b. \<not> skip b) bs))"
proof (induction bs arbitrary: t wbs path)
  case Nil
  then show ?case by simp
next
  case (Cons b bs)
  then show ?case
    by (cases "skip b")
       (fastforce simp: Let_def weighted_def simp flip: bumped_def)+
qed

lemma failoverScan_total:
  assumes "\<forall>b \<in> set bs. 0 \<le> bWeight b" and "0 \<le> t"
    and "t + sum_list (map (\<lambda>b. bWeight (bumped b)) bs) < 2 ^ 63"
  shows "fst (failoverScan skip bs t wbs path)
    = t + sum_list (map (\<lambda>b. bWeight (bumped b)) (filter (\<lambda>b. \<not> skip b) bs))"
  using assms
proof (induction bs arbitrary: t wbs path)
  case Nil
  then show ?case by simp
next
  case (Cons b bs)
  have "0 \<le> sum_list (map (\<lambda>b. bWeight (bumped b)) bs)"
    using Cons.prems(1) by (intro sum_list_nonneg_of) (auto intro: bumped_nonneg)
  moreover have "0 < bWeight (bumped b)" using Cons.prems(1) by (simp add: bumped_pos)
  ultimately have wrap: "i64 (t + bWeight (bumped b)) = t + bWeight (bumped b)"
    and small: "t + sum_list (map (\<lambda>b. bWeight (bumped b)) bs) < 2 ^ 63"
    using Cons.prems by simp_all
  show ?case
  proof (cases "skip b")
    case True
    then show ?thesis using Cons.IH [of t] Cons.prems small by simp
  next
    case False
    then show ?thesis
      using Cons.IH [of "t + bWeight (bumped b)"] Cons.prems wrap \<open>0 < bWeight (bumped b)\<close>
      by (simp add: Let_def flip: bumped_def)
  qed
qed

text \<open>
  A route the failover can work with: weights are not negative and do not overflow when summed,
  and a backend that asks for OAuth carries its configuration.
\<close>

definition auth_ok :: "backend \<Rightarrow> bool" where
  "auth_ok b \<longleftrightarrow>
     (case bAuth b of None \<Rightarrow> True | Some a \<Rightarrow> aType a = AuthTypeOAuth \<longrightarrow> aOAuth a \<noteq> None)"

definition route_ok :: "route \<Rightarrow> bool" where
  "route_ok r \<longleftrightarrow>
     (\<forall>b \<in> set (rBackends r). 0 \<le> bWeight b \<and> auth_ok b)
     \<and> sum_list (map (\<lambda>b. bWeight (bumped b)) (rBackends r)) < 2 ^ 63"

lemma authorize_no_panic: "auth_ok b \<Longrightarrow> no_panic (authorize tok b) r"
  by (auto simp: no_panic_def authorize_def auth_ok_def handleOAuth_def go_simps bindG_def
      answer_def deref_def
      split: option.splits sum.splits prod.splits)

lemma handleBackend_no_panic: "auth_ok b \<Longrightarrow> no_panic (handleBackend tok b) r"
  unfolding handleBackend_def by (intro no_panic_seqG authorize_no_panic) simp_all

lemma handleBackend_succeeds:
  assumes "auth_ok b" and "\<forall>c. \<exists>t. tok c = Inr t"
  shows "\<exists>r'. handleBackend tok b r = (Ok (), r')"
proof -
  have "\<exists>r'. authorize tok b r = (Ok (), r')"
  proof (cases "\<exists>a c. bAuth b = Some a \<and> aType a = AuthTypeOAuth \<and> aOAuth a = Some c")
    case True
    then obtain a c t where "bAuth b = Some a" "aOAuth a = Some c" "tok c = Inr t" using assms(2) by blast
    then show ?thesis by (simp add: authorize_def handleOAuth_def ret_def writes_def)
  next
    case False
    then show ?thesis using assms(1) by (auto simp: auth_ok_def authorize_def ret_def split: option.splits)
  qed
  then show ?thesis by (auto simp: handleBackend_def go_simps)
qed

lemma authorize_Ok_url: "authorize tok b r = (Ok u, r') \<Longrightarrow> qURL r' = qURL r"
  by (auto simp: authorize_def go_simps split: option.splits if_splits)

lemma handleBackend_Ok:
  assumes "handleBackend tok b r = (Ok u, r')"
  shows "uHost (qURL r') = bHost b" and "qHost r' = extractHost (bHost b)"
    and "uScheme (qURL r') = bScheme b" and "uPath (qURL r') = bPathPrefix b @ uPath (qURL r)"
  using assms
  by (auto simp: handleBackend_def seqG_Ok_iff retarget_def writes_def dest: authorize_Ok_url)

lemma WriteHeader_status [simp]: "\<exists>c'. wStatus (WriteHeader c w) = Some c'"
  by (simp add: WriteHeader_def split: option.splits)

lemma WriteBody_status [simp]: "\<exists>c. wStatus (WriteBody s w) = Some c"
  by (simp add: WriteBody_def)

lemma copyResponse_status: "\<exists>c. wStatus (xWriter (snd (copyResponse resp x))) = Some c"
  by (simp add: copyResponse_def toWriter_def go_simps split: option.splits)


lemma copyResponse_no_panic: "no_panic (copyResponse resp) x"
  by (simp add: no_panic_def copyResponse_def toWriter_def go_simps split: option.splits)

text \<open>A draw among the candidates of a well-formed route finds one of them, or there is none.\<close>

lemma failover_draw:
  assumes "route_ok route" and "failoverScan skip (rBackends route) 0 [] path = (t, wbs, path')"
  shows "t = 0 \<longleftrightarrow> wbs = []"
    and "t \<noteq> 0 \<Longrightarrow> \<exists>b \<in> set (rBackends route). \<not> skip b
           \<and> weightedRandomBackend intn wbs t = Ok (bumped b)"
proof -
  let ?cs = "filter (\<lambda>b. \<not> skip b) (rBackends route)"
  have wbs: "wbs = map (\<lambda>b. weighted (bumped b)) ?cs"
    using failoverScan_candidates [OF assms(2)] by simp
  have t: "t = sum_list (map (\<lambda>b. bWeight (bumped b)) ?cs)"
    using failoverScan_total [of "rBackends route" 0 skip "[]" path] assms
    by (simp add: route_ok_def)
  have pos: "\<forall>b \<in> set ?cs. 0 < bWeight (bumped b)"
    using assms(1) by (auto simp: route_ok_def intro: bumped_pos)
  show empty: "t = 0 \<longleftrightarrow> wbs = []"
  proof (cases ?cs)
    case (Cons c cs)
    then have "0 \<le> sum_list (map (\<lambda>b. bWeight (bumped b)) cs)" and "0 < bWeight (bumped c)"
      using pos by (auto intro!: sum_list_nonneg_of simp: less_imp_le)
    then show ?thesis using Cons t wbs by simp
  qed (use t wbs in simp)
  assume "t \<noteq> 0"
  moreover have "0 \<le> t" using t pos by (auto intro!: sum_list_nonneg_of simp: less_imp_le)
  ultimately obtain b where b: "weightedRandomBackend intn wbs t = Ok b"
    using weightedRandomBackend_no_panic [of t wbs intn] empty by auto
  then obtain wb where "wb \<in> set wbs" and "b = wbBackend wb"
    by (blast dest: weightedRandomBackend_member)
  with b wbs show "\<exists>b \<in> set (rBackends route). \<not> skip b
      \<and> weightedRandomBackend intn wbs t = Ok (bumped b)"
    by auto
qed

lemma onReq_writes [simp]: "onReq (writes f) = writes (\<lambda>x. x\<lparr>xReq := f (xReq x)\<rparr>)"
  by (simp add: onReq_def)

lemma contact_no_panic: "no_panic (contact orc) x"
  by (auto simp: no_panic_def contact_def answer_def go_simps split: option.splits sum.splits)

lemma closeBody_sel [simp]: "qURL (closeBody r) = qURL r" "qHost (closeBody r) = qHost r"
    "qBody (closeBody r) = qBody r" "qBodyClosed (closeBody r)"
  by (simp_all add: closeBody_def)

lemma errorHandler_eq:
  assumes "persistence p n = Some route"
    and "failoverScan (\<lambda>b. bHost b = qHost (xReq x)) (rBackends route) 0 [] (uPath (qURL (xReq x)))
      = (t, wbs, path)"
  shows "errorHandler orc p n x =
    (let x' = x\<lparr>xReq := setPath path (xReq x)\<rparr>
     in if t = 0 then (Err (Errorf ''no backends''), x')
        else bindG (chosen (weightedRandomBackend (oIntn orc) wbs t)) (\<lambda>b.
             seqG (onReq (handleBackend (oToken orc) b)) (bindG (contact orc) copyResponse)) x')"
  using assms by (simp add: errorHandler_def gw.get_result raise_def)

lemma errorHandler_no_route:
  "persistence p n = None \<Longrightarrow> errorHandler orc p n x = (Err (Errorf ''not found''), x)"
  by (simp add: errorHandler_def gw.get_result raise_def)

lemma failover_attempt_no_panic:
  assumes "auth_ok b"
  shows "no_panic (seqG (onReq (handleBackend tok b)) (bindG (contact orc) copyResponse)) y"
  unfolding onReq_def
  by (intro no_panic_intros contact_no_panic copyResponse_no_panic handleBackend_no_panic assms)

lemma errorHandler_no_panic:
  assumes "\<And>route. persistence p n = Some route \<Longrightarrow> route_ok route"
  shows "no_panic (errorHandler orc p n) x"
proof (cases "persistence p n")
  case None
  then show ?thesis by (simp add: no_panic_def errorHandler_no_route)
next
  case (Some route)
  with assms have ok: "route_ok route" by simp
  obtain t wbs path where
    scan: "failoverScan (\<lambda>b. bHost b = qHost (xReq x)) (rBackends route) 0 []
      (uPath (qURL (xReq x))) = (t, wbs, path)"
    by (metis prod_cases3)
  show ?thesis
  proof (cases "t = 0")
    case True
    then show ?thesis by (simp add: no_panic_def errorHandler_eq [OF Some scan] Let_def)
  next
    case False
    then obtain b where b: "b \<in> set (rBackends route)"
      and draw: "weightedRandomBackend (oIntn orc) wbs t = Ok (bumped b)"
      using failover_draw(2) [OF ok scan] by blast
    from ok b have "auth_ok (bumped b)" by (auto simp: route_ok_def auth_ok_def)
    from failover_attempt_no_panic [OF this] False draw show ?thesis
      by (simp add: no_panic_def errorHandler_eq [OF Some scan] chosen_def Let_def)
  qed
qed

lemma errorHandler_Ok_status:
  assumes "errorHandler orc p n x = (Ok u, y)"
  shows "\<exists>c. wStatus (xWriter y) = Some c"
proof (cases "persistence p n")
  case None
  with assms show ?thesis by (simp add: errorHandler_no_route)
next
  case (Some route)
  obtain t wbs path where
    scan: "failoverScan (\<lambda>b. bHost b = qHost (xReq x)) (rBackends route) 0 []
      (uPath (qURL (xReq x))) = (t, wbs, path)"
    by (metis prod_cases3)
  from assms obtain resp z where "copyResponse resp z = (Ok u, y)"
    by (auto simp: errorHandler_eq [OF Some scan] Let_def bindG_Ok_iff seqG_Ok_iff split: if_splits)
  then show ?thesis using copyResponse_status [of resp z] by simp
qed

definition proxy_ok :: "proxy \<Rightarrow> bool" where
  "proxy_ok p \<longleftrightarrow> (\<forall>n r. persistence p n = Some r \<longrightarrow> route_ok r)"

lemma attempts_answers:
  assumes "proxy_ok p"
  shows "\<exists>y c. attempts orc p n i k x = (Ok (), y) \<and> wStatus (xWriter y) = Some c"
proof (induction k arbitrary: i x)
  case 0
  then show ?case by (auto simp: toWriter_def writes_def)
next
  case (Suc k)
  have "no_panic (errorHandler (orc i) p n) x"
    using assms by (intro errorHandler_no_panic) (auto simp: proxy_ok_def)
  then show ?case
  proof (cases rule: no_panic_cases)
    case (1 u y)
    then show ?thesis using errorHandler_Ok_status [OF 1] by simp
  next
    case (2 e y)
    then show ?thesis using Suc [of "Suc i" y] by simp
  qed
qed

lemma weighted_draws:
  assumes "\<forall>b \<in> set bs. 0 \<le> bWeight b" and "sum_list (map bWeight bs) < 2 ^ 63"
    and "0 < sum_list (map bWeight bs)" and "weighBackends bs 0 [] = (totalWeight, wbs)"
  shows "totalWeight = sum_list (map bWeight bs)
    \<and> int (card {k. 0 \<le> k \<and> k < totalWeight
           \<and> weightedRandomBackend (\<lambda>_. k) wbs totalWeight = Ok b})
      = sum_list (map bWeight (filter (\<lambda>c. c = b) bs))"
proof -
  have eq: "totalWeight = sum_list (map bWeight bs)" "wbs = map weighted bs"
    using weighBackends_eq [of 0 bs "[]"] assms by simp_all
  have nn: "nonneg_weights wbs" and tw: "total_weight wbs = totalWeight"
    using assms(1) by (simp_all add: eq nonneg_weights_map comp_def)
  have "{k. 0 \<le> k \<and> k < totalWeight \<and> weightedRandomBackend (\<lambda>_. k) wbs totalWeight = Ok b}
      = {k. 0 \<le> k \<and> k < 0 + total_weight wbs \<and> pickBackend k 0 wbs = Some b}"
    using pickBackend_in_range [of 0 wbs] nn tw assms(2,3) eq(1)
    by (fastforce simp: weightedRandomBackend_def split: option.splits)
  with pickBackend_draws [of 0 wbs b] nn tw assms(2) show ?thesis
    by (simp add: eq filter_map comp_def)
qed

section \<open>Properties\<close>


text \<open>
  In every proxy reachable by such calls, a stored route is filed under its own name, each of
  its hostnames is in the host index and the port-less host of each of its backends is in the
  backend index.
\<close>
theorem proxy_indexes_stored_routes:
  assumes "persistence (exec_ops RegisterRoute UpdateRoute DeleteRoute ps New) n = Some r"
  shows "rName r = n
    \<and> (\<forall>h \<in> set (rHostnames r).
         routesPerHost (exec_ops RegisterRoute UpdateRoute DeleteRoute ps New) h \<noteq> None)
    \<and> (\<forall>b \<in> set (rBackends r).
         backendHostToRoute (exec_ops RegisterRoute UpdateRoute DeleteRoute ps New)
           (extractHost (bHost b)) \<noteq> None)"
  using indexed_exec_ops [OF indexed_New, of ps] assms by (simp add: indexed_def)

text \<open>
  C6. The split is exact: for backends with weights that are not negative and sum to \<open>T\<close>, with
  \<open>T\<close> positive and no overflow, exactly \<open>w\<close> of the \<open>T\<close> values \<open>rand.Intn\<close> can return select a
  backend of weight \<open>w\<close> (equal backends are counted together).
\<close>
theorem weighted_choice_exact:
  assumes "\<forall>b \<in> set bs. 0 \<le> bWeight b" and "sum_list (map bWeight bs) < 2 ^ 63"
    and "0 < sum_list (map bWeight bs)" and "weighBackends bs 0 [] = (totalWeight, wbs)"
  shows "totalWeight = sum_list (map bWeight bs)
    \<and> int (card {k. 0 \<le> k \<and> k < totalWeight
           \<and> weightedRandomBackend (\<lambda>_. k) wbs totalWeight = Ok b})
      = sum_list (map bWeight (filter (\<lambda>c. c = b) bs))"
  using assms by (rule weighted_draws)

text \<open>
  A request for a host that a stored route claims is handed to a backend of that route that has a
  positive weight, and to no other: a backend of weight 0 gets no traffic.
\<close>

lemma rewrite_forwards_to_weighted_backend:
  assumes "routesPerHost p (extractHost (qHost rin)) = Some n" and "persistence p n = Some r"
    and "\<forall>b \<in> set (rBackends r). 0 \<le> bWeight b"
    and "0 < sum_list (map bWeight (rBackends r))" and "sum_list (map bWeight (rBackends r)) < 2 ^ 63"
    and "\<And>n. 0 < n \<Longrightarrow> 0 \<le> oIntn orc n \<and> oIntn orc n < n"
  shows "\<exists>b \<in> set (rBackends r). 0 < bWeight b
    \<and> RewriteV1Alpha1 orc p rin rout
      = seqG (logged (handleBackend (oToken orc) b)) (writes (SetXForwarded rin)) rout"
proof -
  let ?wbs = "map weighted (rBackends r)" and ?t = "sum_list (map bWeight (rBackends r))"
  have weigh: "weighBackends (rBackends r) 0 [] = (?t, ?wbs)"
    using weighBackends_eq [of 0 "rBackends r" "[]"] assms(3,5) by simp
  have tw: "total_weight ?wbs = ?t" by (simp add: comp_def)
  have "\<exists>wb \<in> set ?wbs. 0 < wbWeight wb
      \<and> weightedRandomBackend (oIntn orc) ?wbs (total_weight ?wbs) = Ok (wbBackend wb)"
    using assms(3-6) by (intro weightedRandomBackend_Ok) (simp_all only: tw nonneg_weights_map)
  then obtain b where "b \<in> set (rBackends r)" and "0 < bWeight b"
    and "weightedRandomBackend (oIntn orc) ?wbs ?t = Ok b"
    unfolding tw by auto
  with weigh assms(1,2,4) show ?thesis
    by (intro bexI [of _ b])
      (simp_all add: RewriteV1Alpha1_def gw.get_result forwardTo_def chosen_def)
qed

text \<open>
  For a host that no route claims, or whose route is gone, the 404 is written through
  \<open>Out.Response\<close>, which is nil on a request made by the reverse proxy.
\<close>

lemma rewrite_unknown_host_panics:
  assumes "qResponse rout = None"
    and "case routesPerHost p (extractHost (qHost rin)) of None \<Rightarrow> True | Some n \<Rightarrow> persistence p n = None"
  shows "RewriteV1Alpha1 orc p rin rout = (Panic NilDeref, rout)"
proof -
  have "respondNotFound rout = (Panic NilDeref, rout)"
    using assms(1) by (simp add: respondNotFound_def panic_def)
  with assms(2) show ?thesis
    by (simp add: RewriteV1Alpha1_def gw.get_result split: option.splits)
qed

text \<open>
  The error path always answers: if every stored route is well formed, \<open>ErrorHandler\<close> returns and a
  status has been written, whatever the backends answer.
\<close>

lemma ErrorHandler_answers:
  assumes "proxy_ok p"
  shows "\<exists>y c. ErrorHandler orc p x = (Ok (), y) \<and> wStatus (xWriter y) = Some c"
proof (cases "backendHostToRoute p (qHost (xReq x))")
  case None
  then show ?thesis by (auto simp: ErrorHandler_def toWriter_def writes_def)
next
  case (Some n)
  then show ?thesis using attempts_answers [OF assms] by (simp add: ErrorHandler_def)
qed

text \<open>
  A successful failover attempt went to a backend whose host field differs from the Host of
  the failed request.
\<close>
theorem failover_avoids_failed_host:
  assumes "errorHandler orc p n x = (Ok u, y)"
  shows "uHost (qURL (xReq y)) \<noteq> qHost (xReq x)"
proof (cases "persistence p n")
  case None
  with assms show ?thesis by (simp add: errorHandler_no_route)
next
  case (Some route)
  let ?skip = "\<lambda>b. bHost b = qHost (xReq x)"
  obtain t wbs path where
    scan: "failoverScan ?skip (rBackends route) 0 [] (uPath (qURL (xReq x))) = (t, wbs, path)"
    by (metis prod_cases3)
  from assms obtain b v z resp w where draw: "weightedRandomBackend (oIntn orc) wbs t = Ok b"
    and hb: "onReq (handleBackend (oToken orc) b) v = (Ok (), z)"
    and c: "contact orc z = (Ok resp, w)" and "copyResponse resp w = (Ok u, y)"
    by (auto simp: errorHandler_eq [OF Some scan] Let_def bindG_Ok_iff seqG_Ok_iff chosen_def
        split: if_splits)
  then have "xReq y = xReq w" and "qURL (xReq w) = qURL (xReq z)"
    by (auto simp: copyResponse_def toWriter_def contact_def go_simps
        split: option.splits)
  moreover have "uHost (qURL (xReq z)) = bHost b"
    using hb by (auto simp: onReq_def zoom_Ok_iff dest: handleBackend_Ok(1))
  moreover from weightedRandomBackend_member [OF draw] failoverScan_candidates [OF scan]
  have "bHost b \<noteq> qHost (xReq x)" by auto
  ultimately show ?thesis by simp
qed

text \<open>
  When a backend was chosen whose host field carries a port, the failed request's Host has lost
  that port, so the failover does not recognise the backend: it stays a candidate of its own
  failover, in \<open>errorHandler\<close> and in \<open>ModifyResponse\<close>.
\<close>
theorem failover_keeps_failed_backend_with_port:
  assumes "b \<in> set (rBackends route)" and "CHR '':'' \<in> set (bHost b)"
    and "handleBackend tok b rq = (Ok u, r)"
    and "failoverScan (\<lambda>c. bHost c = qHost r) (rBackends route) 0 [] (uPath (qURL r))
      = (t, wbs, path)"
  shows "\<exists>wb \<in> set wbs. bHost (wbBackend wb) = bHost b"
proof -
  have "bHost b \<noteq> qHost r"
    using assms(2) handleBackend_Ok(2) [OF assms(3)] extractHost_no_colon by metis
  with assms(1) failoverScan_candidates [OF assms(4)] show ?thesis by force
qed

text \<open>
  The backend index knows one route per host. When two routes share a backend host, as all
  models do that use the default remote backend, a failed request of the first route sent to that
  host is retried with the backends of the route registered last.
\<close>
theorem failover_uses_last_route_of_shared_host:
  assumes "a \<in> set (rBackends ra)" and "b \<in> set (rBackends rb)"
    and "extractHost (bHost a) = extractHost (bHost b)"
    and "handleBackend tok a rq = (Ok u, xReq x)"
  shows "ErrorHandler orc (snd (RegisterRoute rb (snd (RegisterRoute ra p)))) x
    = attempts orc (snd (RegisterRoute rb (snd (RegisterRoute ra p)))) (rName rb) 0 4 x"
proof -
  have host: "qHost (xReq x) = extractHost (bHost b)"
    using handleBackend_Ok(2) [OF assms(4)] assms(3) by simp
  have "backendHostToRoute (snd (RegisterRoute rb (snd (RegisterRoute ra p))))
      (qHost (xReq x)) = Some (rName rb)"
    unfolding host using assms(2) by (auto simp: proxy_ops storeHosts_apply extractHost_def)
  then show ?thesis by (simp add: ErrorHandler_def)
qed

text \<open>
  \<open>removePathPrefix\<close> undoes the prefixing of \<open>handleBackend\<close>, for every prefix and path, and
  leaves a path alone that does not have the prefix.
\<close>
theorem remove_path_prefix_roundtrip:
  "removePathPrefix (pfx @ path) pfx = path
   \<and> (\<not> has_prefix path pfx \<longrightarrow> has_prefix path ''/'' \<longrightarrow> removePathPrefix path pfx = path)"
proof -
  have "has_prefix (pfx @ path) ''/'' \<or> \<not> has_prefix pfx ''/''"
    by (cases pfx) (auto simp: has_prefix_def)
  then show ?thesis by (auto simp: removePathPrefix_def)
qed

text \<open>
  A failover strips the prefixes of the backends it may go to, not the prefix of the backend
  that failed. When a remote backend that has a path prefix fails and the route's other backend is
  local and has none, the local backend is asked for the remote path.
\<close>
theorem failover_to_local_keeps_remote_prefix:
  assumes "rBackends route = [local, remote]" and "bHost local \<noteq> bHost remote"
    and "bPathPrefix local = []" and "CHR '':'' \<notin> set (bHost remote)"
    and "handleBackend tok remote rq = (Ok u, r)"
    and "failoverScan (\<lambda>c. bHost c = qHost r) (rBackends route) 0 [] (uPath (qURL r))
      = (t, wbs, path)"
  shows "path = bPathPrefix remote @ uPath (qURL rq) \<and> map wbBackend wbs = [bumped local]"
proof -
  have r: "qHost r = bHost remote"
    using handleBackend_Ok(2) [OF assms(5)] assms(4) by (simp add: extractHost_no_port)
  have "uPath (qURL r) = bPathPrefix remote @ uPath (qURL rq)"
    using assms(5) by (rule handleBackend_Ok(4))
  with failoverScan_candidates [OF assms(6)] r assms(1-3) show ?thesis
    by (simp add: removePathPrefix_def)
qed

text \<open>
  Whenever \<open>ModifyResponse\<close> replaces the response of a failing backend by the answer of another
  one, the body it hands back has already been closed by its own deferred \<open>Close\<close>; in the other
  successful cases the body is the original one.
\<close>
theorem modify_response_body_closed:
  assumes "ModifyResponse orc p u = (Ok v, u')"
  shows "pBodyClosed (vResp u') \<or>
    (pBody (vResp u') = pBody (vResp u) \<and> pBodyClosed (vResp u') = pBodyClosed (vResp u)
     \<and> (pStatusCode (vResp u') = pStatusCode (vResp u) \<or> pStatusCode (vResp u') = 404))"
  using assms
  by (auto simp: ModifyResponse_def setStatus_def contactInstead_def onUpstream_def replaceResponse_def
      go_simps Let_def zoom_eq
      split: if_splits option.splits outcome.splits prod.splits)

section \<open>Witnesses\<close>

text \<open>A route as the controller makes it: a local backend with a port and a remote one.\<close>

definition local_b :: backend where
  "local_b = \<lparr>bHost = ''m-beamlit.ns.svc.cluster.local:80'', bWeight = 70, bAuth = None,
     bPathPrefix = [], bHeadersToAdd = [], bScheme = ''http''\<rparr>"

definition remote_b :: backend where
  "remote_b = \<lparr>bHost = ''run.beamlit.com'', bWeight = 30, bAuth = None,
     bPathPrefix = ''/ws/models/m'', bHeadersToAdd = [(''x-model'', ''m'')], bScheme = ''https''\<rparr>"

definition sample_route :: route where
  "sample_route = \<lparr>rName = ''m'', rHostnames = [''10.0.0.1'', ''m.ns''],
     rBackends = [local_b, remote_b]\<rparr>"

definition other_route :: route where
  "other_route = sample_route\<lparr>rName := ''n'', rHostnames := [''n.ns'']\<rparr>"

definition sample_req :: request where
  "sample_req = \<lparr>qMethod = ''POST'', qURL = \<lparr>uScheme = [], uHost = [], uPath = ''/v1'', uQuery = []\<rparr>,
     qHost = ''m.ns:8080'', qHeader = Map.empty, qBody = [], qBodyClosed = False,
     qProto = ''HTTP/1.1'',
     qClientIP = Some ''10.0.0.9'', qTLS = False, qResponse = None\<rparr>"

definition sample_resp :: "int \<Rightarrow> response" where
  "sample_resp c = \<lparr>pStatus = ''s'', pStatusCode = c, pHeader = Map.empty, pBody = ''ok'',
     pBodyErr = None, pBodyClosed = False\<rparr>"

definition sample_env :: "int \<Rightarrow> env_answers" where
  "sample_env k = \<lparr>oIntn = (\<lambda>n. k mod n), oToken = (\<lambda>_. Inr ''t''), oNewRequest = (\<lambda>_. None),
     oDo = (\<lambda>_. Inr (sample_resp 200))\<rparr>"

definition sample_x :: exchange where
  "sample_x = \<lparr>xReq = retarget remote_b sample_req,
     xWriter = \<lparr>wHeader = Map.empty, wStatus = None, wBody = []\<rparr>\<rparr>"

lemmas sample_defs = local_b_def remote_b_def sample_route_def other_route_def sample_req_def
  sample_resp_def sample_env_def sample_x_def

lemma sample_handled: "handleBackend tok remote_b sample_req = (Ok (), retarget remote_b sample_req)"
  by (simp add: handleBackend_def authorize_def writes_def remote_b_def)

lemma proxy_indexes_stored_routes_witness:
  "rName sample_route = ''m''
    \<and> routesPerHost (exec_ops RegisterRoute UpdateRoute DeleteRoute [RegisterOp sample_route] New)
        ''m.ns'' \<noteq> None
    \<and> backendHostToRoute
        (exec_ops RegisterRoute UpdateRoute DeleteRoute [RegisterOp sample_route] New)
        (extractHost (bHost remote_b)) \<noteq> None"
proof -
  have "persistence (exec_ops RegisterRoute UpdateRoute DeleteRoute [RegisterOp sample_route] New)
      ''m'' = Some sample_route"
    by (simp add: gw.stored_register New_def NewInMemV1Alpha1_def) (simp add: sample_route_def)
  from proxy_indexes_stored_routes [OF this] show ?thesis by (simp add: sample_route_def)
qed

lemma weighted_choice_exact_witness:
  "(100::int) = sum_list (map bWeight [local_b, remote_b])
    \<and> int (card {k. 0 \<le> k \<and> k < (100::int)
        \<and> weightedRandomBackend (\<lambda>_. k) [weighted local_b, weighted remote_b] 100 = Ok remote_b})
      = sum_list (map bWeight (filter (\<lambda>c. c = remote_b) [local_b, remote_b]))"
  by (rule weighted_choice_exact) (simp_all add: weighted_def local_b_def remote_b_def)

lemma route_ok_sample: "route_ok sample_route"
  by (simp add: route_ok_def sample_defs auth_ok_def bumped_def)

lemma proxy_ok_sample: "proxy_ok (snd (RegisterRoute sample_route New))"
  using route_ok_sample
  by (simp add: proxy_ok_def gw.stored_register New_def NewInMemV1Alpha1_def)

lemma sample_failover:
  "errorHandler (sample_env 0) (snd (RegisterRoute sample_route New)) ''m'' sample_x
   = (Ok (), \<lparr>xReq = closeBody (retarget (bumped local_b) (retarget remote_b sample_req)),
       xWriter = \<lparr>wHeader = Map.empty, wStatus = Some 200, wBody = ''ok''\<rparr>\<rparr>)"
proof -
  let ?p = "snd (RegisterRoute sample_route New)"
  have stored: "persistence ?p ''m'' = Some sample_route"
    by (simp add: gw.stored_register sample_route_def)
  have scan: "failoverScan (\<lambda>b. bHost b = qHost (xReq sample_x)) (rBackends sample_route) 0 []
      (uPath (qURL (xReq sample_x))) = (70, [weighted local_b], ''/ws/models/m/v1'')"
    by (simp add: sample_defs retarget_def extractHost_eq weighted_def removePathPrefix_def Let_def)
  show ?thesis
    by (subst errorHandler_eq [OF stored scan]) (simp add: Let_def chosen_def weightedRandomBackend_def
        pickBackend.simps(2) weighted_def onReq_def handleBackend_def authorize_def zoom_def
        seqG_def bindG_def writes_def ret_def contact_def reads_def copyResponse_def toWriter_def
        WriteHeader_def WriteBody_def closeBody_def sample_defs retarget_def setPath_def bumped_def)
qed

lemma failover_avoids_failed_host_witness:
  "uHost (qURL (retarget (bumped local_b) (retarget remote_b sample_req))) \<noteq> qHost (xReq sample_x)"
  using failover_avoids_failed_host [OF sample_failover] by simp

lemma failover_keeps_failed_backend_witness:
  "\<exists>wb \<in> set [weighted local_b, weighted remote_b]. bHost (wbBackend wb) = bHost local_b"
proof (rule failover_keeps_failed_backend_with_port)
  show "local_b \<in> set (rBackends sample_route)" by (simp add: sample_route_def)
  show "CHR '':'' \<in> set (bHost local_b)" by (simp add: local_b_def)
  show "handleBackend (\<lambda>_. Inr []) local_b sample_req = (Ok (), retarget local_b sample_req)"
    by (simp add: handleBackend_def authorize_def writes_def local_b_def)
  show "failoverScan (\<lambda>c. bHost c = qHost (retarget local_b sample_req)) (rBackends sample_route) 0 []
      (uPath (qURL (retarget local_b sample_req))) = (100, [weighted local_b, weighted remote_b], ''/v1'')"
    by (simp add: sample_defs retarget_def extractHost_eq weighted_def removePathPrefix_def
        has_prefix_def Let_def)
qed

lemma failover_uses_last_route_witness:
  "ErrorHandler (\<lambda>_. sample_env 0)
     (snd (RegisterRoute other_route (snd (RegisterRoute sample_route New)))) sample_x
   = attempts (\<lambda>_. sample_env 0)
     (snd (RegisterRoute other_route (snd (RegisterRoute sample_route New)))) (rName other_route) 0 4
     sample_x"
  by (rule failover_uses_last_route_of_shared_host [where a = remote_b and b = remote_b
        and tok = "\<lambda>_. Inr []" and rq = sample_req and u = "()"])
    (simp_all add: sample_route_def other_route_def sample_x_def sample_handled)

lemma remove_path_prefix_roundtrip_witness:
  "removePathPrefix (''/ws'' @ ''/v1'') ''/ws'' = ''/v1'' \<and> removePathPrefix ''/v1'' ''/ws'' = ''/v1''"
  using remove_path_prefix_roundtrip [of "''/ws''" "''/v1''"] by (simp add: has_prefix_def)

lemma failover_to_local_keeps_remote_prefix_witness:
  "''/ws/models/m/v1'' = bPathPrefix remote_b @ uPath (qURL sample_req)
   \<and> map wbBackend [weighted local_b] = [bumped local_b]"
proof (rule failover_to_local_keeps_remote_prefix)
  show "rBackends sample_route = [local_b, remote_b]" by (simp add: sample_route_def)
  show "handleBackend (\<lambda>_. Inr []) remote_b sample_req = (Ok (), retarget remote_b sample_req)"
    by (rule sample_handled)
  show "failoverScan (\<lambda>c. bHost c = qHost (retarget remote_b sample_req)) (rBackends sample_route) 0 []
      (uPath (qURL (retarget remote_b sample_req))) = (70, [weighted local_b], ''/ws/models/m/v1'')"
    by (simp add: sample_defs retarget_def extractHost_eq weighted_def removePathPrefix_def Let_def)
qed (simp_all add: local_b_def remote_b_def)

definition sample_u :: upstream where
  "sample_u = \<lparr>vReq = retarget remote_b sample_req, vResp = sample_resp 500\<rparr>"

lemma sample_modify:
  "ModifyResponse (sample_env 0) (snd (RegisterRoute sample_route New)) sample_u
   = (Ok (), \<lparr>vReq = closeBody (retarget (bumped local_b) (retarget remote_b sample_req)),
       vResp = (sample_resp 200)\<lparr>pBodyClosed := True\<rparr>\<rparr>)"
  by (simp add: ModifyResponse_def sample_u_def sample_defs gw.get_result proxy_ops storeHosts_apply
      extractHost_eq retarget_def Let_def removePathPrefix_def chosen_def weightedRandomBackend_def
      pickBackend.simps(2) handleBackend_def authorize_def bindG_def writes_def ret_def reads_def
      contactInstead_def onUpstream_def zoom_def replaceResponse_def setPath_def bumped_def closeBody_def)

lemma modify_response_body_closed_witness:
  "pBodyClosed ((sample_resp 200)\<lparr>pBodyClosed := True\<rparr>)
   \<and> pBody (vResp sample_u) = pBody (sample_resp 200)"
  using modify_response_body_closed [OF sample_modify] by (simp add: sample_u_def sample_resp_def)

end
