(* ===== verification/Gateway_API_Facts.thy ===== *)
theory Gateway_API_Facts
  imports Gateway_API Gateway_Facts
begin

text \<open>
  What the management API guarantees: a route survives its encoding, and a call of the client
  acts on the proxy as the direct call would.
\<close>

section \<open>Encoding and decoding\<close>

text \<open>The routes that JSON carries: weights are 64-bit integers, header names are not repeated.\<close>

definition json_backend :: "backend \<Rightarrow> bool" where
  "json_backend b \<longleftrightarrow> - (2 ^ 63) \<le> bWeight b \<and> bWeight b < 2 ^ 63 \<and> distinct (map fst (bHeadersToAdd b))"

definition json_route :: "route \<Rightarrow> bool" where
  "json_route r \<longleftrightarrow> list_all json_backend (rBackends r)"

lemma lookup_oauth:
  "lookupKey ''client_id'' [(''client_id'', a), (''client_secret'', b), (''token_url'', c)] = a"
  "lookupKey ''client_secret'' [(''client_id'', a), (''client_secret'', b), (''token_url'', c)] = b"
  "lookupKey ''token_url'' [(''client_id'', a), (''client_secret'', b), (''token_url'', c)] = c"
  by (simp_all add: lookupKey_def to_lower_def Let_def)

lemma lookup_auth:
  "lookupKey ''type'' [(''type'', a), (''oauth'', b)] = a"
  "lookupKey ''oauth'' [(''type'', a), (''oauth'', b)] = b"
  by (simp_all add: lookupKey_def to_lower_def Let_def)

lemma lookup_backend:
  fixes a b c d e f
  defines "doc \<equiv> [(''host'', a), (''weight'', b), (''auth'', c), (''path_prefix'', d), (''headers'', e),
    (''scheme'', f)]"
  shows "lookupKey ''host'' doc = a" "lookupKey ''weight'' doc = b" "lookupKey ''auth'' doc = c"
    "lookupKey ''path_prefix'' doc = d" "lookupKey ''headers'' doc = e" "lookupKey ''scheme'' doc = f"
  by (simp_all add: doc_def lookupKey_def to_lower_def Let_def)

lemma lookup_route:
  "lookupKey ''name'' [(''name'', a), (''hostnames'', b), (''backends'', c)] = a"
  "lookupKey ''hostnames'' [(''name'', a), (''hostnames'', b), (''backends'', c)] = b"
  "lookupKey ''backends'' [(''name'', a), (''hostnames'', b), (''backends'', c)] = c"
  by (simp_all add: lookupKey_def to_lower_def Let_def)

lemma mapR_map: "(\<And>x. x \<in> set xs \<Longrightarrow> f (g x) = Inr (h x)) \<Longrightarrow> mapR f (map g xs) = Inr (map h xs)"
  by (induction xs) auto

lemma putAll_distinct:
  "distinct (map fst (m @ kvs)) \<Longrightarrow> putAll kvs m = m @ kvs"
proof (induction kvs arbitrary: m)
  case Nil
  then show ?case by simp
next
  case (Cons kv kvs)
  obtain k v where kv: "kv = (k, v)" by (cases kv)
  have "filter (\<lambda>(k', _). k' \<noteq> k) m = m"
    using Cons.prems by (force simp: kv filter_id_conv)
  with Cons.IH [of "m @ [kv]"] Cons.prems show ?case by (simp add: kv)
qed

lemma decode_headers:
  "distinct (map fst h) \<Longrightarrow> decodeStringMap (JObj (map (\<lambda>(k, v). (k, JStr v)) h)) = Inr h"
  by (simp add: mapR_map [where h = "\<lambda>x. x"] case_prod_beta putAll_distinct)

lemma encodePtr_simps [simp]: "encodePtr enc None = JNull" "encodePtr enc (Some x) = enc x"
  by (simp_all add: encodePtr_def)

lemma decode_oauth: "decodePtr decodeOAuth (encodePtr encodeOAuth p) = Inr p"
  by (cases p) (simp_all add: encodeOAuth_def decodeOAuth_def lookup_oauth)

lemma decode_auth: "decodePtr decodeAuth (encodePtr encodeAuth p) = Inr p"
  by (cases p) (simp_all add: encodeAuth_def decodeAuth_def lookup_auth decode_oauth)

lemma decode_backend: "json_backend b \<Longrightarrow> decodeBackend (encodeBackend b) = Inr b"
  by (simp add: encodeBackend_def decodeBackend_def lookup_backend decode_auth decode_headers
      json_backend_def del: decodeStringMap.simps)

lemma decode_route: "json_route r \<Longrightarrow> decodeRoute (encodeRoute r) = Inr r"
  by (simp add: encodeRoute_def decodeRoute_def lookup_route mapR_map [where h = "\<lambda>x. x"]
      decode_backend json_route_def list_all_iff)

section \<open>Paths\<close>

text \<open>Names as Kubernetes allows them for objects: no character that a URL treats specially.\<close>

definition plain_name :: "string \<Rightarrow> bool" where
  "plain_name n \<longleftrightarrow> n \<noteq> [] \<and> n \<noteq> ''.'' \<and> n \<noteq> ''..''
     \<and> list_all (\<lambda>c. c \<in> set ''abcdefghijklmnopqrstuvwxyz0123456789-.'') n"

lemma plain_char:
  assumes "c \<in> set ''abcdefghijklmnopqrstuvwxyz0123456789-.''"
  shows "c \<noteq> CHR ''/'' \<and> c \<noteq> CHR ''?'' \<and> c \<noteq> CHR ''#'' \<and> c \<noteq> CHR ''%''
    \<and> \<not> (of_char c :: nat) < 32 \<and> of_char c \<noteq> (127 :: nat)"
proof -
  have "list_all (\<lambda>c. c \<noteq> CHR ''/'' \<and> c \<noteq> CHR ''?'' \<and> c \<noteq> CHR ''#'' \<and> c \<noteq> CHR ''%''
      \<and> \<not> (of_char c :: nat) < 32 \<and> of_char c \<noteq> (127 :: nat))
    ''abcdefghijklmnopqrstuvwxyz0123456789-.''" by simp
  with assms show ?thesis unfolding list_all_iff by blast
qed

lemma unescape_plain: "CHR ''%'' \<notin> set s \<Longrightarrow> unescape s = Some s"
  by (induction s rule: unescape.induct) auto

lemma split_on_plain: "c \<notin> set s \<Longrightarrow> split_on c s = [s]"
  by (induction s) auto

lemma split_on_append: "c \<notin> set s \<Longrightarrow> split_on c (s @ c # t) = s # split_on c t"
  by (induction s) auto

lemma urlPath_plain:
  assumes "\<forall>c \<in> set s. c \<noteq> CHR ''?'' \<and> c \<noteq> CHR ''#'' \<and> c \<noteq> CHR ''%''
    \<and> \<not> (of_char c :: nat) < 32 \<and> of_char c \<noteq> (127 :: nat)"
  shows "urlPath s = Inr s"
proof -
  have "takeWhile (\<lambda>c. c \<noteq> CHR ''?'' \<and> c \<noteq> CHR ''#'') s = s"
    using assms unfolding takeWhile_eq_all_conv by blast
  moreover have "unescape s = Some s" using assms by (intro unescape_plain) blast
  moreover have "\<not> list_ex (\<lambda>c. (of_char c :: nat) < 32 \<or> of_char c = (127 :: nat)) s"
    using assms unfolding list_ex_iff by blast
  ultimately show ?thesis unfolding urlPath_def by (simp only: if_False option.case)
qed

lemma route_path:
  assumes "plain_name n"
  defines "path \<equiv> ''/'' @ v1Alpha1RoutePath @ ''/'' @ n"
  shows "urlPath path = Inr path" and "cleanSegments path"
    and "path = (APIV1Alpha1Routes @ ''/'') @ n"
proof -
  have ok: "\<forall>c \<in> set n. c \<noteq> CHR ''/'' \<and> c \<noteq> CHR ''?'' \<and> c \<noteq> CHR ''#'' \<and> c \<noteq> CHR ''%''
      \<and> \<not> (of_char c :: nat) < 32 \<and> of_char c \<noteq> (127 :: nat)"
    using assms(1) plain_char unfolding plain_name_def list_all_iff by blast
  then show "urlPath path = Inr path"
    unfolding path_def v1Alpha1RoutePath_def by (intro urlPath_plain) auto
  have "split_on CHR ''/'' path = [[], ''v1alpha1'', ''routes'', n]"
  proof -
    have "path = [] @ CHR ''/'' # ''v1alpha1'' @ CHR ''/'' # ''routes'' @ CHR ''/'' # n"
      by (simp add: path_def v1Alpha1RoutePath_def)
    moreover have "split_on CHR ''/'' n = [n]" using ok by (intro split_on_plain) blast
    ultimately show ?thesis by (simp only: split_on_append) (simp add: split_on_append)
  qed
  with assms(1) show "cleanSegments path" by (simp add: cleanSegments_def plain_name_def)
  show "path = (APIV1Alpha1Routes @ ''/'') @ n"
    by (simp add: path_def v1Alpha1RoutePath_def APIV1Alpha1Routes_def)
qed

lemma routes_path:
  "urlPath (''/'' @ v1Alpha1RoutePath) = Inr (''/'' @ v1Alpha1RoutePath)"
  "cleanSegments (''/'' @ v1Alpha1RoutePath)"
  "\<not> has_prefix (''/'' @ v1Alpha1RoutePath) (APIV1Alpha1Routes @ ''/'')"
  "''/'' @ v1Alpha1RoutePath = APIV1Alpha1Routes"
  by (simp_all add: v1Alpha1RoutePath_def urlPath_def cleanSegments_def has_prefix_def
      APIV1Alpha1Routes_def)

section \<open>Calls of the client\<close>

lemma serve_route:
  assumes "plain_name n" and "arPath req = ''/'' @ v1Alpha1RoutePath @ ''/'' @ n"
  shows "serveAPI y req = handleRoute y req"
    and "trim_prefix (arPath req) (APIV1Alpha1Routes @ ''/'') = n"
proof -
  have path: "arPath req = (APIV1Alpha1Routes @ ''/'') @ n" and "cleanSegments (arPath req)"
    using route_path(2,3) [OF assms(1)] assms(2) by simp_all
  then show "serveAPI y req = handleRoute y req"
    by (simp only: serveAPI_def has_prefix_append not_True_eq_False if_False if_True)
  show "trim_prefix (arPath req) (APIV1Alpha1Routes @ ''/'') = n"
    by (simp only: path trim_prefix_append)
qed

lemma orStatus_eq:
  "m p = (Ok r, p') \<Longrightarrow> orStatus code m send p = (Ok (send r), p')"
  "m p = (Err e, p') \<Longrightarrow> orStatus code m send p = (Ok (httpError (errorText e) code), p')"
  by (simp_all add: orStatus_def)

lemma serve_routes:
  assumes "arPath req = ''/'' @ v1Alpha1RoutePath"
  shows "serveAPI y req = handleRoutes y req"
  using routes_path assms by (simp add: serveAPI_def)

lemma client_call:
  assumes "urlPath u = Inr path" and "send \<lparr>arMethod = verb, arPath = path, arAccept = accept,
      arContentType = ct, arBody = b\<rparr> s = (Ok resp, t)"
  shows "clientCall send verb u accept ct b s = answer (decodeBody (asBody resp)) t"
  using assms by (simp add: clientCall_def)

definition badJSON :: go_error where
  "badJSON = Errorf ''invalid character looking for beginning of value''"

lemma error_body: "decodeBody (asBody (httpError msg code)) = Inl badJSON"
  by (simp add: httpError_def badJSON_def)

lemma json_body: "json_route r \<Longrightarrow> decodeBody (asBody (sendJSON r)) = Inr r"
  by (simp add: sendJSON_def decode_route)

lemma client_register:
  assumes "json_route r"
  shows "Client_RegisterRoute (serveAPI y) r p = RegisterRoute r p"
proof -
  obtain p' where reg: "RegisterRoute r p = (Ok r, p')"
    using gw.register_result by (metis prod.collapse)
  have "serveAPI y \<lparr>arMethod = ''POST'', arPath = ''/'' @ v1Alpha1RoutePath, arAccept = [],
      arContentType = ''application/json'', arBody = JsonDoc (encodeRoute r)\<rparr> p
    = (Ok (sendJSON r), p')"
    using reg by (subst serve_routes)
      (simp_all add: handleRoutes_def storeBody_def ContentTypeJSON_def decode_route assms orStatus_eq)
  from client_call [where send = "serveAPI y", OF routes_path(1) this] reg show ?thesis
    by (simp add: Client_RegisterRoute_def json_body assms ret_def)
qed

lemma client_update:
  assumes "json_route r" and "plain_name (rName r)"
  shows "Client_UpdateRoute (serveAPI y) r p = UpdateRoute r p"
proof -
  obtain p' where upd: "UpdateRoute r p = (Ok r, p')"
    using gw.update_result by (metis prod.collapse)
  have "serveAPI y \<lparr>arMethod = ''PUT'', arPath = ''/'' @ v1Alpha1RoutePath @ ''/'' @ rName r,
      arAccept = ''application/json'', arContentType = ''application/json'',
      arBody = JsonDoc (encodeRoute r)\<rparr> p = (Ok (sendJSON r), p')"
    using upd by (subst serve_route(1) [OF assms(2)])
      (simp_all add: handleRoute_def storeBody_def ContentTypeJSON_def decode_route assms(1)
        orStatus_eq Let_def)
  from client_call [where send = "serveAPI y", OF route_path(1) [OF assms(2)] this] upd show ?thesis
    by (simp add: Client_UpdateRoute_def json_body assms(1) ret_def)
qed

lemma client_by_name:
  assumes "plain_name n" and "verb = ''GET'' \<and> m = GetRoute \<or> verb = ''DELETE'' \<and> m = DeleteRoute"
  shows "fst (m n p) = Ok r \<Longrightarrow> json_route r \<Longrightarrow>
      clientCall (serveAPI y) verb (''/'' @ v1Alpha1RoutePath @ ''/'' @ n) ''application/json'' [] (Text []) p
      = m n p"
    and "fst (m n p) = Err e \<Longrightarrow>
      clientCall (serveAPI y) verb (''/'' @ v1Alpha1RoutePath @ ''/'' @ n) ''application/json'' [] (Text []) p
      = (Err badJSON, snd (m n p))"
proof -
  let ?req = "\<lparr>arMethod = verb, arPath = ''/'' @ v1Alpha1RoutePath @ ''/'' @ n,
    arAccept = ''application/json'', arContentType = [], arBody = Text []\<rparr>"
  let ?send = "sendAccepted y ''application/json''"
  have send: "?send r = sendJSON r" for r by (simp add: sendAccepted_def ContentTypeJSON_def)
  have serve: "serveAPI y ?req p = orStatus (if verb = ''GET'' then 404 else 500) (m n) ?send p"
  proof -
    have "handleRoute y ?req = orStatus (if verb = ''GET'' then 404 else 500) (m n) ?send"
      using assms(2) serve_route(2) [OF assms(1), of ?req] by (auto simp: handleRoute_def Let_def)
    then show ?thesis using serve_route(1) [OF assms(1), of ?req y] by simp
  qed
  {
    assume ok: "fst (m n p) = Ok r" and json: "json_route r"
    obtain p' where mn: "m n p = (Ok r, p')" using ok by (metis prod.collapse)
    with serve send have "serveAPI y ?req p = (Ok (sendJSON r), p')" by (simp add: orStatus_eq)
    from client_call [where send = "serveAPI y", OF route_path(1) [OF assms(1)] this] mn json
    show "clientCall (serveAPI y) verb (''/'' @ v1Alpha1RoutePath @ ''/'' @ n) ''application/json'' []
        (Text []) p = m n p" by (simp add: json_body ret_def)
  next
    assume err: "fst (m n p) = Err e"
    obtain p' where mn: "m n p = (Err e, p')" using err by (metis prod.collapse)
    with serve have "serveAPI y ?req p
        = (Ok (httpError (errorText e) (if verb = ''GET'' then 404 else 500)), p')"
      by (simp add: orStatus_eq)
    from client_call [where send = "serveAPI y", OF route_path(1) [OF assms(1)] this] mn
    show "clientCall (serveAPI y) verb (''/'' @ v1Alpha1RoutePath @ ''/'' @ n) ''application/json'' []
        (Text []) p = (Err badJSON, snd (m n p))" by (simp only: error_body answer_simps raise_def snd_conv)
  }
qed

section \<open>Properties\<close>

text \<open>
  C29. A route survives the API's encoding: for weights in the range of a 64-bit integer and
  header names that are not repeated, decoding the JSON document of a route gives the route back.
\<close>
theorem json_route_roundtrip:
  assumes "\<forall>b \<in> set (rBackends r).
    - (2 ^ 63) \<le> bWeight b \<and> bWeight b < 2 ^ 63 \<and> distinct (map fst (bHeadersToAdd b))"
  shows "decodeRoute (encodeRoute r) = Inr r"
  using assms by (intro decode_route) (simp add: json_route_def json_backend_def list_all_iff)

theorem json_route_roundtrip_witness: "decodeRoute (encodeRoute sample_route) = Inr sample_route"
  by (rule json_route_roundtrip) (simp add: sample_defs)

text \<open>
  C17. A call of the client acts as the direct call on the proxy. With the server behind the client,
  for routes that JSON carries and names without characters special to URLs, registering and
  updating give the same result and the same proxy; getting and deleting a stored route too. For a
  route that is not stored both return an error, but the client's is the failure to decode the
  error text, since it does not look at the status.
\<close>
theorem client_calls_act_on_proxy:
  assumes "json_route r" and "plain_name (rName r)"
    and "plain_name n" and "\<forall>r'. persistence p n = Some r' \<longrightarrow> json_route r'"
  shows "Client_RegisterRoute (serveAPI y) r p = RegisterRoute r p
    \<and> Client_UpdateRoute (serveAPI y) r p = UpdateRoute r p
    \<and> Client_GetRoute (serveAPI y) n p
        = (case persistence p n of None \<Rightarrow> (Err badJSON, p) | Some r' \<Rightarrow> GetRoute n p)
    \<and> Client_DeleteRoute (serveAPI y) n p
        = (case persistence p n of None \<Rightarrow> (Err badJSON, p) | Some r' \<Rightarrow> DeleteRoute n p)"
proof (intro conjI)
  show "Client_RegisterRoute (serveAPI y) r p = RegisterRoute r p"
    using assms(1) by (rule client_register)
  show "Client_UpdateRoute (serveAPI y) r p = UpdateRoute r p"
    using assms(1,2) by (rule client_update)
  show "Client_GetRoute (serveAPI y) n p
      = (case persistence p n of None \<Rightarrow> (Err badJSON, p) | Some r' \<Rightarrow> GetRoute n p)"
    using client_by_name [OF assms(3), of "''GET''" GetRoute p] assms(4)
    by (simp add: Client_GetRoute_def gw.get_result gw.stored_get split: option.splits)
  have "persistence p n = None \<Longrightarrow> snd (DeleteRoute n p) = p"
    by (simp add: DeleteRoute_def onPersistence_def zoom_eq InMem_DeleteRoute_def)
  then show "Client_DeleteRoute (serveAPI y) n p
      = (case persistence p n of None \<Rightarrow> (Err badJSON, p) | Some r' \<Rightarrow> DeleteRoute n p)"
    using client_by_name [OF assms(3), of "''DELETE''" DeleteRoute p] assms(4)
    by (simp add: Client_DeleteRoute_def gw.delete_result split: option.splits)
qed

lemma sample_json: "json_route sample_route"
  by (simp add: json_route_def json_backend_def sample_defs)

theorem client_calls_act_on_proxy_witness:
  "Client_RegisterRoute (serveAPI \<lparr>yEncode = (\<lambda>_. Inr []), yDecode = (\<lambda>_. Inl NotFoundErr)\<rparr>)
      sample_route New = RegisterRoute sample_route New
   \<and> Client_GetRoute (serveAPI \<lparr>yEncode = (\<lambda>_. Inr []), yDecode = (\<lambda>_. Inl NotFoundErr)\<rparr>)
      ''m'' New = (Err badJSON, New)"
  using client_calls_act_on_proxy [OF sample_json, of "''m''" New
      "\<lparr>yEncode = (\<lambda>_. Inr []), yDecode = (\<lambda>_. Inl NotFoundErr)\<rparr>"]
  by (simp add: plain_name_def sample_route_def New_def NewInMemV1Alpha1_def)

end
