(* ===== verification/Gateway_Server_Facts.thy ===== *)
theory Gateway_Server_Facts
  imports Gateway_Server Gateway_Facts Gateway_API_Facts
begin

text \<open>
  What a client of the gateway sees: the answer of the backend that was drawn when it is good, a status
  or an aborted connection otherwise; what the failover paths lose; and the types of the routes that
  a running gateway holds.
\<close>

section \<open>The request that is sent\<close>

lemma outgoing_sel [simp]: "qHost (outgoing c r) = qHost r" "qBody (outgoing c r) = qBody r"
    "qBodyClosed (outgoing c r) = qBodyClosed r" "qResponse (outgoing c r) = qResponse r"
    "uPath (qURL (outgoing c r)) = uPath (qURL r)" "uScheme (qURL (outgoing c r)) = uScheme (qURL r)"
  by (simp_all add: outgoing_def Let_def)

lemma defaultUserAgent_sel [simp]: "qHost (defaultUserAgent r) = qHost r" "qBody (defaultUserAgent r) = qBody r"
    "qBodyClosed (defaultUserAgent r) = qBodyClosed r" "qURL (defaultUserAgent r) = qURL r"
  by (simp_all add: defaultUserAgent_def)

lemma SetXForwarded_sel [simp]: "qHost (SetXForwarded a r) = qHost r" "qBody (SetXForwarded a r) = qBody r"
    "qBodyClosed (SetXForwarded a r) = qBodyClosed r" "qURL (SetXForwarded a r) = qURL r"
  by (simp_all add: SetXForwarded_def)

lemma handleBackend_keeps_body:
  "qBody (snd (handleBackend tok b r)) = qBody r \<and> qBodyClosed (snd (handleBackend tok b r)) = qBodyClosed r"
  by (simp add: handleBackend_def authorize_def retarget_def answer_def deref_def go_simps bindG_def
      split: option.splits sum.splits)

lemma sent_on:
  assumes "is_print (upgradeType (qHeader rin))"
    and "RewriteV1Alpha1 (seRewrite env) p rin (outgoing (seCleanQuery env) rin) = (Ok (), q)"
  shows "ServeHTTP env p rin w =
    (let x = \<lparr>xReq = closeBody (defaultUserAgent q), xWriter = w\<rparr>;
         (res, y) = (case seRoundTrip env (defaultUserAgent q) of
                       Inl e \<Rightarrow> ErrorHandler (seRetry env) p x
                     | Inr resp \<Rightarrow> serveResponse env (New_proxy env p) resp x)
     in (res, xWriter y))"
  using assms
  by (simp add: ServeHTTP_def ReverseProxy_ServeHTTP_def serveOutgoing_def New_proxy_def onReq_def
      zoom_def RoundTrip_def seqG_def bindG_def reads_def writes_def answer_def raise_def ret_def Let_def
      split: sum.splits)

text \<open>
  The proxy has the route \<open>r\<close> for the host of the request, and its backends are indexed under it. That
  is so right after the route was registered or updated.
\<close>

definition routed :: "proxy \<Rightarrow> request \<Rightarrow> route \<Rightarrow> bool" where
  "routed p rin r \<longleftrightarrow> routesPerHost p (extractHost (qHost rin)) = Some (rName r)
     \<and> persistence p (rName r) = Some r
     \<and> (\<forall>b \<in> set (rBackends r). backendHostToRoute p (extractHost (bHost b)) = Some (rName r))"

lemma routed_registered: "extractHost (qHost rin) \<in> set (rHostnames r) \<Longrightarrow> routed (snd (RegisterRoute r p)) rin r"
  by (simp add: routed_def proxy_ops storeHosts_apply extractHost_def)

text \<open>What the proxy asks of its environment and gets while it serves a request: draws in range, and tokens.\<close>

definition answering :: "env_answers \<Rightarrow> bool" where
  "answering orc \<longleftrightarrow> (\<forall>n. 0 < n \<longrightarrow> 0 \<le> oIntn orc n \<and> oIntn orc n < n)
     \<and> (\<forall>c. \<exists>t. oToken orc c = Inr t)"

lemma route_ok_weights:
  assumes "route_ok r"
  shows "\<forall>b \<in> set (rBackends r). 0 \<le> bWeight b" and "sum_list (map bWeight (rBackends r)) < 2 ^ 63"
    and "0 \<le> sum_list (map bWeight (rBackends r))"
proof -
  have "sum_list (map bWeight (rBackends r)) \<le> sum_list (map (\<lambda>b. bWeight (bumped b)) (rBackends r))"
    by (rule sum_list_mono) (simp add: bumped_def)
  then show "sum_list (map bWeight (rBackends r)) < 2 ^ 63" using assms by (simp add: route_ok_def)
  show nonneg: "\<forall>b \<in> set (rBackends r). 0 \<le> bWeight b" using assms by (simp add: route_ok_def)
  then show "0 \<le> sum_list (map bWeight (rBackends r))" by (intro sum_list_nonneg_of) simp
qed

text \<open>The request that leaves for a host that is routed goes to a backend drawn by weight, with its body.\<close>

definition sent_to :: "backend \<Rightarrow> request \<Rightarrow> request \<Rightarrow> bool" where
  "sent_to b rin q \<longleftrightarrow> uScheme (qURL q) = bScheme b \<and> uHost (qURL q) = bHost b
     \<and> qHost q = extractHost (bHost b) \<and> uPath (qURL q) = bPathPrefix b @ uPath (qURL rin)
     \<and> qBody q = qBody rin \<and> qBodyClosed q = qBodyClosed rin"

lemma rewrite_to_drawn:
  assumes "routed p rin r" and "route_ok r" and "0 < sum_list (map bWeight (rBackends r))"
    and "answering orc"
  shows "\<exists>b q. b \<in> set (rBackends r) \<and> 0 < bWeight b \<and> sent_to b rin q
    \<and> RewriteV1Alpha1 orc p rin (outgoing clean rin) = (Ok (), q)"
proof -
  let ?out = "outgoing clean rin"
  obtain b where b: "b \<in> set (rBackends r)" "0 < bWeight b"
    and rw: "RewriteV1Alpha1 orc p rin ?out
      = seqG (logged (handleBackend (oToken orc) b)) (writes (SetXForwarded rin)) ?out"
    using rewrite_forwards_to_weighted_backend [of p rin "rName r" r orc ?out] route_ok_weights [OF assms(2)]
      assms(1,3,4)
    by (auto simp: routed_def answering_def)
  from assms(2) b have "auth_ok b" by (simp add: route_ok_def)
  then obtain q where q: "handleBackend (oToken orc) b ?out = (Ok (), q)"
    using handleBackend_succeeds [of b "oToken orc" ?out] assms(4) by (auto simp: answering_def)
  then have "logged (handleBackend (oToken orc) b) ?out = (Ok (), q)" by (simp add: logged_def)
  with rw have "RewriteV1Alpha1 orc p rin ?out = (Ok (), SetXForwarded rin q)"
    by (simp add: seqG_def writes_def)
  moreover have "sent_to b rin (SetXForwarded rin q)"
    using handleBackend_Ok [OF q] handleBackend_keeps_body [of "oToken orc" b ?out] q
    by (simp add: sent_to_def)
  ultimately show ?thesis using b by blast
qed

section \<open>The answer\<close>

lemma ModifyResponse_good: "pStatusCode resp < 399 \<Longrightarrow> ModifyResponse orc p \<lparr>vReq = q, vResp = resp\<rparr> = (Ok (), \<lparr>vReq = q, vResp = resp\<rparr>)"
  by (simp add: ModifyResponse_def ret_def)

lemma copyOut_eq:
  "copyOut resp x = (if (pBodyClosed resp \<and> pBody resp \<noteq> []) \<or> pBodyErr resp \<noteq> None then Panic ErrAbortHandler else Ok (),
     x\<lparr>xWriter := (let w = WriteHeader (pStatusCode resp)
          ((xWriter x)\<lparr>wHeader := copyHeader (wHeader (xWriter x)) (pHeader resp)\<rparr>)
        in if pBodyClosed resp \<and> pBody resp \<noteq> [] then w else WriteBody (pBody resp) w)\<rparr>)"
  by (simp add: copyOut_def toWriter_def go_simps Let_def)

lemma drawn_backend_answers:
  assumes "routed p rin r" and "route_ok r" and "0 < sum_list (map bWeight (rBackends r))"
    and "answering (seRewrite env)" and "is_print (upgradeType (qHeader rin))"
    and "\<And>q. \<exists>resp. seRoundTrip env q = Inr resp \<and> pStatusCode resp < 399 \<and> pStatusCode resp \<noteq> 101
      \<and> pBodyErr resp = None \<and> \<not> pBodyClosed resp"
  shows "\<exists>b q resp w. b \<in> set (rBackends r) \<and> 0 < bWeight b \<and> sent_to b rin q \<and> seRoundTrip env q = Inr resp
    \<and> ServeHTTP env p rin freshWriter = (Ok (), w) \<and> wStatus w = Some (pStatusCode resp) \<and> wBody w = pBody resp"
proof -
  obtain b q where b: "b \<in> set (rBackends r)" "0 < bWeight b" and q: "sent_to b rin q"
    and rw: "RewriteV1Alpha1 (seRewrite env) p rin (outgoing (seCleanQuery env) rin) = (Ok (), q)"
    using rewrite_to_drawn [OF assms(1-4)] by blast
  obtain resp where resp: "seRoundTrip env (defaultUserAgent q) = Inr resp" "pStatusCode resp < 399"
      "pStatusCode resp \<noteq> 101" "pBodyErr resp = None" "\<not> pBodyClosed resp"
    using assms(6) by blast
  have "\<exists>w. ServeHTTP env p rin freshWriter = (Ok (), w) \<and> wStatus w = Some (pStatusCode resp) \<and> wBody w = pBody resp"
    using resp
    by (simp add: sent_on [OF assms(5) rw] serveResponse_def modifyThen_def New_proxy_def ModifyResponse_good
        copyOut_eq freshWriter_def WriteBody_def WriteHeader_def Let_def)
  moreover have "sent_to b rin (defaultUserAgent q)" using q by (simp add: sent_to_def)
  ultimately show ?thesis using b resp by blast
qed

text \<open>
  C5. A client gets the answer of the backend that was drawn for it. For a host that a well-formed
  route with some positive weight claims, the request goes out to a backend of that route with a
  positive weight, at the backend's scheme and host, with the backend's path prefix in front of the
  path and the body unread; if the backends answer with a status below 399 and a body that can be
  read, the client is sent the status and the body of that answer.
\<close>
theorem serve_delivers_backend_answer:
  assumes "routed p rin r" and "route_ok r" and "0 < sum_list (map bWeight (rBackends r))"
    and "answering (seRewrite env)" and "is_print (upgradeType (qHeader rin))"
    and "\<And>q. \<exists>resp. seRoundTrip env q = Inr resp \<and> pStatusCode resp < 399 \<and> pStatusCode resp \<noteq> 101
      \<and> pBodyErr resp = None \<and> \<not> pBodyClosed resp"
  shows "\<exists>b q resp w. b \<in> set (rBackends r) \<and> 0 < bWeight b \<and> sent_to b rin q \<and> seRoundTrip env q = Inr resp
    \<and> ServeHTTP env p rin freshWriter = (Ok (), w) \<and> wStatus w = Some (pStatusCode resp) \<and> wBody w = pBody resp"
  using drawn_backend_answers [OF assms] .


text \<open>The hooks do not panic on well-formed routes.\<close>

lemma forwardTo_Ok:
  assumes "route_ok r"
  shows "\<exists>q. forwardTo orc rin r rout = (Ok (), q)"
proof -
  let ?wbs = "map weighted (rBackends r)" and ?t = "sum_list (map bWeight (rBackends r))"
  note w = route_ok_weights [OF assms]
  have weigh: "weighBackends (rBackends r) 0 [] = (?t, ?wbs)"
    using weighBackends_eq [of 0 "rBackends r" "[]"] w by simp
  show ?thesis
  proof (cases "?t = 0")
    case True
    then show ?thesis using weigh by (simp add: forwardTo_def ret_def)
  next
    case False
    then have "?wbs \<noteq> []" by auto
    with False w(3) obtain b where draw: "weightedRandomBackend (oIntn orc) ?wbs ?t = Ok b"
      using weightedRandomBackend_no_panic [of ?t ?wbs "oIntn orc"] by auto
    from weightedRandomBackend_member [OF this] have "b \<in> set (rBackends r)" by auto
    with assms have "auth_ok b" by (simp add: route_ok_def)
    then obtain q where "logged (handleBackend (oToken orc) b) rout = (Ok (), q)"
      using handleBackend_no_panic [of b "oToken orc" rout]
      by (auto simp: logged_def elim!: no_panic_cases)
    then show ?thesis using weigh False draw by (simp add: forwardTo_def chosen_def seqG_def writes_def)
  qed
qed

lemma onUpstream_writes [simp]: "onUpstream (writes f) = writes (\<lambda>u. u\<lparr>vReq := f (vReq u)\<rparr>)"
  by (simp add: onUpstream_def)

lemma contactInstead_no_panic: "auth_ok b \<Longrightarrow> no_panic (contactInstead orc b) u"
  unfolding contactInstead_def onUpstream_def
  by (intro no_panic_intros handleBackend_no_panic no_panic_reads)
    (auto simp: replaceResponse_def intro!: no_panic_intros split: option.splits)

lemma ModifyResponse_eq:
  assumes "399 \<le> pStatusCode (vResp u)" and "backendHostToRoute p (qHost (vReq u)) = Some n"
    and "persistence p n = Some route"
    and "failoverScan (\<lambda>b. bHost b = qHost (vReq u) \<and> bScheme b = uScheme (qURL (vReq u)))
      (rBackends route) 0 [] (uPath (qURL (vReq u))) = (t, wbs, path)"
  shows "ModifyResponse orc p u =
    (let u' = u\<lparr>vReq := setPath path (vReq u)\<rparr>
     in if t = 0 then (Ok (), u')
        else bindG (chosen (weightedRandomBackend (oIntn orc) wbs t)) (contactInstead orc) u')"
  using assms by (simp add: ModifyResponse_def gw.get_result ret_def)

lemma ModifyResponse_no_route:
  assumes "399 \<le> pStatusCode (vResp u)"
    and "case backendHostToRoute p (qHost (vReq u)) of None \<Rightarrow> True | Some n \<Rightarrow> persistence p n = None"
  shows "ModifyResponse orc p u = setStatus 404 u"
  using assms by (simp add: ModifyResponse_def gw.get_result split: option.splits)

lemma ModifyResponse_no_panic:
  assumes "proxy_ok p"
  shows "no_panic (ModifyResponse orc p) u"
proof (cases "399 \<le> pStatusCode (vResp u)")
  case False
  then show ?thesis by (simp add: no_panic_def ModifyResponse_def ret_def)
next
  case bad: True
  show ?thesis
  proof (cases "case backendHostToRoute p (qHost (vReq u)) of None \<Rightarrow> True | Some n \<Rightarrow> persistence p n = None")
    case True
    then show ?thesis by (simp add: no_panic_def ModifyResponse_no_route [OF bad] setStatus_def writes_def)
  next
    case False
    then obtain n route where n: "backendHostToRoute p (qHost (vReq u)) = Some n"
      and route: "persistence p n = Some route"
      by (auto split: option.splits)
    with assms have ok: "route_ok route" by (auto simp: proxy_ok_def)
    obtain t wbs path where
      scan: "failoverScan (\<lambda>b. bHost b = qHost (vReq u) \<and> bScheme b = uScheme (qURL (vReq u)))
        (rBackends route) 0 [] (uPath (qURL (vReq u))) = (t, wbs, path)"
      by (metis prod_cases3)
    show ?thesis
    proof (cases "t = 0")
      case True
      then show ?thesis by (simp add: no_panic_def ModifyResponse_eq [OF bad n route scan] Let_def)
    next
      case False
      then obtain b where b: "b \<in> set (rBackends route)"
        and draw: "weightedRandomBackend (oIntn orc) wbs t = Ok (bumped b)"
        using failover_draw(2) [OF ok scan] by blast
      from ok b have "auth_ok (bumped b)" by (auto simp: route_ok_def auth_ok_def)
      from contactInstead_no_panic [OF this] False draw show ?thesis
        by (simp add: no_panic_def ModifyResponse_eq [OF bad n route scan] chosen_def Let_def)
    qed
  qed
qed


lemma copyOut_ends:
  "fst (copyOut resp x) \<in> {Ok (), Panic ErrAbortHandler} \<and> wStatus (xWriter (snd (copyOut resp x))) \<noteq> None"
  by (auto simp: copyOut_eq Let_def WriteBody_def WriteHeader_def split: option.splits)

lemma ErrorHandler_ends:
  assumes "proxy_ok p"
  shows "fst (ErrorHandler orc p x) = Ok () \<and> wStatus (xWriter (snd (ErrorHandler orc p x))) \<noteq> None"
  using ErrorHandler_answers [OF assms, of orc x] by auto

lemma serveResponse_ends:
  assumes "proxy_ok p" and "pStatusCode resp \<noteq> 101"
  shows "fst (serveResponse env (New_proxy env p) resp x) \<in> {Ok (), Panic ErrAbortHandler}
    \<and> wStatus (xWriter (snd (serveResponse env (New_proxy env p) resp x))) \<noteq> None"
proof -
  let ?u = "\<lparr>vReq = xReq x, vResp = resp\<lparr>pHeader := removeHopByHopHeaders (pHeader resp)\<rparr>\<rparr>"
  from ModifyResponse_no_panic [OF assms(1), of "seModify env" ?u] show ?thesis
  proof (cases rule: no_panic_cases)
    case (1 v u)
    then show ?thesis using assms(2) copyOut_ends [of "vResp u" "x\<lparr>xReq := vReq u\<rparr>"]
      by (simp add: serveResponse_def modifyThen_def New_proxy_def)
  next
    case (2 e u)
    then show ?thesis using assms(2) ErrorHandler_ends [OF assms(1), of "seRetry env" "x\<lparr>xReq := vReq u\<rparr>"]
      by (simp add: serveResponse_def modifyThen_def New_proxy_def)
  qed
qed


section \<open>Where the client loses\<close>

text \<open>
  C39. A request for a host that no route claims does not get the 404 the code writes: the handler
  panics and the client gets no answer at all. The same happens to the hosts of a route that was
  deleted, since \<open>DeleteRoute\<close> leaves the host index as it is.
\<close>
theorem serve_unknown_host_drops:
  assumes "qResponse rin = None" and "is_print (upgradeType (qHeader rin))"
    and "routesPerHost p (extractHost (qHost rin)) = None
      \<or> routesPerHost p (extractHost (qHost rin)) = Some n"
  shows "ServeHTTP env (snd (DeleteRoute n p)) rin w = (Panic NilDeref, w)"
proof -
  let ?p = "snd (DeleteRoute n p)" and ?out = "outgoing (seCleanQuery env) rin"
  have "routesPerHost ?p = routesPerHost p" and "persistence ?p n = None"
    by (simp_all add: proxy_ops split: option.splits)
  with assms(1,3) have "RewriteV1Alpha1 (seRewrite env) ?p rin ?out = (Panic NilDeref, ?out)"
    by (intro rewrite_unknown_host_panics) auto
  with assms(2) show ?thesis
    by (simp add: ServeHTTP_def ReverseProxy_ServeHTTP_def serveOutgoing_def New_proxy_def onReq_def zoom_def
        seqG_def bindG_def)
qed


lemma contactInstead_Ok:
  assumes "auth_ok b" and "\<forall>c. \<exists>t. oToken orc c = Inr t" and "\<forall>q. oNewRequest orc q = None"
    and "\<forall>q. \<exists>resp. oDo orc q = Inr resp \<and> pBody resp \<noteq> []"
  shows "\<exists>q resp u'. oDo orc q = Inr resp \<and> pBody resp \<noteq> [] \<and> contactInstead orc b u = (Ok (), u')
    \<and> pBodyClosed (vResp u') \<and> pBody (vResp u') = pBody resp \<and> pStatusCode (vResp u') = pStatusCode resp"
proof -
  obtain r where r: "handleBackend (oToken orc) b (vReq u) = (Ok (), r)"
    using handleBackend_succeeds [OF assms(1,2)] by blast
  let ?q = "r\<lparr>qHost := uHost (qURL r)\<rparr>"
  obtain resp where resp: "oDo orc ?q = Inr resp" "pBody resp \<noteq> []" using assms(4) by blast
  show ?thesis
    by (intro exI [of _ ?q] exI [of _ resp] exI [of _ "snd (contactInstead orc b u)"])
      (simp add: contactInstead_def onUpstream_def zoom_def r resp assms(3) replaceResponse_def seqG_def bindG_def
        reads_def writes_def ret_def)
qed

lemma ModifyResponse_replaces:
  assumes bad: "399 \<le> pStatusCode (vResp u)" and n: "backendHostToRoute p (qHost (vReq u)) = Some n"
    and stored: "persistence p n = Some r" and ok: "route_ok r"
    and two: "b1 \<in> set (rBackends r)" "b2 \<in> set (rBackends r)" "bHost b1 \<noteq> bHost b2"
    and second: "answering orc" "\<forall>q. oNewRequest orc q = None"
      "\<forall>q. \<exists>resp. oDo orc q = Inr resp \<and> pBody resp \<noteq> []"
  shows "\<exists>q resp u'. oDo orc q = Inr resp \<and> pBody resp \<noteq> [] \<and> ModifyResponse orc p u = (Ok (), u')
    \<and> pBodyClosed (vResp u') \<and> pBody (vResp u') = pBody resp \<and> pStatusCode (vResp u') = pStatusCode resp"
proof -
  obtain t wbs path where
    scan: "failoverScan (\<lambda>b. bHost b = qHost (vReq u) \<and> bScheme b = uScheme (qURL (vReq u)))
      (rBackends r) 0 [] (uPath (qURL (vReq u))) = (t, wbs, path)"
    by (rule prod_cases3)
  obtain d where "d \<in> set (rBackends r)" and "bHost d \<noteq> qHost (vReq u)" using two by metis
  then have "wbs \<noteq> []" using failoverScan_candidates [OF scan] by (auto simp: filter_empty_conv)
  with failover_draw(1) [OF ok scan] have t: "t \<noteq> 0" by simp
  then obtain c where c: "c \<in> set (rBackends r)"
    and draw: "weightedRandomBackend (oIntn orc) wbs t = Ok (bumped c)"
    using failover_draw(2) [OF ok scan] by blast
  have "auth_ok (bumped c)" using ok c by (auto simp: route_ok_def auth_ok_def)
  moreover have "ModifyResponse orc p u = contactInstead orc (bumped c) (u\<lparr>vReq := setPath path (vReq u)\<rparr>)"
    using t draw by (simp add: ModifyResponse_eq [OF bad n stored scan] chosen_def)
  ultimately show ?thesis using contactInstead_Ok second by (simp add: answering_def)
qed

text \<open>
  C33. When a backend answers with an error, the proxy asks another one, and the answer it gets is lost.
  For a routed host whose backends do not all have the same host, if the first answer has a status
  of 399 or more and the other backend answers with a body, the client is given the status of the
  second answer, no byte of its body, and an aborted connection: the body was closed by the hook that
  fetched it.
\<close>
theorem replaced_answer_is_lost:
  assumes "routed p rin r" and "route_ok r" and "0 < sum_list (map bWeight (rBackends r))"
    and "answering (seRewrite env)" and "is_print (upgradeType (qHeader rin))"
    and two: "b1 \<in> set (rBackends r)" "b2 \<in> set (rBackends r)" "bHost b1 \<noteq> bHost b2"
    and first: "\<forall>q. \<exists>resp. seRoundTrip env q = Inr resp \<and> 399 \<le> pStatusCode resp"
    and second: "answering (seModify env)" "\<forall>q. oNewRequest (seModify env) q = None"
      "\<forall>q. \<exists>resp. oDo (seModify env) q = Inr resp \<and> pBody resp \<noteq> []"
  shows "\<exists>q resp w. oDo (seModify env) q = Inr resp \<and> wStatus w = Some (pStatusCode resp) \<and> wBody w = []
    \<and> ServeHTTP env p rin freshWriter = (Panic ErrAbortHandler, w)"
proof -
  obtain b q where b: "b \<in> set (rBackends r)" and q: "sent_to b rin q"
    and rw: "RewriteV1Alpha1 (seRewrite env) p rin (outgoing (seCleanQuery env) rin) = (Ok (), q)"
    using rewrite_to_drawn [OF assms(1-4)] by blast
  obtain resp where resp: "seRoundTrip env (defaultUserAgent q) = Inr resp" "399 \<le> pStatusCode resp"
    using first by blast
  let ?u = "\<lparr>vReq = closeBody (defaultUserAgent q),
    vResp = resp\<lparr>pHeader := removeHopByHopHeaders (pHeader resp)\<rparr>\<rparr>"
  obtain q' resp' u' where u': "oDo (seModify env) q' = Inr resp'" "pBody resp' \<noteq> []"
      "ModifyResponse (seModify env) p ?u = (Ok (), u')"
      "pBodyClosed (vResp u')" "pBody (vResp u') = pBody resp'" "pStatusCode (vResp u') = pStatusCode resp'"
    using ModifyResponse_replaces [of ?u p "rName r", OF _ _ _ assms(2) two second] assms(1) b q resp(2)
    by (auto simp: routed_def sent_to_def)
  with resp show ?thesis
    by (intro exI [of _ q'] exI [of _ resp'])
      (simp add: sent_on [OF assms(5) rw] serveResponse_def modifyThen_def New_proxy_def copyOut_eq freshWriter_def
        WriteHeader_def)
qed

text \<open>
  A failover sends the body of the request again, which the first attempt has closed. \<open>reads_once\<close> is
  what \<open>net/http\<close> does with such a request: it fails.
\<close>

definition reads_once :: "env_answers \<Rightarrow> bool" where
  "reads_once orc \<longleftrightarrow> (\<forall>q. qBody q \<noteq> [] \<and> qBodyClosed q \<longrightarrow> (\<exists>e. oDo orc q = Inl e))"

lemma contact_closed_body:
  assumes "reads_once orc" and "qBody (xReq x) \<noteq> []" and "qBodyClosed (xReq x)"
  shows "\<exists>e y. contact orc x = (Err e, y) \<and> qBody (xReq y) = qBody (xReq x) \<and> qBodyClosed (xReq y)
    \<and> xWriter y = xWriter x"
proof -
  obtain e where "oDo orc (xReq x) = Inl e" using assms by (auto simp: reads_once_def)
  with assms(3) show ?thesis
    by (cases "oNewRequest orc (xReq x)") (simp_all add: contact_def raise_def)
qed

lemma errorHandler_closed_body:
  assumes ok: "proxy_ok p" and "reads_once orc" and "qBody (xReq x) \<noteq> []" and "qBodyClosed (xReq x)"
  shows "\<exists>e y. errorHandler orc p n x = (Err e, y) \<and> qBody (xReq y) = qBody (xReq x) \<and> qBodyClosed (xReq y)
    \<and> xWriter y = xWriter x"
proof (cases "persistence p n")
  case None
  then show ?thesis using assms(4) by (simp add: errorHandler_no_route)
next
  case (Some route)
  obtain t wbs path where
    scan: "failoverScan (\<lambda>b. bHost b = qHost (xReq x)) (rBackends route) 0 [] (uPath (qURL (xReq x))) = (t, wbs, path)"
    by (rule prod_cases3)
  let ?x = "x\<lparr>xReq := setPath path (xReq x)\<rparr>"
  show ?thesis
  proof (cases "t = 0")
    case True
    then show ?thesis using assms(4) by (simp add: errorHandler_eq [OF Some scan] setPath_def)
  next
    case False
    from ok Some have route: "route_ok route" by (auto simp: proxy_ok_def)
    from False obtain c where c: "c \<in> set (rBackends route)"
      and draw: "weightedRandomBackend (oIntn orc) wbs t = Ok (bumped c)"
      using failover_draw(2) [OF route scan] by blast
    from route c have "auth_ok (bumped c)" by (auto simp: route_ok_def auth_ok_def)
    from handleBackend_no_panic [OF this, of "oToken orc" "xReq ?x"] show ?thesis
    proof (cases rule: no_panic_cases)
      case (1 v r)
      then have r: "qBody r = qBody (xReq x)" "qBodyClosed r"
        using handleBackend_keeps_body [of "oToken orc" "bumped c" "xReq ?x"] assms(4) by (simp_all add: setPath_def)
      obtain e y where "contact orc (x\<lparr>xReq := r\<rparr>) = (Err e, y)" "qBody (xReq y) = qBody r" "qBodyClosed (xReq y)"
          "xWriter y = xWriter x"
        using contact_closed_body [of orc "x\<lparr>xReq := r\<rparr>"] assms(2,3) r by auto
      with 1 False draw r show ?thesis
        by (simp add: errorHandler_eq [OF Some scan] chosen_def seqG_def onReq_def zoom_def)
    next
      case (2 e r)
      then show ?thesis
        using False draw handleBackend_keeps_body [of "oToken orc" "bumped c" "xReq ?x"] assms(4)
        by (simp add: errorHandler_eq [OF Some scan] chosen_def seqG_def onReq_def zoom_def setPath_def)
    qed
  qed
qed

lemma attempts_closed_body:
  assumes "proxy_ok p" and "\<forall>i. reads_once (orc i)" and "qBody (xReq x) \<noteq> []" and "qBodyClosed (xReq x)"
    and "wStatus (xWriter x) = None" and "wBody (xWriter x) = []"
  shows "\<exists>y. attempts orc p n i k x = (Ok (), y) \<and> wStatus (xWriter y) = Some 503
    \<and> wBody (xWriter y) = ''service unavailable''"
  using assms(3-)
proof (induction k arbitrary: i x)
  case 0
  then show ?case by (simp add: toWriter_def go_simps WriteHeader_def WriteBody_def)
next
  case (Suc k)
  obtain e y where y: "errorHandler (orc i) p n x = (Err e, y)" "qBody (xReq y) = qBody (xReq x)"
      "qBodyClosed (xReq y)" "xWriter y = xWriter x"
    using errorHandler_closed_body [OF assms(1) assms(2) [rule_format] Suc.prems(1,2)] by blast
  then show ?case using Suc.IH [of y "Suc i"] Suc.prems by simp
qed

text \<open>
  C34. A request with a body is never failed over. For a routed host of well-formed routes, if the
  transport fails for the backend that was drawn, all four attempts to reach the other backends fail
  as well, since they send a body that is already closed; the client is told that the service is
  unavailable, however healthy the other backends are.
\<close>
theorem request_with_body_is_not_failed_over:
  assumes "proxy_ok p" and "routed p rin r" and "0 < sum_list (map bWeight (rBackends r))"
    and "answering (seRewrite env)" and "is_print (upgradeType (qHeader rin))"
    and "qBody rin \<noteq> []" and "\<forall>q. \<exists>e. seRoundTrip env q = Inl e" and "\<forall>i. reads_once (seRetry env i)"
  shows "\<exists>w. ServeHTTP env p rin freshWriter = (Ok (), w) \<and> wStatus w = Some 503
    \<and> wBody w = ''service unavailable''"
proof -
  from assms(1,2) have "route_ok r" by (auto simp: proxy_ok_def routed_def)
  then obtain b q where b: "b \<in> set (rBackends r)" and q: "sent_to b rin q"
    and rw: "RewriteV1Alpha1 (seRewrite env) p rin (outgoing (seCleanQuery env) rin) = (Ok (), q)"
    using rewrite_to_drawn [OF assms(2) _ assms(3,4)] by blast
  obtain e where e: "seRoundTrip env (defaultUserAgent q) = Inl e" using assms(7) by blast
  let ?x = "\<lparr>xReq = closeBody (defaultUserAgent q), xWriter = freshWriter\<rparr>"
  obtain y where "attempts (seRetry env) p (rName r) 0 4 ?x = (Ok (), y)" "wStatus (xWriter y) = Some 503"
      "wBody (xWriter y) = ''service unavailable''"
    using attempts_closed_body [OF assms(1,8), of ?x "rName r" 0 4] assms(6) q by (auto simp: sent_to_def freshWriter_def)
  moreover have "backendHostToRoute p (qHost (xReq ?x)) = Some (rName r)"
    using assms(2) b q by (simp add: routed_def sent_to_def)
  ultimately show ?thesis by (simp add: sent_on [OF assms(5) rw] e ErrorHandler_def)
qed


text \<open>
  A request that was to be authorised and cannot be is answered with 404. Take a routed host all of
  whose backends with a positive weight use OAuth, as a model that is fully offloaded, and an OAuth
  server that refuses. The request stays without a target, the transport rejects it, and the client
  is told that nothing was found; the local backend, of weight 0, is not asked.
\<close>
theorem token_failure_is_not_found:
  assumes "routed p rin r" and "route_ok r" and "0 < sum_list (map bWeight (rBackends r))"
    and "\<forall>n. 0 < n \<longrightarrow> 0 \<le> oIntn (seRewrite env) n \<and> oIntn (seRewrite env) n < n"
    and "is_print (upgradeType (qHeader rin))"
    and "\<forall>b \<in> set (rBackends r). 0 < bWeight b \<longrightarrow> (\<exists>a. bAuth b = Some a \<and> aType a = AuthTypeOAuth)"
    and "\<forall>c. \<exists>e. oToken (seRewrite env) c = Inl e"
    and "\<forall>q. uScheme (qURL q) = [] \<longrightarrow> (\<exists>e. seRoundTrip env q = Inl e)"
    and "uScheme (qURL rin) = []" and "backendHostToRoute p (qHost rin) = None"
  shows "\<exists>w. ServeHTTP env p rin freshWriter = (Ok (), w) \<and> wStatus w = Some 404 \<and> wBody w = ''not found''"
proof -
  let ?out = "outgoing (seCleanQuery env) rin" and ?tok = "oToken (seRewrite env)"
  obtain b where b: "b \<in> set (rBackends r)" "0 < bWeight b"
    and rw: "RewriteV1Alpha1 (seRewrite env) p rin ?out
      = seqG (logged (handleBackend ?tok b)) (writes (SetXForwarded rin)) ?out"
    using rewrite_forwards_to_weighted_backend [of p rin "rName r" r "seRewrite env" ?out]
      route_ok_weights [OF assms(2)] assms(1,3,4)
    by (auto simp: routed_def)
  then obtain a c e where auth: "bAuth b = Some a" "aType a = AuthTypeOAuth" "aOAuth a = Some c" "?tok c = Inl e"
    using assms(2,6,7) by (fastforce simp: route_ok_def auth_ok_def)
  then have "handleBackend ?tok b ?out = (Err e, ?out)"
    by (simp add: handleBackend_def authorize_def handleOAuth_def seqG_def raise_def)
  with rw have rw': "RewriteV1Alpha1 (seRewrite env) p rin ?out = (Ok (), SetXForwarded rin ?out)"
    by (simp add: logged_def seqG_def writes_def)
  obtain e' where "seRoundTrip env (defaultUserAgent (SetXForwarded rin ?out)) = Inl e'"
    using assms(8,9) by fastforce
  with assms(10) show ?thesis
    by (simp add: sent_on [OF assms(5) rw'] ErrorHandler_def toWriter_def go_simps freshWriter_def WriteHeader_def
        WriteBody_def)
qed

section \<open>The process\<close>

text \<open>Whatever JSON decodes to has the types of the structs.\<close>

lemma mapR_set: "mapR f xs = Inr ys \<Longrightarrow> \<forall>y \<in> set ys. \<exists>x. f x = Inr y"
  by (induction xs arbitrary: ys) auto

lemma distinct_putAll: "distinct (map fst m) \<Longrightarrow> distinct (map fst (putAll kvs m))"
proof (induction kvs arbitrary: m)
  case (Cons kv kvs)
  obtain k v where kv: "kv = (k, v)" by (cases kv)
  have "distinct (map fst (filter (\<lambda>(k', _). k' \<noteq> k) m @ [(k, v)]))"
    using Cons.prems by (auto simp: distinct_map inj_on_def)
  from Cons.IH [OF this] show ?case by (simp add: kv)
qed simp

lemma decodeInt_range: "decodeInt j = Inr n \<Longrightarrow> - (2 ^ 63) \<le> n \<and> n < 2 ^ 63"
  by (cases j) (auto split: if_splits)

lemma decodeStringMap_distinct: "decodeStringMap j = Inr m \<Longrightarrow> distinct (map fst m)"
  by (cases j) (auto intro: distinct_putAll)

lemma decodeFields_Inr: "decodeFields dec j = Inr x \<Longrightarrow> \<exists>kvs. dec kvs = Inr x"
  by (cases j) auto

lemma decodeBackend_typed:
  assumes "decodeBackend j = Inr b"
  shows "json_backend b"
proof -
  obtain kvs where "decodeInt (lookupKey ''weight'' kvs) = Inr (bWeight b)"
    and "decodeStringMap (lookupKey ''headers'' kvs) = Inr (bHeadersToAdd b)"
    using assms by (auto simp: decodeBackend_def dest!: decodeFields_Inr)
  then show ?thesis using decodeInt_range decodeStringMap_distinct by (simp add: json_backend_def)
qed

lemma decodeRoute_typed:
  assumes "decodeRoute j = Inr r"
  shows "json_route r"
proof -
  obtain kvs bs where "decodeList decodeBackend (lookupKey ''backends'' kvs) = Inr bs" and r: "rBackends r = bs"
    using assms by (auto simp: decodeRoute_def dest!: decodeFields_Inr)
  then have "\<forall>b \<in> set bs. \<exists>j. decodeBackend j = Inr b"
    by (cases "lookupKey ''backends'' kvs") (auto dest!: mapR_set)
  with r show ?thesis by (auto simp: json_route_def list_all_iff dest: decodeBackend_typed)
qed

definition typed_proxy :: "proxy \<Rightarrow> bool" where
  "typed_proxy p \<longleftrightarrow> indexed p \<and> (\<forall>n r. persistence p n = Some r \<longrightarrow> json_route r)"

definition typed_yaml :: "yaml_codec \<Rightarrow> bool" where
  "typed_yaml y \<longleftrightarrow> (\<forall>b r. yDecode y b = Inr r \<longrightarrow> json_route r)"

lemma typed_stores:
  assumes "typed_proxy p"
  shows "json_route r \<Longrightarrow> typed_proxy (snd (RegisterRoute r p))"
    and "json_route r \<Longrightarrow> typed_proxy (snd (UpdateRoute r p))"
    and "typed_proxy (snd (DeleteRoute n p))" and "typed_proxy (snd (GetRoute n p))"
  using assms indexed_register [of p r] indexed_update [of p r] indexed_delete [of p n]
  by (auto simp: typed_proxy_def gw.stored_register gw.stored_update gw.stored_delete gw.stored_get split: if_splits)

lemma decodeBody_typed: "decodeBody b = Inr r \<Longrightarrow> json_route r"
  by (cases b) (auto dest: decodeRoute_typed)

lemma keeps_orStatus [keeps_intros]:
  assumes "keeps P m"
  shows "keeps P (orStatus code m send)"
proof -
  have "snd (orStatus code m send p) = snd (m p)" for p
    by (simp add: orStatus_def split: prod.splits outcome.splits)
  then show ?thesis using assms by (simp add: keeps_def)
qed

lemma typed_calls:
  "json_route r \<Longrightarrow> keeps typed_proxy (RegisterRoute r)" "json_route r \<Longrightarrow> keeps typed_proxy (UpdateRoute r)"
  "keeps typed_proxy (DeleteRoute n)" "keeps typed_proxy (GetRoute n)"
  by (simp_all add: keeps_def typed_stores)

lemma typed_storeBody:
  assumes "typed_yaml y" and "\<And>r. json_route r \<Longrightarrow> keeps typed_proxy (store r)"
  shows "keeps typed_proxy (storeBody y store req)"
  using assms decodeBody_typed unfolding storeBody_def typed_yaml_def
  by (auto intro!: keeps_intros split: sum.splits)

lemma typed_serveAPI: "typed_yaml y \<Longrightarrow> keeps typed_proxy (serveAPI y req)"
  unfolding serveAPI_def handleRoute_def handleRoutes_def Let_def
  by (intro keeps_intros typed_storeBody typed_calls)

definition typed_process :: "process \<Rightarrow> bool" where
  "typed_process s \<longleftrightarrow> (case s of Running _ _ p \<Rightarrow> typed_proxy p | Exited _ \<Rightarrow> True)"

lemma typed_turn:
  assumes "typed_yaml y" and "typed_process s"
  shows "typed_process (snd (gatewayTurn y ev s))"
proof (cases s)
  case (Exited c)
  then show ?thesis by (simp add: typed_process_def)
next
  case (Running rt la p)
  with assms(2) have p: "typed_proxy p" by (simp add: typed_process_def)
  then show ?thesis
  proof (cases ev)
    case (ApiRequest addr req)
    then show ?thesis using p keepsD [OF typed_serveAPI [OF assms(1)] p, of req]
      by (auto simp: Running typed_process_def split: prod.splits outcome.splits)
  qed (simp_all add: Running typed_process_def split: prod.splits outcome.splits)
qed

lemma typed_reachable:
  assumes "typed_yaml y" and "(gateway_step y)\<^sup>*\<^sup>* s t" and "typed_process s"
  shows "typed_process t"
  using assms(2,3)
proof (induction rule: rtranclp_induct)
  case (step t u)
  from step.hyps(2) obtain ev where "u = snd (gatewayTurn y ev t)"
    by cases (metis snd_conv)
  with typed_turn [OF assms(1)] step show ?case by simp
qed



section \<open>Witnesses\<close>

text \<open>A gateway with the route of a model, whose transport answers with the status \<open>c\<close> or fails.\<close>

definition sample_proxy :: proxy where
  "sample_proxy = snd (RegisterRoute sample_route New)"

definition sample_serve :: "response reply \<Rightarrow> serve_env" where
  "sample_serve resp = \<lparr>seCleanQuery = (\<lambda>q. q), seRewrite = sample_env 42, seRoundTrip = (\<lambda>_. resp),
     seUpgrade = (\<lambda>_ _. ret ()), seModify = sample_env 0, seRetry = (\<lambda>_. sample_env 0)\<rparr>"

definition once_env :: env_answers where
  "once_env = (sample_env 0)\<lparr>oDo := \<lambda>q. if qBodyClosed q then Inl (Errorf ''http: invalid Read on closed Body'')
     else Inr (sample_resp 200)\<rparr>"

definition post_req :: request where
  "post_req = sample_req\<lparr>qBody := ''prompt''\<rparr>"

definition auth_b :: backend where
  "auth_b = remote_b\<lparr>bAuth := Some \<lparr>aType = ''oauth'', aOAuth = Some \<lparr>oClientID = ''id'', oClientSecret = ''s'',
     oTokenURL = ''https://t''\<rparr>\<rparr>\<rparr>"

definition offloaded_route :: route where
  "offloaded_route = sample_route\<lparr>rBackends := [local_b\<lparr>bWeight := 0\<rparr>, auth_b]\<rparr>"

lemma sample_routed: "routed sample_proxy sample_req sample_route" "routed sample_proxy post_req sample_route"
    "routed (snd (RegisterRoute offloaded_route New)) sample_req offloaded_route"
  unfolding sample_proxy_def
  by (intro routed_registered; simp add: offloaded_route_def post_req_def sample_defs extractHost_eq)+

lemma sample_print [simp]: "is_print (upgradeType Map.empty)" "is_print (upgradeType (qHeader sample_req))"
    "is_print (upgradeType (qHeader post_req))"
  by (simp_all add: post_req_def sample_req_def upgradeType_def containsToken_def header_tokens_def header_values_def
      is_print_def)

lemma sample_answering: "answering (sample_env k)"
  by (simp add: answering_def sample_env_def)

lemma sample_weight: "sum_list (map bWeight (rBackends sample_route)) = 100"
  by (simp add: sample_defs)

theorem serve_delivers_backend_answer_witness:
  "\<exists>b q resp w. b \<in> set (rBackends sample_route) \<and> 0 < bWeight b \<and> sent_to b sample_req q
    \<and> seRoundTrip (sample_serve (Inr (sample_resp 200))) q = Inr resp
    \<and> ServeHTTP (sample_serve (Inr (sample_resp 200))) sample_proxy sample_req freshWriter = (Ok (), w)
    \<and> wStatus w = Some (pStatusCode resp) \<and> wBody w = pBody resp"
  by (rule serve_delivers_backend_answer [OF sample_routed(1) route_ok_sample])
    (simp_all add: sample_weight sample_serve_def sample_answering sample_resp_def)


theorem serve_unknown_host_drops_witness:
  "ServeHTTP (sample_serve (Inr (sample_resp 200))) (snd (DeleteRoute ''m'' sample_proxy)) sample_req freshWriter
    = (Panic NilDeref, freshWriter)"
  by (rule serve_unknown_host_drops)
    (use sample_routed(1) in \<open>simp_all add: routed_def sample_route_def, simp add: sample_req_def\<close>)

theorem replaced_answer_is_lost_witness:
  "\<exists>q resp w. oDo (seModify (sample_serve (Inr (sample_resp 500)))) q = Inr resp
    \<and> wStatus w = Some (pStatusCode resp) \<and> wBody w = []
    \<and> ServeHTTP (sample_serve (Inr (sample_resp 500))) sample_proxy sample_req freshWriter
      = (Panic ErrAbortHandler, w)"
  by (rule replaced_answer_is_lost [OF sample_routed(1) route_ok_sample, where ?b1.0 = local_b and ?b2.0 = remote_b])
    (simp_all add: sample_weight sample_answering sample_serve_def sample_defs answering_def)

theorem request_with_body_is_not_failed_over_witness:
  "\<exists>w. ServeHTTP (sample_serve (Inl (ApiError ''refused''))\<lparr>seRetry := \<lambda>_. once_env\<rparr>) sample_proxy post_req freshWriter
      = (Ok (), w) \<and> wStatus w = Some 503 \<and> wBody w = ''service unavailable''"
  by (rule request_with_body_is_not_failed_over [OF _ sample_routed(2)])
    (use proxy_ok_sample in \<open>simp_all add: sample_proxy_def sample_weight sample_answering sample_serve_def post_req_def
      once_env_def reads_once_def\<close>)

theorem token_failure_is_not_found_witness:
  "\<exists>w. ServeHTTP ((sample_serve (Inl (ApiError ''unsupported protocol scheme'')))
      \<lparr>seRewrite := (sample_env 0)\<lparr>oToken := \<lambda>_. Inl (ApiError ''401'')\<rparr>\<rparr>)
      (snd (RegisterRoute offloaded_route New)) sample_req freshWriter = (Ok (), w)
    \<and> wStatus w = Some 404 \<and> wBody w = ''not found''"
  by (rule token_failure_is_not_found [OF sample_routed(3)])
    (simp_all add: sample_serve_def offloaded_route_def auth_b_def sample_defs route_ok_def auth_ok_def bumped_def
      AuthTypeOAuth_def proxy_ops storeHosts_apply New_def)

definition post_route :: api_request where
  "post_route = \<lparr>arMethod = ''POST'', arPath = ''/v1alpha1/routes'', arAccept = [], arContentType = ''application/json'',
     arBody = JsonDoc (encodeRoute sample_route)\<rparr>"

definition no_yaml :: yaml_codec where
  "no_yaml = \<lparr>yEncode = (\<lambda>_. Inl (Errorf ''no yaml'')), yDecode = (\<lambda>_. Inl (Errorf ''no yaml''))\<rparr>"

lemma sample_registers: "gateway_step no_yaml (run Map.empty) (Running (NewRouter '':8081'') '':8080'' sample_proxy)"
proof (rule gateway_step.intros [where ev = "ApiRequest '':8081'' post_route"])
  have "decodeRoute (encodeRoute sample_route) = Inr sample_route"
    by (rule decode_route) (simp add: json_route_def json_backend_def sample_defs)
  then have "storeBody no_yaml RegisterRoute post_route New = (Ok (sendJSON sample_route), sample_proxy)"
    by (simp add: storeBody_def post_route_def ContentTypeJSON_def orStatus_def sample_proxy_def)
      (simp add: proxy_ops)
  moreover have "serveAPI no_yaml post_route = handleRoutes no_yaml post_route"
    by (rule serve_routes) (simp add: post_route_def v1Alpha1RoutePath_def)
  ultimately show "gatewayTurn no_yaml (ApiRequest '':8081'' post_route) (run Map.empty)
      = (ApiAnswer (sendJSON sample_route), Running (NewRouter '':8081'') '':8080'' sample_proxy)"
    by (simp add: run_def registerFlags_def flagOr_def NewRouter_def handleRoutes_def) (simp add: post_route_def)
qed


end
