(* ===== verification/Deployment_Types.thy ===== *)
theory Deployment_Types
  imports Go_Prelude
begin

text \<open>
  The data the controller works on: the \<open>ModelDeployment\<close> resource
  (\<^verbatim>\<open>api/v1alpha1/deployment/modeldeployment_types.go\<close>) and the fields of the Kubernetes types
  it is made of that the code reads. A pointer is an option, nil being \<open>None\<close>. A resource quantity
  is kept as the text of the manifest; what the text means is a parameter of the definitions that
  compare quantities.
\<close>

section \<open>References\<close>

record object_ref =
  orAPIVersion :: string
  orKind :: string
  orNamespace :: string
  orName :: string

record service_reference =
  srRef :: object_ref
  srTargetPort :: int

abbreviation srNamespace :: "service_reference \<Rightarrow> string" where
  "srNamespace s \<equiv> orNamespace (srRef s)"

abbreviation srName :: "service_reference \<Rightarrow> string" where
  "srName s \<equiv> orName (srRef s)"

section \<open>Metric specifications\<close>

type_synonym quantity = string

record label_selector =
  lsMatchLabels :: "(string \<times> string) list"
  lsMatchExpressions :: "string list"

record metric_identifier =
  miName :: string
  miSelector :: "label_selector option"

record metric_target =
  mtType :: string
  mtValue :: "quantity option"
  mtAverageValue :: "quantity option"
  mtAverageUtilization :: "int option"

record object_metric =
  omDescribedObject :: object_ref
  omTarget :: metric_target
  omMetric :: metric_identifier

record pods_metric =
  pmMetric :: metric_identifier
  pmTarget :: metric_target

record resource_metric =
  rmName :: string
  rmTarget :: metric_target

record container_metric =
  cmName :: string
  cmContainer :: string
  cmTarget :: metric_target

record external_metric =
  emMetric :: metric_identifier
  emTarget :: metric_target

record metric_spec =
  msType :: string
  msObject :: "object_metric option"
  msPods :: "pods_metric option"
  msResource :: "resource_metric option"
  msContainerResource :: "container_metric option"
  msExternal :: "external_metric option"

section \<open>The ModelDeployment resource\<close>

record oauth_config =
  ocClientID :: string
  ocClientSecret :: string
  ocTokenURL :: string

record auth_config =
  acType :: string
  acOAuthConfig :: "oauth_config option"

record remote_backend =
  rbHost :: string
  rbAuthConfig :: "auth_config option"
  rbPathPrefix :: string
  rbHeadersToAdd :: "(string \<times> string) list"
  rbScheme :: string

record offloading_behavior =
  obPercentage :: int

record offloading_config =
  ofRemoteBackend :: "remote_backend option"
  ofMetrics :: "metric_spec list"
  ofBehavior :: "offloading_behavior option"

record policy_ref =
  prRefType :: string
  prRef :: object_ref
  prName :: string

record serverless_config =
  slMinNumReplicas :: int
  slMaxNumReplicas :: int
  slMetric :: "string option"
  slTarget :: "string option"
  slScaleUpMinimum :: "int option"
  slScaleDownDelay :: "string option"
  slStableWindow :: "string option"
  slLastPodRetentionPeriod :: "string option"

record model_spec =
  spModel :: string
  spEnabled :: bool
  spModelSourceRef :: object_ref
  spServiceRef :: "service_reference option"
  spMetricServiceRef :: "service_reference option"
  spEnvironment :: string
  spPolicies :: "policy_ref list"
  spServerlessConfig :: "serverless_config option"
  spOffloadingConfig :: "offloading_config option"

record model_status =
  stOffloadingStatus :: bool
  stServingPort :: int
  stMetricPort :: int
  stWorkspace :: string
  stCreatedAtOnBeamlit :: int
  stUpdatedAtOnBeamlit :: int

record model_deployment =
  mdName :: string
  mdNamespace :: string
  mdGeneration :: int
  mdLabels :: "(string \<times> string) list"
  mdDeletionTimestamp :: "int option"
  mdFinalizers :: "string list"
  mdSpec :: model_spec
  mdStatus :: model_status

end
