(* ===== verification/Metric_Condition.thy ===== *)
theory Metric_Condition
  imports Deployment_Types
begin

text \<open>
  The metric comparison and threshold functions of \<^verbatim>\<open>internal/informers/metric/kubernetes_helper.go\<close>
  and the metric condition of \<^verbatim>\<open>kubernetes_informer.go\<close>, which both metric informers share.

  Quantities and label selectors come from the Kubernetes API machinery: their comparison,
  \<open>CmpInt64\<close> and \<open>String\<close> are the parameter \<open>quantity_ops\<close>.
\<close>

record quantity_ops =
  qEqual :: "quantity \<Rightarrow> quantity \<Rightarrow> bool"
  qCmpInt64 :: "quantity \<Rightarrow> int \<Rightarrow> int"
  selectorString :: "label_selector \<Rightarrow> string"

section \<open>Comparing metric specifications\<close>

definition equalMetricTarget :: "quantity_ops \<Rightarrow> metric_target \<Rightarrow> metric_target \<Rightarrow> bool" where
  "equalMetricTarget q a b =
     (if mtType a \<noteq> mtType b then False
      else if mtType a = ''Utilization'' then
        (case (mtAverageUtilization a, mtAverageUtilization b) of
           (Some x, Some y) \<Rightarrow> x = y | _ \<Rightarrow> False)
      else if mtType a = ''Value'' then
        (case (mtValue a, mtValue b) of (Some x, Some y) \<Rightarrow> qEqual q x y | _ \<Rightarrow> False)
      else if mtType a = ''AverageValue'' then
        (case (mtAverageValue a, mtAverageValue b) of (Some x, Some y) \<Rightarrow> qEqual q x y | _ \<Rightarrow> False)
      else False)"

definition equalMetricIdentifier ::
  "quantity_ops \<Rightarrow> metric_identifier \<Rightarrow> metric_identifier \<Rightarrow> bool" where
  "equalMetricIdentifier q a b =
     (if miName a \<noteq> miName b then False
      else case (miSelector a, miSelector b) of
             (None, None) \<Rightarrow> True
           | (Some x, Some y) \<Rightarrow> selectorString q x = selectorString q y
           | _ \<Rightarrow> False)"

definition equalResourceMetricSource ::
  "quantity_ops \<Rightarrow> resource_metric \<Rightarrow> resource_metric \<Rightarrow> bool" where
  "equalResourceMetricSource q a b \<longleftrightarrow>
     rmName a = rmName b \<and> equalMetricTarget q (rmTarget a) (rmTarget b)"

definition equalPodsMetricSource :: "quantity_ops \<Rightarrow> pods_metric \<Rightarrow> pods_metric \<Rightarrow> bool" where
  "equalPodsMetricSource q a b \<longleftrightarrow>
     equalMetricIdentifier q (pmMetric a) (pmMetric b) \<and> equalMetricTarget q (pmTarget a) (pmTarget b)"

definition equalObjectMetricSource :: "quantity_ops \<Rightarrow> object_metric \<Rightarrow> object_metric \<Rightarrow> bool" where
  "equalObjectMetricSource q a b =
     (if orAPIVersion (omDescribedObject a) \<noteq> orAPIVersion (omDescribedObject b)
         \<or> orKind (omDescribedObject a) \<noteq> orKind (omDescribedObject b)
         \<or> orName (omDescribedObject a) \<noteq> orName (omDescribedObject b)
      then False
      else equalMetricIdentifier q (omMetric a) (omMetric b)
           \<and> equalMetricTarget q (omTarget a) (omTarget b))"

definition equalExternalMetricSource ::
  "quantity_ops \<Rightarrow> external_metric \<Rightarrow> external_metric \<Rightarrow> bool" where
  "equalExternalMetricSource q a b \<longleftrightarrow>
     equalMetricIdentifier q (emMetric a) (emMetric b) \<and> equalMetricTarget q (emTarget a) (emTarget b)"

definition equalContainerResourceMetricSource ::
  "quantity_ops \<Rightarrow> container_metric \<Rightarrow> container_metric \<Rightarrow> bool" where
  "equalContainerResourceMetricSource q a b \<longleftrightarrow>
     cmName a = cmName b \<and> cmContainer a = cmContainer b
     \<and> equalMetricTarget q (cmTarget a) (cmTarget b)"

text \<open>Both source pointers are read before the comparison: a nil one panics.\<close>

definition both :: "('a \<Rightarrow> 'a \<Rightarrow> bool) \<Rightarrow> 'a option \<Rightarrow> 'a option \<Rightarrow> bool outcome" where
  "both f x y = (case (x, y) of (Some a, Some b) \<Rightarrow> Ok (f a b) | _ \<Rightarrow> Panic NilDeref)"

definition IsMetricSpecEqual :: "quantity_ops \<Rightarrow> metric_spec \<Rightarrow> metric_spec \<Rightarrow> bool outcome" where
  "IsMetricSpecEqual q a b =
     (if msType a \<noteq> msType b then Ok False
      else if msType a = ''ContainerResource'' then
        both (equalContainerResourceMetricSource q) (msContainerResource a) (msContainerResource b)
      else if msType a = ''External'' then
        both (equalExternalMetricSource q) (msExternal a) (msExternal b)
      else if msType a = ''Object'' then
        both (equalObjectMetricSource q) (msObject a) (msObject b)
      else if msType a = ''Pods'' then
        both (equalPodsMetricSource q) (msPods a) (msPods b)
      else if msType a = ''Resource'' then
        both (equalResourceMetricSource q) (msResource a) (msResource b)
      else Ok False)"

section \<open>Thresholds\<close>

fun sum64 :: "int list \<Rightarrow> int \<Rightarrow> int" where
  "sum64 [] acc = acc"
| "sum64 (m # ms) acc = sum64 ms (i64 (acc + m))"

fun map_outcome :: "('a \<Rightarrow> 'b) \<Rightarrow> 'a outcome \<Rightarrow> 'b outcome" where
  "map_outcome f (Ok x) = Ok (f x)"
| "map_outcome f (Err e) = Err e"
| "map_outcome f (Panic p) = Panic p"

definition isMetricReached :: "quantity_ops \<Rightarrow> int \<Rightarrow> metric_target \<Rightarrow> int list \<Rightarrow> bool outcome" where
  "isMetricReached q replicas target metrics =
     (if mtType target = ''Utilization'' then
        (case mtAverageUtilization target of
           None \<Rightarrow> Err (Errorf ''averageUtilization is nil'')
         | Some u \<Rightarrow> map_outcome (\<lambda>averageUtilization. averageUtilization \<ge> u)
                       (quo (sum64 metrics 0) replicas))
      else if mtType target = ''Value'' then
        (case mtValue target of
           None \<Rightarrow> Panic NilDeref
         | Some v \<Rightarrow> Ok (qCmpInt64 q v (sum64 metrics 0) \<ge> 0))
      else if mtType target = ''AverageValue'' then
        (case quo (sum64 metrics 0) replicas of
           Ok averageValue \<Rightarrow>
             (case mtAverageValue target of
                None \<Rightarrow> Panic NilDeref
              | Some v \<Rightarrow> Ok (qCmpInt64 q v averageValue \<ge> 0))
         | Err e \<Rightarrow> Err e
         | Panic p \<Rightarrow> Panic p)
      else Err (Errorf (''unsupported metric type: '' @ mtType target)))"

section \<open>The condition\<close>

text \<open>
  Times are nanoseconds since the zero time of Go, durations nanoseconds; \<open>time.Since\<close> saturates
  at the largest duration.
\<close>

record metricConditionStatus =
  currentMetricReachedMetrics :: "metric_spec list"
  reached :: bool
  window :: int
  sinceTime :: int

definition time_since :: "int \<Rightarrow> int \<Rightarrow> int" where
  "time_since now t = max (- (2 ^ 63)) (min (2 ^ 63 - 1) (now - t))"

definition newCondition :: "int \<Rightarrow> metricConditionStatus" where
  "newCondition w = \<lparr>currentMetricReachedMetrics = [], reached = False, window = w, sinceTime = 0\<rparr>"

text \<open>The position of the first listed metric equal to the current one.\<close>

fun findEqual :: "quantity_ops \<Rightarrow> metric_spec \<Rightarrow> nat \<Rightarrow> metric_spec list \<Rightarrow> nat option outcome" where
  "findEqual q cur i [] = Ok None"
| "findEqual q cur i (m # ms) =
     (case IsMetricSpecEqual q m cur of
        Ok isEqual \<Rightarrow> if isEqual then Ok (Some i) else findEqual q cur (Suc i) ms
      | Err e \<Rightarrow> Err e
      | Panic p \<Rightarrow> Panic p)"

text \<open>The deferred function of \<open>update\<close>.\<close>

definition settle :: "metricConditionStatus \<Rightarrow> metricConditionStatus" where
  "settle c =
     (if length (currentMetricReachedMetrics c) = 0 then c\<lparr>reached := False, sinceTime := 0\<rparr> else c)"

definition removeAt :: "nat \<Rightarrow> 'a list \<Rightarrow> 'a list" where
  "removeAt i xs = (if length xs = 1 then [] else take i xs @ drop (Suc i) xs)"

definition update ::
  "quantity_ops \<Rightarrow> int \<Rightarrow> metric_spec \<Rightarrow> bool \<Rightarrow> (metricConditionStatus, unit) go" where
  "update q now cur rch c =
     (case findEqual q cur 0 (currentMetricReachedMetrics c) of
        Ok (Some i) \<Rightarrow>
          (Ok (), settle
             (if \<not> rch
              then c\<lparr>currentMetricReachedMetrics := removeAt i (currentMetricReachedMetrics c)\<rparr>
              else c))
      | Ok None \<Rightarrow>
          (Ok (), settle
             (if rch \<and> \<not> reached c
              then c\<lparr>currentMetricReachedMetrics := currentMetricReachedMetrics c @ [cur],
                     reached := True, sinceTime := now\<rparr>
              else if rch \<and> reached c
              then c\<lparr>currentMetricReachedMetrics := currentMetricReachedMetrics c @ [cur]\<rparr>
              else c))
      | Err e \<Rightarrow> (Err e, settle c)
      | Panic p \<Rightarrow> (Panic p, settle c))"

definition isReached :: "int \<Rightarrow> metricConditionStatus \<Rightarrow> bool" where
  "isReached now c = (if \<not> reached c then False else time_since now (sinceTime c) > window c)"

end
