(* ===== verification/Metric_Facts.thy ===== *)
theory Metric_Facts
  imports Metric_Condition
begin

text \<open>
  What the metric condition guarantees: on well-formed metric specifications the comparison is an
  equivalence, \<open>update\<close> implements insertion into and removal from a set of reached metrics, and
  \<open>isReached\<close> holds only after some metric has been reached without interruption for longer than
  the window; and what happens on specifications whose target is not well-formed.
\<close>

section \<open>The comparison is an equivalence on well-formed specifications\<close>

definition wf_target :: "metric_target \<Rightarrow> bool" where
  "wf_target t \<longleftrightarrow>
     mtType t = ''Utilization'' \<and> mtAverageUtilization t \<noteq> None
     \<or> mtType t = ''Value'' \<and> mtValue t \<noteq> None
     \<or> mtType t = ''AverageValue'' \<and> mtAverageValue t \<noteq> None"

definition wf_metric :: "metric_spec \<Rightarrow> bool" where
  "wf_metric m \<longleftrightarrow>
     msType m = ''ContainerResource'' \<and> (\<exists>s. msContainerResource m = Some s \<and> wf_target (cmTarget s))
     \<or> msType m = ''External'' \<and> (\<exists>s. msExternal m = Some s \<and> wf_target (emTarget s))
     \<or> msType m = ''Object'' \<and> (\<exists>s. msObject m = Some s \<and> wf_target (omTarget s))
     \<or> msType m = ''Pods'' \<and> (\<exists>s. msPods m = Some s \<and> wf_target (pmTarget s))
     \<or> msType m = ''Resource'' \<and> (\<exists>s. msResource m = Some s \<and> wf_target (rmTarget s))"

text \<open>The documented meaning of \<open>Quantity.Equal\<close>: an equivalence.\<close>

definition quantity_laws :: "quantity_ops \<Rightarrow> bool" where
  "quantity_laws q \<longleftrightarrow> equivp (qEqual q)"

lemma quantity_lawsD:
  assumes "quantity_laws q"
  shows "qEqual q x x" and "qEqual q x y \<Longrightarrow> qEqual q y x"
    and "qEqual q x y \<Longrightarrow> qEqual q y z \<Longrightarrow> qEqual q x z"
  using assms by (auto simp: quantity_laws_def elim: equivpE dest: reflpD sympD transpD)

definition spec_eq :: "quantity_ops \<Rightarrow> metric_spec \<Rightarrow> metric_spec \<Rightarrow> bool" where
  "spec_eq q a b \<longleftrightarrow> IsMetricSpecEqual q a b = Ok True"

lemma equalMetricTarget_refl: "quantity_laws q \<Longrightarrow> wf_target t \<Longrightarrow> equalMetricTarget q t t"
  by (auto simp: equalMetricTarget_def wf_target_def quantity_lawsD(1))

lemma equalMetricTarget_sym:
  "quantity_laws q \<Longrightarrow> equalMetricTarget q s t \<Longrightarrow> equalMetricTarget q t s"
  by (auto simp: equalMetricTarget_def split: if_splits option.splits dest: quantity_lawsD(2))

lemma equalMetricTarget_trans:
  "quantity_laws q \<Longrightarrow> equalMetricTarget q s t \<Longrightarrow> equalMetricTarget q t u
   \<Longrightarrow> equalMetricTarget q s u"
  by (auto simp: equalMetricTarget_def split: if_splits option.splits dest: quantity_lawsD(3))

lemma equalMetricIdentifier_refl: "equalMetricIdentifier q a a"
  by (auto simp: equalMetricIdentifier_def split: option.splits)

lemma equalMetricIdentifier_sym: "equalMetricIdentifier q a b \<Longrightarrow> equalMetricIdentifier q b a"
  by (auto simp: equalMetricIdentifier_def split: if_splits option.splits)

lemma equalMetricIdentifier_trans:
  "equalMetricIdentifier q a b \<Longrightarrow> equalMetricIdentifier q b c \<Longrightarrow> equalMetricIdentifier q a c"
  by (auto simp: equalMetricIdentifier_def split: if_splits option.splits)

lemmas source_defs = equalContainerResourceMetricSource_def equalExternalMetricSource_def
  equalObjectMetricSource_def equalPodsMetricSource_def equalResourceMetricSource_def

lemma IsMetricSpecEqual_total:
  assumes "wf_metric a" and "wf_metric b"
  shows "\<exists>r. IsMetricSpecEqual q a b = Ok r"
  using assms by (auto simp: wf_metric_def IsMetricSpecEqual_def both_def)

lemma spec_eq_refl: "quantity_laws q \<Longrightarrow> wf_metric m \<Longrightarrow> spec_eq q m m"
  by (auto simp: spec_eq_def wf_metric_def IsMetricSpecEqual_def both_def source_defs
      equalMetricTarget_refl equalMetricIdentifier_refl)

lemma spec_eq_sym: "quantity_laws q \<Longrightarrow> spec_eq q a b \<Longrightarrow> spec_eq q b a"
  unfolding spec_eq_def IsMetricSpecEqual_def both_def source_defs
  by (auto split: if_splits option.splits
      intro: equalMetricTarget_sym equalMetricIdentifier_sym)

lemma spec_eq_trans:
  "quantity_laws q \<Longrightarrow> spec_eq q a b \<Longrightarrow> spec_eq q b c \<Longrightarrow> spec_eq q a c"
  unfolding spec_eq_def IsMetricSpecEqual_def both_def source_defs
  by (auto split: if_splits option.splits
      intro: equalMetricTarget_trans equalMetricIdentifier_trans)

section \<open>Finding the current metric\<close>

lemma findEqual_cases:
  assumes "wf_metric cur" and "\<forall>m \<in> set ms. wf_metric m"
  obtains "findEqual q cur i ms = Ok None" and "\<forall>m \<in> set ms. \<not> spec_eq q m cur"
  | j where "j < length ms" and "findEqual q cur i ms = Ok (Some (i + j))" and "spec_eq q (ms ! j) cur"
  using assms
proof (induction ms arbitrary: i thesis)
  case Nil
  then show ?case by simp
next
  case (Cons m ms)
  obtain r where r: "IsMetricSpecEqual q m cur = Ok r"
    using IsMetricSpecEqual_total Cons.prems(3,4) by (metis list.set_intros(1))
  show ?case
  proof (cases r)
    case True
    with r show ?thesis by (intro Cons.prems(2) [of 0]) (auto simp: spec_eq_def)
  next
    case False
    show ?thesis
    proof (rule Cons.IH [of "Suc i"])
      assume "findEqual q cur (Suc i) ms = Ok None" and "\<forall>m \<in> set ms. \<not> spec_eq q m cur"
      with False r show ?thesis by (intro Cons.prems(1)) (auto simp: spec_eq_def)
    next
      fix j assume "j < length ms" and "findEqual q cur (Suc i) ms = Ok (Some (Suc i + j))"
        and "spec_eq q (ms ! j) cur"
      with False r show ?thesis by (intro Cons.prems(2) [of "Suc j"]) auto
    qed (use Cons.prems in auto)
  qed
qed

section \<open>The condition as a set of reached metrics\<close>

text \<open>
  The invariant of the condition: the listed metrics are well-formed and pairwise different, the
  flag says whether the list is empty, and the time is reset with the flag.
\<close>

definition cond_inv :: "quantity_ops \<Rightarrow> metricConditionStatus \<Rightarrow> bool" where
  "cond_inv q c \<longleftrightarrow>
     (\<forall>m \<in> set (currentMetricReachedMetrics c). wf_metric m)
     \<and> sorted_wrt (\<lambda>a b. \<not> spec_eq q a b) (currentMetricReachedMetrics c)
     \<and> (reached c \<longleftrightarrow> currentMetricReachedMetrics c \<noteq> [])
     \<and> (\<not> reached c \<longrightarrow> sinceTime c = 0)"

definition same_metric :: "quantity_ops \<Rightarrow> metric_spec \<Rightarrow> metric_spec set" where
  "same_metric q m = {m'. wf_metric m' \<and> spec_eq q m m'}"

definition active :: "quantity_ops \<Rightarrow> metricConditionStatus \<Rightarrow> metric_spec set" where
  "active q c = (\<Union>m \<in> set (currentMetricReachedMetrics c). same_metric q m)"

lemma same_metric_cong: "quantity_laws q \<Longrightarrow> spec_eq q a b \<Longrightarrow> same_metric q a = same_metric q b"
  by (auto simp: same_metric_def intro: spec_eq_trans spec_eq_sym)

lemma same_metric_disjoint:
  assumes "quantity_laws q" and "\<not> spec_eq q a b"
  shows "same_metric q a \<inter> same_metric q b = {}"
  using assms by (auto simp: same_metric_def) (meson spec_eq_sym spec_eq_trans)

lemma removeAt_split:
  assumes "xs = ys @ x # zs" and "j = length ys"
  shows "removeAt j xs = ys @ zs"
  using assms by (auto simp: removeAt_def)

lemma cond_inv_new: "cond_inv q (newCondition w)"
  by (simp add: cond_inv_def newCondition_def)

lemma active_new: "active q (newCondition w) = {}"
  by (simp add: active_def newCondition_def)

lemma update_window: "window (snd (update q now cur rch c)) = window c"
  by (simp add: update_def settle_def split: outcome.splits option.splits)

lemma update_removes:
  assumes q: "quantity_laws q" and inv: "cond_inv q c"
    and split: "currentMetricReachedMetrics c = ys @ x # zs" and eq: "spec_eq q x cur"
    and c': "c' = settle (c\<lparr>currentMetricReachedMetrics := ys @ zs\<rparr>)"
  shows "cond_inv q c' \<and> active q c' = active q c - same_metric q cur"
proof -
  have differ: "\<not> spec_eq q m cur" if "m \<in> set (ys @ zs)" for m
  proof
    assume "spec_eq q m cur"
    with eq q have "spec_eq q m x" and "spec_eq q x m" by (meson spec_eq_sym spec_eq_trans)+
    with that inv split show False by (auto simp: cond_inv_def sorted_wrt_append)
  qed
  have "cond_inv q c'"
    using inv split by (auto simp: c' cond_inv_def settle_def sorted_wrt_append)
  moreover have "active q c' = (\<Union>m \<in> set (ys @ zs). same_metric q m)"
    by (simp add: c' active_def settle_def)
  moreover have "active q c = (\<Union>m \<in> set (ys @ zs). same_metric q m) \<union> same_metric q cur"
    using split same_metric_cong [OF q eq] by (auto simp: active_def)
  moreover have "(\<Union>m \<in> set (ys @ zs). same_metric q m) \<inter> same_metric q cur = {}"
    using differ same_metric_disjoint [OF q] by blast
  ultimately show ?thesis by blast
qed

lemma update_adds:
  assumes inv: "cond_inv q c" and wf: "wf_metric cur"
    and new: "\<forall>m \<in> set (currentMetricReachedMetrics c). \<not> spec_eq q m cur"
    and c': "c' = settle (if \<not> reached c
       then c\<lparr>currentMetricReachedMetrics := currentMetricReachedMetrics c @ [cur],
              reached := True, sinceTime := now\<rparr>
       else c\<lparr>currentMetricReachedMetrics := currentMetricReachedMetrics c @ [cur]\<rparr>)"
  shows "cond_inv q c' \<and> active q c' = active q c \<union> same_metric q cur"
  using inv wf new by (auto simp: c' cond_inv_def active_def settle_def sorted_wrt_append)

lemma settle_id: "currentMetricReachedMetrics c \<noteq> [] \<Longrightarrow> settle c = c"
  by (simp add: settle_def)

lemma settle_inv: "cond_inv q c \<Longrightarrow> settle c = c"
  by (auto simp: settle_def cond_inv_def)

lemma update_step:
  assumes "quantity_laws q" and "cond_inv q c" and "wf_metric cur"
  shows "\<exists>c'. update q now cur rch c = (Ok (), c') \<and> cond_inv q c'
    \<and> active q c' = (if rch then active q c \<union> same_metric q cur else active q c - same_metric q cur)"
proof -
  have wf: "\<forall>m \<in> set (currentMetricReachedMetrics c). wf_metric m"
    using assms(2) by (simp add: cond_inv_def)
  from assms(3) wf show ?thesis
  proof (rule findEqual_cases [where q = q and i = 0])
    assume none: "findEqual q cur 0 (currentMetricReachedMetrics c) = Ok None"
      and new: "\<forall>m \<in> set (currentMetricReachedMetrics c). \<not> spec_eq q m cur"
    have "active q c \<inter> same_metric q cur = {}"
      using new same_metric_disjoint [OF assms(1)] by (fastforce simp: active_def)
    with none settle_inv [OF assms(2)] assms(2) update_adds [OF assms(2,3) new refl, of now]
    show ?thesis by (auto simp: update_def)
  next
    fix j assume j: "j < length (currentMetricReachedMetrics c)"
      and found: "findEqual q cur 0 (currentMetricReachedMetrics c) = Ok (Some (0 + j))"
      and eq: "spec_eq q (currentMetricReachedMetrics c ! j) cur"
    let ?l = "currentMetricReachedMetrics c"
    have split: "?l = take j ?l @ ?l ! j # drop (Suc j) ?l" using j by (rule id_take_nth_drop)
    have "removeAt j ?l = take j ?l @ drop (Suc j) ?l"
      using removeAt_split [OF split] j by simp
    moreover have "same_metric q cur \<subseteq> active q c"
      using j same_metric_cong [OF assms(1) eq] nth_mem by (fastforce simp: active_def)
    ultimately show ?thesis
      using found settle_inv [OF assms(2)] assms(2) update_removes [OF assms(1,2) split eq refl]
      by (auto simp: update_def)
  qed
qed

section \<open>Runs of timed updates\<close>

type_synonym timed_update = "int \<times> metric_spec \<times> bool"

fun run_updates :: "quantity_ops \<Rightarrow> timed_update list \<Rightarrow> metricConditionStatus \<Rightarrow> metricConditionStatus" where
  "run_updates q [] c = c"
| "run_updates q ((now, m, r) # us) c = run_updates q us (snd (update q now m r c))"

lemma run_updates_append: "run_updates q (us @ vs) c = run_updates q vs (run_updates q us c)"
  by (induction q us c rule: run_updates.induct) simp_all

lemma run_updates_window: "window (run_updates q us c) = window c"
  by (induction q us c rule: run_updates.induct) (simp_all add: update_window)

text \<open>
  The metric reached since when: the update that made the list non-empty, with every later state
  of the run non-empty too.
\<close>

definition onset ::
  "quantity_ops \<Rightarrow> int \<Rightarrow> timed_update list \<Rightarrow> metricConditionStatus \<Rightarrow> bool" where
  "onset q t us c \<longleftrightarrow> (\<exists>pre m post. us = pre @ (t, m, True) # post
     \<and> (\<forall>k \<le> length post.
          currentMetricReachedMetrics (run_updates q (pre @ (t, m, True) # take k post) c) \<noteq> []))"

lemma onset_snoc:
  assumes "onset q t us c" and "currentMetricReachedMetrics (run_updates q (us @ [u]) c) \<noteq> []"
  shows "onset q t (us @ [u]) c"
proof -
  from assms(1) obtain pre m post where us: "us = pre @ (t, m, True) # post"
    and k: "\<forall>k \<le> length post.
      currentMetricReachedMetrics (run_updates q (pre @ (t, m, True) # take k post) c) \<noteq> []"
    unfolding onset_def by blast
  have "\<forall>k \<le> length (post @ [u]).
      currentMetricReachedMetrics (run_updates q (pre @ (t, m, True) # take k (post @ [u])) c) \<noteq> []"
    using k assms(2) us by (auto simp: le_Suc_eq)
  with us show ?thesis unfolding onset_def by (intro exI [of _ pre] exI [of _ m] exI [of _ "post @ [u]"]) simp
qed

lemma update_onset:
  assumes inv: "cond_inv q c" and c': "update q now m r c = (Ok (), c')"
    and ne: "currentMetricReachedMetrics c' \<noteq> []"
  shows "if reached c then sinceTime c' = sinceTime c else r \<and> sinceTime c' = now"
  using inv ne c' unfolding update_def
  by (auto simp: cond_inv_def settle_def split: outcome.splits option.splits if_splits)

lemma run_updates_since:
  assumes "quantity_laws q" and "\<forall>(t, m, r) \<in> set us. wf_metric m"
  shows "cond_inv q (run_updates q us (newCondition w))
    \<and> (reached (run_updates q us (newCondition w))
       \<longrightarrow> onset q (sinceTime (run_updates q us (newCondition w))) us (newCondition w))"
  using assms(2)
proof (induction us rule: rev_induct)
  case Nil
  then show ?case by (simp add: cond_inv_new) (simp add: newCondition_def)
next
  case (snoc u us)
  obtain now m r where u: "u = (now, m, r)" by (cases u)
  let ?c = "run_updates q us (newCondition w)"
  have inv: "cond_inv q ?c" and on: "reached ?c \<Longrightarrow> onset q (sinceTime ?c) us (newCondition w)"
    using snoc by auto
  have "wf_metric m" using snoc.prems by (simp add: u)
  from update_step [OF assms(1) inv this]
  obtain c' where step: "update q now m r ?c = (Ok (), c')" and inv': "cond_inv q c'" by blast
  have run: "run_updates q (us @ [u]) (newCondition w) = c'"
    by (simp add: run_updates_append u step)
  have "onset q (sinceTime c') (us @ [u]) (newCondition w)" if ne: "currentMetricReachedMetrics c' \<noteq> []"
  proof (cases "reached ?c")
    case True
    with update_onset [OF inv step ne] have "sinceTime c' = sinceTime ?c" by simp
    moreover have "onset q (sinceTime ?c) (us @ [u]) (newCondition w)"
      using on [OF True] by (rule onset_snoc) (simp add: run ne)
    ultimately show ?thesis by simp
  next
    case False
    with update_onset [OF inv step ne] have "r" and "sinceTime c' = now" by simp_all
    with ne run show ?thesis unfolding onset_def u
      by (intro exI [of _ us] exI [of _ m] exI [of _ "[]"]) simp
  qed
  with inv' show ?case by (simp add: run cond_inv_def)
qed

lemma not_wf_target_differs: "\<not> wf_target t \<Longrightarrow> \<not> equalMetricTarget q t t"
  by (auto simp: wf_target_def equalMetricTarget_def split: option.splits)

section \<open>Sample data\<close>

definition sample_quantities :: quantity_ops where
  "sample_quantities =
     \<lparr>qEqual = (=), qCmpInt64 = (\<lambda>v y. sgn (int (length v) - y)), selectorString = (\<lambda>_. [])\<rparr>"

definition sample_target :: metric_target where
  "sample_target =
     \<lparr>mtType = ''Utilization'', mtValue = None, mtAverageValue = None, mtAverageUtilization = Some 80\<rparr>"

definition cpu_metric :: metric_spec where
  "cpu_metric =
     \<lparr>msType = ''Resource'', msObject = None, msPods = None,
      msResource = Some \<lparr>rmName = ''cpu'', rmTarget = sample_target\<rparr>,
      msContainerResource = None, msExternal = None\<rparr>"

definition mistyped_metric :: metric_spec where
  "mistyped_metric =
     \<lparr>msType = ''External'', msObject = None, msPods = None, msResource = None,
      msContainerResource = None,
      msExternal = Some \<lparr>emMetric = \<lparr>miName = ''queue'', miSelector = None\<rparr>,
                         emTarget = sample_target\<lparr>mtType := ''Value''\<rparr>\<rparr>\<rparr>"

lemma sample_quantity_laws: "quantity_laws sample_quantities"
  by (auto simp: quantity_laws_def sample_quantities_def intro: identity_equivp)

lemma cpu_metric_wf: "wf_metric cpu_metric"
  by (simp add: wf_metric_def cpu_metric_def wf_target_def sample_target_def)

section \<open>Properties\<close>

text \<open>
  C7. \<open>update\<close> implements a set of reached metrics. On well-formed metrics, and with the quantity
  comparison an equivalence, it returns without panic, keeps the invariant of the condition (no
  metric is listed twice, the flag says whether one is listed), and adds the class of the current
  metric to the set, or removes it.
\<close>
theorem update_refines_metric_set:
  assumes "quantity_laws q" and "cond_inv q c" and "wf_metric cur"
  shows "\<exists>c'. update q now cur rch c = (Ok (), c') \<and> cond_inv q c'
    \<and> active q c' = (if rch then active q c \<union> same_metric q cur else active q c - same_metric q cur)"
  using assms by (rule update_step)

theorem update_refines_metric_set_witness:
  "\<exists>c'. update sample_quantities 7 cpu_metric True (newCondition 5) = (Ok (), c')
     \<and> cond_inv sample_quantities c'
     \<and> active sample_quantities c' = {} \<union> same_metric sample_quantities cpu_metric"
  using update_refines_metric_set
      [OF sample_quantity_laws cond_inv_new [of _ 5] cpu_metric_wf, of 7 True]
  by (simp add: active_new)

text \<open>
  \<open>isReached\<close> answers true only when the window has passed: after any run of updates of a new
  condition with well-formed metrics, if it holds at \<open>now\<close>, then some update at a time \<open>t\<close> with
  \<open>now - t > window\<close> reported a metric as reached, and from that update on at least one metric has
  been listed as reached after every update.
\<close>
theorem is_reached_needs_full_window:
  assumes "quantity_laws q" and "\<forall>(t, m, r) \<in> set us. wf_metric m" and "0 \<le> w"
    and "isReached now (run_updates q us (newCondition w))"
  shows "\<exists>t. onset q t us (newCondition w) \<and> now - t > w"
proof -
  let ?c = "run_updates q us (newCondition w)"
  have "reached ?c" and "time_since now (sinceTime ?c) > w"
    using assms(4) by (simp_all add: isReached_def run_updates_window newCondition_def
        split: if_splits)
  moreover from this(2) assms(3) have "now - sinceTime ?c > w" by (auto simp: time_since_def)
  ultimately show ?thesis using run_updates_since [OF assms(1,2), of w] by blast
qed

theorem is_reached_needs_full_window_witness:
  "\<exists>t. onset sample_quantities t [(1, cpu_metric, True)] (newCondition 5) \<and> 10 - t > 5"
proof (rule is_reached_needs_full_window)
  show "isReached 10 (run_updates sample_quantities [(1, cpu_metric, True)] (newCondition 5))"
    by (simp add: update_def newCondition_def settle_def isReached_def time_since_def)
qed (simp_all add: sample_quantity_laws cpu_metric_wf)

text \<open>
  An external metric whose target is not well-formed (its type does not match the field that is
  set) is not equal to itself, so the condition latches: once reported as reached it is never
  removed again, whatever is reported later.
\<close>
theorem ill_typed_target_latches:
  assumes "msType m = ''External''" and "msExternal m = Some s" and "\<not> wf_target (emTarget s)"
  shows "reached (run_updates q ((t, m, True) # map (\<lambda>u. (u, m, False)) ts) (newCondition w))
    \<and> sinceTime (run_updates q ((t, m, True) # map (\<lambda>u. (u, m, False)) ts) (newCondition w)) = t"
proof -
  let ?c = "\<lparr>currentMetricReachedMetrics = [m], reached = True, window = w, sinceTime = t\<rparr>"
  have "IsMetricSpecEqual q m m = Ok False"
    using assms not_wf_target_differs
    by (simp add: IsMetricSpecEqual_def both_def equalExternalMetricSource_def)
  then have stuck: "update q u m False ?c = (Ok (), ?c)" for u
    by (simp add: update_def settle_def)
  have "run_updates q (map (\<lambda>u. (u, m, False)) us) ?c = ?c" for us
    by (induction us) (simp_all add: stuck)
  then show ?thesis by (simp add: update_def newCondition_def settle_def)
qed

theorem ill_typed_target_latches_witness:
  "reached (run_updates sample_quantities
     [(3, mistyped_metric, True), (4, mistyped_metric, False)] (newCondition 5))"
  using ill_typed_target_latches [of mistyped_metric _ sample_quantities 3 "[4]" 5]
  by (simp add: mistyped_metric_def wf_target_def sample_target_def)

text \<open>
  For \<open>Value\<close> and \<open>AverageValue\<close> targets the comparison is the wrong way round: with
  \<open>CmpInt64\<close> comparing as documented, the metric counts as reached exactly when the measured
  value is at most the threshold, while a \<open>Utilization\<close> target is reached when the measured value
  is at least the threshold.
\<close>
theorem value_target_reached_below_threshold:
  assumes "\<And>y. qCmpInt64 q v y = sgn (val - y)" and "replicas \<noteq> 0"
    and "- (2 ^ 63) \<le> sum64 ms 0 sdiv replicas" and "sum64 ms 0 sdiv replicas < 2 ^ 63"
  shows "isMetricReached q replicas (tv\<lparr>mtType := ''Value'', mtValue := Some v\<rparr>) ms
      = Ok (sum64 ms 0 \<le> val)
    \<and> isMetricReached q replicas (tv\<lparr>mtType := ''AverageValue'', mtAverageValue := Some v\<rparr>) ms
      = Ok (sum64 ms 0 sdiv replicas \<le> val)
    \<and> isMetricReached q replicas (tv\<lparr>mtType := ''Utilization'', mtAverageUtilization := Some val\<rparr>) ms
      = Ok (sum64 ms 0 sdiv replicas \<ge> val)"
  using assms by (auto simp: isMetricReached_def quo_def sgn_if)

theorem value_target_reached_below_threshold_witness:
  "isMetricReached sample_quantities 1
     (sample_target\<lparr>mtType := ''Value'', mtValue := Some ''xxxxx''\<rparr>) [3] = Ok True
   \<and> isMetricReached sample_quantities 1
     (sample_target\<lparr>mtType := ''Value'', mtValue := Some ''xxxxx''\<rparr>) [9] = Ok False"
  using value_target_reached_below_threshold [of sample_quantities "''xxxxx''" 5 1 "[3]" sample_target]
    value_target_reached_below_threshold [of sample_quantities "''xxxxx''" 5 1 "[9]" sample_target]
  by (simp add: sample_quantities_def)

end
