(* ===== verification/Informer_Registry.thy ===== *)
theory Informer_Registry
  imports Go_Prelude "HOL-Library.AList"
begin

text \<open>
  What the controller relies on when it registers models with an informer, whatever the informer
  watches (\<open>HealthInformer\<close> and \<open>MetricInformer\<close> of \<^verbatim>\<open>internal/informers\<close>): \<open>Register\<close> replaces
  the registration of a model, \<open>Unregister\<close> removes it. The contract holds for well-formed
  registries when every watcher goroutine that was spawned has run far enough to be stopped
  (\<open>ready\<close>); \<open>schedule\<close> lets the pending goroutines run up to that point.

  A Go map that is iterated over is an association list, in the order of the iteration.
\<close>

datatype 'a registry_op = RegisterModel string 'a | UnregisterModel string

fun registry_spec :: "'a registry_op list \<Rightarrow> (string \<rightharpoonup> 'a) \<Rightarrow> (string \<rightharpoonup> 'a)" where
  "registry_spec [] m = m"
| "registry_spec (RegisterModel n a # ps) m = registry_spec ps (m(n \<mapsto> a))"
| "registry_spec (UnregisterModel n # ps) m = registry_spec ps (m(n := None))"

fun exec_registry ::
  "(string \<Rightarrow> 'a \<Rightarrow> ('s, unit) go) \<Rightarrow> (string \<Rightarrow> ('s, unit) go) \<Rightarrow> ('s \<Rightarrow> 's)
   \<Rightarrow> 'a registry_op list \<Rightarrow> ('s, unit) go" where
  "exec_registry reg unreg sch [] s = (Ok (), s)"
| "exec_registry reg unreg sch (RegisterModel n a # ps) s =
     seqG (reg n a) (exec_registry reg unreg sch ps) (sch s)"
| "exec_registry reg unreg sch (UnregisterModel n # ps) s =
     seqG (unreg n) (exec_registry reg unreg sch ps) (sch s)"

locale informer_registry =
  fixes register :: "string \<Rightarrow> 'a \<Rightarrow> ('s, unit) go"
    and unregister :: "string \<Rightarrow> ('s, unit) go"
    and schedule :: "'s \<Rightarrow> 's"
    and wf :: "'s \<Rightarrow> bool"
    and ready :: "'s \<Rightarrow> bool"
    and watched :: "'s \<Rightarrow> string \<rightharpoonup> 'a"
  assumes schedule_ready: "wf s \<Longrightarrow> wf (schedule s) \<and> ready (schedule s)"
    and schedule_watched: "watched (schedule s) = watched s"
    and register_watches: "wf s \<Longrightarrow> ready s \<Longrightarrow>
      \<exists>t. register n a s = (Ok (), t) \<and> wf t \<and> watched t = (watched s)(n \<mapsto> a)"
    and unregister_forgets: "wf s \<Longrightarrow> ready s \<Longrightarrow>
      \<exists>t. unregister n s = (Ok (), t) \<and> wf t \<and> watched t = (watched s)(n := None)"
begin

lemma register_scheduled: "wf s \<Longrightarrow>
  \<exists>t. register n a (schedule s) = (Ok (), t) \<and> wf t \<and> watched t = (watched s)(n \<mapsto> a)"
  using register_watches schedule_ready schedule_watched by metis

lemma unregister_scheduled: "wf s \<Longrightarrow>
  \<exists>t. unregister n (schedule s) = (Ok (), t) \<and> wf t \<and> watched t = (watched s)(n := None)"
  using unregister_forgets schedule_ready schedule_watched by metis

lemma exec_refines_registry:
  "wf s \<Longrightarrow> \<exists>t. exec_registry register unregister schedule ps s = (Ok (), t) \<and> wf t
     \<and> watched t = registry_spec ps (watched s)"
proof (induction ps arbitrary: s)
  case Nil
  then show ?case by simp
next
  case (Cons p ps)
  show ?case
  proof (cases p)
    case (RegisterModel n a)
    obtain t where "register n a (schedule s) = (Ok (), t)" and "wf t"
      and "watched t = (watched s)(n \<mapsto> a)"
      using register_scheduled [OF Cons.prems] by blast
    with Cons.IH [of t] show ?thesis by (simp add: RegisterModel seqG_def fun_upd_def)
  next
    case (UnregisterModel n)
    obtain t where "unregister n (schedule s) = (Ok (), t)" and "wf t"
      and "watched t = (watched s)(n := None)"
      using unregister_scheduled [OF Cons.prems] by blast
    with Cons.IH [of t] show ?thesis by (simp add: UnregisterModel seqG_def fun_upd_def)
  qed
qed

end

text \<open>Shared facts on association lists as registries.\<close>

lemma map_of_map_values: "map_of (map (\<lambda>(k, v). (k, f v)) al) = map_option f \<circ> map_of al"
  by (induction al) (auto simp: fun_eq_iff)

lemma delete_absent [simp]: "map_of al k = None \<Longrightarrow> AList.delete k al = al"
  by (metis delete_id domIff map_of_eq_None_iff dom_map_of_conv_image_fst)

end
