(* ===== verification/Metric_Informer.thy ===== *)
theory Metric_Informer
  imports Metric_Condition Informer_Registry
begin

text \<open>
  The Kubernetes metric informer (\<^verbatim>\<open>internal/informers/metric/kubernetes_informer.go\<close> and
  \<^verbatim>\<open>kubernetes_helper.go\<close>): what one scrape reads from the cluster for each kind of metric, how
  the readings feed the metric condition, and the registry of watchers.

  What the cluster and the API machinery answer while one metric is checked is a \<open>metric_env\<close>
  record; a scrape takes one record per metric, so that answers may differ from call to call.
\<close>

section \<open>What a scrape asks\<close>

record pod_metric =
  pvTimestamp :: int
  pvWindow :: int
  pvValue :: int

text \<open>The requests of a container, as \<open>MilliValue\<close> reads them; a missing request is 0.\<close>

record container_requests =
  crCpu :: int
  crMemory :: int
  crEphemeralStorage :: int
  crStorage :: int

type_synonym pod = "container_requests list"

record metric_env =
  eParseGroupVersion :: "string \<Rightarrow> string reply"
  eRESTMappings :: "string \<Rightarrow> string \<Rightarrow> string list reply"
  eScalesGet :: "string \<Rightarrow> string \<Rightarrow> string \<Rightarrow> (int \<times> string) reply"
  eLabelsParse :: "string \<Rightarrow> string reply"
  eLabelSelectorAsSelector :: "label_selector option \<Rightarrow> string reply"
  eGetObjectMetric :: "string \<Rightarrow> string \<Rightarrow> object_ref \<Rightarrow> string \<Rightarrow> int reply"
  eGetRawMetric :: "string \<Rightarrow> string \<Rightarrow> string \<Rightarrow> string \<Rightarrow> pod_metric list reply"
  eGetResourceMetric :: "string \<Rightarrow> string \<Rightarrow> string \<Rightarrow> string \<Rightarrow> pod_metric list reply"
  eGetExternalMetric :: "string \<Rightarrow> string \<Rightarrow> string \<Rightarrow> int list reply"
  ePodsList :: "string \<Rightarrow> string \<Rightarrow> pod list reply"
  eNow :: int

section \<open>Replicas and requests\<close>

definition parseHPASelector :: "metric_env \<Rightarrow> string \<Rightarrow> string reply" where
  "parseHPASelector env selector =
     (if selector = '''' then Inl (Errorf ''selector is required'')
      else eLabelsParse env selector)"

text \<open>The loop over the mappings: the first scale that is found wins, else the first error.\<close>

fun scaleOf ::
  "metric_env \<Rightarrow> object_ref \<Rightarrow> nat \<Rightarrow> go_error option \<Rightarrow> string list \<Rightarrow> (int \<times> string) reply" where
  "scaleOf env target i firstErr [] =
     (case firstErr of
        Some e \<Rightarrow> Inl e
      | None \<Rightarrow> Inl (Errorf (''failed to get replicas info for '' @ orName target)))"
| "scaleOf env target i firstErr (resource # rs) =
     (case eScalesGet env (orNamespace target) resource (orName target) of
        Inr (replicas, statusSelector) \<Rightarrow>
          (case parseHPASelector env statusSelector of
             Inl e \<Rightarrow> Inl e
           | Inr selector \<Rightarrow> Inr (replicas, selector))
      | Inl e \<Rightarrow> scaleOf env target (Suc i) (if i = 0 then Some e else firstErr) rs)"

definition getReplicasInfo :: "metric_env \<Rightarrow> object_ref \<Rightarrow> (int \<times> string) reply" where
  "getReplicasInfo env target =
     (case eParseGroupVersion env (orAPIVersion target) of
        Inl e \<Rightarrow> Inl e
      | Inr grp \<Rightarrow>
          (case eRESTMappings env grp (orKind target) of
             Inl e \<Rightarrow> Inl e
           | Inr resources \<Rightarrow> scaleOf env target 0 None resources))"

definition requestOf :: "string \<Rightarrow> container_requests \<Rightarrow> int" where
  "requestOf resourceName c =
     (if resourceName = ''cpu'' then crCpu c
      else if resourceName = ''memory'' then crMemory c
      else if resourceName = ''ephemeral-storage'' then crEphemeralStorage c
      else if resourceName = ''storage'' then crStorage c
      else 0)"

definition findRequestedResource ::
  "metric_env \<Rightarrow> string \<Rightarrow> string \<Rightarrow> string \<Rightarrow> int reply" where
  "findRequestedResource env ns labelSelector resourceName =
     (case ePodsList env ns labelSelector of
        Inl e \<Rightarrow> Inl e
      | Inr pods \<Rightarrow> Inr (sum64 (map (requestOf resourceName) (concat pods)) 0))"

section \<open>The watcher\<close>

record metricStatus =
  msModelName :: string
  msReached :: bool

record errWrapper =
  ewModelName :: string
  ewErr :: go_error

definition ErrWrapper_Error :: "errWrapper \<Rightarrow> string" where
  "ErrWrapper_Error e = ''model '' @ ewModelName e @ '': '' @ errorText (ewErr e)"

text \<open>\<open>kwCancel\<close> says whether the cancel function has been set, which the goroutine does first.\<close>

record k8sMetricWatcher =
  kwModel :: string
  kwScrapeInterval :: int
  kwLatestStatus :: metricStatus
  kwCancel :: bool
  kwCondition :: metricConditionStatus
  kwMetrics :: "metric_spec list"
  kwWatchTarget :: object_ref

section \<open>Reading one metric\<close>

definition readObject ::
  "quantity_ops \<Rightarrow> metric_env \<Rightarrow> k8sMetricWatcher \<Rightarrow> int \<Rightarrow> metric_spec \<Rightarrow> bool outcome" where
  "readObject q env w replicas metric =
     (case msObject metric of
        None \<Rightarrow> Panic NilDeref
      | Some src \<Rightarrow>
          bindO (replied (eLabelSelectorAsSelector env (miSelector (omMetric src)))) (\<lambda>metricSelector.
          bindO (replied (eGetObjectMetric env (miName (omMetric src))
                   (orNamespace (kwWatchTarget w))
                   ((kwWatchTarget w)\<lparr>orNamespace := []\<rparr>) metricSelector)) (\<lambda>usage.
          isMetricReached q replicas (omTarget src) [usage])))"

definition readPods ::
  "quantity_ops \<Rightarrow> metric_env \<Rightarrow> k8sMetricWatcher \<Rightarrow> int \<Rightarrow> string \<Rightarrow> metric_spec \<Rightarrow> bool outcome" where
  "readPods q env w replicas labelSelector metric =
     (case msPods metric of
        None \<Rightarrow> Panic NilDeref
      | Some src \<Rightarrow>
          bindO (replied (eLabelSelectorAsSelector env (miSelector (pmMetric src)))) (\<lambda>metricSelector.
          bindO (replied (eGetRawMetric env (miName (pmMetric src)) (orNamespace (kwWatchTarget w))
                   labelSelector metricSelector)) (\<lambda>usage.
          isMetricReached q replicas (pmTarget src) (map pvValue usage))))"

definition averageUtilizationOf :: "pod_metric list \<Rightarrow> int \<Rightarrow> int \<Rightarrow> int outcome" where
  "averageUtilizationOf usage requestedResource replicas =
     bindO (quo (i64 (sum64 (map pvValue usage) 0 * 100)) requestedResource) (\<lambda>u. quo u replicas)"

definition isFresh :: "metric_env \<Rightarrow> k8sMetricWatcher \<Rightarrow> pod_metric \<Rightarrow> bool" where
  "isFresh env w pm \<longleftrightarrow> pvTimestamp pm + pvWindow pm > eNow env - kwScrapeInterval w"

definition readResource ::
  "quantity_ops \<Rightarrow> metric_env \<Rightarrow> k8sMetricWatcher \<Rightarrow> int \<Rightarrow> string \<Rightarrow> metric_spec \<Rightarrow> bool outcome" where
  "readResource q env w replicas labelSelector metric =
     (case msResource metric of
        None \<Rightarrow> Panic NilDeref
      | Some src \<Rightarrow>
          bindO (replied (eGetResourceMetric env (rmName src) (orNamespace (kwWatchTarget w))
                   labelSelector [])) (\<lambda>usage.
          case mtAverageUtilization (rmTarget src) of
            Some target \<Rightarrow>
              bindO (replied (findRequestedResource env (orNamespace (kwWatchTarget w))
                       labelSelector (rmName src))) (\<lambda>requestedResource.
              bindO (averageUtilizationOf usage requestedResource replicas) (\<lambda>averageUtilization.
              Ok (averageUtilization \<ge> target)))
          | None \<Rightarrow>
              isMetricReached q replicas (rmTarget src) (map pvValue (filter (isFresh env w) usage))))"

definition readContainerResource ::
  "quantity_ops \<Rightarrow> metric_env \<Rightarrow> k8sMetricWatcher \<Rightarrow> int \<Rightarrow> string \<Rightarrow> metric_spec \<Rightarrow> bool outcome" where
  "readContainerResource q env w replicas labelSelector metric =
     (case msContainerResource metric of
        None \<Rightarrow> Panic NilDeref
      | Some src \<Rightarrow>
          bindO (replied (eGetResourceMetric env (cmContainer src) (orNamespace (kwWatchTarget w))
                   labelSelector (cmContainer src))) (\<lambda>usage.
          isMetricReached q replicas (cmTarget src) (map pvValue usage)))"

definition readExternal ::
  "quantity_ops \<Rightarrow> metric_env \<Rightarrow> k8sMetricWatcher \<Rightarrow> int \<Rightarrow> metric_spec \<Rightarrow> bool outcome" where
  "readExternal q env w replicas metric =
     (case msExternal metric of
        None \<Rightarrow> Panic NilDeref
      | Some src \<Rightarrow>
          bindO (replied (eLabelSelectorAsSelector env (miSelector (emMetric src)))) (\<lambda>metricSelector.
          bindO (replied (eGetExternalMetric env (miName (emMetric src))
                   (orNamespace (kwWatchTarget w)) metricSelector)) (\<lambda>usage.
          isMetricReached q replicas (emTarget src) usage)))"

text \<open>
  The body of the loop of \<open>CheckMetric\<close> up to the call of \<open>update\<close>: \<open>Ok\<close> is the flag passed to
  \<open>update\<close>, \<open>Err\<close> the error appended to \<open>errs\<close>.
\<close>

definition reading ::
  "quantity_ops \<Rightarrow> metric_env \<Rightarrow> k8sMetricWatcher \<Rightarrow> metric_spec \<Rightarrow> bool outcome" where
  "reading q env w metric =
     bindO (replied (getReplicasInfo env (kwWatchTarget w))) (\<lambda>(replicas, labelSelector).
       if replicas = 0 then Ok False
       else if msType metric = ''Object'' then readObject q env w replicas metric
       else if msType metric = ''Pods'' then readPods q env w replicas labelSelector metric
       else if msType metric = ''Resource'' then readResource q env w replicas labelSelector metric
       else if msType metric = ''ContainerResource''
       then readContainerResource q env w replicas labelSelector metric
       else if msType metric = ''External'' then readExternal q env w replicas metric
       else Panic (ExplicitPanic ''unsupported metric type''))"

section \<open>One scrape\<close>

definition onCondition :: "(metricConditionStatus, 'a) go \<Rightarrow> (k8sMetricWatcher, 'a) go" where
  "onCondition = zoom kwCondition (\<lambda>c w. w\<lparr>kwCondition := c\<rparr>)"

definition checkOne ::
  "quantity_ops \<Rightarrow> metric_env \<Rightarrow> metric_spec \<Rightarrow> (k8sMetricWatcher, unit) go" where
  "checkOne q env metric w =
     (case reading q env w metric of
        Ok rch \<Rightarrow> onCondition (update q (eNow env) metric rch) w
      | Err e \<Rightarrow> (Err e, w)
      | Panic p \<Rightarrow> (Panic p, w))"

fun checkAll ::
  "quantity_ops \<Rightarrow> (nat \<Rightarrow> metric_env) \<Rightarrow> nat \<Rightarrow> metric_spec list \<Rightarrow> go_error list
   \<Rightarrow> (k8sMetricWatcher, go_error list) go" where
  "checkAll q env i [] errs w = (Ok errs, w)"
| "checkAll q env i (metric # ms) errs w =
     (case checkOne q (env i) metric w of
        (Ok _, w') \<Rightarrow> checkAll q env (Suc i) ms errs w'
      | (Err e, w') \<Rightarrow> checkAll q env (Suc i) ms (errs @ [e]) w'
      | (Panic p, w') \<Rightarrow> (Panic p, w'))"

definition noMetricsReturned :: "go_error \<Rightarrow> bool" where
  "noMetricsReturned e \<longleftrightarrow>
     e = ApiError ''no metrics returned from resource metrics API''
     \<or> e = Errorf ''no metrics returned from resource metrics API''"

definition CheckMetric :: "quantity_ops \<Rightarrow> (nat \<Rightarrow> metric_env) \<Rightarrow> (k8sMetricWatcher, bool) go" where
  "CheckMetric q env =
     bindG (reads kwMetrics) (\<lambda>metrics.
     bindG (checkAll q env 0 metrics []) (\<lambda>errs.
       case filter (\<lambda>e. \<not> noMetricsReturned e) errs of
         e # _ \<Rightarrow> raise e
       | [] \<Rightarrow> reads (\<lambda>w. isReached (eNow (env (length metrics))) (kwCondition w))))"

text \<open>One turn of the watcher's loop: what it sends, on which channel.\<close>

datatype watch_event = Report metricStatus | Fault errWrapper

definition scrape :: "quantity_ops \<Rightarrow> (nat \<Rightarrow> metric_env) \<Rightarrow> (k8sMetricWatcher, watch_event) go" where
  "scrape q env w =
     (case CheckMetric q env w of
        (Ok rch, w') \<Rightarrow>
          (let st = \<lparr>msModelName = kwModel w', msReached = rch\<rparr>
           in (Ok (Report st), w'\<lparr>kwLatestStatus := st\<rparr>))
      | (Err e, w') \<Rightarrow> (Ok (Fault \<lparr>ewModelName = kwModel w', ewErr = e\<rparr>), w')
      | (Panic p, w') \<Rightarrow> (Panic p, w'))"

fun scrapes ::
  "quantity_ops \<Rightarrow> (nat \<Rightarrow> metric_env) list \<Rightarrow> (k8sMetricWatcher, watch_event list) go" where
  "scrapes q [] = ret []"
| "scrapes q (env # envs) =
     bindG (scrape q env) (\<lambda>ev. bindG (scrapes q envs) (\<lambda>evs. ret (ev # evs)))"

section \<open>The registry\<close>

text \<open>The arguments of \<open>Register\<close> after the model name.\<close>

record metric_registration =
  mgMetrics :: "metric_spec list"
  mgResource :: object_ref
  mgScrapeInterval :: int
  mgWindow :: int

text \<open>\<open>kiClosed\<close> says that \<open>Stop\<close> has closed the channels.\<close>

record k8sMetricInformer =
  kiWatchers :: "(string \<times> k8sMetricWatcher) list"
  kiClosed :: bool

definition newK8sMetricInformer :: k8sMetricInformer where
  "newK8sMetricInformer = \<lparr>kiWatchers = [], kiClosed = False\<rparr>"

definition newWatcher :: "string \<Rightarrow> metric_registration \<Rightarrow> k8sMetricWatcher" where
  "newWatcher model g =
     \<lparr>kwModel = model, kwScrapeInterval = mgScrapeInterval g,
      kwLatestStatus = \<lparr>msModelName = [], msReached = False\<rparr>, kwCancel = False,
      kwCondition = newCondition (mgWindow g), kwMetrics = mgMetrics g,
      kwWatchTarget = mgResource g\<rparr>"

text \<open>Calling a cancel function that is still nil panics.\<close>

definition cancelMetricWatcher :: "k8sMetricWatcher \<Rightarrow> ('s, unit) go" where
  "cancelMetricWatcher w = (if kwCancel w then ret () else panic NilFunc)"

definition K8sMetric_Unregister :: "string \<Rightarrow> (k8sMetricInformer, unit) go" where
  "K8sMetric_Unregister model =
     bindG (reads (\<lambda>k. map_of (kiWatchers k) model)) (\<lambda>value.
       case value of
         None \<Rightarrow> ret ()
       | Some w \<Rightarrow> seqG (cancelMetricWatcher w)
                        (writes (\<lambda>k. k\<lparr>kiWatchers := AList.delete model (kiWatchers k)\<rparr>)))"

definition K8sMetric_Register ::
  "string \<Rightarrow> metric_registration \<Rightarrow> (k8sMetricInformer, unit) go" where
  "K8sMetric_Register model g =
     bindG (reads (\<lambda>k. map_of (kiWatchers k) model)) (\<lambda>old.
     seqG (case old of None \<Rightarrow> ret () | Some _ \<Rightarrow> K8sMetric_Unregister model)
          (writes (\<lambda>k. k\<lparr>kiWatchers := AList.update model (newWatcher model g) (kiWatchers k)\<rparr>)))"

fun cancelMetricWatchers :: "(string \<times> k8sMetricWatcher) list \<Rightarrow> ('s, unit) go" where
  "cancelMetricWatchers [] = ret ()"
| "cancelMetricWatchers ((model, w) # ws) =
     seqG (cancelMetricWatcher w) (cancelMetricWatchers ws)"

text \<open>\<open>Stop\<close> keeps the watchers in the map; closing a closed channel panics.\<close>

definition K8sMetric_Stop :: "(k8sMetricInformer, unit) go" where
  "K8sMetric_Stop =
     bindG (reads kiWatchers) (\<lambda>ws.
     seqG (cancelMetricWatchers ws)
    (bindG (reads kiClosed) (\<lambda>closed.
       if closed then panic (ExplicitPanic ''close of closed channel'')
       else writes (\<lambda>k. k\<lparr>kiClosed := True\<rparr>))))"

text \<open>
  What the goroutine of \<open>Start\<close> receives: the end of its context or an error of a watcher. The metric
  informer logs the errors until its context ends; the watchers go on.
\<close>

datatype informer_input = InformerDone | InformerError errWrapper

fun K8sMetric_Start :: "informer_input list \<Rightarrow> errWrapper list" where
  "K8sMetric_Start [] = []"
| "K8sMetric_Start (InformerDone # ins) = []"
| "K8sMetric_Start (InformerError e # ins) = e # K8sMetric_Start ins"

text \<open>The goroutines that were spawned run, and store their cancel functions.\<close>

definition K8sMetric_schedule :: "k8sMetricInformer \<Rightarrow> k8sMetricInformer" where
  "K8sMetric_schedule k =
     k\<lparr>kiWatchers := map (\<lambda>(model, w). (model, w\<lparr>kwCancel := True\<rparr>)) (kiWatchers k)\<rparr>"

definition K8sMetric_ready :: "k8sMetricInformer \<Rightarrow> bool" where
  "K8sMetric_ready k \<longleftrightarrow> list_all (\<lambda>(model, w). kwCancel w) (kiWatchers k)"

definition registrationOf :: "k8sMetricWatcher \<Rightarrow> metric_registration" where
  "registrationOf w =
     \<lparr>mgMetrics = kwMetrics w, mgResource = kwWatchTarget w,
      mgScrapeInterval = kwScrapeInterval w, mgWindow = window (kwCondition w)\<rparr>"

definition K8sMetric_watched :: "k8sMetricInformer \<Rightarrow> string \<rightharpoonup> metric_registration" where
  "K8sMetric_watched k = map_option registrationOf \<circ> map_of (kiWatchers k)"

lemma registrationOf_newWatcher [simp]: "registrationOf (newWatcher model g) = g"
  by (simp add: registrationOf_def newWatcher_def newCondition_def)

lemma registrationOf_cancel [simp]: "registrationOf (w\<lparr>kwCancel := b\<rparr>) = registrationOf w"
  by (simp add: registrationOf_def)

lemma K8sMetric_ready_lookup:
  "K8sMetric_ready k \<Longrightarrow> map_of (kiWatchers k) model = Some w \<Longrightarrow> kwCancel w"
  by (auto simp: K8sMetric_ready_def list_all_iff dest: map_of_SomeD)

lemma K8sMetric_Unregister_ready:
  assumes "K8sMetric_ready k"
  shows "K8sMetric_Unregister model k
    = (Ok (), k\<lparr>kiWatchers := AList.delete model (kiWatchers k)\<rparr>)"
  using K8sMetric_ready_lookup [OF assms, of model]
  by (cases "map_of (kiWatchers k) model")
    (auto simp: K8sMetric_Unregister_def cancelMetricWatcher_def ret_def writes_def)

interpretation k8s_metric: informer_registry
  K8sMetric_Register K8sMetric_Unregister K8sMetric_schedule "\<lambda>_. True"
  K8sMetric_ready K8sMetric_watched
proof
  fix k :: k8sMetricInformer and n :: string and g :: metric_registration
  show "True \<and> K8sMetric_ready (K8sMetric_schedule k)"
    by (auto simp: K8sMetric_ready_def K8sMetric_schedule_def list_all_iff)
  show "K8sMetric_watched (K8sMetric_schedule k) = K8sMetric_watched k"
    by (auto simp: K8sMetric_watched_def K8sMetric_schedule_def map_of_map_values fun_eq_iff
        option.map_comp comp_def)
  assume "K8sMetric_ready k"
  note unreg = K8sMetric_Unregister_ready [OF this, of n]
  then show "\<exists>t. K8sMetric_Unregister n k = (Ok (), t) \<and> True
      \<and> K8sMetric_watched t = (K8sMetric_watched k)(n := None)"
    by (auto simp: K8sMetric_watched_def delete_conv' fun_eq_iff)
  show "\<exists>t. K8sMetric_Register n g k = (Ok (), t) \<and> True
      \<and> K8sMetric_watched t = (K8sMetric_watched k)(n \<mapsto> g)"
    using unreg
    by (auto simp: K8sMetric_Register_def K8sMetric_watched_def update_conv' delete_conv' fun_eq_iff
        seqG_def writes_def split: option.splits)
qed

end
