(* ===== verification/Prometheus_Informer.thy ===== *)
theory Prometheus_Informer
  imports Metric_Informer Complex_Main
begin

text \<open>
  The Prometheus metric informer (\<^verbatim>\<open>internal/informers/metric/prometheus_informer.go\<close>): the query
  builder, one scrape of a watcher, and the registry with its stop channels. The Prometheus client
  library (the query, the JSON encodings of its value types) and the conversion of a quantity to a
  float are the parameter \<open>prom_env\<close>.
\<close>

section \<open>Floats\<close>

text \<open>What the code compares: the values of \<open>float64\<close>, of which NaN is above nothing.\<close>

datatype float64 = NaN | NegInf | Fin rat | PosInf

fun float_gt :: "float64 \<Rightarrow> float64 \<Rightarrow> bool" where
  "float_gt (Fin x) (Fin y) \<longleftrightarrow> x > y"
| "float_gt (Fin x) NegInf \<longleftrightarrow> True"
| "float_gt PosInf (Fin y) \<longleftrightarrow> True"
| "float_gt PosInf NegInf \<longleftrightarrow> True"
| "float_gt _ _ \<longleftrightarrow> False"

section \<open>Queries\<close>

definition ValueKindAverage :: string where "ValueKindAverage = ''avg''"

definition ValueKindCount :: string where "ValueKindCount = ''count''"

record queryBuilder =
  qbMetricName :: string
  qbKind :: string
  qbSelectors :: "(string \<times> string) list"
  qbWindow :: int

definition newQuery :: "string \<Rightarrow> queryBuilder" where
  "newQuery name = \<lparr>qbMetricName = name, qbKind = [], qbSelectors = [], qbWindow = 0\<rparr>"

definition WithSelector :: "string \<Rightarrow> string \<Rightarrow> queryBuilder \<Rightarrow> queryBuilder" where
  "WithSelector key val qb = qb\<lparr>qbSelectors := AList.update key val (qbSelectors qb)\<rparr>"

definition WithKind :: "string \<Rightarrow> queryBuilder \<Rightarrow> queryBuilder" where
  "WithKind kind qb = qb\<lparr>qbKind := kind\<rparr>"

definition second :: int where "second = 1000000000"

definition WithWindow :: "int \<Rightarrow> queryBuilder \<Rightarrow> queryBuilder" where
  "WithWindow w qb = qb\<lparr>qbWindow := second * 60\<rparr>"

text \<open>\<open>time.Duration.String\<close> of a whole number of seconds, the only durations a query gets.\<close>

definition durationString :: "int \<Rightarrow> string" where
  "durationString d =
     (let s = d div second; h = s div 3600; m = s div 60 mod 60; r = s mod 60 in
      if h > 0 then show_int h @ ''h'' @ show_int m @ ''m'' @ show_int r @ ''s''
      else if m > 0 then show_int m @ ''m'' @ show_int r @ ''s''
      else show_int r @ ''s'')"

fun addSelectors :: "(string \<times> string) list \<Rightarrow> string \<Rightarrow> string" where
  "addSelectors [] query = query"
| "addSelectors ((key, val) # sels) query =
     addSelectors sels (query @ ''{'' @ key @ ''='' @ [CHR 0x22] @ val @ [CHR 0x22] @ ''}'')"

definition Build :: "queryBuilder \<Rightarrow> string" where
  "Build qb =
     (let query = addSelectors (qbSelectors qb) (qbMetricName qb)
      in if qbKind qb \<noteq> [] \<and> qbKind qb = ValueKindAverage
         then ''rate('' @ query @ ''['' @ durationString (qbWindow qb) @ ''])''
         else query)"

fun withSelectors :: "(string \<times> string) list \<Rightarrow> queryBuilder \<Rightarrow> queryBuilder" where
  "withSelectors [] qb = qb"
| "withSelectors ((key, val) # ls) qb = withSelectors ls (WithSelector key val qb)"

definition queryOf :: "int \<Rightarrow> external_metric \<Rightarrow> string" where
  "queryOf w src =
     (let qb0 = newQuery (miName (emMetric src));
          qb1 = (case miSelector (emMetric src) of
                   None \<Rightarrow> qb0
                 | Some sel \<Rightarrow> withSelectors (lsMatchLabels sel) qb0);
          qb2 = (if mtAverageValue (emTarget src) \<noteq> None then WithKind ValueKindAverage qb1 else qb1);
          qb3 = (if mtValue (emTarget src) \<noteq> None then WithKind ValueKindCount qb2 else qb2)
      in Build (WithWindow w qb3))"

section \<open>One scrape\<close>

datatype prom_value =
    ScalarValue float64
  | VectorValue "float64 list"
  | MatrixValue
  | NoneValue
  | OtherValue string

record prom_env =
  peQuery :: "string \<Rightarrow> prom_value reply"
  peMarshalType :: "prom_value \<Rightarrow> string reply"
  peUnmarshalScalar :: "string \<Rightarrow> float64 reply"
  peApproximateFloat64 :: "quantity \<Rightarrow> float64"
  peNow :: int

record prometheusMetricWatcher =
  pwModel :: string
  pwMetrics :: "metric_spec list"
  pwResource :: object_ref
  pwScrapeInterval :: int
  pwWindow :: int
  pwCondition :: metricConditionStatus
  pwLastReachedStatus :: bool
  pwStopChan :: nat

definition thresholdOf :: "prom_env \<Rightarrow> external_metric \<Rightarrow> float64" where
  "thresholdOf env src =
     (case mtAverageValue (emTarget src) of
        Some v \<Rightarrow> peApproximateFloat64 env v
      | None \<Rightarrow> (case mtValue (emTarget src) of
                   Some v \<Rightarrow> peApproximateFloat64 env v
                 | None \<Rightarrow> Fin 0))"

definition onPromCondition ::
  "(metricConditionStatus, 'a) go \<Rightarrow> (prometheusMetricWatcher, 'a) go" where
  "onPromCondition = zoom pwCondition (\<lambda>c w. w\<lparr>pwCondition := c\<rparr>)"

text \<open>
  The end of the loop body: a status is sent when the flag of the condition has changed. The
  result is what is sent.
\<close>

definition reportChange :: "(prometheusMetricWatcher, metricStatus list) go" where
  "reportChange w =
     (let now_reached = reached (pwCondition w)
      in if pwLastReachedStatus w \<noteq> now_reached
         then (Ok [\<lparr>msModelName = pwModel w, msReached = now_reached\<rparr>],
               w\<lparr>pwLastReachedStatus := now_reached\<rparr>)
         else (Ok [], w))"

text \<open>
  The scalar case encodes the type of the result, not the result; an error and a value above the
  threshold both go on with the next metric, so that no status is sent.
\<close>

definition scalarCase ::
  "quantity_ops \<Rightarrow> prom_env \<Rightarrow> metric_spec \<Rightarrow> float64 \<Rightarrow> prom_value
   \<Rightarrow> (prometheusMetricWatcher, metricStatus list) go" where
  "scalarCase q env metric threshold result =
     (case peMarshalType env result of
        Inl e \<Rightarrow> ret []
      | Inr bytes \<Rightarrow>
          (case peUnmarshalScalar env bytes of
             Inl e \<Rightarrow> ret []
           | Inr v \<Rightarrow>
               if float_gt v threshold
               then seqG (onPromCondition (update q (peNow env) metric True)) (ret [])
               else seqG (onPromCondition (update q (peNow env) metric False)) reportChange))"

definition scrapeMetric ::
  "quantity_ops \<Rightarrow> prom_env \<Rightarrow> metric_spec \<Rightarrow> (prometheusMetricWatcher, metricStatus list) go" where
  "scrapeMetric q env metric =
     (if msType metric \<noteq> ''External'' then ret []
      else bindG (deref (msExternal metric)) (\<lambda>src.
           bindG (reads pwWindow) (\<lambda>w.
             case peQuery env (queryOf w src) of
               Inl e \<Rightarrow> ret []
             | Inr result \<Rightarrow>
                 (case result of
                    ScalarValue _ \<Rightarrow> scalarCase q env metric (thresholdOf env src) result
                  | VectorValue samples \<Rightarrow>
                      seqG (onPromCondition (update q (peNow env) metric
                              (list_ex (\<lambda>v. float_gt v (thresholdOf env src)) samples)))
                           reportChange
                  | _ \<Rightarrow> reportChange))))"

fun promScrape ::
  "quantity_ops \<Rightarrow> (nat \<Rightarrow> prom_env) \<Rightarrow> nat \<Rightarrow> metric_spec list
   \<Rightarrow> (prometheusMetricWatcher, metricStatus list) go" where
  "promScrape q env i [] = ret []"
| "promScrape q env i (metric # ms) =
     bindG (scrapeMetric q (env i) metric) (\<lambda>sent.
     bindG (promScrape q env (Suc i) ms) (\<lambda>more.
     ret (sent @ more)))"

section \<open>The registry\<close>

text \<open>
  Channels are numbered as they are made. \<open>piLive\<close> lists the goroutines that run, each with the
  channel that stops it: closing the channel ends the goroutine.
\<close>

record prometheusMetricInformer =
  piWatchers :: "(string \<times> prometheusMetricWatcher) list"
  piStopChs :: "(string \<times> nat) list"
  piNextChan :: nat
  piLive :: "(nat \<times> prometheusMetricWatcher) list"

definition newPrometheusMetricInformer :: prometheusMetricInformer where
  "newPrometheusMetricInformer = \<lparr>piWatchers = [], piStopChs = [], piNextChan = 0, piLive = []\<rparr>"

definition newPromWatcher :: "string \<Rightarrow> metric_registration \<Rightarrow> nat \<Rightarrow> prometheusMetricWatcher" where
  "newPromWatcher model g ch =
     \<lparr>pwModel = model, pwMetrics = mgMetrics g, pwResource = mgResource g,
      pwScrapeInterval = mgScrapeInterval g, pwWindow = mgWindow g,
      pwCondition = newCondition (mgWindow g), pwLastReachedStatus = False, pwStopChan = ch\<rparr>"

definition Prom_Register ::
  "string \<Rightarrow> metric_registration \<Rightarrow> (prometheusMetricInformer, unit) go" where
  "Prom_Register model g = writes (\<lambda>p.
     let w = newPromWatcher model g (piNextChan p)
     in p\<lparr>piStopChs := AList.update model (piNextChan p) (piStopChs p),
          piWatchers := AList.update model w (piWatchers p),
          piNextChan := Suc (piNextChan p),
          piLive := piLive p @ [(piNextChan p, w)]\<rparr>)"

definition closeChan :: "nat \<Rightarrow> prometheusMetricInformer \<Rightarrow> prometheusMetricInformer" where
  "closeChan ch p = p\<lparr>piLive := filter (\<lambda>(c, w). c \<noteq> ch) (piLive p)\<rparr>"

definition Prom_Unregister :: "string \<Rightarrow> (prometheusMetricInformer, unit) go" where
  "Prom_Unregister model =
     bindG (reads (\<lambda>p. map_of (piStopChs p) model)) (\<lambda>stopChan.
       case stopChan of
         None \<Rightarrow> ret ()
       | Some ch \<Rightarrow> writes (\<lambda>p. (closeChan ch p)
           \<lparr>piStopChs := AList.delete model (piStopChs p),
            piWatchers := AList.delete model (piWatchers p)\<rparr>))"

definition Prom_Stop :: "(prometheusMetricInformer, unit) go" where
  "Prom_Stop = writes (\<lambda>p. (fold (closeChan \<circ> snd) (piStopChs p) p)
     \<lparr>piWatchers := [], piStopChs := []\<rparr>)"

definition promRegistrationOf :: "prometheusMetricWatcher \<Rightarrow> metric_registration" where
  "promRegistrationOf w =
     \<lparr>mgMetrics = pwMetrics w, mgResource = pwResource w,
      mgScrapeInterval = pwScrapeInterval w, mgWindow = pwWindow w\<rparr>"

definition Prom_watched :: "prometheusMetricInformer \<Rightarrow> string \<rightharpoonup> metric_registration" where
  "Prom_watched p = map_option promRegistrationOf \<circ> map_of (piWatchers p)"

text \<open>The watchers and the stop channels have the same keys.\<close>

definition Prom_wf :: "prometheusMetricInformer \<Rightarrow> bool" where
  "Prom_wf p \<longleftrightarrow> dom (map_of (piWatchers p)) = dom (map_of (piStopChs p))"

lemma promRegistrationOf_new [simp]: "promRegistrationOf (newPromWatcher model g ch) = g"
  by (simp add: promRegistrationOf_def newPromWatcher_def)

interpretation prom: informer_registry
  Prom_Register Prom_Unregister "\<lambda>p. p" Prom_wf "\<lambda>_. True" Prom_watched
proof
  fix p :: prometheusMetricInformer and n :: string and g :: metric_registration
  assume wf: "Prom_wf p"
  show "\<exists>t. Prom_Register n g p = (Ok (), t) \<and> Prom_wf t \<and> Prom_watched t = (Prom_watched p)(n \<mapsto> g)"
    using wf by (auto simp: Prom_Register_def writes_def Let_def Prom_wf_def Prom_watched_def
        update_conv' fun_eq_iff)
  show "\<exists>t. Prom_Unregister n p = (Ok (), t) \<and> Prom_wf t
      \<and> Prom_watched t = (Prom_watched p)(n := None)"
  proof (cases "map_of (piStopChs p) n")
    case None
    with wf have "map_of (piWatchers p) n = None" by (auto simp: Prom_wf_def)
    with None wf show ?thesis
      by (auto simp: Prom_Unregister_def ret_def Prom_watched_def fun_eq_iff)
  next
    case (Some ch)
    with wf show ?thesis
      by (auto simp: Prom_Unregister_def writes_def closeChan_def Prom_wf_def Prom_watched_def
          delete_conv' fun_eq_iff)
  qed
qed simp_all

end
