(* ===== verification/Health_Informer.thy ===== *)
theory Health_Informer
  imports Deployment_Types Metric_Informer
begin

text \<open>
  The Kubernetes health informer (\<^verbatim>\<open>internal/informers/health\<close>): what a watcher reports for an
  event of its workload, what its goroutine does when it starts, and the registry of watchers.
  The shared informer of client-go is the parameter of \<open>startWatcher\<close>: whether the handler is
  accepted and the cache synchronises.
\<close>

section \<open>Events\<close>

record healthStatus =
  hsModelName :: string
  hsHealthy :: bool

text \<open>
  The objects an informer hands over: the workloads with the status fields the code reads, and
  any other object, such as the tombstone of a deletion that was missed.
\<close>

record workload =
  wlNamespace :: string
  wlName :: string
  wlReplicas :: int
  wlReadyReplicas :: int

datatype kube_object =
    DeploymentObj workload
  | StatefulSetObj workload
  | DaemonSetObj workload
  | ReplicaSetObj workload
  | OtherObj

text \<open>\<open>hwCancel\<close> says whether the cancel function has been set.\<close>

record k8sHealthWatcher =
  hwModel :: string
  hwWatchTarget :: object_ref
  hwCancel :: bool

datatype health_event = Health healthStatus | HealthFault errWrapper

definition unsupportedKind :: "k8sHealthWatcher \<Rightarrow> health_event" where
  "unsupportedKind h = HealthFault \<lparr>ewModelName = hwModel h,
     ewErr = Errorf (''unsupported resource kind: '' @ orKind (hwWatchTarget h))\<rparr>"

definition isTarget :: "k8sHealthWatcher \<Rightarrow> workload \<Rightarrow> bool" where
  "isTarget h o' \<longleftrightarrow> wlNamespace o' = orNamespace (hwWatchTarget h) \<and> wlName o' = orName (hwWatchTarget h)"

definition reportHealth :: "k8sHealthWatcher \<Rightarrow> workload \<Rightarrow> bool \<Rightarrow> health_event list" where
  "reportHealth h o' isHealthy =
     (if \<not> isTarget h o' then []
      else [Health \<lparr>hsModelName = hwModel h, hsHealthy = isHealthy\<rparr>])"

definition handleEvent :: "k8sHealthWatcher \<Rightarrow> kube_object \<Rightarrow> health_event list" where
  "handleEvent h obj =
     (if orKind (hwWatchTarget h) = ''Deployment'' then
        (case obj of DeploymentObj d \<Rightarrow> reportHealth h d (wlReadyReplicas d > 0) | _ \<Rightarrow> [])
      else if orKind (hwWatchTarget h) = ''StatefulSet'' then
        (case obj of StatefulSetObj s \<Rightarrow> reportHealth h s (wlReadyReplicas s > 0) | _ \<Rightarrow> [])
      else if orKind (hwWatchTarget h) = ''DaemonSet'' then
        (case obj of DaemonSetObj d \<Rightarrow> reportHealth h d (wlReadyReplicas d > 0) | _ \<Rightarrow> [])
      else if orKind (hwWatchTarget h) = ''ReplicaSet'' then
        (case obj of ReplicaSetObj r \<Rightarrow> reportHealth h r (wlReplicas r = wlReadyReplicas r) | _ \<Rightarrow> [])
      else [unsupportedKind h])"

section \<open>Starting a watcher\<close>

definition supportedKind :: "string \<Rightarrow> bool" where
  "supportedKind k \<longleftrightarrow> k = ''Deployment'' \<or> k = ''StatefulSet'' \<or> k = ''DaemonSet'' \<or> k = ''ReplicaSet''"

text \<open>
  The goroutine up to the point where it waits for its context: it stores the cancel function,
  and sends an error when the kind is not supported, the handler is refused or the cache does
  not synchronise. While it runs, each add, update and delete event goes through \<open>handleEvent\<close>.
\<close>

definition startWatcher ::
  "go_error option \<Rightarrow> bool \<Rightarrow> k8sHealthWatcher \<Rightarrow> health_event list \<times> k8sHealthWatcher" where
  "startWatcher addHandlerErr synced h =
     (let h' = h\<lparr>hwCancel := True\<rparr> in
      if \<not> supportedKind (orKind (hwWatchTarget h')) then ([unsupportedKind h'], h')
      else case addHandlerErr of
        Some e \<Rightarrow> ([HealthFault \<lparr>ewModelName = hwModel h',
                     ewErr = wrap ''failed to add event handler: '' e\<rparr>], h')
      | None \<Rightarrow>
          if \<not> synced
          then ([HealthFault \<lparr>ewModelName = hwModel h',
                   ewErr = Errorf ''failed to sync informer cache''\<rparr>], h')
          else ([], h'))"

section \<open>The registry\<close>

record k8sHealthInformer =
  hiWatchers :: "(string \<times> k8sHealthWatcher) list"
  hiClosed :: bool

definition newK8SHealthInformer :: k8sHealthInformer where
  "newK8SHealthInformer = \<lparr>hiWatchers = [], hiClosed = False\<rparr>"

definition cancelHealthWatcher :: "k8sHealthWatcher \<Rightarrow> ('s, unit) go" where
  "cancelHealthWatcher h = (if hwCancel h then ret () else panic NilFunc)"

definition removeWatcher :: "string \<Rightarrow> (k8sHealthInformer, unit) go" where
  "removeWatcher model =
     bindG (reads (\<lambda>k. map_of (hiWatchers k) model)) (\<lambda>watcher.
       case watcher of
         None \<Rightarrow> ret ()
       | Some h \<Rightarrow> seqG (cancelHealthWatcher h)
                        (writes (\<lambda>k. k\<lparr>hiWatchers := AList.delete model (hiWatchers k)\<rparr>)))"

definition Health_Unregister :: "string \<Rightarrow> (k8sHealthInformer, unit) go" where
  "Health_Unregister model =
     bindG (reads (\<lambda>k. map_of (hiWatchers k) model)) (\<lambda>watcher.
       case watcher of
         None \<Rightarrow> ret ()
       | Some h \<Rightarrow> seqG (cancelHealthWatcher h)
                        (writes (\<lambda>k. k\<lparr>hiWatchers := AList.delete model (hiWatchers k)\<rparr>)))"

definition Health_Register :: "string \<Rightarrow> object_ref \<Rightarrow> (k8sHealthInformer, unit) go" where
  "Health_Register model resource =
     bindG (reads (\<lambda>k. map_of (hiWatchers k) model)) (\<lambda>old.
     seqG (case old of None \<Rightarrow> ret () | Some _ \<Rightarrow> removeWatcher model)
          (writes (\<lambda>k. k\<lparr>hiWatchers := AList.update model
             \<lparr>hwModel = model, hwWatchTarget = resource, hwCancel = False\<rparr> (hiWatchers k)\<rparr>)))"

fun stopHealthWatchers :: "(string \<times> k8sHealthWatcher) list \<Rightarrow> (k8sHealthInformer, unit) go" where
  "stopHealthWatchers [] = ret ()"
| "stopHealthWatchers ((model, h) # hs) =
     seqG (cancelHealthWatcher h)
    (seqG (writes (\<lambda>k. k\<lparr>hiWatchers := AList.delete (hwModel h) (hiWatchers k)\<rparr>))
          (stopHealthWatchers hs))"

definition Health_Stop :: "(k8sHealthInformer, unit) go" where
  "Health_Stop =
     bindG (reads hiWatchers) (\<lambda>hs.
     seqG (stopHealthWatchers hs)
    (bindG (reads hiClosed) (\<lambda>closed.
       if closed then panic (ExplicitPanic ''close of closed channel'')
       else writes (\<lambda>k. k\<lparr>hiClosed := True\<rparr>))))"

text \<open>What \<open>Start\<close> does with an error sent by a watcher: the watcher is removed.\<close>

definition onWatcherError :: "errWrapper \<Rightarrow> (k8sHealthInformer, unit) go" where
  "onWatcherError err = removeWatcher (ewModelName err)"

text \<open>The goroutine of \<open>Start\<close>, on what it receives.\<close>

fun Health_Start :: "informer_input list \<Rightarrow> (k8sHealthInformer, unit) go" where
  "Health_Start [] = ret ()"
| "Health_Start (InformerDone # ins) = Health_Stop"
| "Health_Start (InformerError e # ins) = seqG (onWatcherError e) (Health_Start ins)"

definition Health_schedule :: "k8sHealthInformer \<Rightarrow> k8sHealthInformer" where
  "Health_schedule k =
     k\<lparr>hiWatchers := map (\<lambda>(model, h). (model, h\<lparr>hwCancel := True\<rparr>)) (hiWatchers k)\<rparr>"

definition Health_ready :: "k8sHealthInformer \<Rightarrow> bool" where
  "Health_ready k \<longleftrightarrow> list_all (\<lambda>(model, h). hwCancel h) (hiWatchers k)"

definition Health_watched :: "k8sHealthInformer \<Rightarrow> string \<rightharpoonup> object_ref" where
  "Health_watched k = map_option hwWatchTarget \<circ> map_of (hiWatchers k)"

lemma Health_ready_lookup:
  "Health_ready k \<Longrightarrow> map_of (hiWatchers k) model = Some h \<Longrightarrow> hwCancel h"
  by (auto simp: Health_ready_def list_all_iff dest: map_of_SomeD)

lemma removeWatcher_ready:
  assumes "Health_ready k"
  shows "removeWatcher model k = (Ok (), k\<lparr>hiWatchers := AList.delete model (hiWatchers k)\<rparr>)"
  using Health_ready_lookup [OF assms, of model]
  by (cases "map_of (hiWatchers k) model")
    (auto simp: removeWatcher_def cancelHealthWatcher_def ret_def writes_def)

lemma Health_Unregister_eq: "Health_Unregister = removeWatcher"
  by (simp add: fun_eq_iff Health_Unregister_def removeWatcher_def)

interpretation k8s_health: informer_registry
  Health_Register Health_Unregister Health_schedule "\<lambda>_. True"
  Health_ready Health_watched
proof
  fix k :: k8sHealthInformer and n :: string and r :: object_ref
  show "True \<and> Health_ready (Health_schedule k)"
    by (auto simp: Health_ready_def Health_schedule_def list_all_iff)
  show "Health_watched (Health_schedule k) = Health_watched k"
    by (auto simp: Health_watched_def Health_schedule_def map_of_map_values fun_eq_iff
        option.map_comp comp_def)
  assume "Health_ready k"
  note remove = removeWatcher_ready [OF this, of n]
  then show "\<exists>t. Health_Unregister n k = (Ok (), t) \<and> True
      \<and> Health_watched t = (Health_watched k)(n := None)"
    by (auto simp: Health_Unregister_eq Health_watched_def delete_conv' fun_eq_iff)
  show "\<exists>t. Health_Register n r k = (Ok (), t) \<and> True
      \<and> Health_watched t = (Health_watched k)(n \<mapsto> r)"
    using remove
    by (auto simp: Health_Register_def Health_watched_def update_conv' delete_conv' fun_eq_iff
        seqG_def writes_def split: option.splits)
qed

end
