(* ===== verification/Informer_Facts.thy ===== *)
theory Informer_Facts
  imports Metric_Facts Metric_Informer Prometheus_Informer Health_Informer
begin

text \<open>
  What the informers guarantee: a scrape makes the set of reached metrics equal to what was read,
  a reached status is reported only after the window, the registries implement a map of
  registrations; and where they do not do what they mean to: the utilization that is divided
  twice, the panics on a zero request and on an early unregistration, the goroutines that the
  Prometheus informer leaks.
\<close>

section \<open>A scrape as a sequence of set updates\<close>

fun applied :: "quantity_ops \<Rightarrow> (metric_spec \<times> bool) list \<Rightarrow> metric_spec set \<Rightarrow> metric_spec set" where
  "applied q [] A = A"
| "applied q ((m, r) # mrs) A =
     applied q mrs (if r then A \<union> same_metric q m else A - same_metric q m)"

lemma applied_other:
  assumes "\<forall>m' \<in> set ms. \<not> spec_eq q m' m"
  shows "m \<in> applied q (zip ms rs) A \<longleftrightarrow> m \<in> A"
  using assms
proof (induction ms arbitrary: rs A)
  case Nil
  then show ?case by simp
next
  case (Cons m' ms)
  then show ?case by (cases rs) (auto simp: same_metric_def)
qed

lemma applied_listed:
  assumes q: "quantity_laws q" and "\<forall>m \<in> set ms. wf_metric m"
    and "sorted_wrt (\<lambda>a b. \<not> spec_eq q a b) ms" and "length rs = length ms" and "i < length ms"
  shows "ms ! i \<in> applied q (zip ms rs) A \<longleftrightarrow> rs ! i"
  using assms(2-)
proof (induction ms arbitrary: rs A i)
  case Nil
  then show ?case by simp
next
  case (Cons m ms)
  obtain r rs' where rs: "rs = r # rs'" using Cons.prems(3) by (cases rs) auto
  have "\<forall>m' \<in> set ms. \<not> spec_eq q m' m"
    using Cons.prems(2) by (auto dest: spec_eq_sym [OF q])
  from applied_other [OF this] have "m \<in> applied q (zip ms rs') B \<longleftrightarrow> m \<in> B" for B .
  moreover have "m \<in> same_metric q m"
    using Cons.prems(1) by (simp add: same_metric_def spec_eq_refl [OF q])
  ultimately show ?case using Cons by (cases i) (auto simp: rs)
qed

definition same_watch :: "k8sMetricWatcher \<Rightarrow> k8sMetricWatcher \<Rightarrow> bool" where
  "same_watch w w' \<longleftrightarrow> kwMetrics w' = kwMetrics w \<and> kwWatchTarget w' = kwWatchTarget w
     \<and> kwScrapeInterval w' = kwScrapeInterval w"

lemma reading_same_watch: "same_watch w w' \<Longrightarrow> reading q env w' m = reading q env w m"
  unfolding reading_def readObject_def readPods_def readResource_def readContainerResource_def
    readExternal_def isFresh_def [abs_def]
  by (cases "getReplicasInfo env (kwWatchTarget w)")
    (auto simp: same_watch_def cong: option.case_cong if_cong)

lemma reading_condition [simp]: "reading q env (w\<lparr>kwCondition := c\<rparr>) m = reading q env w m"
  by (rule reading_same_watch) (simp add: same_watch_def)

lemma checkOne_reading:
  assumes "quantity_laws q" and "cond_inv q (kwCondition w)" and "wf_metric m"
    and "reading q env w m = Ok r"
  shows "\<exists>c'. checkOne q env m w = (Ok (), w\<lparr>kwCondition := c'\<rparr>) \<and> cond_inv q c'
    \<and> active q c' = applied q [(m, r)] (active q (kwCondition w))"
  using update_step [OF assms(1-3), of "eNow env" r] assms(4)
  by (auto simp: checkOne_def onCondition_def zoom_def)

lemma checkAll_readings:
  assumes q: "quantity_laws q" and "cond_inv q (kwCondition w)" and "\<forall>m \<in> set ms. wf_metric m"
    and "length rs = length ms" and "\<forall>j < length ms. reading q (env (i + j)) w (ms ! j) = Ok (rs ! j)"
  shows "\<exists>c'. checkAll q env i ms errs w = (Ok errs, w\<lparr>kwCondition := c'\<rparr>) \<and> cond_inv q c'
    \<and> active q c' = applied q (zip ms rs) (active q (kwCondition w))"
  using assms(2-)
proof (induction ms arbitrary: i w rs)
  case Nil
  then show ?case by (auto intro: exI [of _ "kwCondition w"])
next
  case (Cons m ms)
  obtain r rs' where rs: "rs = r # rs'" using Cons.prems(3) by (cases rs) auto
  have "reading q (env i) w m = Ok r" using Cons.prems(4) by (auto simp: rs)
  with Cons.prems(1,2) obtain c where step: "checkOne q (env i) m w = (Ok (), w\<lparr>kwCondition := c\<rparr>)"
    and inv: "cond_inv q c" and act: "active q c = applied q [(m, r)] (active q (kwCondition w))"
    using checkOne_reading [OF q, of w m "env i" r] by auto
  have "\<forall>j < length ms. reading q (env (Suc i + j)) (w\<lparr>kwCondition := c\<rparr>) (ms ! j) = Ok (rs' ! j)"
    using Cons.prems(4) by (auto simp: rs)
  with Cons.IH [of "w\<lparr>kwCondition := c\<rparr>" rs' "Suc i"] inv Cons.prems(2,3) step act
  show ?case by (auto simp: rs)
qed

lemma CheckMetric_readings:
  assumes "quantity_laws q" and "cond_inv q (kwCondition w)"
    and "\<forall>m \<in> set (kwMetrics w). wf_metric m" and "length rs = length (kwMetrics w)"
    and "\<forall>i < length (kwMetrics w). reading q (env i) w (kwMetrics w ! i) = Ok (rs ! i)"
  shows "\<exists>c'. CheckMetric q env w
      = (Ok (isReached (eNow (env (length (kwMetrics w)))) c'), w\<lparr>kwCondition := c'\<rparr>)
    \<and> cond_inv q c' \<and> active q c' = applied q (zip (kwMetrics w) rs) (active q (kwCondition w))"
  using checkAll_readings [OF assms(1-4), of env 0 "[]"] assms(5)
  by (auto simp: CheckMetric_def reads_def)

section \<open>The condition of a watcher is a run of updates with its readings\<close>

definition from_readings ::
  "quantity_ops \<Rightarrow> k8sMetricWatcher \<Rightarrow> (nat \<Rightarrow> metric_env) list \<Rightarrow> timed_update list \<Rightarrow> bool" where
  "from_readings q w envs us \<longleftrightarrow> (\<forall>(t, m, r) \<in> set us. m \<in> set (kwMetrics w)
     \<and> (\<exists>env \<in> set envs. \<exists>i. t = eNow (env i) \<and> reading q (env i) w m = Ok r))"

lemma same_watch_trans: "same_watch a b \<Longrightarrow> same_watch b c \<Longrightarrow> same_watch a c"
  by (simp add: same_watch_def)

lemma from_readings_append:
  "from_readings q w (envs @ fs) (us @ vs)"
  if "from_readings q w envs us" and "from_readings q w fs vs"
  using that by (fastforce simp: from_readings_def)

lemma checkOne_run:
  assumes "m \<in> set (kwMetrics w)" and "checkOne q (env i) m w = (res, w')"
  shows "same_watch w w' \<and> (\<exists>us. kwCondition w' = run_updates q us (kwCondition w)
    \<and> from_readings q w [env] us)"
proof (cases "reading q (env i) w m")
  case (Ok r)
  with assms show ?thesis
    by (auto simp: checkOne_def onCondition_def zoom_def same_watch_def from_readings_def
        split: prod.splits intro!: exI [of _ "[(eNow (env i), m, r)]"])
next
  case (Err e)
  with assms show ?thesis
    by (auto simp: checkOne_def same_watch_def from_readings_def intro!: exI [of _ "[]"])
next
  case (Panic p)
  with assms show ?thesis
    by (auto simp: checkOne_def same_watch_def from_readings_def intro!: exI [of _ "[]"])
qed

lemma from_readings_same_watch:
  "same_watch w w' \<Longrightarrow> from_readings q w' envs us = from_readings q w envs us"
  by (simp add: from_readings_def reading_same_watch) (simp add: same_watch_def)

lemma from_readings_join:
  assumes "from_readings q w [env] us" and "from_readings q w [env] vs"
  shows "from_readings q w [env] (us @ vs)"
  using assms by (auto simp: from_readings_def)

lemma checkAll_run:
  assumes "set ms \<subseteq> set (kwMetrics w)" and "checkAll q env i ms errs w = (res, w')"
  shows "same_watch w w' \<and> (\<exists>us. kwCondition w' = run_updates q us (kwCondition w)
    \<and> from_readings q w [env] us)"
  using assms
proof (induction ms arbitrary: i errs w)
  case Nil
  then show ?case by (auto simp: same_watch_def from_readings_def intro: exI [of _ "[]"])
next
  case (Cons m ms)
  obtain r1 w1 where step: "checkOne q (env i) m w = (r1, w1)" by fastforce
  from Cons.prems(1) step checkOne_run [of m w q env i r1 w1] obtain us where same: "same_watch w w1"
    and us: "kwCondition w1 = run_updates q us (kwCondition w)" "from_readings q w [env] us" by auto
  have "set ms \<subseteq> set (kwMetrics w1)" using Cons.prems(1) same by (simp add: same_watch_def)
  then have rest: "same_watch w1 w' \<and> (\<exists>vs. kwCondition w' = run_updates q vs (kwCondition w1)
      \<and> from_readings q w1 [env] vs)" if "checkAll q env (Suc i) ms errs' w1 = (res, w')" for errs'
    using Cons.IH that by blast
  show ?case
  proof (cases "is_panic r1")
    case True
    then show ?thesis using Cons.prems(2) step same us by (cases r1) auto
  next
    case False
    then obtain errs' where "checkAll q env (Suc i) ms errs' w1 = (res, w')"
      using Cons.prems(2) step by (cases r1) auto
    with rest obtain vs where "same_watch w1 w'"
      and "kwCondition w' = run_updates q vs (kwCondition w1)" and "from_readings q w1 [env] vs"
      by blast
    with same us show ?thesis
      by (auto simp: run_updates_append from_readings_same_watch intro: same_watch_trans
          intro!: exI [of _ "us @ vs"] from_readings_join)
  qed
qed

lemma CheckMetric_run:
  assumes "CheckMetric q env w = (res, w')"
  shows "same_watch w w' \<and> (\<exists>us. kwCondition w' = run_updates q us (kwCondition w)
    \<and> from_readings q w [env] us)"
proof -
  obtain r1 w1 where all: "checkAll q env 0 (kwMetrics w) [] w = (r1, w1)" by fastforce
  have "w' = w1"
    using assms all by (cases r1) (auto simp: CheckMetric_def reads_def raise_def split: list.splits)
  with checkAll_run [OF _ all] show ?thesis by simp
qed

lemma CheckMetric_true:
  assumes "CheckMetric q env w = (Ok b, w')"
  shows "b = isReached (eNow (env (length (kwMetrics w)))) (kwCondition w')"
proof -
  obtain r1 w1 where all: "checkAll q env 0 (kwMetrics w) [] w = (r1, w1)" by fastforce
  show ?thesis
    using assms all by (cases r1) (auto simp: CheckMetric_def reads_def raise_def split: list.splits)
qed

lemma scrape_run:
  assumes "scrape q env w = (res, w')"
  shows "same_watch w w' \<and> (\<exists>us. kwCondition w' = run_updates q us (kwCondition w)
    \<and> from_readings q w [env] us)"
proof -
  obtain r1 w1 where check: "CheckMetric q env w = (r1, w1)" by fastforce
  have "kwCondition w' = kwCondition w1 \<and> same_watch w1 w'"
    using assms check by (cases r1) (auto simp: scrape_def Let_def same_watch_def)
  with CheckMetric_run [OF check] show ?thesis by (auto intro: same_watch_trans)
qed

lemma scrapes_run:
  assumes "scrapes q envs w = (res, w')"
  shows "same_watch w w' \<and> (\<exists>us. kwCondition w' = run_updates q us (kwCondition w)
    \<and> from_readings q w envs us)"
  using assms
proof (induction envs arbitrary: w res w')
  case Nil
  then show ?case
    by (auto simp: ret_def same_watch_def from_readings_def intro: exI [of _ "[]"])
next
  case (Cons env envs)
  obtain r1 w1 where step: "scrape q env w = (r1, w1)" by fastforce
  from scrape_run [OF this] obtain us where same: "same_watch w w1"
    and us: "kwCondition w1 = run_updates q us (kwCondition w)" "from_readings q w [env] us" by auto
  show ?case
  proof (cases r1)
    case (Ok ev)
    obtain r2 w2 where rest: "scrapes q envs w1 = (r2, w2)" by fastforce
    with Cons.prems step Ok have "w' = w2" by (cases r2) (auto simp: ret_def)
    with Cons.IH [OF rest] obtain vs where "same_watch w1 w'"
      and "kwCondition w' = run_updates q vs (kwCondition w1)" and "from_readings q w envs vs"
      using same by (auto simp: from_readings_same_watch)
    with same us from_readings_append [OF us(2)] show ?thesis
      by (auto simp: run_updates_append intro: same_watch_trans intro!: exI [of _ "us @ vs"])
  next
    case (Err e)
    with Cons.prems step same us from_readings_append [OF us(2), of envs "[]"] show ?thesis
      by (auto simp: from_readings_def)
  next
    case (Panic p)
    with Cons.prems step same us from_readings_append [OF us(2), of envs "[]"] show ?thesis
      by (auto simp: from_readings_def)
  qed
qed

section \<open>Sample data\<close>

definition sample_menv :: "int \<Rightarrow> int \<Rightarrow> int \<Rightarrow> int \<Rightarrow> metric_env" where
  "sample_menv replicas usage request now =
     \<lparr>eParseGroupVersion = (\<lambda>_. Inr ''apps''), eRESTMappings = (\<lambda>_ _. Inr [''deployments'']),
      eScalesGet = (\<lambda>_ _ _. Inr (replicas, ''app=m'')), eLabelsParse = Inr,
      eLabelSelectorAsSelector = (\<lambda>_. Inr []), eGetObjectMetric = (\<lambda>_ _ _ _. Inr usage),
      eGetRawMetric = (\<lambda>_ _ _ _. Inr []),
      eGetResourceMetric = (\<lambda>_ _ _ _. Inr [\<lparr>pvTimestamp = now, pvWindow = 0, pvValue = usage\<rparr>]),
      eGetExternalMetric = (\<lambda>_ _ _. Inr [usage]),
      ePodsList = (\<lambda>_ _. Inr [[\<lparr>crCpu = request, crMemory = 0, crEphemeralStorage = 0,
                                 crStorage = 0\<rparr>]]),
      eNow = now\<rparr>"

definition sample_ref :: object_ref where
  "sample_ref = \<lparr>orAPIVersion = ''apps/v1'', orKind = ''Deployment'', orNamespace = ''ns'',
     orName = ''m''\<rparr>"

definition sample_reg :: metric_registration where
  "sample_reg = \<lparr>mgMetrics = [cpu_metric], mgResource = sample_ref, mgScrapeInterval = 5,
     mgWindow = 10\<rparr>"

lemma eNow_sample [simp]: "eNow (sample_menv n u r t) = t"
  by (simp add: sample_menv_def)

lemma sample_getReplicasInfo:
  "getReplicasInfo (sample_menv n u r t) ref = Inr (n, ''app=m'')"
  by (simp add: getReplicasInfo_def sample_menv_def parseHPASelector_def)

lemma sample_reading:
  "reading q (sample_menv 1 90 100 now) w cpu_metric = Ok True"
  "reading q (sample_menv 0 90 100 now) w cpu_metric = Ok False"
  "reading q (sample_menv 2 90 0 now) w cpu_metric = Panic DivideByZero"
  by (simp_all add: reading_def sample_getReplicasInfo cpu_metric_def readResource_def
      sample_target_def averageUtilizationOf_def)
    (simp_all add: sample_menv_def findRequestedResource_def requestOf_def quo_def i64_def)

lemma sample_watch:
  "kwMetrics (newWatcher m sample_reg) = [cpu_metric]"
  "kwCondition (newWatcher m sample_reg) = newCondition 10"
  by (simp_all add: newWatcher_def sample_reg_def)

section \<open>Properties\<close>

text \<open>
  C19. A scrape makes the condition agree with the cluster. For a watcher with pairwise different,
  well-formed metrics whose readings all succeed, \<open>CheckMetric\<close> returns without error or panic,
  keeps the invariant of the condition, and afterwards a metric is among the reached ones exactly
  when it was just read as reached.
\<close>
theorem check_metric_tracks_readings:
  assumes "quantity_laws q" and "cond_inv q (kwCondition w)"
    and "\<forall>m \<in> set (kwMetrics w). wf_metric m"
    and "sorted_wrt (\<lambda>a b. \<not> spec_eq q a b) (kwMetrics w)"
    and "length rs = length (kwMetrics w)"
    and "\<forall>i < length (kwMetrics w). reading q (env i) w (kwMetrics w ! i) = Ok (rs ! i)"
  shows "\<exists>c'. CheckMetric q env w
      = (Ok (isReached (eNow (env (length (kwMetrics w)))) c'), w\<lparr>kwCondition := c'\<rparr>)
    \<and> cond_inv q c'
    \<and> (\<forall>i < length (kwMetrics w). kwMetrics w ! i \<in> active q c' \<longleftrightarrow> rs ! i)"
  using CheckMetric_readings [OF assms(1-3,5,6)] applied_listed [OF assms(1,3-5)] by fastforce

theorem check_metric_tracks_readings_witness:
  "\<exists>c'. CheckMetric sample_quantities (\<lambda>_. sample_menv 1 90 100 7) (newWatcher ''m'' sample_reg)
      = (Ok (isReached 7 c'), (newWatcher ''m'' sample_reg)\<lparr>kwCondition := c'\<rparr>)
    \<and> cpu_metric \<in> active sample_quantities c'"
  using check_metric_tracks_readings [of sample_quantities "newWatcher ''m'' sample_reg" "[True]"
      "\<lambda>_. sample_menv 1 90 100 7"]
  by (auto simp: sample_watch sample_quantity_laws cond_inv_new cpu_metric_wf sample_reading)



text \<open>
  The utilization is divided by the number of replicas twice. A resource metric with a
  utilization target compares the target with the total usage over the total request, in percent,
  divided once more by the number of replicas, so that with \<open>n\<close> replicas that use at most what
  they request a target above \<open>100 div n\<close> percent is never reached.
\<close>
theorem utilization_divided_twice:
  assumes "msType m = ''Resource''" and "msResource m = Some src"
    and "mtAverageUtilization (rmTarget src) = Some target"
    and "getReplicasInfo env (kwWatchTarget w) = Inr (n, sel)" and "0 < n"
    and "eGetResourceMetric env (rmName src) (orNamespace (kwWatchTarget w)) sel [] = Inr usage"
    and "findRequestedResource env (orNamespace (kwWatchTarget w)) sel (rmName src) = Inr req"
    and "0 < req" and "sum64 (map pvValue usage) 0 = used"
    and "0 \<le> used" and "used * 100 < 2 ^ 63"
  shows "reading q env w m = Ok (target \<le> used * 100 div req div n)
    \<and> (used \<le> req \<longrightarrow> 100 div n < target \<longrightarrow> reading q env w m = Ok False)"
proof -
  have quos: "0 \<le> used * 100 div req" "used * 100 div req \<le> used * 100"
    using assms(8,10) div_nonneg_bounds [of "used * 100" req] by simp_all
  then have avg: "averageUtilizationOf usage req n = Ok (used * 100 div req div n)"
    using assms(5,8-11) by (simp add: averageUtilizationOf_def quo_nonneg)
  have "used * 100 div req div n \<le> 100 div n" if "used \<le> req"
  proof (rule zdiv_mono1)
    show "used * 100 div req \<le> 100"
      using that assms(8) zdiv_mono1 [of "used * 100" "req * 100" req] by simp
  qed (rule assms(5))
  with assms(1-4,5-7) avg show ?thesis by (auto simp: reading_def readResource_def)
qed

theorem utilization_divided_twice_witness:
  "findRequestedResource (sample_menv 2 100 100 1) ''ns'' ''app=m'' ''cpu'' = Inr 100
   \<and> reading sample_quantities (sample_menv 2 100 100 1) (newWatcher ''m'' sample_reg) cpu_metric
     = Ok False"
proof -
  have req: "findRequestedResource (sample_menv 2 100 100 1) ''ns'' ''app=m'' ''cpu'' = Inr 100"
    by (simp add: findRequestedResource_def sample_menv_def requestOf_def i64_def)
  have "sum64 (map pvValue [\<lparr>pvTimestamp = 1, pvWindow = 0, pvValue = 100\<rparr>]) 0 = 100"
    by (simp add: i64_def)
  with req show ?thesis
    using utilization_divided_twice [of cpu_metric "\<lparr>rmName = ''cpu'', rmTarget = sample_target\<rparr>" 80
        "sample_menv 2 100 100 1" "newWatcher ''m'' sample_reg" 2 "''app=m''"
        "[\<lparr>pvTimestamp = 1, pvWindow = 0, pvValue = 100\<rparr>]" 100 100 sample_quantities]
    by (simp add: sample_getReplicasInfo cpu_metric_def sample_target_def newWatcher_def
        sample_reg_def sample_ref_def) (simp add: sample_menv_def)
qed

text \<open>
  Scaling the workload to zero clears the condition: when the scale reports no replicas for
  every metric and only metrics of the watcher are listed as reached, \<open>CheckMetric\<close> reads no
  metric, answers false and leaves no metric listed.
\<close>
theorem scale_to_zero_clears_condition:
  assumes "quantity_laws q" and "cond_inv q (kwCondition w)"
    and "\<forall>m \<in> set (kwMetrics w). wf_metric m"
    and "active q (kwCondition w) \<subseteq> (\<Union>m \<in> set (kwMetrics w). same_metric q m)"
    and "\<forall>i. \<exists>sel. getReplicasInfo (env i) (kwWatchTarget w) = Inr (0, sel)"
  shows "\<exists>c'. CheckMetric q env w = (Ok False, w\<lparr>kwCondition := c'\<rparr>)
    \<and> currentMetricReachedMetrics c' = []"
proof -
  let ?rs = "replicate (length (kwMetrics w)) False"
  have read: "\<forall>i < length (kwMetrics w). reading q (env i) w (kwMetrics w ! i) = Ok (?rs ! i)"
  proof (intro allI impI)
    fix i assume "i < length (kwMetrics w)"
    moreover from assms(5) obtain sel where "getReplicasInfo (env i) (kwWatchTarget w) = Inr (0, sel)"
      by blast
    ultimately show "reading q (env i) w (kwMetrics w ! i) = Ok (?rs ! i)" by (simp add: reading_def)
  qed
  have removed: "applied q (zip ms (replicate (length ms) False)) A
      = A - (\<Union>m \<in> set ms. same_metric q m)" for ms A
    by (induction ms arbitrary: A) auto
  from CheckMetric_readings [OF assms(1-3) _ read] obtain c' where
    check: "CheckMetric q env w
      = (Ok (isReached (eNow (env (length (kwMetrics w)))) c'), w\<lparr>kwCondition := c'\<rparr>)"
    and inv: "cond_inv q c'" and act: "active q c' = {}"
    using assms(4) by (auto simp: removed)
  have "currentMetricReachedMetrics c' = []"
    using inv act spec_eq_refl [OF assms(1)]
    by (cases "currentMetricReachedMetrics c'") (auto simp: active_def same_metric_def cond_inv_def)
  moreover from this inv have "\<not> isReached now c'" for now by (simp add: cond_inv_def isReached_def)
  ultimately show ?thesis using check by auto
qed

theorem scale_to_zero_clears_condition_witness:
  "\<exists>c'. CheckMetric sample_quantities (\<lambda>_. sample_menv 0 90 100 7) (newWatcher ''m'' sample_reg)
      = (Ok False, (newWatcher ''m'' sample_reg)\<lparr>kwCondition := c'\<rparr>)
    \<and> currentMetricReachedMetrics c' = []"
  by (rule scale_to_zero_clears_condition)
    (simp_all add: sample_watch sample_quantity_laws cond_inv_new cpu_metric_wf active_new
      sample_getReplicasInfo)

text \<open>
  A scrape can crash the controller: a resource metric with a utilization target panics with a
  division by zero when the pods request nothing of the resource, and a metric of any supported
  type whose source is missing panics with a nil dereference inside the guard that should have
  recorded an error.
\<close>
theorem check_metric_panics:
  assumes "kwMetrics w = m # ms" and "getReplicasInfo (env 0) (kwWatchTarget w) = Inr (n, sel)"
    and "n \<noteq> 0"
    and "(msType m = ''Resource'' \<and> msResource m = Some src
           \<and> mtAverageUtilization (rmTarget src) = Some target
           \<and> eGetResourceMetric (env 0) (rmName src) (orNamespace (kwWatchTarget w)) sel [] = Inr usage
           \<and> findRequestedResource (env 0) (orNamespace (kwWatchTarget w)) sel (rmName src) = Inr 0
           \<and> p = DivideByZero)
         \<or> ((msType m, msObject m) = (''Object'', None) \<or> (msType m, msPods m) = (''Pods'', None)
            \<or> (msType m, msResource m) = (''Resource'', None)
            \<or> (msType m, msContainerResource m) = (''ContainerResource'', None)
            \<or> (msType m, msExternal m) = (''External'', None)) \<and> p = NilDeref"
  shows "CheckMetric q env w = (Panic p, w)"
proof -
  have "reading q (env 0) w m = Panic p"
    using assms(2-4)
    by (auto simp: reading_def readResource_def readObject_def readPods_def readExternal_def
        readContainerResource_def averageUtilizationOf_def quo_def)
  then show ?thesis using assms(1) by (simp add: CheckMetric_def checkOne_def)
qed

theorem check_metric_panics_witness:
  "CheckMetric sample_quantities (\<lambda>_. sample_menv 2 90 0 7) (newWatcher ''m'' sample_reg)
    = (Panic DivideByZero, newWatcher ''m'' sample_reg)"
proof -
  let ?src = "\<lparr>rmName = ''cpu'', rmTarget = sample_target\<rparr>" and ?env = "sample_menv 2 90 0 7"
  have "findRequestedResource ?env ns sel ''cpu'' = Inr 0" for ns sel
    by (simp add: findRequestedResource_def requestOf_def i64_def sample_menv_def)
  moreover have "eGetResourceMetric ?env r ns sel c
      = Inr [\<lparr>pvTimestamp = 7, pvWindow = 0, pvValue = 90\<rparr>]" for r ns sel c
    by (simp add: sample_menv_def)
  moreover have "msType cpu_metric = ''Resource''" "msResource cpu_metric = Some ?src"
    "mtAverageUtilization (rmTarget ?src) = Some 80"
    by (simp_all add: cpu_metric_def sample_target_def)
  ultimately show ?thesis
    by (intro check_metric_panics [where src = ?src and n = 2, OF sample_watch(1)
          sample_getReplicasInfo]) auto
qed

section \<open>The registries\<close>


text \<open>
  Unregistering before the watcher goroutine has run panics: in both Kubernetes informers the
  cancel function of a watcher is nil until its goroutine stores it, and the call that follows a
  registration at once, be it \<open>Unregister\<close> or \<open>Register\<close> again, calls it.
\<close>
theorem early_unregister_panics:
  assumes "map_of (kiWatchers k) n = None" and "map_of (hiWatchers h) n = None"
  shows "fst (K8sMetric_Unregister n (snd (K8sMetric_Register n g k))) = Panic NilFunc
    \<and> fst (K8sMetric_Register n g' (snd (K8sMetric_Register n g k))) = Panic NilFunc
    \<and> fst (Health_Unregister n (snd (Health_Register n r h))) = Panic NilFunc
    \<and> fst (Health_Register n r' (snd (Health_Register n r h))) = Panic NilFunc"
  using assms
  by (simp add: K8sMetric_Register_def K8sMetric_Unregister_def Health_Register_def
      Health_Unregister_def removeWatcher_def cancelMetricWatcher_def cancelHealthWatcher_def
      update_conv' newWatcher_def writes_def panic_def seqG_def)

theorem early_unregister_panics_witness:
  "fst (K8sMetric_Unregister ''m'' (snd (K8sMetric_Register ''m'' sample_reg newK8sMetricInformer)))
     = Panic NilFunc"
  using early_unregister_panics [of newK8sMetricInformer "''m''" newK8SHealthInformer sample_reg]
  by (simp add: newK8sMetricInformer_def newK8SHealthInformer_def)

text \<open>
  The Prometheus informer leaks a watcher when a model is registered again: the stop channel of
  the first watcher is overwritten, so that after the model is unregistered, and even after the
  informer is stopped, the goroutine of the first registration still runs.
\<close>
theorem prometheus_reregister_leaks:
  assumes "\<forall>(m, ch) \<in> set (piStopChs p). ch < piNextChan p"
  shows "let p2 = snd (Prom_Register n g2 (snd (Prom_Register n g1 p)));
             p3 = snd (Prom_Stop (snd (Prom_Unregister n p2)))
         in piWatchers p3 = [] \<and> piStopChs p3 = []
            \<and> (piNextChan p, newPromWatcher n g1 (piNextChan p)) \<in> set (piLive p3)"
proof -
  have closed: "set (piLive (fold (closeChan \<circ> snd) cs r))
      = {(c, w) \<in> set (piLive r). c \<notin> snd ` set cs}" for cs r
    by (induction cs arbitrary: r) (auto simp: closeChan_def)
  have "(m, ch) \<in> set (AList.update n c al) \<Longrightarrow> (m, ch) \<in> set al \<or> m = n"
    for m ch c and al :: "(string \<times> nat) list"
    by (induction al) (auto split: if_splits)
  then have other: "(m, piNextChan p) \<notin> set (AList.delete n
      (AList.update n (Suc (piNextChan p)) (AList.update n (piNextChan p) (piStopChs p))))" for m
    using assms by (fastforce simp: AList.delete_eq)
  show ?thesis
    using other
    by (auto simp: Prom_Register_def Prom_Unregister_def Prom_Stop_def writes_def Let_def closed
        update_conv' closeChan_def image_iff)
qed

theorem prometheus_reregister_leaks_witness:
  "(0, newPromWatcher ''m'' sample_reg 0) \<in> set (piLive (snd (Prom_Stop (snd (Prom_Unregister ''m''
      (snd (Prom_Register ''m'' sample_reg (snd (Prom_Register ''m'' sample_reg
        newPrometheusMetricInformer)))))))))"
  using prometheus_reregister_leaks [of newPrometheusMetricInformer "''m''" sample_reg sample_reg]
  by (simp add: newPrometheusMetricInformer_def Let_def)

text \<open>
  The Prometheus watcher ignores its window: whatever the window, a new watcher reports the
  model as reached on the first scrape in which a sample of an external metric is above the
  threshold, while the condition it shares with the Kubernetes watcher is not yet reached in the
  sense of \<open>isReached\<close>.
\<close>
theorem prometheus_reports_without_window:
  assumes "msType m = ''External''" and "msExternal m = Some src" and "0 \<le> mgWindow g"
    and "peQuery env (queryOf (mgWindow g) src) = Inr (VectorValue samples)"
    and "\<exists>v \<in> set samples. float_gt v (thresholdOf env src)"
  shows "\<exists>w. promScrape q (\<lambda>_. env) i [m] (newPromWatcher model g ch)
      = (Ok [\<lparr>msModelName = model, msReached = True\<rparr>], w) \<and> \<not> isReached (peNow env) (pwCondition w)"
proof -
  let ?w = "newPromWatcher model g ch"
  have "list_ex (\<lambda>v. float_gt v (thresholdOf env src)) samples"
    using assms(5) by (simp add: list_ex_iff)
  with assms show ?thesis
    by (simp add: scrapeMetric_def onPromCondition_def zoom_def update_def settle_def newCondition_def
        newPromWatcher_def reportChange_def ret_def seqG_def isReached_def time_since_def bindG_def
        reads_def deref_def)
qed

definition sample_penv :: prom_env where
  "sample_penv = \<lparr>peQuery = (\<lambda>_. Inr (VectorValue [Fin 9])), peMarshalType = (\<lambda>_. Inr []),
     peUnmarshalScalar = (\<lambda>_. Inl (ApiError [])), peApproximateFloat64 = (\<lambda>_. Fin 5), peNow = 3\<rparr>"

theorem prometheus_reports_without_window_witness:
  "\<exists>w. promScrape sample_quantities (\<lambda>_. sample_penv) 0 [mistyped_metric]
      (newPromWatcher ''m'' sample_reg 0) = (Ok [\<lparr>msModelName = ''m'', msReached = True\<rparr>], w)
    \<and> \<not> isReached (peNow sample_penv) (pwCondition w)"
  by (rule prometheus_reports_without_window [where samples = "[Fin 9]"
        and src = "the (msExternal mistyped_metric)"])
    (simp_all add: mistyped_metric_def sample_reg_def sample_penv_def thresholdOf_def
      sample_target_def)

section \<open>Health\<close>

text \<open>
  For the supported kinds an event about the watched workload is reported once, and an event
  about any other object is not: a Deployment, StatefulSet or DaemonSet is healthy when it has a
  ready replica, but a ReplicaSet is healthy when all its replicas are ready, so that a ReplicaSet
  with no replicas at all is reported healthy.
\<close>
theorem handle_event_reports_health:
  assumes "orKind (hwWatchTarget h) = kind"
    and "(kind, mk) \<in> {(''Deployment'', DeploymentObj), (''StatefulSet'', StatefulSetObj),
                       (''DaemonSet'', DaemonSetObj), (''ReplicaSet'', ReplicaSetObj)}"
  shows "handleEvent h (mk wl) =
      (if wlNamespace wl = orNamespace (hwWatchTarget h) \<and> wlName wl = orName (hwWatchTarget h)
       then [Health \<lparr>hsModelName = hwModel h,
               hsHealthy = (if kind = ''ReplicaSet'' then wlReplicas wl = wlReadyReplicas wl
                            else wlReadyReplicas wl > 0)\<rparr>]
       else [])
    \<and> handleEvent h OtherObj = []"
  using assms by (auto simp: handleEvent_def reportHealth_def isTarget_def)

theorem handle_event_reports_health_witness:
  "handleEvent \<lparr>hwModel = ''m'', hwWatchTarget = sample_ref\<lparr>orKind := ''ReplicaSet''\<rparr>, hwCancel = True\<rparr>
     (ReplicaSetObj \<lparr>wlNamespace = ''ns'', wlName = ''m'', wlReplicas = 0, wlReadyReplicas = 0\<rparr>)
   = [Health \<lparr>hsModelName = ''m'', hsHealthy = True\<rparr>]"
  using handle_event_reports_health [of "\<lparr>hwModel = ''m'', hwWatchTarget = sample_ref\<lparr>orKind := ''ReplicaSet''\<rparr>, hwCancel = True\<rparr>" "''ReplicaSet''" ReplicaSetObj
      "\<lparr>wlNamespace = ''ns'', wlName = ''m'', wlReplicas = 0, wlReadyReplicas = 0\<rparr>"]
  by (simp add: sample_ref_def)

lemma registered_watcher:
  assumes "Health_Register n r k = (Ok (), k1)" and "map_of (hiWatchers k1) n = Some h"
  shows "hwModel h = n \<and> hwWatchTarget h = r"
  using assms by (auto simp: Health_Register_def seqG_def bindG_def reads_def writes_def update_conv'
      split: prod.splits outcome.splits)

text \<open>
  A model whose workload kind is not supported is dropped: its goroutine sends exactly one
  error, and handling that error removes the watcher, leaving the others in place.
\<close>
theorem unsupported_kind_is_dropped:
  assumes "\<not> supportedKind (orKind r)" and "Health_ready k"
  shows "\<exists>k1 h err h' k2. Health_Register n r k = (Ok (), k1) \<and> map_of (hiWatchers k1) n = Some h
    \<and> startWatcher refused synced h = ([HealthFault err], h')
    \<and> onWatcherError err (Health_schedule k1) = (Ok (), k2)
    \<and> Health_watched k2 = (Health_watched k)(n := None)"
proof -
  from k8s_health.register_watches [OF TrueI assms(2), of n r] obtain k1 where
    reg: "Health_Register n r k = (Ok (), k1)" and w1: "Health_watched k1 = (Health_watched k)(n \<mapsto> r)"
    by blast
  from fun_cong [OF w1, of n] obtain h where
    h: "map_of (hiWatchers k1) n = Some h" and target: "hwWatchTarget h = r"
    by (auto simp: Health_watched_def)
  have "hwModel h = n" using registered_watcher [OF reg h] by simp
  then have start: "startWatcher refused synced h = ([HealthFault \<lparr>ewModelName = n,
      ewErr = Errorf (''unsupported resource kind: '' @ orKind r)\<rparr>], h\<lparr>hwCancel := True\<rparr>)"
    using assms(1) target by (simp add: startWatcher_def Let_def unsupportedKind_def)
  from k8s_health.unregister_scheduled [OF TrueI, of n k1] obtain k2 where
    "removeWatcher n (Health_schedule k1) = (Ok (), k2)"
    and "Health_watched k2 = (Health_watched k)(n := None)"
    by (auto simp: Health_Unregister_eq w1)
  with reg h start show ?thesis by (auto simp: onWatcherError_def)
qed

theorem unsupported_kind_is_dropped_witness:
  "\<exists>k1 h err h' k2.
     Health_Register ''m'' (sample_ref\<lparr>orKind := ''Job''\<rparr>) newK8SHealthInformer = (Ok (), k1)
     \<and> map_of (hiWatchers k1) ''m'' = Some h
     \<and> startWatcher None True h = ([HealthFault err], h')
     \<and> onWatcherError err (Health_schedule k1) = (Ok (), k2)
     \<and> Health_watched k2 = (Health_watched newK8SHealthInformer)(''m'' := None)"
  by (rule unsupported_kind_is_dropped)
    (simp_all add: supportedKind_def Health_ready_def newK8SHealthInformer_def)

section \<open>Errors of the health watchers\<close>

text \<open>
  The health informer drops the watcher of a model at its first error, for good: nothing registers it again,
  and the health of the model is not reported any more.
\<close>

theorem failed_health_watchers_are_dropped:
  assumes "Health_ready k"
  shows "\<exists>k'. Health_Start (map InformerError es) k = (Ok (), k')
    \<and> Health_watched k' = (\<lambda>m. if m \<in> ewModelName ` set es then None else Health_watched k m)"
  using assms
proof (induction es arbitrary: k)
  case Nil
  then show ?case by (simp add: ret_def)
next
  case (Cons e es)
  let ?k = "k\<lparr>hiWatchers := AList.delete (ewModelName e) (hiWatchers k)\<rparr>"
  have "set (AList.delete (ewModelName e) (hiWatchers k)) \<subseteq> set (hiWatchers k)"
    by (auto simp: AList.delete_eq)
  then have "Health_ready ?k" using Cons.prems by (auto simp: Health_ready_def list_all_iff)
  then obtain k' where "Health_Start (map InformerError es) ?k = (Ok (), k')"
    and "Health_watched k' = (\<lambda>m. if m \<in> ewModelName ` set es then None else Health_watched ?k m)"
    using Cons.IH by blast
  moreover have "Health_watched ?k = (Health_watched k)(ewModelName e := None)"
    by (auto simp: Health_watched_def delete_conv' fun_eq_iff)
  ultimately show ?case
    using removeWatcher_ready [OF Cons.prems, of "ewModelName e"]
    by (auto simp: onWatcherError_def seqG_def fun_eq_iff)
qed

end
