(* ===== verification/Informer_Liveness.thy ===== *)
theory Informer_Liveness
  imports Informer_Facts
begin

text \<open>
  A metric watcher does report: a metric that is read as reached in every scrape is reported as
  soon as the window has passed. The counterpart, that nothing is reported early, is in
  \<open>Informer_Facts\<close>.
\<close>

section \<open>What a scrape keeps of the condition\<close>

lemma checkAll_keeps:
  assumes "quantity_laws q" and "cond_inv q (kwCondition w)" and "Q (kwCondition w)"
    and "\<forall>m \<in> set ms. wf_metric m" and "length rs = length ms"
    and "\<forall>j < length ms. reading q (env (i + j)) w (ms ! j) = Ok (rs ! j)"
    and "\<And>j c c'. j < length ms \<Longrightarrow> cond_inv q c \<Longrightarrow> Q c
      \<Longrightarrow> update q (eNow (env (i + j))) (ms ! j) (rs ! j) c = (Ok (), c') \<Longrightarrow> cond_inv q c' \<Longrightarrow> Q c'"
  shows "Q (kwCondition (snd (checkAll q env i ms errs w)))"
  using assms(2-)
proof (induction ms arbitrary: i w rs)
  case Nil
  then show ?case by simp
next
  case (Cons m ms)
  obtain r rs' where rs: "rs = r # rs'" using Cons.prems(4) by (cases rs) auto
  have "reading q (env i) w m = Ok r" using Cons.prems(5) by (auto simp: rs)
  moreover obtain c where up: "update q (eNow (env i)) m r (kwCondition w) = (Ok (), c)" and inv: "cond_inv q c"
    using update_step [OF assms(1) Cons.prems(1), of m "eNow (env i)" r] Cons.prems(3) by auto
  ultimately have step: "checkOne q (env i) m w = (Ok (), w\<lparr>kwCondition := c\<rparr>)"
    by (simp add: checkOne_def onCondition_def zoom_def)
  have "Q c" using Cons.prems(6) [of 0, OF _ Cons.prems(1,2)] up inv by (simp add: rs)
  have "Q (kwCondition (snd (checkAll q env (Suc i) ms errs (w\<lparr>kwCondition := c\<rparr>))))"
  proof (rule Cons.IH [where rs = rs'])
    show "\<forall>j < length ms. reading q (env (Suc i + j)) (w\<lparr>kwCondition := c\<rparr>) (ms ! j) = Ok (rs' ! j)"
      using Cons.prems(5) by (auto simp: rs)
    fix j d d' assume "j < length ms" "cond_inv q d" "Q d"
      "update q (eNow (env (Suc i + j))) (ms ! j) (rs' ! j) d = (Ok (), d')" "cond_inv q d'"
    then show "Q d'" using Cons.prems(6) [of "Suc j" d d'] by (simp add: rs)
  qed (use Cons.prems inv \<open>Q c\<close> in \<open>auto simp: rs\<close>)
  then show ?case by (simp add: step)
qed

text \<open>The readings of one scrape.\<close>

definition reads_as :: "quantity_ops \<Rightarrow> k8sMetricWatcher \<Rightarrow> (nat \<Rightarrow> metric_env) \<Rightarrow> bool list \<Rightarrow> bool" where
  "reads_as q w env rs \<longleftrightarrow> length rs = length (kwMetrics w)
     \<and> (\<forall>i < length (kwMetrics w). reading q (env i) w (kwMetrics w ! i) = Ok (rs ! i))"

lemma reads_as_same_watch: "same_watch w w' \<Longrightarrow> reads_as q w' env rs = reads_as q w env rs"
  by (simp add: reads_as_def reading_same_watch) (simp add: same_watch_def)

lemma scrape_keeps:
  assumes "quantity_laws q" and "cond_inv q (kwCondition w)" and "Q (kwCondition w)"
    and "\<forall>m \<in> set (kwMetrics w). wf_metric m" and "reads_as q w env rs"
    and "\<And>j c c'. j < length (kwMetrics w) \<Longrightarrow> cond_inv q c \<Longrightarrow> Q c
      \<Longrightarrow> update q (eNow (env j)) (kwMetrics w ! j) (rs ! j) c = (Ok (), c') \<Longrightarrow> cond_inv q c' \<Longrightarrow> Q c'"
  shows "\<exists>w'. scrape q env w = (Ok (Report \<lparr>msModelName = kwModel w,
        msReached = isReached (eNow (env (length (kwMetrics w)))) (kwCondition w')\<rparr>), w')
    \<and> same_watch w w' \<and> kwModel w' = kwModel w \<and> cond_inv q (kwCondition w') \<and> Q (kwCondition w')
    \<and> active q (kwCondition w') = applied q (zip (kwMetrics w) rs) (active q (kwCondition w))"
proof -
  have rs: "length rs = length (kwMetrics w)"
    "\<forall>j < length (kwMetrics w). reading q (env (0 + j)) w (kwMetrics w ! j) = Ok (rs ! j)"
    using assms(5) by (simp_all add: reads_as_def)
  obtain c where all: "checkAll q env 0 (kwMetrics w) [] w = (Ok [], w\<lparr>kwCondition := c\<rparr>)"
    and c: "cond_inv q c" "active q c = applied q (zip (kwMetrics w) rs) (active q (kwCondition w))"
    using checkAll_readings [OF assms(1,2,4) rs] by blast
  have "Q (kwCondition (snd (checkAll q env 0 (kwMetrics w) [] w)))"
  proof (rule checkAll_keeps [where Q = Q and i = 0 and env = env, OF assms(1-4) rs])
    fix k d d' assume "k < length (kwMetrics w)" "cond_inv q d" "Q d"
      "update q (eNow (env (0 + k))) (kwMetrics w ! k) (rs ! k) d = (Ok (), d')" "cond_inv q d'"
    then show "Q d'" by (intro assms(6) [of k d d']) simp_all
  qed
  then have "Q c" by (simp add: all)
  moreover have "CheckMetric q env w
      = (Ok (isReached (eNow (env (length (kwMetrics w)))) c), w\<lparr>kwCondition := c\<rparr>)"
    by (simp add: CheckMetric_def all reads_def)
  ultimately show ?thesis using c by (simp add: scrape_def Let_def same_watch_def)
qed

section \<open>Holding a metric\<close>

lemma update_since:
  assumes "cond_inv q c" and "cond_inv q c'" and "update q now cur r c = (Ok (), c')"
    and "reached c \<longrightarrow> sinceTime c \<le> start" and "now \<le> start"
  shows "reached c' \<longrightarrow> sinceTime c' \<le> start"
  using update_onset [OF assms(1,3)] assms(2,4,5) by (auto simp: cond_inv_def split: if_splits)

lemma active_reached: "cond_inv q c \<Longrightarrow> m \<in> active q c \<Longrightarrow> reached c"
  by (auto simp: cond_inv_def active_def)

lemma update_holds:
  assumes "quantity_laws q" and "cond_inv q c" and "wf_metric cur" and "m \<in> active q c"
    and "r \<or> m \<notin> same_metric q cur" and "update q now cur r c = (Ok (), c')"
  shows "m \<in> active q c' \<and> sinceTime c' = sinceTime c"
proof -
  have inv: "cond_inv q c'" and "m \<in> active q c'"
    using update_step [OF assms(1-3), of now r] assms(4-6) by auto
  then have "currentMetricReachedMetrics c' \<noteq> []" by (auto simp: active_def)
  with update_onset [OF assms(2,6)] active_reached [OF assms(2,4)] \<open>m \<in> active q c'\<close> show ?thesis by simp
qed

lemma other_metric:
  assumes "quantity_laws q" and "sorted_wrt (\<lambda>a b. \<not> spec_eq q a b) ms" and "i < length ms" "j < length ms" "i \<noteq> j"
  shows "ms ! j \<notin> same_metric q (ms ! i)"
  using assms by (cases i j rule: linorder_cases)
    (auto simp: same_metric_def dest: spec_eq_sym [OF assms(1)] simp: sorted_wrt_iff_nth_less)

text \<open>Once the metric is listed, the scrapes that read it as reached keep it and the time.\<close>

lemma scrapes_hold:
  assumes "quantity_laws q" and "\<forall>m \<in> set (kwMetrics w). wf_metric m"
    and "sorted_wrt (\<lambda>a b. \<not> spec_eq q a b) (kwMetrics w)" and "j < length (kwMetrics w)"
    and "cond_inv q (kwCondition w)" and "kwMetrics w ! j \<in> active q (kwCondition w)"
    and "\<forall>e \<in> set envs. \<exists>rs. reads_as q w e rs \<and> rs ! j"
  shows "\<exists>evs w'. scrapes q envs w = (Ok evs, w') \<and> same_watch w w' \<and> kwModel w' = kwModel w
    \<and> cond_inv q (kwCondition w') \<and> kwMetrics w ! j \<in> active q (kwCondition w')
    \<and> sinceTime (kwCondition w') = sinceTime (kwCondition w) \<and> window (kwCondition w') = window (kwCondition w)"
  using assms(2-)
proof (induction envs arbitrary: w)
  case Nil
  then show ?case by (auto simp: ret_def same_watch_def)
next
  case (Cons e envs)
  let ?m = "kwMetrics w ! j" and ?c = "kwCondition w"
  let ?Q = "\<lambda>c. ?m \<in> active q c \<and> sinceTime c = sinceTime ?c \<and> window c = window ?c"
  obtain rs where rs: "reads_as q w e rs" "rs ! j" using Cons.prems(6) by auto
  have "?Q c'" if "k < length (kwMetrics w)" "cond_inv q c" "?Q c"
      "update q (eNow (e k)) (kwMetrics w ! k) (rs ! k) c = (Ok (), c')" for k c c'
  proof -
    have "rs ! k \<or> ?m \<notin> same_metric q (kwMetrics w ! k)"
      using other_metric [OF assms(1) Cons.prems(2) that(1) Cons.prems(3)] rs(2) by (cases "k = j") auto
    moreover have "wf_metric (kwMetrics w ! k)" using Cons.prems(1) that(1) by simp
    moreover have "window c' = window c" using update_window [of q _ _ _ c] that(4) by (metis snd_conv)
    ultimately show ?thesis using update_holds [OF assms(1) that(2) _ _ _ that(4)] that(3) by auto
  qed
  with scrape_keeps [OF assms(1) Cons.prems(4) _ Cons.prems(1) rs(1), where Q = ?Q] Cons.prems(5)
  obtain ev w1 where step: "scrape q e w = (Ok ev, w1)" and same: "same_watch w w1" "kwModel w1 = kwModel w"
    and c1: "cond_inv q (kwCondition w1)" "?Q (kwCondition w1)"
    by blast
  have ms: "kwMetrics w1 = kwMetrics w" using same(1) by (simp add: same_watch_def)
  have "\<forall>e \<in> set envs. \<exists>rs. reads_as q w1 e rs \<and> rs ! j"
    using Cons.prems(6) by (simp add: reads_as_same_watch [OF same(1)])
  with Cons.IH [of w1] Cons.prems(1-3) c1 ms obtain evs w' where
    "scrapes q envs w1 = (Ok evs, w')" "same_watch w1 w'" "kwModel w' = kwModel w1"
    "cond_inv q (kwCondition w')" "?m \<in> active q (kwCondition w')"
    "sinceTime (kwCondition w') = sinceTime (kwCondition w1)" "window (kwCondition w') = window (kwCondition w1)"
    by auto
  with step same c1(2) show ?case by (auto simp: ret_def intro: same_watch_trans)
qed

lemma sustained_report:
  assumes q: "quantity_laws q" and wf: "\<forall>m \<in> set (mgMetrics g). wf_metric m"
    and diff: "sorted_wrt (\<lambda>a b. \<not> spec_eq q a b) (mgMetrics g)" and j: "j < length (mgMetrics g)"
    and held: "\<forall>e \<in> set (env0 # envs @ [env]). \<exists>rs. reads_as q (newWatcher model g) e rs \<and> rs ! j"
    and first: "\<forall>i. eNow (env0 i) \<le> start"
    and passed: "eNow (env (length (mgMetrics g))) - start > mgWindow g" "mgWindow g < 2 ^ 63 - 1"
  shows "\<exists>evs w w'. scrapes q (env0 # envs) (newWatcher model g) = (Ok evs, w)
    \<and> scrape q env w = (Ok (Report \<lparr>msModelName = model, msReached = True\<rparr>), w')"
proof -
  let ?w = "newWatcher model g" and ?m = "mgMetrics g ! j"
  have new: "kwMetrics ?w = mgMetrics g" "kwModel ?w = model" "cond_inv q (kwCondition ?w)"
    "\<not> reached (kwCondition ?w)" "window (kwCondition ?w) = mgWindow g"
    using cond_inv_new by (simp_all add: newWatcher_def) (simp_all add: newCondition_def)
  let ?Q = "\<lambda>c. (reached c \<longrightarrow> sinceTime c \<le> start) \<and> window c = mgWindow g"
  obtain rs where rs: "reads_as q ?w env0 rs" "rs ! j" using held by auto
  have "?Q c'" if "cond_inv q c" "?Q c" "cond_inv q c'"
      "update q (eNow (env0 k)) (kwMetrics ?w ! k) (rs ! k) c = (Ok (), c')" for k c c'
    using update_since [OF that(1,3,4)] that(2) first update_window [of q _ _ _ c] that(4)
    by (metis snd_conv)
  moreover have "?Q (kwCondition ?w)" and "\<forall>m \<in> set (kwMetrics ?w). wf_metric m" using new wf by simp_all
  ultimately have "\<exists>w1. scrape q env0 ?w = (Ok (Report \<lparr>msModelName = kwModel ?w,
        msReached = isReached (eNow (env0 (length (kwMetrics ?w)))) (kwCondition w1)\<rparr>), w1)
    \<and> same_watch ?w w1 \<and> kwModel w1 = kwModel ?w \<and> cond_inv q (kwCondition w1) \<and> ?Q (kwCondition w1)
    \<and> active q (kwCondition w1) = applied q (zip (kwMetrics ?w) rs) (active q (kwCondition ?w))"
    by (intro scrape_keeps [OF q new(3) _ _ rs(1), where Q = ?Q]) blast+
  then obtain ev w1 where step: "scrape q env0 ?w = (Ok ev, w1)" and same: "same_watch ?w w1" "kwModel w1 = model"
    and c1: "cond_inv q (kwCondition w1)" "?Q (kwCondition w1)"
    and act: "active q (kwCondition w1) = applied q (zip (mgMetrics g) rs) (active q (kwCondition ?w))"
    using new(1,2) by metis
  have ms: "kwMetrics w1 = mgMetrics g" using same(1) new(1) by (simp add: same_watch_def)
  have "?m \<in> active q (kwCondition w1)"
    using applied_listed [OF q wf diff _ j, of rs] rs new(1) act by (simp add: reads_as_def)
  moreover have "\<forall>e \<in> set (envs @ [env]). \<exists>rs. reads_as q w1 e rs \<and> rs ! j"
    using held by (simp add: reads_as_same_watch [OF same(1)])
  ultimately obtain evs w2 where rest: "scrapes q envs w1 = (Ok evs, w2)" and same2: "same_watch w1 w2"
    "kwModel w2 = model" and c2: "cond_inv q (kwCondition w2)" "?m \<in> active q (kwCondition w2)"
    "sinceTime (kwCondition w2) \<le> start" "window (kwCondition w2) = mgWindow g"
    using scrapes_hold [OF q, of w1 j envs] wf diff j c1 ms same(2) active_reached [OF c1(1)]
    by auto
  have ms2: "kwMetrics w2 = mgMetrics g" using same2(1) ms by (simp add: same_watch_def)
  have "\<exists>evs' w'. scrapes q [env] w2 = (Ok evs', w') \<and> ?m \<in> active q (kwCondition w')
      \<and> cond_inv q (kwCondition w') \<and> sinceTime (kwCondition w') \<le> start \<and> window (kwCondition w') = mgWindow g"
    using scrapes_hold [OF q, of w2 j "[env]"] wf diff j c2 ms2 held
    by (simp add: reads_as_same_watch [OF same(1)] reads_as_same_watch [OF same2(1)]) metis
  then obtain ev' w' where final: "scrape q env w2 = (Ok ev', w')" and c': "?m \<in> active q (kwCondition w')"
    "cond_inv q (kwCondition w')" "sinceTime (kwCondition w') \<le> start" "window (kwCondition w') = mgWindow g"
    by (auto simp: bindG_Ok_iff ret_def)
  have "isReached (eNow (env (length (mgMetrics g)))) (kwCondition w')"
    using passed c' active_reached [OF c'(2,1)] by (simp add: isReached_def time_since_def)
  moreover obtain rs' where "reads_as q w2 env rs'"
    using held by (auto simp: reads_as_same_watch [OF same(1)] reads_as_same_watch [OF same2(1)])
  ultimately have "ev' = Report \<lparr>msModelName = model, msReached = True\<rparr>"
    using scrape_keeps [OF q c2(1), where Q = "\<lambda>_. True" and rs = rs' and env = env] wf ms2 final same2(2)
    by auto
  with step rest final show ?thesis by (auto simp: ret_def)
qed

section \<open>Property\<close>

text \<open>
  A metric that stays reached is reported. For a newly registered watcher with pairwise
  different, well-formed metrics whose readings succeed, if one metric is read as reached in every
  scrape and the last scrape ends more than the window after the first one, then no scrape fails
  and the last one reports the model as reached.
\<close>
theorem sustained_metric_is_reported:
  assumes q: "quantity_laws q" and wf: "\<forall>m \<in> set (mgMetrics g). wf_metric m"
    and diff: "sorted_wrt (\<lambda>a b. \<not> spec_eq q a b) (mgMetrics g)" and j: "j < length (mgMetrics g)"
    and held: "\<forall>e \<in> set (env0 # envs @ [env]). \<exists>rs. reads_as q (newWatcher model g) e rs \<and> rs ! j"
    and first: "\<forall>i. eNow (env0 i) \<le> start"
    and passed: "eNow (env (length (mgMetrics g))) - start > mgWindow g" "mgWindow g < 2 ^ 63 - 1"
  shows "\<exists>evs w w'. scrapes q (env0 # envs) (newWatcher model g) = (Ok evs, w)
    \<and> scrape q env w = (Ok (Report \<lparr>msModelName = model, msReached = True\<rparr>), w')"
  by (rule sustained_report [OF assms])

theorem sustained_metric_is_reported_witness:
  "\<exists>evs w w'. scrapes sample_quantities [\<lambda>_. sample_menv 1 90 100 0, \<lambda>_. sample_menv 1 90 100 5]
       (newWatcher ''m'' sample_reg) = (Ok evs, w)
     \<and> scrape sample_quantities (\<lambda>_. sample_menv 1 90 100 11) w
       = (Ok (Report \<lparr>msModelName = ''m'', msReached = True\<rparr>), w')"
proof -
  have "reads_as sample_quantities (newWatcher ''m'' sample_reg) (\<lambda>_. sample_menv 1 90 100 t) [True]" for t
    by (simp add: reads_as_def sample_watch sample_reading)
  then have "\<exists>rs. reads_as sample_quantities (newWatcher ''m'' sample_reg) (\<lambda>_. sample_menv 1 90 100 t) rs
      \<and> rs ! 0" for t
    by (intro exI [of _ "[True]"]) simp
  then show ?thesis
    using sustained_metric_is_reported [where g = sample_reg and j = 0 and model = "''m''" and start = 0
        and q = sample_quantities and ?env0.0 = "\<lambda>_. sample_menv 1 90 100 0"
        and envs = "[\<lambda>_. sample_menv 1 90 100 5]" and env = "\<lambda>_. sample_menv 1 90 100 11"]
    by (simp add: sample_quantity_laws sample_reg_def cpu_metric_wf)
qed

end
