(* ===== verification/Kube_Types.thy ===== *)
theory Kube_Types
  imports Deployment_Types
begin

text \<open>
  The Kubernetes objects that several components read and write: services and their ports, with
  the fields the code uses.
\<close>

record service_port =
  spName :: string
  spPort :: int
  spProtocol :: string
  spTargetPort :: int

record service =
  svName :: string
  svNamespace :: string
  svPorts :: "service_port list"
  svSelector :: "(string \<times> string) list"
  svClusterIP :: string
  svClusterIPs :: "string list"
  svExternalIPs :: "string list"

end
