(* ===== verification/Offloader.thy ===== *)
theory Offloader
  imports Gateway_API Kube_Types
begin

text \<open>
  The gateway offloader (\<^verbatim>\<open>internal/dataplane/offloader\<close>): it turns a model and a percentage into
  a route of the gateway and keeps it there through the management client.

  The state holds the offloader's own fields and the gateway at the other end of the client. The
  cluster answers through \<open>oeServiceGet\<close>; \<open>oeSend\<close> is the network with the management API
  behind it.
\<close>

record offloader =
  managedRoutes :: "string \<rightharpoonup> bool"
  workspace :: string
  gateway :: proxy

record offload_env =
  oeServiceGet :: "string \<Rightarrow> string \<Rightarrow> service reply"
  oeSend :: "api_request \<Rightarrow> (proxy, api_response) go"

definition newBeamlitGatewayOffloader :: "proxy \<Rightarrow> offloader" where
  "newBeamlitGatewayOffloader gw = \<lparr>managedRoutes = Map.empty, workspace = [], gateway = gw\<rparr>"

definition onGateway :: "(proxy, 'a) go \<Rightarrow> (offloader, 'a) go" where
  "onGateway = zoom gateway (\<lambda>g d. d\<lparr>gateway := g\<rparr>)"

definition variableReplace :: "string \<Rightarrow> string \<Rightarrow> model_deployment \<Rightarrow> string" where
  "variableReplace ws pathPrefix model =
     replace_all ''$model'' (spModel (mdSpec model)) (replace_all ''$workspace'' ws pathPrefix)"

definition hostnamesOf :: "service \<Rightarrow> string list" where
  "hostnamesOf s =
     [svClusterIP s,
      svName s,
      svName s @ ''.'' @ svNamespace s,
      svName s @ ''.'' @ svNamespace s @ ''.svc'',
      svName s @ ''.'' @ svNamespace s @ ''.svc.cluster.local'']"

definition localBackendOf :: "service_reference \<Rightarrow> int \<Rightarrow> backend" where
  "localBackendOf l w =
     \<lparr>bHost = srName l @ ''.'' @ srNamespace l @ ''.svc.cluster.local:'' @ show_int (srTargetPort l),
      bWeight = i64 (100 - w), bAuth = None, bPathPrefix = [], bHeadersToAdd = [],
      bScheme = ''http''\<rparr>"

definition authOf :: "auth_config \<Rightarrow> auth" where
  "authOf a =
     \<lparr>aType = (if acType a = ''oauth'' then AuthTypeOAuth else []),
      aOAuth = map_option (\<lambda>c. \<lparr>oClientID = ocClientID c, oClientSecret = ocClientSecret c,
                                 oTokenURL = ocTokenURL c\<rparr>) (acOAuthConfig a)\<rparr>"

definition remoteBackendOf :: "string \<Rightarrow> model_deployment \<Rightarrow> remote_backend \<Rightarrow> int \<Rightarrow> backend" where
  "remoteBackendOf ws model rb w =
     \<lparr>bHost = rbHost rb, bWeight = w, bAuth = map_option authOf (rbAuthConfig rb),
      bPathPrefix = variableReplace ws (rbPathPrefix rb) model,
      bHeadersToAdd = rbHeadersToAdd rb, bScheme = rbScheme rb\<rparr>"

definition routeOf ::
  "string \<Rightarrow> model_deployment \<Rightarrow> service \<Rightarrow> service_reference \<Rightarrow> remote_backend \<Rightarrow> int \<Rightarrow> route" where
  "routeOf ws model s l rb w =
     \<lparr>rName = mdName model, rHostnames = hostnamesOf s,
      rBackends = [localBackendOf l w, remoteBackendOf ws model rb w]\<rparr>"

text \<open>The first workspace that a model's status names is kept for all models.\<close>

definition rememberWorkspace :: "model_deployment \<Rightarrow> offloader \<Rightarrow> offloader" where
  "rememberWorkspace model d =
     (if workspace d = [] \<and> stWorkspace (mdStatus model) \<noteq> []
      then d\<lparr>workspace := stWorkspace (mdStatus model)\<rparr> else d)"

definition Offloader_Configure ::
  "offload_env \<Rightarrow> model_deployment \<Rightarrow> service_reference option \<Rightarrow> remote_backend option \<Rightarrow> int
   \<Rightarrow> (offloader, unit) go" where
  "Offloader_Configure env model localBackend remoteBackend w =
     bindG (deref (spServiceRef (mdSpec model))) (\<lambda>ref.
     bindG (answer (oeServiceGet env (srNamespace ref) (srName ref))) (\<lambda>service.
     seqG (writes (rememberWorkspace model))
    (bindG (deref localBackend) (\<lambda>l.
     bindG (deref remoteBackend) (\<lambda>rb.
     bindG (reads (\<lambda>d. (routeOf (workspace d) model service l rb w,
                        managedRoutes d (mdName model)))) (\<lambda>(route, managed).
     seqG (onGateway (case managed of
             Some _ \<Rightarrow> Client_UpdateRoute (oeSend env) route
           | None \<Rightarrow> Client_RegisterRoute (oeSend env) route))
          (writes (\<lambda>d. d\<lparr>managedRoutes := (managedRoutes d)(mdName model \<mapsto> True)\<rparr>))))))))"

text \<open>The entry is deleted whether or not the gateway deleted the route.\<close>

definition Offloader_Cleanup :: "offload_env \<Rightarrow> model_deployment \<Rightarrow> (offloader, unit) go" where
  "Offloader_Cleanup env model d =
     (case managedRoutes d (mdName model) of
        None \<Rightarrow> (Ok (), d)
      | Some _ \<Rightarrow>
          (case onGateway (Client_DeleteRoute (oeSend env) (mdName model)) d of
             (Ok _, d') \<Rightarrow> (Ok (), d'\<lparr>managedRoutes := (managedRoutes d')(mdName model := None)\<rparr>)
           | (Err e, d') \<Rightarrow> (Err e, d'\<lparr>managedRoutes := (managedRoutes d')(mdName model := None)\<rparr>)
           | (Panic p, d') \<Rightarrow> (Panic p, d')))"

definition NewOffloader :: "string \<Rightarrow> proxy \<Rightarrow> offloader reply" where
  "NewOffloader offloaderType gw =
     (if offloaderType = ''beamlit-gateway'' then Inr (newBeamlitGatewayOffloader gw)
      else Inl (Errorf (''unsupported offloader type: '' @ offloaderType)))"

end
