(* ===== verification/Offloader_Facts.thy ===== *)
theory Offloader_Facts
  imports Offloader Gateway_API_Facts
begin

text \<open>
  What the offloader achieves together with the gateway behind it: the percentage asked for is
  the share of draws that leave for the remote backend, and the routes it manages are those the
  gateway stores; and what happens to two models of one name.
\<close>

section \<open>Configuring through the client\<close>

lemma UpdateRoute_eq: "UpdateRoute = RegisterRoute"
proof -
  have "InMem_UpdateRoute = InMem_RegisterRoute"
    by (simp add: fun_eq_iff InMem_UpdateRoute_def InMem_RegisterRoute_def)
  then show ?thesis by (intro ext) (simp only: UpdateRoute_def RegisterRoute_def)
qed

lemma rememberWorkspace_sel [simp]:
  "managedRoutes (rememberWorkspace model d) = managedRoutes d"
  "gateway (rememberWorkspace model d) = gateway d"
  by (simp_all add: rememberWorkspace_def)

lemma json_routeOf:
  "0 \<le> w \<Longrightarrow> w \<le> 100 \<Longrightarrow> distinct (map fst (rbHeadersToAdd rb))
   \<Longrightarrow> json_route (routeOf ws model s l rb w)"
  by (simp add: json_route_def json_backend_def routeOf_def localBackendOf_def remoteBackendOf_def)

lemma plain_ok:
  assumes "json_route r" and "plain_name (rName r)"
  shows "(case managed of Some (_ :: bool) \<Rightarrow> Client_UpdateRoute (serveAPI y) r
      | None \<Rightarrow> Client_RegisterRoute (serveAPI y) r) g = RegisterRoute r g"
  using client_register [OF assms(1)] client_update [OF assms]
  by (simp add: UpdateRoute_eq split: option.splits)

lemma Configure_eq:
  fixes d :: offloader and l :: service_reference
  assumes "oeSend env = serveAPI y" and "spServiceRef (mdSpec model) = Some ref"
    and "oeServiceGet env (srNamespace ref) (srName ref) = Inr s"
    and "plain_name (mdName model)" and "distinct (map fst (rbHeadersToAdd rb))"
    and "0 \<le> w" and "w \<le> 100"
  defines "d1 \<equiv> rememberWorkspace model d"
  defines "r \<equiv> routeOf (workspace d1) model s l rb w"
  shows "Offloader_Configure env model (Some l) (Some rb) w d =
    (Ok (), d1\<lparr>managedRoutes := (managedRoutes d)(mdName model \<mapsto> True),
               gateway := snd (RegisterRoute r (gateway d))\<rparr>)"
proof -
  have "json_route r" and "plain_name (rName r)"
    using assms(4-7) by (simp_all add: r_def json_routeOf) (simp add: routeOf_def)
  note call = plain_ok [OF this, where y = y]
  obtain g where reg: "RegisterRoute r (gateway d) = (Ok r, g)"
    using gw.register_result by (metis prod.collapse)
  have "Offloader_Configure env model (Some l) (Some rb) w d
      = seqG (onGateway (case managedRoutes d (mdName model) of
               Some _ \<Rightarrow> Client_UpdateRoute (serveAPI y) r
             | None \<Rightarrow> Client_RegisterRoute (serveAPI y) r))
            (writes (\<lambda>d. d\<lparr>managedRoutes := (managedRoutes d)(mdName model \<mapsto> True)\<rparr>)) d1"
    using assms(1-3) by (cases "managedRoutes d (mdName model)")
      (simp_all add: Offloader_Configure_def d1_def r_def)
  also have "\<dots> = (Ok (), d1\<lparr>managedRoutes := (managedRoutes d)(mdName model \<mapsto> True), gateway := g\<rparr>)"
    using reg by (simp add: onGateway_def zoom_def call seqG_def d1_def writes_def)
  finally show ?thesis using reg by simp
qed

section \<open>Routing after a configuration\<close>

lemma stored_routed:
  assumes "h \<in> set (rHostnames r)"
  shows "routesPerHost (snd (RegisterRoute r g)) h = Some (rName r)"
    and "persistence (snd (RegisterRoute r g)) (rName r) = Some r"
  using assms by (simp_all add: proxy_ops storeHosts_apply onPersistence_def zoom_eq
      InMem_RegisterRoute_def indexRoute_def)

lemma rewrite_stored:
  assumes "routesPerHost p (extractHost (qHost rin)) = Some n" and "persistence p n = Some r"
  shows "RewriteV1Alpha1 orc p rin = forwardTo orc rin r"
  using assms by (simp add: RewriteV1Alpha1_def gw.get_result)

lemma draw_of_two:
  assumes "bWeight l = 100 - w" and "bWeight r = w" and "0 \<le> w" and "w \<le> 100" and "0 \<le> k" and "k < 100"
  shows "weightedRandomBackend (\<lambda>_. k) [weighted l, weighted r] 100
    = Ok (if k < 100 - w then l else r)"
  using assms by (simp add: weightedRandomBackend_def pickBackend.simps Let_def)

lemma forwardTo_two:
  assumes "rBackends route = [l, r]" and "bWeight l = 100 - w" and "bWeight r = w"
    and "0 \<le> w" and "w \<le> 100" and "0 \<le> k" and "k < 100"
  shows "forwardTo (orc\<lparr>oIntn := \<lambda>_. k\<rparr>) rin route
    = seqG (logged (handleBackend (oToken orc) (if k < 100 - w then l else r)))
           (writes (SetXForwarded rin))"
proof -
  have "weighBackends [l, r] 0 [] = (100, [weighted l, weighted r])"
    using weighBackends_eq [of 0 "[l, r]" "[]"] assms(2-5) by simp
  then show ?thesis
    unfolding forwardTo_def assms(1)
    by (simp add: fun_eq_iff bindG_def chosen_def draw_of_two [OF assms(2-7)]
        del: weighBackends.simps)
qed

lemma forwarded_host:
  assumes "auth_ok b" and "\<forall>c. \<exists>t. tok c = Inr t"
  shows "\<exists>out. seqG (logged (handleBackend tok b)) (writes (SetXForwarded rin)) rout = (Ok (), out)
    \<and> uHost (qURL out) = bHost b"
proof -
  from handleBackend_succeeds [OF assms] obtain r' where "handleBackend tok b rout = (Ok (), r')" by blast
  moreover from handleBackend_Ok(1) [OF this] have "uHost (qURL r') = bHost b" .
  ultimately show ?thesis by (simp add: logged_def seqG_def writes_def bindG_def SetXForwarded_def)
qed

lemma routeOf_sel:
  "rName (routeOf ws model s l rb w) = mdName model"
  "rHostnames (routeOf ws model s l rb w) = hostnamesOf s"
  "rBackends (routeOf ws model s l rb w) = [localBackendOf l w, remoteBackendOf ws model rb w]"
  by (simp_all add: routeOf_def)

definition remote_auth_ok :: "remote_backend \<Rightarrow> bool" where
  "remote_auth_ok rb \<longleftrightarrow> (case rbAuthConfig rb of
     None \<Rightarrow> True | Some a \<Rightarrow> acType a = ''oauth'' \<longrightarrow> acOAuthConfig a \<noteq> None)"

lemma backends_auth_ok:
  "auth_ok (localBackendOf l w)" "remote_auth_ok rb \<Longrightarrow> auth_ok (remoteBackendOf ws model rb w)"
  by (auto simp: auth_ok_def localBackendOf_def remoteBackendOf_def remote_auth_ok_def authOf_def
      AuthTypeOAuth_def split: option.splits)

lemma offloaded_weights:
  "0 \<le> w \<Longrightarrow> w \<le> 100 \<Longrightarrow> bWeight (localBackendOf l w) = 100 - w" "bWeight (remoteBackendOf ws model rb w) = w"
  by (simp_all add: localBackendOf_def remoteBackendOf_def)

lemma offloaded_route_ok:
  assumes "0 \<le> w" and "w \<le> 100" and "remote_auth_ok rb"
  shows "route_ok (routeOf ws m s l rb w)" and "sum_list (map bWeight (rBackends (routeOf ws m s l rb w))) = 100"
  using assms backends_auth_ok by (simp_all add: route_ok_def routeOf_sel offloaded_weights bumped_def)

lemma offloaded_request:
  assumes "0 \<le> w" and "w \<le> 100" and "remote_auth_ok rb" and "\<forall>c. \<exists>t. oToken orc c = Inr t"
    and "extractHost (qHost rin) \<in> set (hostnamesOf s)" and "0 \<le> k" and "k < 100"
  shows "\<exists>out. RewriteV1Alpha1 (orc\<lparr>oIntn := \<lambda>_. k\<rparr>)
      (snd (RegisterRoute (routeOf ws model s l rb w) g)) rin rout = (Ok (), out)
    \<and> uHost (qURL out) = (if k < 100 - w then bHost (localBackendOf l w) else rbHost rb)"
proof -
  let ?r = "routeOf ws model s l rb w" and ?rem = "remoteBackendOf ws model rb w"
  have routed: "RewriteV1Alpha1 (orc\<lparr>oIntn := \<lambda>_. k\<rparr>) (snd (RegisterRoute ?r g)) rin
      = forwardTo (orc\<lparr>oIntn := \<lambda>_. k\<rparr>) rin ?r"
    using stored_routed [of _ ?r] assms(5) by (intro rewrite_stored) (simp_all add: routeOf_sel)
  note step = forwardTo_two [OF _ offloaded_weights(1) [OF assms(1,2)] offloaded_weights(2) assms(1,2,6,7), of ?r]
  have "auth_ok (if k < 100 - w then localBackendOf l w else ?rem)"
    using backends_auth_ok assms(3) by simp
  from forwarded_host [OF this assms(4), of rin rout] routed step show ?thesis
    by (auto simp: routeOf_sel) (auto simp: remoteBackendOf_def)
qed

text \<open>
  The number of the 100 draws that send a request to a host: the share of its traffic, in percent,
  when the weights of the route sum to 100.
\<close>

definition draws_to ::
  "env_answers \<Rightarrow> proxy \<Rightarrow> request \<Rightarrow> request \<Rightarrow> string \<Rightarrow> int" where
  "draws_to orc g rin rout host = int (card {k. 0 \<le> k \<and> k < 100 \<and> (\<exists>out. uHost (qURL out) = host
     \<and> RewriteV1Alpha1 (orc\<lparr>oIntn := \<lambda>_. k\<rparr>) g rin rout = (Ok (), out))})"

lemma routed_split:
  assumes "0 \<le> w" and "w \<le> 100" and "remote_auth_ok rb" and "\<forall>c. \<exists>t. oToken orc c = Inr t"
    and "extractHost (qHost rin) \<in> set (hostnamesOf s)" and "rbHost rb \<noteq> bHost (localBackendOf l w)"
    and g_def: "g = snd (RegisterRoute (routeOf ws model s l rb w) g0)"
  shows "draws_to orc g rin rout (rbHost rb) = w"
    and "draws_to orc g rin rout (bHost (localBackendOf l w)) = 100 - w"
proof -
  let ?sent = "\<lambda>k out. RewriteV1Alpha1 (orc\<lparr>oIntn := \<lambda>_. k\<rparr>) g rin rout = (Ok (), out)"
  have out: "\<exists>out. ?sent k out
      \<and> uHost (qURL out) = (if k < 100 - w then bHost (localBackendOf l w) else rbHost rb)"
    if "0 \<le> k" "k < 100" for k
    unfolding g_def using offloaded_request [OF assms(1-5) that] .
  have remote: "(\<exists>out. uHost (qURL out) = rbHost rb \<and> ?sent k out) \<longleftrightarrow> 100 - w \<le> k"
    if "0 \<le> k" "k < 100" for k
    using out [OF that] assms(6) by (cases "k < 100 - w") auto
  have "{k. 0 \<le> k \<and> k < 100 \<and> (\<exists>out. uHost (qURL out) = rbHost rb \<and> ?sent k out)} = {100 - w..<100}"
    using assms(1,2) remote by (simp add: set_eq_iff conj_commute cong: conj_cong) auto
  then show "draws_to orc g rin rout (rbHost rb) = w" using assms(1,2) by (simp add: draws_to_def)
  have local: "(\<exists>out. uHost (qURL out) = bHost (localBackendOf l w) \<and> ?sent k out) \<longleftrightarrow> k < 100 - w"
    if "0 \<le> k" "k < 100" for k
    using out [OF that] assms(6) by (cases "k < 100 - w") auto
  have "{k. 0 \<le> k \<and> k < 100 \<and> (\<exists>out. uHost (qURL out) = bHost (localBackendOf l w) \<and> ?sent k out)}
      = {0..<100 - w}"
    using assms(1,2) local by (simp add: set_eq_iff conj_commute cong: conj_cong) auto
  then show "draws_to orc g rin rout (bHost (localBackendOf l w)) = 100 - w"
    using assms(1,2) by (simp add: draws_to_def)
qed

section \<open>Properties\<close>

text \<open>
  C3. The share of traffic that leaves the cluster is exactly the percentage asked for. When the
  offloader configures a model with weight \<open>w\<close> between 0 and 100, the call succeeds, and of the 100
  values that \<open>rand.Intn\<close> can return for a later request to any hostname of the model's service,
  exactly \<open>w\<close> send the request to the remote host; all others send it to the local service.
\<close>
theorem offload_split_exact:
  assumes "oeSend env = serveAPI y" and "spServiceRef (mdSpec model) = Some ref"
    and "oeServiceGet env (srNamespace ref) (srName ref) = Inr s"
    and "plain_name (mdName model)" and "distinct (map fst (rbHeadersToAdd rb))"
    and "0 \<le> w" and "w \<le> 100" and "remote_auth_ok rb" and "\<forall>c. \<exists>t. oToken orc c = Inr t"
    and "extractHost (qHost rin) \<in> set (hostnamesOf s)" and "rbHost rb \<noteq> bHost (localBackendOf l w)"
  shows "\<exists>d'. Offloader_Configure env model (Some l) (Some rb) w d = (Ok (), d')
    \<and> draws_to orc (gateway d') rin rout (rbHost rb) = w
    \<and> draws_to orc (gateway d') rin rout (bHost (localBackendOf l w)) = 100 - w"
  using Configure_eq [OF assms(1-7), where d = d and l = l] routed_split [OF assms(6-11) refl] by simp

section \<open>Routes managed and routes stored\<close>

datatype offload_op =
    ConfigureOp model_deployment service_reference remote_backend int
  | CleanupOp model_deployment

fun exec_offload :: "offload_env \<Rightarrow> offload_op list \<Rightarrow> offloader \<Rightarrow> offloader" where
  "exec_offload env [] d = d"
| "exec_offload env (ConfigureOp m l rb w # ps) d =
     exec_offload env ps (snd (Offloader_Configure env m (Some l) (Some rb) w d))"
| "exec_offload env (CleanupOp m # ps) d = exec_offload env ps (snd (Offloader_Cleanup env m d))"

fun op_ok :: "offload_op \<Rightarrow> bool" where
  "op_ok (ConfigureOp m l rb w) \<longleftrightarrow> plain_name (mdName m) \<and> spServiceRef (mdSpec m) \<noteq> None
     \<and> distinct (map fst (rbHeadersToAdd rb)) \<and> 0 \<le> w \<and> w \<le> 100"
| "op_ok (CleanupOp m) \<longleftrightarrow> plain_name (mdName m)"

text \<open>The gateway stores a route for exactly the names the offloader has marked as managed.\<close>

definition off_inv :: "offloader \<Rightarrow> bool" where
  "off_inv d \<longleftrightarrow> (\<forall>n. managedRoutes d n = None \<longleftrightarrow> persistence (gateway d) n = None)
     \<and> (\<forall>n r. persistence (gateway d) n = Some r \<longrightarrow> json_route r)"

lemma Configure_keeps_inv:
  assumes "oeSend env = serveAPI y" and "op_ok (ConfigureOp m l rb w)" and "off_inv d"
  shows "off_inv (snd (Offloader_Configure env m (Some l) (Some rb) w d))"
proof -
  obtain ref where ref: "spServiceRef (mdSpec m) = Some ref" using assms(2) by auto
  show ?thesis
  proof (cases "oeServiceGet env (srNamespace ref) (srName ref)")
    case (Inl e)
    with ref assms(3) show ?thesis by (simp add: Offloader_Configure_def)
  next
    case (Inr s)
    let ?r = "routeOf (workspace (rememberWorkspace m d)) m s l rb w"
    have "persistence (snd (RegisterRoute ?r (gateway d)))
        = (persistence (gateway d))(mdName m \<mapsto> ?r)"
      by (simp add: gw.stored_register routeOf_sel)
    moreover have "json_route ?r" using assms(2) by (simp add: json_routeOf)
    ultimately show ?thesis
      using Configure_eq [OF assms(1) ref Inr, where rb = rb and w = w and d = d and l = l] assms(2,3)
      by (auto simp: off_inv_def)
  qed
qed

lemma Cleanup_eq:
  assumes "oeSend env = serveAPI y" and "plain_name (mdName m)" and "off_inv d"
    and "managedRoutes d (mdName m) \<noteq> None"
  shows "Offloader_Cleanup env m d
    = (Ok (), d\<lparr>managedRoutes := (managedRoutes d)(mdName m := None),
                gateway := snd (DeleteRoute (mdName m) (gateway d))\<rparr>)"
proof -
  from assms(3,4) have "persistence (gateway d) (mdName m) \<noteq> None" by (simp add: off_inv_def)
  with assms(3) obtain r where r: "persistence (gateway d) (mdName m) = Some r"
    and "json_route r" by (auto simp: off_inv_def)
  then have "fst (DeleteRoute (mdName m) (gateway d)) = Ok r" by (simp add: gw.delete_result)
  moreover from this obtain g where "DeleteRoute (mdName m) (gateway d) = (Ok r, g)"
    by (metis prod.collapse)
  ultimately show ?thesis
    using client_by_name(1) [OF assms(2), of "''DELETE''" DeleteRoute "gateway d" r y] \<open>json_route r\<close>
      assms(1,4)
    by (auto simp: Offloader_Cleanup_def Client_DeleteRoute_def onGateway_def zoom_def)
qed

lemma Cleanup_keeps_inv:
  assumes "oeSend env = serveAPI y" and "plain_name (mdName m)" and "off_inv d"
  shows "off_inv (snd (Offloader_Cleanup env m d))"
proof (cases "managedRoutes d (mdName m)")
  case None
  with assms(3) show ?thesis by (simp add: Offloader_Cleanup_def)
next
  case (Some b)
  then have "managedRoutes d (mdName m) \<noteq> None" by simp
  from Cleanup_eq [OF assms this] assms(3) show ?thesis
    by (auto simp: off_inv_def gw.stored_delete)
qed

lemma exec_offload_inv:
  assumes "oeSend env = serveAPI y"
  shows "\<forall>p \<in> set ps. op_ok p \<Longrightarrow> off_inv d \<Longrightarrow> off_inv (exec_offload env ps d)"
proof (induction ps arbitrary: d)
  case Nil
  then show ?case by simp
next
  case (Cons p ps)
  then show ?case
    using Configure_keeps_inv [OF assms] Cleanup_keeps_inv [OF assms] by (cases p) simp_all
qed


text \<open>
  C40. Models of one name in two namespaces share a route: the route is filed under the name alone.
  After the second is configured, requests to the hostnames of the first model's service are sent
  to the backends of the second.
\<close>
theorem same_name_models_collide:
  assumes "oeSend env = serveAPI y" and "mdName m1 = n" and "mdName m2 = n" and "plain_name n"
    and "spServiceRef (mdSpec m1) = Some ref1" and "spServiceRef (mdSpec m2) = Some ref2"
    and "oeServiceGet env (srNamespace ref1) (srName ref1) = Inr s1"
    and "oeServiceGet env (srNamespace ref2) (srName ref2) = Inr s2"
    and "distinct (map fst (rbHeadersToAdd rb))" and "0 \<le> w" and "w \<le> 100"
    and "remote_auth_ok rb" and "\<forall>c. \<exists>t. oToken orc c = Inr t"
    and "extractHost (qHost rin) \<in> set (hostnamesOf s1)" and "0 \<le> k" and "k < 100 - w"
  shows "\<exists>d1 d2 out. Offloader_Configure env m1 (Some l1) (Some rb) w d = (Ok (), d1)
    \<and> Offloader_Configure env m2 (Some l2) (Some rb) w d1 = (Ok (), d2)
    \<and> RewriteV1Alpha1 (orc\<lparr>oIntn := \<lambda>_. k\<rparr>) (gateway d2) rin rout = (Ok (), out)
    \<and> uHost (qURL out) = bHost (localBackendOf l2 w)"
proof -
  let ?d1 = "snd (Offloader_Configure env m1 (Some l1) (Some rb) w d)"
  let ?d2 = "snd (Offloader_Configure env m2 (Some l2) (Some rb) w ?d1)"
  let ?r1 = "routeOf (workspace (rememberWorkspace m1 d)) m1 s1 l1 rb w"
  let ?r2 = "routeOf (workspace (rememberWorkspace m2 ?d1)) m2 s2 l2 rb w"
  have plain: "plain_name (mdName m1)" "plain_name (mdName m2)" using assms(2-4) by simp_all
  note c1 = Configure_eq [OF assms(1,5,7) plain(1) assms(9-11), where d = d and l = l1]
  note c2 = Configure_eq [OF assms(1,6,8) plain(2) assms(9-11), where d = ?d1 and l = l2]
  have "gateway ?d2 = snd (RegisterRoute ?r2 (snd (RegisterRoute ?r1 (gateway d))))"
    using c1 c2 by simp
  moreover have "routesPerHost (snd (RegisterRoute ?r2 (snd (RegisterRoute ?r1 (gateway d)))))
      (extractHost (qHost rin)) = Some n"
    using assms(2,3,14) by (simp add: proxy_ops storeHosts_apply routeOf_sel)
  moreover have "persistence (snd (RegisterRoute ?r2 g)) n = Some ?r2" for g
    using assms(3) by (simp add: gw.stored_register routeOf_sel)
  ultimately have routed: "RewriteV1Alpha1 (orc\<lparr>oIntn := \<lambda>_. k\<rparr>) (gateway ?d2) rin
      = forwardTo (orc\<lparr>oIntn := \<lambda>_. k\<rparr>) rin ?r2"
    by (intro rewrite_stored) simp_all
  have weights: "bWeight (localBackendOf l2 w) = 100 - w"
    "bWeight (remoteBackendOf (workspace (rememberWorkspace m2 ?d1)) m2 rb w) = w"
    using assms(10,11) by (simp_all add: localBackendOf_def remoteBackendOf_def)
  have "k < 100" using assms(10,16) by simp
  from forwardTo_two [OF routeOf_sel(3) weights assms(10,11,15) this, of orc rin s2]
    forwarded_host [OF backends_auth_ok(1) assms(13), of l2 w rin rout] routed assms(16)
  have "\<exists>out. RewriteV1Alpha1 (orc\<lparr>oIntn := \<lambda>_. k\<rparr>) (gateway ?d2) rin rout = (Ok (), out)
      \<and> uHost (qURL out) = bHost (localBackendOf l2 w)" by simp
  moreover have "Offloader_Configure env m1 (Some l1) (Some rb) w d = (Ok (), ?d1)"
    and "Offloader_Configure env m2 (Some l2) (Some rb) w ?d1 = (Ok (), ?d2)"
    using c1 c2 by simp_all
  ultimately show ?thesis by blast
qed

section \<open>Witnesses\<close>

definition sample_model :: "string \<Rightarrow> model_deployment" where
  "sample_model ns = \<lparr>mdName = ''m'', mdNamespace = ns, mdGeneration = 1, mdLabels = [],
     mdDeletionTimestamp = None, mdFinalizers = [],
     mdSpec = \<lparr>spModel = ''m'', spEnabled = True,
       spModelSourceRef = \<lparr>orAPIVersion = ''apps/v1'', orKind = ''Deployment'', orNamespace = ns,
         orName = ''m''\<rparr>,
       spServiceRef = Some \<lparr>srRef = \<lparr>orAPIVersion = ''v1'', orKind = ''Service'', orNamespace = ns,
         orName = ''m''\<rparr>, srTargetPort = 80\<rparr>,
       spMetricServiceRef = None, spEnvironment = ''production'', spPolicies = [],
       spServerlessConfig = None,
       spOffloadingConfig = Some \<lparr>ofRemoteBackend = None, ofMetrics = [],
         ofBehavior = Some \<lparr>obPercentage = 30\<rparr>\<rparr>\<rparr>,
     mdStatus = \<lparr>stOffloadingStatus = False, stServingPort = 0, stMetricPort = 0,
       stWorkspace = ''ws'', stCreatedAtOnBeamlit = 0, stUpdatedAtOnBeamlit = 0\<rparr>\<rparr>"

definition sample_service :: "string \<Rightarrow> service" where
  "sample_service ns = \<lparr>svName = ''m'', svNamespace = ns, svPorts = [], svSelector = [],
     svClusterIP = ''10.0.0.1'', svClusterIPs = [''10.0.0.1''], svExternalIPs = []\<rparr>"

definition sample_local :: "string \<Rightarrow> service_reference" where
  "sample_local ns = \<lparr>srRef = \<lparr>orAPIVersion = [], orKind = [], orNamespace = ns,
     orName = ''m-beamlit''\<rparr>, srTargetPort = 80\<rparr>"

definition sample_remote :: remote_backend where
  "sample_remote = \<lparr>rbHost = ''run.beamlit.com'', rbAuthConfig = None,
     rbPathPrefix = ''/$workspace/models/$model'', rbHeadersToAdd = [], rbScheme = ''https''\<rparr>"

definition sample_yaml :: yaml_codec where
  "sample_yaml = \<lparr>yEncode = (\<lambda>_. Inr []), yDecode = (\<lambda>_. Inl NotFoundErr)\<rparr>"

definition sample_off_env :: offload_env where
  "sample_off_env = \<lparr>oeServiceGet = (\<lambda>ns n. Inr (sample_service ns)), oeSend = serveAPI sample_yaml\<rparr>"

lemma sample_off:
  "oeSend sample_off_env = serveAPI sample_yaml"
  "spServiceRef (mdSpec (sample_model ns)) = Some \<lparr>srRef = \<lparr>orAPIVersion = ''v1'',
     orKind = ''Service'', orNamespace = ns, orName = ''m''\<rparr>, srTargetPort = 80\<rparr>"
  "oeServiceGet sample_off_env ns n = Inr (sample_service ns)"
  "mdName (sample_model ns) = ''m''" "plain_name ''m''"
  "distinct (map fst (rbHeadersToAdd sample_remote))" "remote_auth_ok sample_remote"
  "\<forall>c. \<exists>t. oToken (sample_env k) c = Inr t"
  "extractHost (qHost sample_req) \<in> set (hostnamesOf (sample_service ''ns''))"
  "rbHost sample_remote = ''run.beamlit.com''"
  "bHost (localBackendOf (sample_local ''ns'') w) \<noteq> ''run.beamlit.com''"
  by (simp_all add: sample_off_env_def sample_model_def sample_service_def sample_remote_def
      plain_name_def remote_auth_ok_def sample_env_def extractHost_def hostnamesOf_def sample_req_def
      localBackendOf_def sample_local_def)

theorem offload_split_exact_witness:
  "\<exists>d'. Offloader_Configure sample_off_env (sample_model ''ns'') (Some (sample_local ''ns''))
      (Some sample_remote) 30 (newBeamlitGatewayOffloader New) = (Ok (), d')
    \<and> draws_to (sample_env 0) (gateway d') sample_req sample_req ''run.beamlit.com'' = 30"
  using offload_split_exact [where w = 30 and l = "sample_local ''ns''" and rout = sample_req
      and d = "newBeamlitGatewayOffloader New" and model = "sample_model ''ns''"
      and s = "sample_service ''ns''" and orc = "sample_env 0" and rin = sample_req,
      OF sample_off(1,2) _ _ sample_off(6) _ _ sample_off(7,8)] sample_off(9)
  by (auto simp: sample_off(3,4,5,10) sample_off(11) [symmetric])


theorem same_name_models_collide_witness:
  "\<exists>d1 d2 out.
     Offloader_Configure sample_off_env (sample_model ''ns'') (Some (sample_local ''ns''))
       (Some sample_remote) 30 (newBeamlitGatewayOffloader New) = (Ok (), d1)
     \<and> Offloader_Configure sample_off_env (sample_model ''other'') (Some (sample_local ''other''))
       (Some sample_remote) 30 d1 = (Ok (), d2)
     \<and> RewriteV1Alpha1 ((sample_env 0)\<lparr>oIntn := \<lambda>_. 10\<rparr>) (gateway d2) sample_req sample_req
       = (Ok (), out)
     \<and> uHost (qURL out) = bHost (localBackendOf (sample_local ''other'') 30)"
  by (rule same_name_models_collide [where ?s1.0 = "sample_service ''ns''",
        OF sample_off(1,4,4,5,2,2) _ _ sample_off(6) _ _ sample_off(7,8,9)])
    (simp_all add: sample_off(3))

end
