(* ===== verification/Configurer.thy ===== *)
theory Configurer
  imports Kube_Types
begin

text \<open>
  The service configurer (\<^verbatim>\<open>internal/dataplane/configurer\<close>): it puts the gateway in front of a
  model's service by rewriting services and endpoint slices, and takes it away again.

  The Kubernetes API is the parameter \<open>kube_api\<close> over an abstract cluster: reads answer from the
  cluster, writes answer and leave a cluster. Channels are numbered as they are made.
\<close>

section \<open>Cluster objects and the API\<close>

record endpoint =
  epAddresses :: "string list"
  epReady :: "bool option"
  epServing :: "bool option"
  epTerminating :: "bool option"
  epHostname :: "string option"
  epNodeName :: "string option"

record endpoint_port =
  eptName :: "string option"
  eptPort :: "int option"
  eptProtocol :: "string option"

text \<open>\<open>esLabels\<close> is \<open>None\<close> when the map is nil.\<close>

record endpoint_slice =
  esName :: string
  esNamespace :: string
  esLabels :: "(string \<rightharpoonup> string) option"
  esAddressType :: string
  esEndpoints :: "endpoint list"
  esPorts :: "endpoint_port list"

text \<open>The fields of a service that are sent with an apply.\<close>

record service_apply =
  saName :: string
  saNamespace :: string
  saPorts :: "service_port list"
  saSelector :: "(string \<times> string) list"

record 'k kube_api =
  kServiceGet :: "'k \<Rightarrow> string \<Rightarrow> string \<Rightarrow> service reply"
  kServiceApply :: "string \<Rightarrow> service_apply \<Rightarrow> 'k \<Rightarrow> service reply \<times> 'k"
  kServiceUpdate :: "string \<Rightarrow> service \<Rightarrow> 'k \<Rightarrow> service reply \<times> 'k"
  kServiceDelete :: "string \<Rightarrow> string \<Rightarrow> 'k \<Rightarrow> unit reply \<times> 'k"
  kSliceList :: "'k \<Rightarrow> string \<Rightarrow> string \<Rightarrow> endpoint_slice list reply"
  kSliceGet :: "'k \<Rightarrow> string \<Rightarrow> string \<Rightarrow> endpoint_slice reply"
  kSliceUpdate :: "string \<Rightarrow> endpoint_slice \<Rightarrow> 'k \<Rightarrow> unit reply \<times> 'k"
  kSliceApply :: "string \<Rightarrow> endpoint_slice \<Rightarrow> 'k \<Rightarrow> unit reply \<times> 'k"
  kSliceDelete :: "string \<Rightarrow> string \<Rightarrow> 'k \<Rightarrow> unit reply \<times> 'k"

section \<open>State\<close>

type_synonym ns_name = "string \<times> string"

text \<open>\<open>cfClosed\<close> lists the channels that were closed.\<close>

record 'k configurer =
  cfGatewayServiceRef :: "service_reference option"
  cfBeamlitServices :: "ns_name \<rightharpoonup> ns_name"
  cfInitialEndpoints :: "ns_name \<rightharpoonup> ns_name list"
  cfStopChans :: "ns_name \<rightharpoonup> nat list"
  cfNextChan :: nat
  cfClosed :: "nat list"
  cfCluster :: 'k

definition newKubernetesConfigurer :: "'k \<Rightarrow> 'k configurer" where
  "newKubernetesConfigurer k =
     \<lparr>cfGatewayServiceRef = None, cfBeamlitServices = Map.empty, cfInitialEndpoints = Map.empty,
      cfStopChans = Map.empty, cfNextChan = 0, cfClosed = [], cfCluster = k\<rparr>"

definition keyOf :: "service_reference \<Rightarrow> ns_name" where
  "keyOf s = (srNamespace s, srName s)"

definition readCluster :: "('k \<Rightarrow> 'a reply) \<Rightarrow> ('k configurer, 'a) go" where
  "readCluster f = bindG (reads (\<lambda>c. f (cfCluster c))) answer"

definition writeCluster :: "('k \<Rightarrow> 'a reply \<times> 'k) \<Rightarrow> ('k configurer, 'a) go" where
  "writeCluster f c = (case f (cfCluster c) of (r, k) \<Rightarrow> answer r (c\<lparr>cfCluster := k\<rparr>))"

definition Configurer_Start :: "service_reference \<Rightarrow> ('k configurer, unit) go" where
  "Configurer_Start gatewayService = writes (\<lambda>c. c\<lparr>cfGatewayServiceRef := Some gatewayService\<rparr>)"

definition GetLocalBeamlitService ::
  "service_reference option \<Rightarrow> ('k configurer, service_reference) go" where
  "GetLocalBeamlitService service =
     bindG (deref service) (\<lambda>s.
     bindG (reads (\<lambda>c. cfBeamlitServices c (keyOf s))) (\<lambda>ref.
       case ref of
         None \<Rightarrow> raise (Errorf (''proxy service not found for model service ''
                   @ srNamespace s @ ''/'' @ srName s))
       | Some (ns, name) \<Rightarrow>
           ret \<lparr>srRef = \<lparr>orAPIVersion = [], orKind = [], orNamespace = ns, orName = name\<rparr>,
                srTargetPort = srTargetPort s\<rparr>))"

section \<open>Configuring\<close>

definition beamlitName :: "service_reference \<Rightarrow> string" where
  "beamlitName s = srName s @ ''-beamlit''"

definition createBeamlitModelService ::
  "'k kube_api \<Rightarrow> service_reference \<Rightarrow> ('k configurer, service) go" where
  "createBeamlitModelService api ref =
     bindG (readCluster (\<lambda>k. kServiceGet api k (srNamespace ref) (srName ref))) (\<lambda>toConfigure.
     bindG (writeCluster (kServiceApply api (srNamespace ref)
              \<lparr>saName = beamlitName ref, saNamespace = srNamespace ref,
               saPorts = svPorts toConfigure, saSelector = svSelector toConfigure\<rparr>)) (\<lambda>beamlitService.
     seqG (writes (\<lambda>c. c\<lparr>cfBeamlitServices := (cfBeamlitServices c)
             (keyOf ref \<mapsto> (svNamespace beamlitService, svName beamlitService))\<rparr>))
          (ret beamlitService)))"

definition zeroPort :: service_port where
  "zeroPort = \<lparr>spName = [], spPort = 0, spProtocol = [], spTargetPort = 0\<rparr>"

definition portToAdd :: "int \<Rightarrow> service_port list \<Rightarrow> service_port" where
  "portToAdd targetPort ports =
     (case filter (\<lambda>p. spPort p = targetPort) ports of [] \<Rightarrow> zeroPort | p # _ \<Rightarrow> p)"

definition withGatewayPort ::
  "service_reference \<Rightarrow> service_reference \<Rightarrow> service \<Rightarrow> service \<Rightarrow> service" where
  "withGatewayPort gatewayRef ref toConfigure gatewayService =
     (let p = portToAdd (srTargetPort ref) (svPorts toConfigure);
          present = list_ex (\<lambda>q. spPort q = srTargetPort ref \<and> spProtocol q = spProtocol p)
                      (svPorts gatewayService)
      in if present then gatewayService
         else gatewayService\<lparr>svPorts := svPorts gatewayService @
                [\<lparr>spName = show_int (srTargetPort ref) @ ''-beamlit'', spPort = srTargetPort ref,
                  spProtocol = spProtocol p, spTargetPort = srTargetPort gatewayRef\<rparr>]\<rparr>)"

text \<open>The external IPs are the cluster IPs that are not there yet, and only those.\<close>

definition withExternalIPs :: "service \<Rightarrow> service \<Rightarrow> service" where
  "withExternalIPs toConfigure gatewayService =
     gatewayService\<lparr>svExternalIPs :=
       filter (\<lambda>ip. ip \<notin> set (svExternalIPs gatewayService)) (svClusterIPs toConfigure)\<rparr>"

definition addPortToGatewayService ::
  "'k kube_api \<Rightarrow> service_reference \<Rightarrow> ('k configurer, unit) go" where
  "addPortToGatewayService api ref =
     bindG (reads cfGatewayServiceRef) (\<lambda>gref.
     bindG (deref gref) (\<lambda>gatewayRef.
     bindG (readCluster (\<lambda>k. kServiceGet api k (srNamespace gatewayRef) (srName gatewayRef))) (\<lambda>gatewayService.
     bindG (readCluster (\<lambda>k. kServiceGet api k (srNamespace ref) (srName ref))) (\<lambda>toConfigure.
     bindG (writeCluster (kServiceUpdate api (srNamespace gatewayRef)
              (withExternalIPs toConfigure
                (withGatewayPort gatewayRef ref toConfigure gatewayService)))) (\<lambda>_.
     ret ())))))"

definition label :: "string \<Rightarrow> endpoint_slice \<Rightarrow> string" where
  "label key s = (case esLabels s of None \<Rightarrow> [] | Some m \<Rightarrow> (case m key of None \<Rightarrow> [] | Some v \<Rightarrow> v))"

text \<open>Writing a label of a slice panics when its map is nil.\<close>

definition setLabel :: "string \<Rightarrow> string \<Rightarrow> endpoint_slice \<Rightarrow> ('s, endpoint_slice) go" where
  "setLabel key val s =
     (case esLabels s of
        None \<Rightarrow> panic NilMapWrite
      | Some m \<Rightarrow> ret (s\<lparr>esLabels := Some (m(key \<mapsto> val))\<rparr>))"

definition managedBy :: string where "managedBy = ''endpointslice.kubernetes.io/managed-by''"

definition serviceName :: string where "serviceName = ''kubernetes.io/service-name''"

definition OperatorLabel :: string where "OperatorLabel = ''beamlit-operator''"

definition takeOverOne ::
  "'k kube_api \<Rightarrow> service_reference \<Rightarrow> endpoint_slice \<Rightarrow> ('k configurer, unit) go" where
  "takeOverOne api ref slice =
     (if label managedBy slice = OperatorLabel then ret ()
      else seqG (writes (\<lambda>c. c\<lparr>cfInitialEndpoints := (cfInitialEndpoints c)(keyOf ref \<mapsto>
                   (case cfInitialEndpoints c (keyOf ref) of None \<Rightarrow> [] | Some es \<Rightarrow> es)
                   @ [(esNamespace slice, esName slice)])\<rparr>))
          (bindG (setLabel managedBy OperatorLabel slice) (\<lambda>s1.
           bindG (setLabel serviceName (srName ref) s1) (\<lambda>s2.
           writeCluster (kSliceUpdate api (srNamespace ref) s2)))))"

definition takeOverEndpointsSlices ::
  "'k kube_api \<Rightarrow> service_reference \<Rightarrow> ('k configurer, unit) go" where
  "takeOverEndpointsSlices api ref =
     bindG (readCluster (\<lambda>k. kSliceList api k (srNamespace ref) (srName ref))) (\<lambda>slices.
     seqG (writes (\<lambda>c. case cfInitialEndpoints c (keyOf ref) of
                         Some _ \<Rightarrow> c
                       | None \<Rightarrow> c\<lparr>cfInitialEndpoints := (cfInitialEndpoints c)(keyOf ref \<mapsto> [])\<rparr>))
          (forEach (takeOverOne api ref) slices))"

text \<open>The endpoints of the mirrored slice: the three conditions are read through pointers.\<close>

fun mirrorEndpoints :: "endpoint list \<Rightarrow> ('s, endpoint list) go" where
  "mirrorEndpoints [] = ret []"
| "mirrorEndpoints (e # es) =
     bindG (deref (epReady e)) (\<lambda>r.
     bindG (deref (epServing e)) (\<lambda>s.
     bindG (deref (epTerminating e)) (\<lambda>t.
     bindG (mirrorEndpoints es) (\<lambda>rest.
     ret (e\<lparr>epReady := Some r, epServing := Some s, epTerminating := Some t\<rparr> # rest)))))"

definition addStopChan :: "service_reference \<Rightarrow> 'k configurer \<Rightarrow> 'k configurer" where
  "addStopChan ref c =
     c\<lparr>cfStopChans := (cfStopChans c)(keyOf ref \<mapsto>
         (case cfStopChans c (keyOf ref) of None \<Rightarrow> [] | Some chs \<Rightarrow> chs) @ [cfNextChan c]),
       cfNextChan := Suc (cfNextChan c)\<rparr>"

definition mirroredName :: "service_reference \<Rightarrow> string" where
  "mirroredName s = srName s @ ''-beamlit-mirrored''"

definition createMirroredEndpointsSlice ::
  "'k kube_api \<Rightarrow> service_reference \<Rightarrow> int \<Rightarrow> ('k configurer, unit) go" where
  "createMirroredEndpointsSlice api ref targetPort =
     bindG (readCluster (\<lambda>k. kSliceList api k (srNamespace ref) (beamlitName ref))) (\<lambda>slices.
       case slices of
         [] \<Rightarrow> raise (Errorf (''no mirrored endpoints slice found for service '' @ srName ref))
       | [slice] \<Rightarrow>
           bindG (mirrorEndpoints (esEndpoints slice)) (\<lambda>endpoints.
           seqG (writeCluster (kSliceApply api (srNamespace ref)
                   \<lparr>esName = mirroredName ref, esNamespace = srNamespace ref,
                    esLabels = Some [''beamlit.com/to-update'' \<mapsto> ''true'',
                                     serviceName \<mapsto> srName ref, managedBy \<mapsto> OperatorLabel],
                    esAddressType = esAddressType slice, esEndpoints = endpoints,
                    esPorts = filter (\<lambda>p. eptPort p \<noteq> Some targetPort) (esPorts slice)\<rparr>))
                (writes (addStopChan ref)))
       | _ \<Rightarrow> raise (Errorf (''multiple mirrored endpoints slices found for service ''
                @ srName ref @ '', this shouldn't happen'')))"

definition cleanUnusedOne ::
  "'k kube_api \<Rightarrow> service_reference \<Rightarrow> endpoint_slice \<Rightarrow> ('k configurer, unit) go" where
  "cleanUnusedOne api ref slice =
     (if esName slice = mirroredName ref then ret ()
      else bindG (setLabel managedBy OperatorLabel slice) (\<lambda>s.
           writeCluster (kSliceUpdate api (srNamespace ref) (s\<lparr>esEndpoints := [], esPorts := []\<rparr>))))"

definition cleanUnusedEndpointSlices ::
  "'k kube_api \<Rightarrow> service_reference \<Rightarrow> ('k configurer, unit) go" where
  "cleanUnusedEndpointSlices api ref =
     bindG (readCluster (\<lambda>k. kSliceList api k (srNamespace ref) (srName ref)))
       (forEach (cleanUnusedOne api ref))"

definition targetPortOf :: "service_reference \<Rightarrow> service \<Rightarrow> int" where
  "targetPortOf ref beamlitService =
     (case filter (\<lambda>p. spPort p = srTargetPort ref) (svPorts beamlitService) of
        [] \<Rightarrow> 0
      | p # _ \<Rightarrow> spTargetPort p)"

definition Configurer_Configure ::
  "'k kube_api \<Rightarrow> service_reference option \<Rightarrow> ('k configurer, unit) go" where
  "Configurer_Configure api serviceRef =
     bindG (deref serviceRef) (\<lambda>ref.
     bindG (createBeamlitModelService api ref) (\<lambda>beamlitService.
     seqG (addPortToGatewayService api ref)
    (seqG (takeOverEndpointsSlices api ref)
          (let targetPort = targetPortOf ref beamlitService in
           if targetPort = 0
           then raise (Errorf (''target port not found in beamlit service '' @ svName beamlitService))
           else seqG (createMirroredEndpointsSlice api ref targetPort)
               (seqG (cleanUnusedEndpointSlices api ref)
                     (writes (addStopChan ref)))))))"

section \<open>Unconfiguring\<close>

text \<open>
  A receive that does not block succeeds on a closed channel only, since nothing is ever sent;
  the code closes a channel only when the receive delivers a value.
\<close>

fun stopLoop :: "nat list \<Rightarrow> ('k configurer, unit) go" where
  "stopLoop [] = ret ()"
| "stopLoop (ch # chs) =
     bindG (reads (\<lambda>c. ch \<in> set (cfClosed c))) (\<lambda>isClosed. if isClosed then stopLoop chs else ret ())"

definition stopWatchers :: "service_reference \<Rightarrow> ('k configurer, unit) go" where
  "stopWatchers ref =
     bindG (reads (\<lambda>c. cfStopChans c (keyOf ref))) (\<lambda>chs.
       case chs of
         None \<Rightarrow> raise (Errorf (''stop channel not found for service '' @ srName ref))
       | Some l \<Rightarrow> stopLoop l)"

definition restoreOne :: "'k kube_api \<Rightarrow> ns_name \<Rightarrow> ('k configurer, unit) go" where
  "restoreOne api ep =
     bindG (readCluster (\<lambda>k. kSliceGet api k (fst ep) (snd ep))) (\<lambda>slice.
     bindG (setLabel managedBy ''endpointslice-controller.k8s.io'' slice) (\<lambda>s.
     writeCluster (kSliceUpdate api (fst ep) s)))"

definition addKubernetesManagedEndpointsSlice ::
  "'k kube_api \<Rightarrow> service_reference \<Rightarrow> ('k configurer, unit) go" where
  "addKubernetesManagedEndpointsSlice api ref =
     bindG (reads (\<lambda>c. case cfInitialEndpoints c (keyOf ref) of None \<Rightarrow> [] | Some es \<Rightarrow> es))
       (forEach (restoreOne api))"

definition deleteSliceOne ::
  "'k kube_api \<Rightarrow> service_reference \<Rightarrow> endpoint_slice \<Rightarrow> ('k configurer, unit) go" where
  "deleteSliceOne api ref slice =
     (if label managedBy slice = OperatorLabel
      then writeCluster (kSliceDelete api (srNamespace ref) (esName slice)) else ret ())"

definition deleteBeamlitEndpointsSlice ::
  "'k kube_api \<Rightarrow> service_reference \<Rightarrow> ('k configurer, unit) go" where
  "deleteBeamlitEndpointsSlice api ref =
     bindG (readCluster (\<lambda>k. kSliceList api k (srNamespace ref) (srName ref)))
       (forEach (deleteSliceOne api ref))"

definition deleteBeamlitService ::
  "'k kube_api \<Rightarrow> service_reference \<Rightarrow> ('k configurer, unit) go" where
  "deleteBeamlitService api ref =
     bindG (reads (\<lambda>c. cfBeamlitServices c (keyOf ref))) (\<lambda>s.
       case s of
         None \<Rightarrow> raise (Errorf (''beamlit service not found for model service '' @ srName ref))
       | Some (ns, name) \<Rightarrow>
           seqG (writes (\<lambda>c. c\<lparr>cfBeamlitServices := (cfBeamlitServices c)(keyOf ref := None)\<rparr>))
                (writeCluster (kServiceDelete api ns name)))"

definition deleteExternalIPsFromGatewayService ::
  "'k kube_api \<Rightarrow> service_reference \<Rightarrow> ('k configurer, unit) go" where
  "deleteExternalIPsFromGatewayService api ref =
     bindG (reads cfGatewayServiceRef) (\<lambda>gref.
     bindG (deref gref) (\<lambda>gatewayRef.
     bindG (readCluster (\<lambda>k. kServiceGet api k (srNamespace gatewayRef) (srName gatewayRef))) (\<lambda>gatewayService.
     bindG (readCluster (\<lambda>k. kServiceGet api k (srNamespace ref) (srName ref))) (\<lambda>userService.
     bindG (writeCluster (kServiceUpdate api (srNamespace gatewayRef)
              (gatewayService\<lparr>svExternalIPs :=
                 filter (\<lambda>ip. ip \<notin> set (svClusterIPs userService)) (svExternalIPs gatewayService)\<rparr>))) (\<lambda>_.
     ret ())))))"

text \<open>One pass over the initial endpoints: whether one of them is back under Kubernetes control.\<close>

fun anyRestored :: "'k kube_api \<Rightarrow> ns_name list \<Rightarrow> ('k configurer, bool) go" where
  "anyRestored api [] = ret False"
| "anyRestored api (ep # eps) =
     bindG (readCluster (\<lambda>k. kSliceGet api k (fst ep) (snd ep))) (\<lambda>slice.
       if label managedBy slice = ''endpointslice-controller.k8s.io'' \<and> esEndpoints slice \<noteq> []
       then ret True else anyRestored api eps)"

text \<open>
  The wait at the end of \<open>Unconfigure\<close>. \<open>done i\<close> says that the context has ended when the loop
  starts its turn \<open>i\<close>, \<open>drift i\<close> what the cluster's own controllers do during the sleep after it.
  The parameter counts the turns that are left of \<open>maxRetries\<close>.
\<close>

fun waitLoop ::
  "'k kube_api \<Rightarrow> (nat \<Rightarrow> bool) \<Rightarrow> (nat \<Rightarrow> 'k \<Rightarrow> 'k) \<Rightarrow> service_reference \<Rightarrow> nat \<Rightarrow> nat
   \<Rightarrow> ('k configurer, unit) go" where
  "waitLoop api done drift ref retry 0 =
     writes (\<lambda>c. c\<lparr>cfInitialEndpoints := (cfInitialEndpoints c)(keyOf ref := None)\<rparr>)"
| "waitLoop api done drift ref retry (Suc left) =
     (if done retry then ret ()
      else bindG (reads (\<lambda>c. case cfInitialEndpoints c (keyOf ref) of None \<Rightarrow> [] | Some es \<Rightarrow> es)) (\<lambda>eps.
        if eps = [] then ret ()
        else bindG (anyRestored api eps) (\<lambda>restored.
          if restored
          then writes (\<lambda>c. c\<lparr>cfInitialEndpoints := (cfInitialEndpoints c)(keyOf ref := None)\<rparr>)
          else seqG (if left = 0 then ret ()
                     else writes (\<lambda>c. c\<lparr>cfCluster := drift retry (cfCluster c)\<rparr>))
                    (waitLoop api done drift ref (Suc retry) left))))"

definition watchEndpointsSliceToBeUpdated ::
  "'k kube_api \<Rightarrow> (nat \<Rightarrow> bool) \<Rightarrow> (nat \<Rightarrow> 'k \<Rightarrow> 'k) \<Rightarrow> service_reference
   \<Rightarrow> ('k configurer, unit) go" where
  "watchEndpointsSliceToBeUpdated api done drift ref = waitLoop api done drift ref 0 5"

definition Configurer_Unconfigure ::
  "'k kube_api \<Rightarrow> (nat \<Rightarrow> bool) \<Rightarrow> (nat \<Rightarrow> 'k \<Rightarrow> 'k) \<Rightarrow> service_reference option
   \<Rightarrow> ('k configurer, unit) go" where
  "Configurer_Unconfigure api done drift service =
     bindG (deref service) (\<lambda>ref.
     bindG (reads (\<lambda>c. cfBeamlitServices c (keyOf ref))) (\<lambda>managed.
       case managed of
         None \<Rightarrow> ret ()
       | Some _ \<Rightarrow>
           seqG (stopWatchers ref)
          (seqG (addKubernetesManagedEndpointsSlice api ref)
          (seqG (deleteBeamlitEndpointsSlice api ref)
          (seqG (deleteBeamlitService api ref)
          (seqG (deleteExternalIPsFromGatewayService api ref)
                (watchEndpointsSliceToBeUpdated api done drift ref)))))))"

section \<open>Mirroring\<close>

text \<open>
  The loop that removes the target port from the slice of an event. It ranges over the slice as it
  was, \<open>n\<close> elements of the array \<open>arr\<close>, while each removal shifts the array in place and
  shortens the slice that the next removal cuts, now of length \<open>len\<close>.
\<close>

function removePort ::
  "int \<Rightarrow> nat \<Rightarrow> nat \<Rightarrow> endpoint_port list \<Rightarrow> nat \<Rightarrow> endpoint_port list outcome" where
  "removePort targetPort n i arr len =
     (if n \<le> i then Ok (take len arr)
      else if eptPort (arr ! i) \<noteq> Some targetPort then removePort targetPort n (Suc i) arr len
      else if len < Suc i then Panic IndexOutOfRange
      else let tl = take (len - Suc i) (drop (Suc i) arr)
           in removePort targetPort n (Suc i) (take i arr @ tl @ drop (i + length tl) arr) (len - 1))"
  by pat_completeness auto
termination
  by (relation "measure (\<lambda>(t, n, i, arr, len). n - i)") auto

declare removePort.simps [simp del]

definition mirroredPorts :: "int \<Rightarrow> endpoint_port list \<Rightarrow> endpoint_port list outcome" where
  "mirroredPorts targetPort ports = removePort targetPort (length ports) 0 ports (length ports)"

datatype slice_event = ErrorEvent | SliceEvent endpoint_slice | OtherEvent

text \<open>One turn of the loop of \<open>mirrorEndpointSlices\<close>, for an event of the watch.\<close>

definition mirrorEvent ::
  "'k kube_api \<Rightarrow> service_reference \<Rightarrow> int \<Rightarrow> slice_event \<Rightarrow> ('k configurer, unit) go" where
  "mirrorEvent api ref targetPort ev =
     (case ev of
        ErrorEvent \<Rightarrow> raise (Errorf ''error watching endpoint slice'')
      | OtherEvent \<Rightarrow> raise (Errorf ''unexpected object type'')
      | SliceEvent slice \<Rightarrow>
          (case mirroredPorts targetPort (esPorts slice) of
             Ok ports \<Rightarrow>
               bindG (readCluster (\<lambda>k. kSliceList api k (srNamespace ref) (srName ref))) (\<lambda>slices.
                 case filter (\<lambda>s. label ''beamlit.com/to-update'' s = ''true'') slices of
                   [] \<Rightarrow> raise (Errorf ''second endpoint slice not found'')
                 | s # _ \<Rightarrow>
                     if esName s = [] then raise (Errorf ''second endpoint slice not found'')
                     else writeCluster (kSliceUpdate api (srNamespace ref)
                       (s\<lparr>esPorts := ports, esAddressType := esAddressType slice,
                          esEndpoints := esEndpoints slice\<rparr>)))
           | Err e \<Rightarrow> raise e
           | Panic p \<Rightarrow> panic p))"

text \<open>
  What the select of a watching goroutine receives. The results say whether the goroutine has returned;
  with no further input it waits. \<open>watchReply\<close> is the answer of the cluster to the watch.
\<close>

datatype mirror_input = StopSignal | ContextDone | WatchEvent slice_event

fun mirrorLoop ::
  "'k kube_api \<Rightarrow> service_reference \<Rightarrow> int \<Rightarrow> mirror_input list \<Rightarrow> ('k configurer, bool) go" where
  "mirrorLoop api ref targetPort [] = ret False"
| "mirrorLoop api ref targetPort (StopSignal # ins) = ret True"
| "mirrorLoop api ref targetPort (ContextDone # ins) = raise (Errorf ''context canceled'')"
| "mirrorLoop api ref targetPort (WatchEvent ev # ins) =
     seqG (mirrorEvent api ref targetPort ev) (mirrorLoop api ref targetPort ins)"

definition mirrorEndpointSlices ::
  "'k kube_api \<Rightarrow> unit reply \<Rightarrow> service_reference \<Rightarrow> int \<Rightarrow> mirror_input list \<Rightarrow> ('k configurer, bool) go" where
  "mirrorEndpointSlices api watchReply ref targetPort ins =
     seqG (answer watchReply) (mirrorLoop api ref targetPort ins)"

text \<open>\<open>watchService\<close> waits for its stop channel and for nothing else.\<close>

fun watchService :: "mirror_input list \<Rightarrow> ('s, bool) go" where
  "watchService [] = ret False"
| "watchService (StopSignal # ins) = ret True"
| "watchService (_ # ins) = watchService ins"

definition NewConfigurer :: "string \<Rightarrow> 'k \<Rightarrow> 'k configurer reply" where
  "NewConfigurer configurerType k =
     (if configurerType = ''kubernetes'' then Inr (newKubernetesConfigurer k)
      else Inl (Errorf (''unknown configurer type: '' @ configurerType)))"

end
