(* ===== verification/Configurer_Facts.thy ===== *)
theory Configurer_Facts
  imports Configurer
begin

text \<open>
  What the configurer guarantees: which services it manages after each call, that the wait at the
  end of \<open>Unconfigure\<close> ends and forgets the endpoints it took over, that a single target port is
  removed from a mirrored slice; and where it fails: watchers are never stopped, the external IPs
  of the gateway are replaced, a repeated target port panics.
\<close>

section \<open>Frames\<close>

text \<open>A predicate that does not look at the cluster is kept by every call of the API.\<close>

lemma keeps_readCluster: "keeps P (readCluster f)"
  unfolding readCluster_def by (intro keeps_intros)

lemma keeps_writeCluster:
  assumes "\<And>c k. P c \<Longrightarrow> P (c\<lparr>cfCluster := k\<rparr>)"
  shows "keeps P (writeCluster f)"
proof (rule keepsI)
  fix c assume "P c"
  obtain r k where f: "f (cfCluster c) = (r, k)" by fastforce
  have "snd (writeCluster f c) = c\<lparr>cfCluster := k\<rparr>"
    by (cases r) (simp_all add: writeCluster_def f ret_def raise_def)
  with \<open>P c\<close> assms show "P (snd (writeCluster f c))" by simp
qed

lemma readCluster_Ok_iff [go_simps]:
  "readCluster f c = (Ok x, c') \<longleftrightarrow> f (cfCluster c) = Inr x \<and> c' = c"
  by (auto simp: readCluster_def go_simps)

lemma writeCluster_Ok_iff [go_simps]:
  "writeCluster f c = (Ok x, c') \<longleftrightarrow> (\<exists>k. f (cfCluster c) = (Inr x, k) \<and> c' = c\<lparr>cfCluster := k\<rparr>)"
  by (cases "f (cfCluster c)") (auto simp: writeCluster_def go_simps)

lemma keeps_setLabel: "keeps P (setLabel key val s)"
  by (cases "esLabels s") (simp_all add: setLabel_def keeps_intros)

lemma keeps_mirrorEndpoints: "keeps P (mirrorEndpoints es)"
  by (induction es) (auto intro!: keeps_intros)

lemma keeps_anyRestored: "keeps P (anyRestored api eps)"
  by (induction eps) (auto intro!: keeps_intros keeps_readCluster)

lemma keeps_stopLoop: "keeps P (stopLoop chs)"
proof (induction chs)
  case Nil
  show ?case by (simp add: keeps_intros)
next
  case (Cons ch chs)
  then show ?case unfolding stopLoop.simps by (intro keeps_intros)
qed

lemma keeps_stopWatchers: "keeps P (stopWatchers ref)"
  unfolding stopWatchers_def
  by (intro keeps_intros, split option.split) (auto intro: keeps_intros keeps_stopLoop)

lemmas cluster_keeps = keeps_readCluster keeps_writeCluster keeps_setLabel keeps_mirrorEndpoints
  keeps_anyRestored keeps_stopLoop keeps_stopWatchers

text \<open>Predicates that look only at the channels, or only at the managed services.\<close>

lemma keeps_restore:
  assumes "\<And>c k. P c \<Longrightarrow> P (c\<lparr>cfCluster := k\<rparr>)"
  shows "keeps P (addKubernetesManagedEndpointsSlice api ref)"
    and "keeps P (deleteBeamlitEndpointsSlice api ref)"
    and "keeps P (deleteExternalIPsFromGatewayService api ref)"
    and "keeps P (addPortToGatewayService api ref)"
    and "keeps P (cleanUnusedEndpointSlices api ref)"
  unfolding addKubernetesManagedEndpointsSlice_def deleteBeamlitEndpointsSlice_def restoreOne_def
    deleteExternalIPsFromGatewayService_def addPortToGatewayService_def deleteSliceOne_def
    cleanUnusedEndpointSlices_def cleanUnusedOne_def
  using assms by (auto intro!: keeps_intros cluster_keeps keeps_forEach)

lemma keeps_takeOver:
  assumes "\<And>c k. P c \<Longrightarrow> P (c\<lparr>cfCluster := k\<rparr>)" and "\<And>c m. P c \<Longrightarrow> P (c\<lparr>cfInitialEndpoints := m\<rparr>)"
  shows "keeps P (takeOverEndpointsSlices api ref)"
  unfolding takeOverEndpointsSlices_def takeOverOne_def
  using assms
  by (auto intro!: keeps_intros cluster_keeps keeps_forEach keeps_writes split: option.splits)

lemma keeps_waitLoop:
  assumes "\<And>c k. P c \<Longrightarrow> P (c\<lparr>cfCluster := k\<rparr>)" and "\<And>c m. P c \<Longrightarrow> P (c\<lparr>cfInitialEndpoints := m\<rparr>)"
  shows "keeps P (waitLoop api fin drift ref retry n)"
proof (induction n arbitrary: retry)
  case 0
  then show ?case using assms by (auto intro: keeps_writes)
next
  case (Suc n)
  then show ?case using assms by (auto intro!: keeps_intros cluster_keeps keeps_writes)
qed

lemma keeps_mirrored:
  assumes "\<And>c k. P c \<Longrightarrow> P (c\<lparr>cfCluster := k\<rparr>)" and "\<And>c. P c \<Longrightarrow> P (addStopChan ref c)"
  shows "keeps P (createMirroredEndpointsSlice api ref targetPort)"
  unfolding createMirroredEndpointsSlice_def
  using assms
  by (auto intro!: keeps_intros cluster_keeps keeps_writes split: list.splits)

lemma addStopChan_sel [simp]:
  "cfBeamlitServices (addStopChan ref c) = cfBeamlitServices c"
  "cfClosed (addStopChan ref c) = cfClosed c"
  "cfInitialEndpoints (addStopChan ref c) = cfInitialEndpoints c"
  by (simp_all add: addStopChan_def)

section \<open>Which services are managed\<close>

abbreviation servicesAre :: "(ns_name \<rightharpoonup> ns_name) \<Rightarrow> 'k configurer \<Rightarrow> bool" where
  "servicesAre m \<equiv> \<lambda>c. cfBeamlitServices c = m"

lemma createBeamlitModelService_services:
  assumes "createBeamlitModelService api ref c = (Ok s, c')"
  shows "cfBeamlitServices c' = (cfBeamlitServices c)(keyOf ref \<mapsto> (svNamespace s, svName s))"
  using assms
  by (auto simp: createBeamlitModelService_def go_simps)

lemma Configure_services:
  assumes "Configurer_Configure api (Some ref) c = (Ok (), c')"
  shows "\<exists>v. cfBeamlitServices c' = (cfBeamlitServices c)(keyOf ref \<mapsto> v)"
proof -
  from assms obtain s c1 where make: "createBeamlitModelService api ref c = (Ok s, c1)"
    and rest: "seqG (addPortToGatewayService api ref)
      (seqG (takeOverEndpointsSlices api ref)
        (let targetPort = targetPortOf ref s in
         if targetPort = 0
         then raise (Errorf (''target port not found in beamlit service '' @ svName s))
         else seqG (createMirroredEndpointsSlice api ref targetPort)
               (seqG (cleanUnusedEndpointSlices api ref) (writes (addStopChan ref))))) c1 = (Ok (), c')"
    (is "?m c1 = _")
    by (auto simp: Configurer_Configure_def bindG_Ok_iff deref_Ok_iff)
  have "keeps (servicesAre (cfBeamlitServices c1)) ?m"
    unfolding Let_def
    by (intro keeps_intros keeps_restore keeps_takeOver keeps_mirrored keeps_writes) simp_all
  from keepsD [OF this, of c1] rest have "cfBeamlitServices c' = cfBeamlitServices c1" by simp
  with createBeamlitModelService_services [OF make] show ?thesis by auto
qed

lemma Unconfigure_services:
  assumes "Configurer_Unconfigure api fin drift (Some ref) c = (Ok (), c')"
  shows "cfBeamlitServices c' = (cfBeamlitServices c)(keyOf ref := None)"
proof (cases "cfBeamlitServices c (keyOf ref)")
  case None
  with assms have "c' = c" by (simp add: Configurer_Unconfigure_def ret_def)
  with None show ?thesis by (auto simp: fun_eq_iff)
next
  case (Some v)
  let ?keep = "keeps (servicesAre (cfBeamlitServices c))"
  let ?pre = "seqG (stopWatchers ref) (seqG (addKubernetesManagedEndpointsSlice api ref)
    (deleteBeamlitEndpointsSlice api ref))"
  let ?post = "seqG (deleteExternalIPsFromGatewayService api ref)
    (watchEndpointsSliceToBeUpdated api fin drift ref)"
  have "\<exists>c1 c2. ?pre c = (Ok (), c1) \<and> deleteBeamlitService api ref c1 = (Ok (), c2)
      \<and> ?post c2 = (Ok (), c')"
    using assms Some by (auto simp: Configurer_Unconfigure_def seqG_Ok_iff)
  then obtain c1 c2 where pre: "?pre c = (Ok (), c1)"
    and del: "deleteBeamlitService api ref c1 = (Ok (), c2)" and post: "?post c2 = (Ok (), c')" by blast
  have "?keep ?pre" by (intro keeps_intros keeps_restore keeps_stopWatchers) simp_all
  from keepsD [OF this, of c] pre have c1: "cfBeamlitServices c1 = cfBeamlitServices c" by simp
  have c2: "cfBeamlitServices c2 = (cfBeamlitServices c)(keyOf ref := None)"
    using del Some c1
    by (cases v) (auto simp: deleteBeamlitService_def go_simps)
  have "keeps (servicesAre (cfBeamlitServices c2)) ?post"
    unfolding watchEndpointsSliceToBeUpdated_def
    by (intro keeps_intros keeps_restore keeps_waitLoop) simp_all
  from keepsD [OF this, of c2] post c2 show ?thesis by simp
qed

text \<open>
  What the controller relies on: after a successful \<open>Configure\<close> the local service of a model can
  be found, after a successful \<open>Unconfigure\<close> it cannot, and no call touches another service.
\<close>

locale service_configurer =
  fixes configure :: "service_reference \<Rightarrow> ('s, unit) go"
    and unconfigure :: "service_reference \<Rightarrow> ('s, unit) go"
    and lookup :: "service_reference \<Rightarrow> ('s, service_reference) go"
    and managed :: "'s \<Rightarrow> ns_name set"
  assumes configure_manages:
      "configure r s = (Ok (), t) \<Longrightarrow> managed t = insert (keyOf r) (managed s)"
    and unconfigure_releases:
      "unconfigure r s = (Ok (), t) \<Longrightarrow> managed t = managed s - {keyOf r}"
    and lookup_managed: "keyOf r \<in> managed s \<longleftrightarrow> (\<exists>x. lookup r s = (Ok x, s))"
    and lookup_keeps: "snd (lookup r s) = s"
begin

lemma lookup_after_configure:
  "configure r s = (Ok (), t) \<Longrightarrow> \<exists>x. lookup r t = (Ok x, t)"
  using configure_manages [of r s t] lookup_managed [of r t] by simp

lemma no_lookup_after_unconfigure:
  "unconfigure r s = (Ok (), t) \<Longrightarrow> \<nexists>x. lookup r t = (Ok x, t)"
  using unconfigure_releases [of r s t] lookup_managed [of r t] by simp

lemma lookup_after_cycle:
  assumes "unconfigure r s = (Ok (), t)" and "configure r t = (Ok (), u)"
  shows "managed u = insert (keyOf r) (managed s)" and "\<exists>x. lookup r u = (Ok x, u)"
  using unconfigure_releases [OF assms(1)] configure_manages [OF assms(2)]
    lookup_after_configure [OF assms(2)] by auto

end

interpretation k8s_configurer: service_configurer
  "\<lambda>r. Configurer_Configure api (Some r)" "\<lambda>r. Configurer_Unconfigure api fin drift (Some r)"
  "\<lambda>r. GetLocalBeamlitService (Some r)" "\<lambda>c. dom (cfBeamlitServices c)" for api fin drift
proof
  fix r and c c' :: "'a configurer"
  show "dom (cfBeamlitServices c') = insert (keyOf r) (dom (cfBeamlitServices c))"
    if "Configurer_Configure api (Some r) c = (Ok (), c')"
    using Configure_services [OF that] by auto
  show "dom (cfBeamlitServices c') = dom (cfBeamlitServices c) - {keyOf r}"
    if "Configurer_Unconfigure api fin drift (Some r) c = (Ok (), c')"
    using Unconfigure_services [OF that] by auto
  show "keyOf r \<in> dom (cfBeamlitServices c) \<longleftrightarrow> (\<exists>x. GetLocalBeamlitService (Some r) c = (Ok x, c))"
    by (cases "cfBeamlitServices c (keyOf r)")
      (auto simp: GetLocalBeamlitService_def ret_def raise_def split: prod.splits)
  show "snd (GetLocalBeamlitService (Some r) c) = c"
    by (cases "cfBeamlitServices c (keyOf r)")
      (auto simp: GetLocalBeamlitService_def ret_def raise_def split: prod.splits)
qed

section \<open>The mirrored ports\<close>

lemma removePort_absent:
  assumes "i \<le> n" and "\<forall>j. i \<le> j \<and> j < n \<longrightarrow> eptPort (arr ! j) \<noteq> Some t"
  shows "removePort t n i arr len = Ok (take len arr)"
  using assms
proof (induction "n - i" arbitrary: i)
  case 0
  then show ?case by (subst removePort.simps) simp
next
  case (Suc m)
  then have "removePort t n (Suc i) arr len = Ok (take len arr)" by (intro Suc.hyps(1)) auto
  with Suc show ?case by (simp add: removePort.simps [of t n i])
qed

lemma removePort_skip:
  assumes "i + length pre \<le> n" and "take (length pre) (drop i arr) = pre"
    and "\<forall>p \<in> set pre. eptPort p \<noteq> Some t" and "i + length pre \<le> length arr"
  shows "removePort t n i arr len = removePort t n (i + length pre) arr len"
  using assms
proof (induction pre arbitrary: i)
  case Nil
  then show ?case by simp
next
  case (Cons p pre)
  have head: "arr ! i = p" and rest: "take (length pre) (drop (Suc i) arr) = pre"
    using Cons.prems(2,4) by (simp_all add: take_Suc_conv_app_nth Cons_nth_drop_Suc [symmetric])
  have "removePort t n i arr len = removePort t n (Suc i) arr len"
    using Cons.prems(1,3) head by (simp add: removePort.simps [of t n i])
  also have "\<dots> = removePort t n (Suc i + length pre) arr len"
    using Cons.prems rest by (intro Cons.IH) simp_all
  finally show ?case by simp
qed

lemma removePort_hit:
  assumes "arr = pre @ p # post" and "eptPort p = Some t"
    and "length pre < n" and "len = length arr"
  shows "removePort t n (length pre) arr len
    = removePort t n (Suc (length pre)) (pre @ post @ [last (p # post)]) (len - 1)"
proof -
  have tl: "take (len - Suc (length pre)) (drop (Suc (length pre)) arr) = post"
    using assms(1,4) by simp
  have "take (length pre) arr @ post @ drop (length pre + length post) arr
      = pre @ post @ [last (p # post)]"
    using assms(1) by (cases post rule: rev_cases) auto
  with assms tl show ?thesis by (subst removePort.simps) (simp add: Let_def)
qed

lemma mirroredPorts_eq:
  assumes "ports = pre @ p # post" and "eptPort p = Some t" and "\<forall>q \<in> set pre. eptPort q \<noteq> Some t"
  shows "mirroredPorts t ports = removePort t (length ports) (Suc (length pre))
    (pre @ post @ [last (p # post)]) (length ports - 1)"
proof -
  have "mirroredPorts t ports = removePort t (length ports) (length pre) ports (length ports)"
    unfolding mirroredPorts_def
    using removePort_skip [of 0 pre "length ports" ports t "length ports"] assms(1,3) by simp
  with removePort_hit [OF assms(1,2), of "length ports" "length ports"] assms(1) show ?thesis by simp
qed

section \<open>The wait\<close>

lemma anyRestored_state: "anyRestored api eps c = (res, c') \<Longrightarrow> c' = c"
  by (induction eps arbitrary: c)
    (auto simp: ret_def readCluster_def bindG_def reads_def answer_def raise_def
      split: sum.splits if_splits prod.splits outcome.splits)

lemma waitLoop_forgets:
  assumes "\<forall>i. \<not> fin i" and "waitLoop api fin drift ref retry n c = (Ok (), c')"
  shows "cfInitialEndpoints c' (keyOf ref) \<in> {None, Some []}"
  using assms(2)
proof (induction n arbitrary: retry c)
  case 0
  then show ?case by (auto simp: writes_def)
next
  case (Suc n)
  let ?eps = "case cfInitialEndpoints c (keyOf ref) of None \<Rightarrow> [] | Some es \<Rightarrow> es"
  have live: "\<not> fin retry" using assms(1) by blast
  show ?case
  proof (cases "?eps = []")
    case True
    then show ?thesis using Suc.prems live by (auto simp: ret_def split: option.splits)
  next
    case False
    with Suc.prems live obtain restored c1 where any: "anyRestored api ?eps c = (Ok restored, c1)"
      and rest: "(if restored
          then writes (\<lambda>c. c\<lparr>cfInitialEndpoints := (cfInitialEndpoints c)(keyOf ref := None)\<rparr>)
          else seqG (if n = 0 then ret () else writes (\<lambda>c. c\<lparr>cfCluster := drift retry (cfCluster c)\<rparr>))
                    (waitLoop api fin drift ref (Suc retry) n)) c1 = (Ok (), c')"
      by (auto simp: bindG_Ok_iff)
    then show ?thesis
      using Suc.IH by (cases restored; cases "n = 0") (auto simp: writes_def)
  qed
qed

section \<open>Channels\<close>

lemma keeps_createService:
  assumes "\<And>c k. P c \<Longrightarrow> P (c\<lparr>cfCluster := k\<rparr>)" and "\<And>c m. P c \<Longrightarrow> P (c\<lparr>cfBeamlitServices := m\<rparr>)"
  shows "keeps P (createBeamlitModelService api ref)" and "keeps P (deleteBeamlitService api ref)"
  unfolding createBeamlitModelService_def deleteBeamlitService_def
  using assms by (auto intro!: keeps_intros cluster_keeps keeps_writes split: option.splits prod.splits)

abbreviation chansAre ::
  "nat list \<Rightarrow> (ns_name \<rightharpoonup> nat list) \<Rightarrow> nat \<Rightarrow> 'k configurer \<Rightarrow> bool" where
  "chansAre cl st nx \<equiv> \<lambda>c. cfClosed c = cl \<and> cfStopChans c = st \<and> cfNextChan c = nx"

lemma Unconfigure_chans: "keeps (chansAre cl st nx) (Configurer_Unconfigure api fin drift service)"
  unfolding Configurer_Unconfigure_def watchEndpointsSliceToBeUpdated_def
  by (intro keeps_intros, split option.split)
    (auto intro!: keeps_intros keeps_restore keeps_waitLoop keeps_stopWatchers keeps_createService(2))

lemma createMirrored_chan:
  assumes "createMirroredEndpointsSlice api ref tp c = (Ok (), c')"
  shows "\<exists>k. c' = addStopChan ref (c\<lparr>cfCluster := k\<rparr>)"
proof -
  have "snd (mirrorEndpoints es c) = c" for es
    using keepsD [OF keeps_mirrorEndpoints, of "\<lambda>x. x = c" c] by simp
  then have same: "mirrorEndpoints es c = (res, d) \<Longrightarrow> d = c" for es res d by (metis snd_conv)
  from assms obtain slices where "kSliceList api (cfCluster c) (srNamespace ref) (beamlitName ref)
      = Inr slices"
    by (auto simp: createMirroredEndpointsSlice_def go_simps)
  with assms obtain slice where "slices = [slice]"
    by (auto simp: createMirroredEndpointsSlice_def go_simps split: list.splits)
  with assms \<open>kSliceList _ _ _ _ = Inr slices\<close> show ?thesis
    by (auto simp: createMirroredEndpointsSlice_def go_simps dest!: same)
qed

lemma Configure_chans:
  assumes "Configurer_Configure api (Some ref) c = (Ok (), c')"
  shows "cfClosed c' = cfClosed c
    \<and> cfStopChans c' (keyOf ref) = Some ((case cfStopChans c (keyOf ref) of None \<Rightarrow> [] | Some l \<Rightarrow> l)
        @ [cfNextChan c, Suc (cfNextChan c)])"
proof -
  let ?is = "chansAre (cfClosed c) (cfStopChans c) (cfNextChan c)"
  from assms obtain s c1 c2 c3 c4 c5 where make: "createBeamlitModelService api ref c = (Ok s, c1)"
    and port: "addPortToGatewayService api ref c1 = (Ok (), c2)"
    and over: "takeOverEndpointsSlices api ref c2 = (Ok (), c3)"
    and mirror: "createMirroredEndpointsSlice api ref (targetPortOf ref s) c3 = (Ok (), c4)"
    and clean: "cleanUnusedEndpointSlices api ref c4 = (Ok (), c5)" and c': "c' = addStopChan ref c5"
    by (auto simp: Configurer_Configure_def go_simps Let_def split: if_splits)
  have "?is c1" using keepsD [OF keeps_createService(1), of ?is c api ref] make by simp
  then have "?is c2" using keepsD [OF keeps_restore(4), of ?is c1 api ref] port by simp
  then have "?is c3" using keepsD [OF keeps_takeOver, of ?is c2 api ref] over by simp
  moreover obtain k where c4: "c4 = addStopChan ref (c3\<lparr>cfCluster := k\<rparr>)"
    using createMirrored_chan [OF mirror] by blast
  moreover have "chansAre (cfClosed c4) (cfStopChans c4) (cfNextChan c4) c5"
    using keepsD [OF keeps_restore(5), of "chansAre (cfClosed c4) (cfStopChans c4) (cfNextChan c4)" c4
        api ref] clean by simp
  ultimately show ?thesis by (simp add: c' addStopChan_def)
qed

section \<open>Sample clusters\<close>

lemma fst_is_Ok: "fst p = Ok x \<Longrightarrow> p = (Ok x, snd p)"
  by (cases p) simp

definition sample_slice :: endpoint_slice where
  "sample_slice = \<lparr>esName = ''s'', esNamespace = ''ns'', esLabels = Some Map.empty,
     esAddressType = ''IPv4'', esEndpoints = [], esPorts = []\<rparr>"

definition sample_ref :: "string \<Rightarrow> service_reference" where
  "sample_ref name = \<lparr>srRef = \<lparr>orAPIVersion = [], orKind = [], orNamespace = ''ns'', orName = name\<rparr>,
     srTargetPort = 80\<rparr>"

definition sample_k8s_service :: "string \<Rightarrow> string \<Rightarrow> service" where
  "sample_k8s_service name ip = \<lparr>svName = name, svNamespace = ''ns'',
     svPorts = [\<lparr>spName = ''http'', spPort = 80, spProtocol = ''TCP'', spTargetPort = 8080\<rparr>],
     svSelector = [], svClusterIP = ip, svClusterIPs = [ip], svExternalIPs = []\<rparr>"

definition sample_port :: "int \<Rightarrow> endpoint_port" where
  "sample_port n = \<lparr>eptName = None, eptPort = Some n, eptProtocol = Some ''TCP''\<rparr>"

text \<open>A cluster that accepts every write and always answers with the same objects.\<close>

definition still_api :: "unit kube_api" where
  "still_api = \<lparr>
     kServiceGet = (\<lambda>k ns n. Inr (sample_k8s_service n ''10.0.0.1'')),
     kServiceApply = (\<lambda>ns a k. (Inr (sample_k8s_service (saName a) ''10.0.0.2''), k)),
     kServiceUpdate = (\<lambda>ns s k. (Inr s, k)),
     kServiceDelete = (\<lambda>ns n k. (Inr (), k)),
     kSliceList = (\<lambda>k ns n. Inr [sample_slice]),
     kSliceGet = (\<lambda>k ns n. Inr sample_slice),
     kSliceUpdate = (\<lambda>ns s k. (Inr (), k)),
     kSliceApply = (\<lambda>ns s k. (Inr (), k)),
     kSliceDelete = (\<lambda>ns n k. (Inr (), k))\<rparr>"

definition still_configurer :: "unit configurer" where
  "still_configurer = (newKubernetesConfigurer ())\<lparr>cfGatewayServiceRef := Some (sample_ref ''gw'')\<rparr>"

text \<open>The same configurer while it manages the service a.\<close>

definition still_managing :: "unit configurer" where
  "still_managing = still_configurer\<lparr>cfBeamlitServices := [(''ns'', ''a'') \<mapsto> (''ns'', ''a-beamlit'')],
     cfInitialEndpoints := [(''ns'', ''a'') \<mapsto> [(''ns'', ''s'')]],
     cfStopChans := [(''ns'', ''a'') \<mapsto> [0, 1]], cfNextChan := 2\<rparr>"

definition still_released :: "unit configurer" where
  "still_released = snd (Configurer_Unconfigure still_api (\<lambda>_. False) (\<lambda>_ k. k)
     (Some (sample_ref ''a'')) still_managing)"

definition still_taken :: "unit configurer" where
  "still_taken = snd (Configurer_Configure still_api (Some (sample_ref ''a'')) still_released)"

lemma still_releases: "Configurer_Unconfigure still_api (\<lambda>_. False) (\<lambda>_ k. k)
     (Some (sample_ref ''a'')) still_managing = (Ok (), still_released)"
  unfolding still_released_def by (rule fst_is_Ok) code_simp

lemma still_takes:
  "Configurer_Configure still_api (Some (sample_ref ''a'')) still_released = (Ok (), still_taken)"
  unfolding still_taken_def by (rule fst_is_Ok) code_simp

text \<open>A cluster that stores the services it is sent.\<close>

definition storing_api :: "(ns_name \<rightharpoonup> service) kube_api" where
  "storing_api = \<lparr>
     kServiceGet = (\<lambda>k ns n. case k (ns, n) of None \<Rightarrow> Inl NotFoundErr | Some s \<Rightarrow> Inr s),
     kServiceApply = (\<lambda>ns a k. (Inl (ApiError ''read only''), k)),
     kServiceUpdate = (\<lambda>ns s k. (Inr s, k((ns, svName s) \<mapsto> s))),
     kServiceDelete = (\<lambda>ns n k. (Inr (), k((ns, n) := None))),
     kSliceList = (\<lambda>k ns n. Inr [sample_slice]),
     kSliceGet = (\<lambda>k ns n. Inr sample_slice),
     kSliceUpdate = (\<lambda>ns s k. (Inr (), k)),
     kSliceApply = (\<lambda>ns s k. (Inr (), k)),
     kSliceDelete = (\<lambda>ns n k. (Inr (), k))\<rparr>"

definition storing_configurer :: "(ns_name \<rightharpoonup> service) configurer" where
  "storing_configurer = (newKubernetesConfigurer
     [(''ns'', ''gw'') \<mapsto> sample_k8s_service ''gw'' ''10.0.0.1'',
      (''ns'', ''a'') \<mapsto> sample_k8s_service ''a'' ''10.0.0.2'',
      (''ns'', ''b'') \<mapsto> sample_k8s_service ''b'' ''10.0.0.3''])
     \<lparr>cfGatewayServiceRef := Some (sample_ref ''gw'')\<rparr>"

section \<open>Properties\<close>

text \<open>
  C23. The contract the controller relies on. Whatever the cluster answers: after a successful
  \<open>Unconfigure\<close> the local service of a model cannot be looked up; after a \<open>Configure\<close> that
  follows and succeeds it can, and apart from that service the managed services are as before.
\<close>
theorem configurer_manages_services:
  assumes "Configurer_Unconfigure api fin drift (Some r) c = (Ok (), c1)"
    and "Configurer_Configure api (Some r) c1 = (Ok (), c2)"
  shows "(\<nexists>x. GetLocalBeamlitService (Some r) c1 = (Ok x, c1))
    \<and> (\<exists>x. GetLocalBeamlitService (Some r) c2 = (Ok x, c2))
    \<and> dom (cfBeamlitServices c2) = insert (keyOf r) (dom (cfBeamlitServices c))"
  using k8s_configurer.no_lookup_after_unconfigure [OF assms(1)]
    k8s_configurer.lookup_after_cycle [OF assms] by blast

theorem configurer_manages_services_witness:
  "(\<nexists>x. GetLocalBeamlitService (Some (sample_ref ''a'')) still_released = (Ok x, still_released))
    \<and> (\<exists>x. GetLocalBeamlitService (Some (sample_ref ''a'')) still_taken = (Ok x, still_taken))
    \<and> dom (cfBeamlitServices still_taken)
        = insert (keyOf (sample_ref ''a'')) (dom (cfBeamlitServices still_managing))"
  by (rule configurer_manages_services [OF still_releases still_takes])



text \<open>
  Watchers are never stopped. A successful \<open>Configure\<close> adds two stop channels, one for each
  goroutine it starts, and the \<open>Unconfigure\<close> that follows closes none of them and keeps them, even
  when it succeeds: the code closes a channel only after it has received a value from it, and
  nothing is ever sent.
\<close>
theorem unconfigure_stops_no_watcher:
  assumes "Configurer_Configure api (Some r) c = (Ok (), c1)"
    and "Configurer_Unconfigure api fin drift (Some r) c1 = (res, c2)"
  shows "cfClosed c2 = cfClosed c
    \<and> cfStopChans c2 (keyOf r) = Some ((case cfStopChans c (keyOf r) of None \<Rightarrow> [] | Some l \<Rightarrow> l)
        @ [cfNextChan c, Suc (cfNextChan c)])"
proof -
  have "chansAre (cfClosed c1) (cfStopChans c1) (cfNextChan c1) c2"
    using keepsD [OF Unconfigure_chans [of "cfClosed c1" "cfStopChans c1" "cfNextChan c1" api fin drift
        "Some r"], of c1] assms(2) by simp
  with Configure_chans [OF assms(1)] show ?thesis by simp
qed

theorem unconfigure_stops_no_watcher_witness:
  "\<exists>c2. Configurer_Unconfigure still_api (\<lambda>_. False) (\<lambda>_ k. k) (Some (sample_ref ''a'')) still_taken
      = c2 \<and> cfClosed (snd c2) = cfClosed still_released
    \<and> cfStopChans (snd c2) (keyOf (sample_ref ''a''))
        = Some ((case cfStopChans still_released (keyOf (sample_ref ''a'')) of None \<Rightarrow> [] | Some l \<Rightarrow> l)
            @ [cfNextChan still_released, Suc (cfNextChan still_released)])"
  using unconfigure_stops_no_watcher [OF still_takes surjective_pairing] by blast

text \<open>
  The gateway's external IPs are replaced, not extended. With a cluster that stores what is
  updated, the cluster IP of a first service is an external IP of the gateway after
  \<open>addPortToGatewayService\<close>, and is gone after the next call for any service, the same one included.
\<close>
theorem gateway_external_ips_replaced:
  assumes "\<And>s k. svName s = gname \<Longrightarrow> \<exists>k'. kServiceUpdate api gns s k = (Inr s, k')
      \<and> kServiceGet api k' gns gname = Inr s
      \<and> (\<forall>ns n. (ns, n) \<noteq> (gns, gname) \<longrightarrow> kServiceGet api k' ns n = kServiceGet api k ns n)"
    and "cfGatewayServiceRef c = Some g" and "keyOf g = (gns, gname)"
    and "kServiceGet api (cfCluster c) gns gname = Inr gw0" and gw0: "svName gw0 = gname"
    and "kServiceGet api (cfCluster c) (srNamespace r1) (srName r1) = Inr s1"
    and "kServiceGet api (cfCluster c) (srNamespace r2) (srName r2) = Inr s2"
    and "keyOf r1 \<noteq> (gns, gname)" and "keyOf r2 \<noteq> (gns, gname)"
    and "ip \<in> set (svClusterIPs s1)" and "ip \<notin> set (svExternalIPs gw0)"
  shows "\<exists>c1 c2 gw1 gw2. addPortToGatewayService api r1 c = (Ok (), c1)
    \<and> addPortToGatewayService api r2 c1 = (Ok (), c2)
    \<and> kServiceGet api (cfCluster c1) gns gname = Inr gw1 \<and> ip \<in> set (svExternalIPs gw1)
    \<and> kServiceGet api (cfCluster c2) gns gname = Inr gw2 \<and> ip \<notin> set (svExternalIPs gw2)"
proof -
  have step: "\<exists>d'. addPortToGatewayService api r d = (Ok (), d')
      \<and> cfGatewayServiceRef d' = Some g
      \<and> (\<exists>gw'. kServiceGet api (cfCluster d') gns gname = Inr gw'
           \<and> svName gw' = gname
           \<and> svExternalIPs gw' = filter (\<lambda>i. i \<notin> set (svExternalIPs gw)) (svClusterIPs s))
      \<and> (\<forall>ns n. (ns, n) \<noteq> (gns, gname) \<longrightarrow>
           kServiceGet api (cfCluster d') ns n = kServiceGet api (cfCluster d) ns n)"
    if d: "cfGatewayServiceRef d = Some g" "kServiceGet api (cfCluster d) gns gname = Inr gw"
      "svName gw = gname" "kServiceGet api (cfCluster d) (srNamespace r) (srName r) = Inr s" for r d gw s
  proof -
    let ?gw = "withExternalIPs s (withGatewayPort g r s gw)"
    have name: "svName ?gw = gname"
      using d(3) by (simp add: withExternalIPs_def withGatewayPort_def Let_def)
    then obtain k' where k': "kServiceUpdate api gns ?gw (cfCluster d) = (Inr ?gw, k')"
      "kServiceGet api k' gns gname = Inr ?gw"
      "\<forall>ns n. (ns, n) \<noteq> (gns, gname) \<longrightarrow>
         kServiceGet api k' ns n = kServiceGet api (cfCluster d) ns n"
      using assms(1) by metis
    have "svExternalIPs (withGatewayPort g r s gw) = svExternalIPs gw"
      by (simp add: withGatewayPort_def Let_def)
    then show ?thesis
      using d k' assms(3) name
      by (auto simp: addPortToGatewayService_def readCluster_def writeCluster_def keyOf_def ret_def
          withExternalIPs_def)
  qed
  from step [OF assms(2,4) gw0 assms(6)] obtain c1 gw1 where c1: "addPortToGatewayService api r1 c = (Ok (), c1)"
    "cfGatewayServiceRef c1 = Some g" "kServiceGet api (cfCluster c1) gns gname = Inr gw1"
    "svName gw1 = gname" "svExternalIPs gw1 = filter (\<lambda>i. i \<notin> set (svExternalIPs gw0)) (svClusterIPs s1)"
    "\<forall>ns n. (ns, n) \<noteq> (gns, gname) \<longrightarrow>
       kServiceGet api (cfCluster c1) ns n = kServiceGet api (cfCluster c) ns n" by blast
  have "kServiceGet api (cfCluster c1) (srNamespace r2) (srName r2) = Inr s2"
    using c1(6) assms(7,9) by (simp add: keyOf_def)
  from step [OF c1(2,3,4) this] c1(1,3,5) assms(10,11) show ?thesis by fastforce
qed

theorem gateway_external_ips_replaced_witness:
  "\<exists>c1 c2 gw1 gw2. addPortToGatewayService storing_api (sample_ref ''a'') storing_configurer = (Ok (), c1)
    \<and> addPortToGatewayService storing_api (sample_ref ''b'') c1 = (Ok (), c2)
    \<and> kServiceGet storing_api (cfCluster c1) ''ns'' ''gw'' = Inr gw1 \<and> ''10.0.0.2'' \<in> set (svExternalIPs gw1)
    \<and> kServiceGet storing_api (cfCluster c2) ''ns'' ''gw'' = Inr gw2 \<and> ''10.0.0.2'' \<notin> set (svExternalIPs gw2)"
  by (rule gateway_external_ips_replaced [where g = "sample_ref ''gw''"
        and ?gw0.0 = "sample_k8s_service ''gw'' ''10.0.0.1''" and ?s1.0 = "sample_k8s_service ''a'' ''10.0.0.2''"
        and ?s2.0 = "sample_k8s_service ''b'' ''10.0.0.3''"])
    (simp_all add: storing_api_def storing_configurer_def newKubernetesConfigurer_def sample_ref_def sample_k8s_service_def keyOf_def)

text \<open>
  A target port that occurs once is removed from the mirrored slice, and the other ports keep
  their order; a slice without it is left as it is.
\<close>
theorem mirrored_ports_single:
  assumes "length (filter (\<lambda>p. eptPort p = Some t) ports) \<le> 1"
  shows "mirroredPorts t ports = Ok (filter (\<lambda>p. eptPort p \<noteq> Some t) ports)"
proof (cases "\<exists>p \<in> set ports. eptPort p = Some t")
  case False
  then have "filter (\<lambda>p. eptPort p \<noteq> Some t) ports = ports" by (simp add: filter_id_conv)
  moreover have "mirroredPorts t ports = Ok (take (length ports) ports)"
    unfolding mirroredPorts_def using False nth_mem by (intro removePort_absent) auto
  ultimately show ?thesis by simp
next
  case True
  then obtain pre p post where ports: "ports = pre @ p # post" and p: "eptPort p = Some t"
    and pre: "\<forall>q \<in> set pre. eptPort q \<noteq> Some t"
    using split_list_first_prop [of ports "\<lambda>p. eptPort p = Some t"] by auto
  have post: "\<forall>q \<in> set post. eptPort q \<noteq> Some t"
    using assms by (auto simp: ports p filter_empty_conv)
  let ?arr = "pre @ post @ [last (p # post)]"
  have "removePort t (length ports) (Suc (length pre)) ?arr (length ports - 1)
      = Ok (take (length ports - 1) ?arr)"
  proof (rule removePort_absent)
    show "Suc (length pre) \<le> length ports" by (simp add: ports)
    have "eptPort ((post @ [last (p # post)]) ! Suc m) \<noteq> Some t" if "Suc m < Suc (length post)" for m
      using that post by (auto simp: nth_append)
    moreover have "?arr ! j = (post @ [last (p # post)]) ! Suc (j - Suc (length pre))"
      if "Suc (length pre) \<le> j" for j
    proof -
      have "Suc (j - Suc (length pre)) = j - length pre" using that by simp
      then show ?thesis using that by (simp add: nth_append)
    qed
    ultimately show "\<forall>j. Suc (length pre) \<le> j \<and> j < length ports \<longrightarrow> eptPort (?arr ! j) \<noteq> Some t"
      by (auto simp: ports)
  qed
  with mirroredPorts_eq [OF ports p pre] show ?thesis
    using pre post p by (simp add: ports filter_id_conv)
qed

theorem mirrored_ports_single_witness:
  "mirroredPorts 8080 [sample_port 80, sample_port 8080, sample_port 443]
    = Ok [sample_port 80, sample_port 443]"
  using mirrored_ports_single [of 8080 "[sample_port 80, sample_port 8080, sample_port 443]"]
  by (simp add: sample_port_def)

text \<open>
  A target port that occurs twice at the end of a slice makes the mirroring goroutine panic,
  since the loop goes on with positions of the slice it has already shortened; when another port
  follows, one of the two is left in place.
\<close>
theorem mirrored_ports_twice:
  assumes "\<forall>q \<in> set pre. eptPort q \<noteq> Some t" and "eptPort p1 = Some t" and "eptPort p2 = Some t"
    and "eptPort p3 \<noteq> Some t"
  shows "mirroredPorts t (pre @ [p1, p2]) = Panic IndexOutOfRange
    \<and> mirroredPorts t (pre @ [p1, p2, p3]) = Ok (pre @ [p2, p3])"
proof
  have "removePort t (length pre + 2) (Suc (length pre)) (pre @ [p2, p2]) (Suc (length pre))
      = Panic IndexOutOfRange"
    using assms(3) by (subst removePort.simps) (simp add: nth_append)
  with mirroredPorts_eq [of "pre @ [p1, p2]" pre p1 "[p2]" t] assms(1,2)
  show "mirroredPorts t (pre @ [p1, p2]) = Panic IndexOutOfRange" by simp
  have "removePort t (length pre + 3) (Suc (length pre)) (pre @ [p2, p3, p3]) (length pre + 2)
      = Ok (take (length pre + 2) (pre @ [p2, p3, p3]))"
  proof (rule removePort_absent)
    show "\<forall>j. Suc (length pre) \<le> j \<and> j < length pre + 3 \<longrightarrow> eptPort ((pre @ [p2, p3, p3]) ! j) \<noteq> Some t"
    proof (intro allI impI)
      fix j assume "Suc (length pre) \<le> j \<and> j < length pre + 3"
      then have "j = length pre + 1 \<or> j = length pre + 2" by linarith
      then show "eptPort ((pre @ [p2, p3, p3]) ! j) \<noteq> Some t" using assms(4) by (auto simp: nth_append)
    qed
  qed simp
  with mirroredPorts_eq [of "pre @ [p1, p2, p3]" pre p1 "[p2, p3]" t] assms(1,2)
  show "mirroredPorts t (pre @ [p1, p2, p3]) = Ok (pre @ [p2, p3])"
    by (simp add: numeral_3_eq_3)
qed

theorem mirrored_ports_twice_witness:
  "mirroredPorts 8080 [sample_port 80, sample_port 8080, sample_port 8080] = Panic IndexOutOfRange
    \<and> mirroredPorts 8080 [sample_port 80, sample_port 8080, sample_port 8080, sample_port 443]
      = Ok [sample_port 80, sample_port 8080, sample_port 443]"
  using mirrored_ports_twice [of "[sample_port 80]" 8080 "sample_port 8080" "sample_port 8080"
      "sample_port 443"] by (simp add: sample_port_def)

section \<open>The watching goroutines\<close>

text \<open>
  A goroutine that mirrors slices ends at the first event it cannot mirror: what the watch delivers after it
  does not reach the cluster. No input but the stop signal ends the watch of a service.
\<close>

theorem mirroring_ends_at_first_error:
  assumes "mirrorLoop api ref t pre c = (Ok False, c1)" and "mirrorEvent api ref t ev c1 = (Err e, c2)"
  shows "mirrorLoop api ref t (pre @ WatchEvent ev # post) c = (Err e, c2)"
  using assms(1)
proof (induction pre arbitrary: c)
  case Nil
  then show ?case using assms(2) by (simp add: ret_def seqG_def)
next
  case (Cons i pre)
  show ?case
  proof (cases i)
    case (WatchEvent ev')
    then obtain c' where "mirrorEvent api ref t ev' c = (Ok (), c')" and "mirrorLoop api ref t pre c' = (Ok False, c1)"
      using Cons.prems by (auto simp: seqG_Ok_iff)
    with Cons.IH WatchEvent show ?thesis by (simp add: seqG_def)
  qed (use Cons.prems in \<open>simp_all add: ret_def raise_def\<close>)
qed

lemma watchService_waits: "StopSignal \<notin> set ins \<Longrightarrow> watchService ins = ret False"
proof (induction ins)
  case (Cons i ins)
  then show ?case by (cases i) auto
qed simp

end
