(* ===== verification/Beamlit_Client.thy ===== *)
theory Beamlit_Client
  imports Gateway_API Kube_Types
begin

text \<open>
  The client of the Beamlit API (\<^verbatim>\<open>internal/beamlit\<close>) and the conversions of the cluster's
  resources to that API (\<^verbatim>\<open>internal/controller/helper\<close>).

  The SDK the client calls is third-party code: it is the parameter \<open>beamlit_sdk\<close> over an abstract
  remote service. A response carries its status, the text of its body, and what decoding that
  body as the type of the call yields. Pod templates are documents, as \<open>mapstructure\<close> makes them.
\<close>

section \<open>The resources of the SDK\<close>

record sdk_metadata =
  smName :: "string option"
  smDisplayName :: "string option"
  smEnvironment :: "string option"
  smLabels :: "(string \<rightharpoonup> string) option"
  smWorkspace :: "string option"
  smCreatedAt :: "string option"
  smUpdatedAt :: "string option"

record sdk_serverless =
  ssMinNumReplicas :: "int option"
  ssMaxNumReplicas :: "int option"
  ssMetric :: "string option"
  ssTarget :: "string option"
  ssScaleDownDelay :: "string option"
  ssScaleUpMinimum :: "int option"
  ssStableWindow :: "string option"
  ssLastPodRetentionPeriod :: "string option"

record sdk_model_spec =
  smEnabled :: "bool option"
  smServingPort :: "int option"
  smMetricPort :: "int option"
  smPolicies :: "string list option"
  smServerlessConfig :: "sdk_serverless option"
  smPodTemplate :: "json option"

record sdk_model =
  sdMetadata :: "sdk_metadata option"
  sdSpec :: "sdk_model_spec option"

record sdk_policy_spec =
  pyType :: "string option"
  pyLocations :: "(string \<times> string) list option"
  pyFlavors :: "(string \<times> string) list option"

record sdk_policy =
  pyMetadata :: "sdk_metadata option"
  pySpec :: "sdk_policy_spec option"

section \<open>The service\<close>

record 'a sdk_response =
  rsStatus :: int
  rsBody :: string
  rsDecoded :: "'a reply"

record 'b beamlit_sdk =
  bGetModel :: "'b \<Rightarrow> string \<Rightarrow> string option \<Rightarrow> sdk_model sdk_response reply"
  bCreateModel :: "sdk_model \<Rightarrow> 'b \<Rightarrow> sdk_model sdk_response reply \<times> 'b"
  bUpdateModel :: "string \<Rightarrow> sdk_model \<Rightarrow> 'b \<Rightarrow> sdk_model sdk_response reply \<times> 'b"
  bDeleteModel :: "string \<Rightarrow> string \<Rightarrow> 'b \<Rightarrow> sdk_model sdk_response reply \<times> 'b"
  bGetPolicy :: "'b \<Rightarrow> string \<Rightarrow> sdk_policy sdk_response reply"
  bCreatePolicy :: "sdk_policy \<Rightarrow> 'b \<Rightarrow> sdk_policy sdk_response reply \<times> 'b"
  bUpdatePolicy :: "string \<Rightarrow> sdk_policy \<Rightarrow> 'b \<Rightarrow> sdk_policy sdk_response reply \<times> 'b"
  bDeletePolicy :: "string \<Rightarrow> 'b \<Rightarrow> sdk_policy sdk_response reply \<times> 'b"

definition ask :: "('b \<Rightarrow> 'a reply) \<Rightarrow> ('b, 'a) go" where
  "ask f = bindG (reads f) answer"

definition tell :: "('b \<Rightarrow> 'a reply \<times> 'b) \<Rightarrow> ('b, 'a) go" where
  "tell f b = (case f b of (r, b') \<Rightarrow> answer r b')"

text \<open>A status of 299 or more is an error with the body in it.\<close>

definition failedWith :: "string \<Rightarrow> 'a sdk_response \<Rightarrow> go_error" where
  "failedWith what resp =
     Errorf (''failed to '' @ what @ '', status code: '' @ show_int (rsStatus resp)
       @ '', body: '' @ rsBody resp)"

definition decoded :: "string \<Rightarrow> 'a sdk_response \<Rightarrow> ('b, 'a) go" where
  "decoded what resp =
     (if rsStatus resp \<ge> 299 then raise (failedWith what resp) else answer (rsDecoded resp))"

section \<open>Models\<close>

definition createModel :: "'b beamlit_sdk \<Rightarrow> sdk_model \<Rightarrow> ('b, sdk_model) go" where
  "createModel sdk model = bindG (tell (bCreateModel sdk model)) (decoded ''update Model'')"

definition updateModel :: "'b beamlit_sdk \<Rightarrow> sdk_model \<Rightarrow> ('b, sdk_model) go" where
  "updateModel sdk model =
     bindG (deref (sdMetadata model)) (\<lambda>meta.
     bindG (deref (smName meta)) (\<lambda>name.
     bindG (tell (bUpdateModel sdk name model)) (decoded ''update Model'')))"

definition CreateOrUpdateModel :: "'b beamlit_sdk \<Rightarrow> sdk_model \<Rightarrow> ('b, sdk_model) go" where
  "CreateOrUpdateModel sdk model =
     bindG (deref (sdMetadata model)) (\<lambda>meta.
       if smName meta = None \<or> smEnvironment meta = None
       then raise (Errorf ''name and environment are required'')
       else bindG (deref (smName meta)) (\<lambda>name.
            bindG (ask (\<lambda>b. bGetModel sdk b name (smEnvironment meta))) (\<lambda>resp.
              if rsStatus resp = 404 then createModel sdk model else updateModel sdk model)))"

definition DeleteModelDeployment :: "'b beamlit_sdk \<Rightarrow> string \<Rightarrow> string \<Rightarrow> ('b, unit) go" where
  "DeleteModelDeployment sdk model environment =
     bindG (tell (bDeleteModel sdk model environment)) (\<lambda>resp.
       if rsStatus resp = 404 then ret ()
       else if rsStatus resp \<ge> 299 then raise (failedWith ''delete Model'' resp)
       else ret ())"

definition formatBool :: "bool \<Rightarrow> string" where
  "formatBool b = (if b then ''true'' else ''false'')"

text \<open>The map of the labels stays nil when the model has none, and writing to it panics.\<close>

definition NotifyOnModelOffloading ::
  "'b beamlit_sdk \<Rightarrow> string \<Rightarrow> string \<Rightarrow> bool \<Rightarrow> ('b, unit) go" where
  "NotifyOnModelOffloading sdk model environment offloading =
     bindG (ask (\<lambda>b. bGetModel sdk b model (Some environment))) (\<lambda>resp.
     bindG (decoded ''get ModelDeployment'' resp) (\<lambda>modelDeployment.
     bindG (deref (sdMetadata modelDeployment)) (\<lambda>meta.
       case smLabels meta of
         None \<Rightarrow> panic NilMapWrite
       | Some labels \<Rightarrow>
           bindG (tell (bUpdateModel sdk model (modelDeployment\<lparr>sdMetadata := Some (meta\<lparr>smLabels :=
                    Some (labels(''offloading'' \<mapsto> formatBool offloading))\<rparr>)\<rparr>))) (\<lambda>_.
           ret ()))))"

section \<open>Policies\<close>

text \<open>In the default case the code reads the status of a response that is still nil.\<close>

definition CreateOrUpdatePolicy :: "'b beamlit_sdk \<Rightarrow> sdk_policy \<Rightarrow> ('b, sdk_policy) go" where
  "CreateOrUpdatePolicy sdk policy =
     bindG (deref (pyMetadata policy)) (\<lambda>meta.
       case smName meta of
         None \<Rightarrow> raise (Errorf ''policy name is required'')
       | Some name \<Rightarrow>
           bindG (ask (\<lambda>b. bGetPolicy sdk b name)) (\<lambda>policyResp.
           bindG (if rsStatus policyResp = 404 then tell (bCreatePolicy sdk policy)
                  else if rsStatus policyResp = 200 then tell (bUpdatePolicy sdk name policy)
                  else panic NilDeref)
             (decoded ''update Policy'')))"

definition DeletePolicy :: "'b beamlit_sdk \<Rightarrow> string \<Rightarrow> ('b, unit) go" where
  "DeletePolicy sdk name =
     bindG (tell (bDeletePolicy sdk name)) (\<lambda>resp.
       if rsStatus resp = 404 then ret ()
       else if rsStatus resp \<ge> 299 then raise (failedWith ''delete Policy'' resp)
       else ret ())"

section \<open>Credentials\<close>

text \<open>
  \<open>base64.StdEncoding.DecodeString\<close>: line breaks are skipped, padding is required, bits that are
  left over are dropped. Groups of four characters give three bytes.
\<close>

definition digit64 :: "char \<Rightarrow> nat option" where
  "digit64 c =
     (let n = of_char c :: nat in
      if 65 \<le> n \<and> n \<le> 90 then Some (n - 65)
      else if 97 \<le> n \<and> n \<le> 122 then Some (n - 71)
      else if 48 \<le> n \<and> n \<le> 57 then Some (n + 4)
      else if c = CHR ''+'' then Some 62
      else if c = CHR ''/'' then Some 63
      else None)"

definition digits64 :: "string \<Rightarrow> nat option" where
  "digits64 cs = fold (\<lambda>c acc. case (acc, digit64 c) of
     (Some n, Some d) \<Rightarrow> Some (64 * n + d) | _ \<Rightarrow> None) cs (Some 0)"

definition bytesOf :: "nat \<Rightarrow> nat \<Rightarrow> string" where
  "bytesOf k n = map (\<lambda>i. char_of (n div 256 ^ i)) (rev [0..<k])"

fun groups64 :: "string \<Rightarrow> string option" where
  "groups64 [] = Some []"
| "groups64 (a # b # c # d # rest) =
     (if rest = [] \<and> c = CHR ''='' \<and> d = CHR ''=''
      then map_option (\<lambda>n. bytesOf 1 (n div 16)) (digits64 [a, b])
      else if rest = [] \<and> d = CHR ''=''
      then map_option (\<lambda>n. bytesOf 2 (n div 4)) (digits64 [a, b, c])
      else case (digits64 [a, b, c, d], groups64 rest) of
             (Some n, Some s) \<Rightarrow> Some (bytesOf 3 n @ s) | _ \<Rightarrow> None)"
| "groups64 _ = None"

definition base64 :: "string \<Rightarrow> string reply" where
  "base64 s =
     (case groups64 (filter (\<lambda>c. c \<noteq> CHR 0x0A \<and> c \<noteq> CHR 0x0D) s) of
        None \<Rightarrow> Inl (Errorf ''illegal base64 data'')
      | Some t \<Rightarrow> Inr t)"

text \<open>The environment variables are strings, empty when unset.\<close>

definition defaultBaseURL :: string where
  "defaultBaseURL = ''https://api.beamlit.com/v0''"

definition retrieveInfoFromEnv :: "string \<Rightarrow> string \<Rightarrow> (string \<times> string \<times> string) reply" where
  "retrieveInfoFromEnv envBaseURL envToken =
     (let baseURL = (if envBaseURL = [] then defaultBaseURL else envBaseURL) in
      if envToken = [] then Inr ([], [], [])
      else bindR (wrapped ''failed to decode Beamlit token: '' (base64 envToken)) (\<lambda>decodedToken.
        case split_on CHR '':'' decodedToken of
          [clientID, clientSecret] \<Rightarrow> Inr (clientID, clientSecret, baseURL)
        | _ \<Rightarrow> Inl (Errorf ''invalid Beamlit token format'')))"

text \<open>The configuration of the client credentials flow; the flow itself is the OAuth library's.\<close>

record credentials =
  crClientID :: string
  crClientSecret :: string
  crTokenURL :: string

record beamlitToken =
  btClientID :: string
  btClientSecret :: string
  btBaseURL :: string
  btCfg :: "credentials option"

definition NewBeamlitToken :: "string \<Rightarrow> string \<Rightarrow> beamlitToken reply" where
  "NewBeamlitToken envBaseURL envToken =
     bindR (retrieveInfoFromEnv envBaseURL envToken) (\<lambda>(clientID, clientSecret, baseURL).
     Inr \<lparr>btClientID = clientID, btClientSecret = clientSecret, btBaseURL = baseURL, btCfg = None\<rparr>)"

text \<open>Both ways to use the token fill in the configuration the first time and keep it.\<close>

definition cfgOf :: "beamlitToken \<Rightarrow> credentials" where
  "cfgOf t =
     (case btCfg t of
        Some cfg \<Rightarrow> cfg
      | None \<Rightarrow> \<lparr>crClientID = btClientID t, crClientSecret = btClientSecret t,
                 crTokenURL = btBaseURL t @ ''/oauth/token''\<rparr>)"

text \<open>The HTTP client that \<open>client\<close> returns is known by the credentials it asks tokens with.\<close>

definition Token_client :: "beamlitToken \<Rightarrow> credentials \<times> beamlitToken" where
  "Token_client t = (cfgOf t, t\<lparr>btCfg := Some (cfgOf t)\<rparr>)"

definition GetToken :: "(credentials \<Rightarrow> string reply) \<Rightarrow> (beamlitToken, string) go" where
  "GetToken fetch t = (replied (fetch (cfgOf t)), t\<lparr>btCfg := Some (cfgOf t)\<rparr>)"

section \<open>Reading ports and pod templates from the cluster\<close>

record workload_api =
  waServiceGet :: "string \<Rightarrow> string \<Rightarrow> service reply"
  waTemplateGet :: "string \<Rightarrow> string \<Rightarrow> string \<Rightarrow> json reply"
  waDecodeTemplate :: "json \<Rightarrow> json reply"

definition retrievePodTemplate ::
  "workload_api \<Rightarrow> string \<Rightarrow> string \<Rightarrow> string \<Rightarrow> json reply" where
  "retrievePodTemplate cl kind name namespace =
     (if kind = ''Deployment'' \<or> kind = ''StatefulSet'' \<or> kind = ''DaemonSet'' \<or> kind = ''ReplicaSet''
      then waTemplateGet cl kind namespace name
      else Inl (Errorf (''unexpected object type: '' @ kind)))"

definition RetrievePodPort :: "workload_api \<Rightarrow> service_reference \<Rightarrow> int reply" where
  "RetrievePodPort cl ref =
     bindR (waServiceGet cl (srNamespace ref) (srName ref)) (\<lambda>service.
       case filter (\<lambda>p. spPort p = srTargetPort ref) (svPorts service) of
         p # _ \<Rightarrow> Inr (spTargetPort p)
       | [] \<Rightarrow> Inl (Errorf (''port '' @ show_int (srTargetPort ref) @ '' not found'')))"

section \<open>Conversion of models\<close>

definition withOffloadingEnabled :: "(string \<rightharpoonup> string) \<Rightarrow> (string \<rightharpoonup> string)" where
  "withOffloadingEnabled labels = labels(''offloading-enabled'' \<mapsto> formatBool True)"

definition toBeamlitLabels ::
  "(string \<times> string) list \<Rightarrow> ((string \<rightharpoonup> string) \<Rightarrow> (string \<rightharpoonup> string)) list \<Rightarrow> (string \<rightharpoonup> string)" where
  "toBeamlitLabels labels opts =
     fold (\<lambda>opt m. opt m) opts ((map_of labels)(''managed-by'' \<mapsto> ''beamlit-operator''))"

definition toBeamlitPolicies :: "policy_ref list \<Rightarrow> string list" where
  "toBeamlitPolicies policies = map (\<lambda>p.
     if prRefType p = ''remotePolicy'' then prName p
     else if prRefType p = ''localPolicy'' then orName (prRef p)
     else []) policies"

definition toServerless :: "serverless_config \<Rightarrow> sdk_serverless" where
  "toServerless c =
     \<lparr>ssMinNumReplicas = Some (slMinNumReplicas c), ssMaxNumReplicas = Some (slMaxNumReplicas c),
      ssMetric = slMetric c, ssTarget = slTarget c, ssScaleDownDelay = slScaleDownDelay c,
      ssScaleUpMinimum = slScaleUpMinimum c, ssStableWindow = slStableWindow c,
      ssLastPodRetentionPeriod = slLastPodRetentionPeriod c\<rparr>"

definition ToBeamlitModelDeployment :: "workload_api \<Rightarrow> model_deployment \<Rightarrow> sdk_model reply" where
  "ToBeamlitModelDeployment cl m =
     (let sp = mdSpec m;
          labelOpts = (if spOffloadingConfig sp \<noteq> None \<and> spEnabled sp
                       then [withOffloadingEnabled] else []) in
      bindR (retrievePodTemplate cl (orKind (spModelSourceRef sp)) (orName (spModelSourceRef sp))
               (orNamespace (spModelSourceRef sp))) (\<lambda>template.
      bindR (waDecodeTemplate cl template) (\<lambda>podTemplate.
      Inr \<lparr>sdMetadata = Some \<lparr>smName = Some (spModel sp), smDisplayName = None,
             smEnvironment = Some (spEnvironment sp),
             smLabels = Some (toBeamlitLabels (mdLabels m) labelOpts),
             smWorkspace = None, smCreatedAt = None, smUpdatedAt = None\<rparr>,
           sdSpec = Some \<lparr>smEnabled = Some (spEnabled sp),
             smServingPort = Some (stServingPort (mdStatus m)),
             smMetricPort = Some (stMetricPort (mdStatus m)),
             smPolicies = Some (toBeamlitPolicies (spPolicies sp)),
             smServerlessConfig = map_option toServerless (spServerlessConfig sp),
             smPodTemplate = Some podTemplate\<rparr>\<rparr>)))"

section \<open>Policies of the cluster and their conversion\<close>

record policy_location =
  polType :: string
  polName :: string

record policy_flavor =
  pofType :: string
  pofName :: string

record policy_spec =
  posDisplayName :: string
  posType :: string
  posLocations :: "policy_location list"
  posFlavors :: "policy_flavor list"

record policy =
  poName :: string
  poNamespace :: string
  poGeneration :: int
  poDeletionTimestamp :: "int option"
  poFinalizers :: "string list"
  poSpec :: policy_spec
  poWorkspace :: string

text \<open>A name and a type.\<close>

definition toBeamlitFlavors :: "policy_flavor list \<Rightarrow> (string \<times> string) list" where
  "toBeamlitFlavors flavors = map (\<lambda>f. (pofName f, pofType f)) flavors"

definition toBeamlitLocations :: "policy_location list \<Rightarrow> (string \<times> string) list" where
  "toBeamlitLocations locations = map (\<lambda>l. (polName l, polType l)) locations"

text \<open>
  The conversion fills in a zero value of the SDK's type, the argument \<open>zero\<close>: it has no
  metadata and no spec if these fields of the SDK are pointers, and then the first write panics.
\<close>

definition ToBeamlitPolicy :: "sdk_policy \<Rightarrow> policy \<Rightarrow> ('s, sdk_policy) go" where
  "ToBeamlitPolicy zero policy =
     bindG (deref (pyMetadata zero)) (\<lambda>meta.
     let named = zero\<lparr>pyMetadata := Some (meta\<lparr>smName := Some (poName policy),
                   smDisplayName := Some (posDisplayName (poSpec policy))\<rparr>)\<rparr> in
     if posType (poSpec policy) = ''flavor'' then
       bindG (deref (pySpec named)) (\<lambda>spec.
       ret (named\<lparr>pySpec := Some (spec\<lparr>pyType := Some ''flavor'',
              pyFlavors := Some (toBeamlitFlavors (posFlavors (poSpec policy)))\<rparr>)\<rparr>))
     else if posType (poSpec policy) = ''location'' then
       bindG (deref (pySpec named)) (\<lambda>spec.
       ret (named\<lparr>pySpec := Some (spec\<lparr>pyType := Some ''location'',
              pyLocations := Some (toBeamlitLocations (posLocations (poSpec policy)))\<rparr>)\<rparr>))
     else ret named)"

end
