(* ===== verification/Policy_Controller.thy ===== *)
theory Policy_Controller
  imports Beamlit_Client
begin

text \<open>
  The policy reconciler (\<^verbatim>\<open>internal/controller/policy_controller.go\<close>). The cluster's client is
  the parameter \<open>policy_client\<close> over an abstract cluster; the Beamlit API is the parameter
  \<open>beamlit_sdk\<close>, behind the client of \<open>Beamlit_Client\<close>.
\<close>

record managedPolicyRef =
  mpLastGeneratedID :: int
  mpNamespacedName :: "string \<times> string"

record ('k, 'b) policyReconciler =
  pcManagedPolicies :: "string \<rightharpoonup> managedPolicyRef"
  pcCluster :: 'k
  pcRemote :: 'b

text \<open>
  A write of the status hands back the policy as the cluster now has it, which the caller goes on
  with.
\<close>

record 'k policy_client =
  pkGet :: "'k \<Rightarrow> string \<Rightarrow> string \<Rightarrow> policy reply"
  pkUpdate :: "policy \<Rightarrow> 'k \<Rightarrow> policy reply \<times> 'k"
  pkStatusUpdate :: "policy \<Rightarrow> 'k \<Rightarrow> policy reply \<times> 'k"

definition policyFinalizer :: string where
  "policyFinalizer = ''policy.beamlit.com/finalizer''"

definition onPolicies :: "('k, 'a) go \<Rightarrow> (('k, 'b) policyReconciler, 'a) go" where
  "onPolicies = zoom pcCluster (\<lambda>k r. r\<lparr>pcCluster := k\<rparr>)"

definition onBeamlit :: "('b, 'a) go \<Rightarrow> (('k, 'b) policyReconciler, 'a) go" where
  "onBeamlit = zoom pcRemote (\<lambda>b r. r\<lparr>pcRemote := b\<rparr>)"

definition forgetPolicy :: "string \<Rightarrow> ('k, 'b) policyReconciler \<Rightarrow> ('k, 'b) policyReconciler" where
  "forgetPolicy name r = r\<lparr>pcManagedPolicies := (pcManagedPolicies r)(name := None)\<rparr>"

definition finalizePolicy :: "'b beamlit_sdk \<Rightarrow> policy \<Rightarrow> (('k, 'b) policyReconciler, unit) go" where
  "finalizePolicy sdk policy = onBeamlit (DeletePolicy sdk (poName policy))"

text \<open>
  The entry of an unknown policy reads as generation 0. The result is the policy with the workspace
  of the answer.
\<close>

definition createOrUpdatePolicy ::
  "'b beamlit_sdk \<Rightarrow> sdk_policy \<Rightarrow> policy \<Rightarrow> (('k, 'b) policyReconciler, policy) go" where
  "createOrUpdatePolicy sdk zero policy =
     bindG (reads (\<lambda>r. pcManagedPolicies r (poName policy))) (\<lambda>entry.
       if (case entry of
             Some ref \<Rightarrow> mpNamespacedName ref \<noteq> (poNamespace policy, poName policy)
           | None \<Rightarrow> False)
       then raise (Errorf (''policy '' @ poName policy @ '' is already defined''))
       else if (case entry of Some ref \<Rightarrow> mpLastGeneratedID ref | None \<Rightarrow> 0) = poGeneration policy
       then ret policy
       else bindG (ToBeamlitPolicy zero policy) (\<lambda>converted.
            bindG (onBeamlit (CreateOrUpdatePolicy sdk converted)) (\<lambda>beamlitPolicy.
            bindG (deref (pyMetadata beamlitPolicy)) (\<lambda>meta.
            bindG (deref (smWorkspace meta)) (\<lambda>ws.
            ret (policy\<lparr>poWorkspace := ws\<rparr>))))))"

text \<open>
  The error path of \<open>createOrUpdate\<close>: a conflict is retried; any other error is recorded as if the
  generation had been handled, and returned. The object of the error path is the one the handler
  was given: no field of it is written before an error.
\<close>

definition policyFailed ::
  "'k policy_client \<Rightarrow> string \<times> string \<Rightarrow> policy \<Rightarrow> go_error
   \<Rightarrow> (('k, 'b) policyReconciler, bool) go" where
  "policyFailed client req policy err =
     (if err = ConflictErr then ret True
      else bindG (onPolicies (tell (pkStatusUpdate client policy))) (\<lambda>updated.
           seqG (writes (\<lambda>r. r\<lparr>pcManagedPolicies := (pcManagedPolicies r)(poName updated \<mapsto>
                   \<lparr>mpLastGeneratedID = poGeneration updated, mpNamespacedName = req\<rparr>)\<rparr>))
                (raise err)))"

text \<open>The result says whether the request is to be put back in the queue.\<close>

definition Policy_Reconcile ::
  "'k policy_client \<Rightarrow> 'b beamlit_sdk \<Rightarrow> sdk_policy \<Rightarrow> string \<times> string
   \<Rightarrow> (('k, 'b) policyReconciler, bool) go" where
  "Policy_Reconcile client sdk zero req r =
     (case pkGet client (pcCluster r) (fst req) (snd req) of
        Inl NotFoundErr \<Rightarrow> (Ok False, r)
      | Inl e \<Rightarrow> (Err e, r)
      | Inr policy \<Rightarrow>
          if poDeletionTimestamp policy \<noteq> None then
            (if policyFinalizer \<in> set (poFinalizers policy) then
               seqG (finalizePolicy sdk policy)
              (seqG (writes (forgetPolicy (poName policy)))
              (seqG (onPolicies (tell (pkUpdate client
                       (policy\<lparr>poFinalizers := removeAll policyFinalizer (poFinalizers policy)\<rparr>))))
                    (ret False))) r
             else (Ok False, r))
          else if policyFinalizer \<notin> set (poFinalizers policy) then
            seqG (onPolicies (tell (pkUpdate client
                    (policy\<lparr>poFinalizers := poFinalizers policy @ [policyFinalizer]\<rparr>))))
                 (ret False) r
          else
            (case createOrUpdatePolicy sdk zero policy r of
               (Ok _, r') \<Rightarrow> (Ok False, r')
             | (Err e, r') \<Rightarrow> policyFailed client req policy e r'
             | (Panic p, r') \<Rightarrow> (Panic p, r')))"

end
