(* ===== verification/Beamlit_Facts.thy ===== *)
theory Beamlit_Facts
  imports Policy_Controller
begin

text \<open>
  What the Beamlit client and the policy reconciler guarantee, and where they fail: a converted
  model is created or updated on the service, an unexpected status makes the client panic, a
  policy that failed once is taken for done.
\<close>

section \<open>The service as a map of models\<close>

text \<open>
  What the API documents of its model endpoints: a model is found under its name and environment
  once it was created or updated, and the answer to a write is the model.
\<close>

definition model_service ::
  "'b beamlit_sdk \<Rightarrow> ('b \<Rightarrow> string \<times> string \<rightharpoonup> sdk_model) \<Rightarrow> bool" where
  "model_service sdk stored \<longleftrightarrow>
     (\<forall>b n e. \<exists>resp. bGetModel sdk b n (Some e) = Inr resp
        \<and> (rsStatus resp = 404 \<longleftrightarrow> stored b (n, e) = None))
   \<and> (\<forall>b m meta n e. sdMetadata m = Some meta \<and> smName meta = Some n \<and> smEnvironment meta = Some e \<longrightarrow>
        (stored b (n, e) = None \<longrightarrow> (\<exists>resp b'. bCreateModel sdk m b = (Inr resp, b')
           \<and> rsStatus resp = 200 \<and> rsDecoded resp = Inr m \<and> stored b' = (stored b)((n, e) \<mapsto> m)))
        \<and> (stored b (n, e) \<noteq> None \<longrightarrow> (\<exists>resp b'. bUpdateModel sdk n m b = (Inr resp, b')
           \<and> rsStatus resp = 200 \<and> rsDecoded resp = Inr m \<and> stored b' = (stored b)((n, e) \<mapsto> m))))"

lemma model_service_get:
  assumes "model_service sdk stored"
  obtains resp where "bGetModel sdk b n (Some e) = Inr resp"
    and "rsStatus resp = 404 \<longleftrightarrow> stored b (n, e) = None"
  using assms unfolding model_service_def by blast

lemma tell_eq: "f b = (Inr x, b') \<Longrightarrow> tell f b = (Ok x, b')"
  by (simp add: tell_def ret_def)

lemma decoded_ok: "rsStatus resp = 200 \<Longrightarrow> rsDecoded resp = Inr x \<Longrightarrow> decoded what resp b = (Ok x, b)"
  by (simp add: decoded_def ret_def)

lemma ask_eq: "f b = Inr x \<Longrightarrow> bindG (ask f) k b = k x b"
  by (simp add: ask_def bindG_def reads_def answer_def ret_def)

lemma CreateOrUpdateModel_upserts:
  assumes service: "model_service sdk stored"
    and m: "sdMetadata m = Some meta" "smName meta = Some n" "smEnvironment meta = Some e"
  shows "\<exists>b'. CreateOrUpdateModel sdk m b = (Ok m, b') \<and> stored b' = (stored b)((n, e) \<mapsto> m)"
proof -
  obtain resp where get: "bGetModel sdk b n (Some e) = Inr resp"
    and found: "rsStatus resp = 404 \<longleftrightarrow> stored b (n, e) = None"
    using model_service_get [OF service] .
  have start: "CreateOrUpdateModel sdk m b
      = (if rsStatus resp = 404 then createModel sdk m b else updateModel sdk m b)"
    using m get by (simp add: CreateOrUpdateModel_def ask_eq)
  show ?thesis
  proof (cases "stored b (n, e) = None")
    case True
    with service m obtain r b' where "bCreateModel sdk m b = (Inr r, b')" "rsStatus r = 200"
      "rsDecoded r = Inr m" "stored b' = (stored b)((n, e) \<mapsto> m)"
      unfolding model_service_def by blast
    with start found True show ?thesis by (auto simp: createModel_def tell_eq decoded_ok)
  next
    case False
    with service m obtain r b' where "bUpdateModel sdk n m b = (Inr r, b')" "rsStatus r = 200"
      "rsDecoded r = Inr m" "stored b' = (stored b)((n, e) \<mapsto> m)"
      unfolding model_service_def by blast
    with start found False m show ?thesis by (auto simp: updateModel_def tell_eq decoded_ok)
  qed
qed

lemma converted_identity:
  assumes "ToBeamlitModelDeployment cl m = Inr bm"
  shows "\<exists>meta. sdMetadata bm = Some meta \<and> smName meta = Some (spModel (mdSpec m))
    \<and> smEnvironment meta = Some (spEnvironment (mdSpec m))
    \<and> (\<exists>labels. smLabels meta = Some labels \<and> labels ''managed-by'' = Some ''beamlit-operator'')"
  using assms by (auto simp: ToBeamlitModelDeployment_def Let_def toBeamlitLabels_def
      withOffloadingEnabled_def)

section \<open>Samples\<close>

text \<open>A service that keeps models in a map and answers every policy call with one status.\<close>

definition sample_resp :: "int \<Rightarrow> 'a reply \<Rightarrow> 'a sdk_response" where
  "sample_resp code d = \<lparr>rsStatus = code, rsBody = [], rsDecoded = d\<rparr>"

definition keyOfModel :: "sdk_model \<Rightarrow> string \<times> string" where
  "keyOfModel m = (case sdMetadata m of
     Some meta \<Rightarrow> (case (smName meta, smEnvironment meta) of (Some n, Some e) \<Rightarrow> (n, e) | _ \<Rightarrow> ([], []))
   | None \<Rightarrow> ([], []))"

definition sample_sdk :: "int \<Rightarrow> (string \<times> string \<rightharpoonup> sdk_model) beamlit_sdk" where
  "sample_sdk policyStatus = \<lparr>
     bGetModel = (\<lambda>b n e. case b (n, case e of Some x \<Rightarrow> x | None \<Rightarrow> []) of
        None \<Rightarrow> Inr (sample_resp 404 (Inl NotFoundErr)) | Some m \<Rightarrow> Inr (sample_resp 200 (Inr m))),
     bCreateModel = (\<lambda>m b. (Inr (sample_resp 200 (Inr m)), b(keyOfModel m \<mapsto> m))),
     bUpdateModel = (\<lambda>n m b. (Inr (sample_resp 200 (Inr m)), b(keyOfModel m \<mapsto> m))),
     bDeleteModel = (\<lambda>n e b. (Inr (sample_resp 200 (Inl NotFoundErr)), b((n, e) := None))),
     bGetPolicy = (\<lambda>b n. Inr (sample_resp policyStatus (Inl NotFoundErr))),
     bCreatePolicy = (\<lambda>p b. (Inr (sample_resp 500 (Inl NotFoundErr)), b)),
     bUpdatePolicy = (\<lambda>n p b. (Inr (sample_resp 200 (Inr p)), b)),
     bDeletePolicy = (\<lambda>n b. (Inr (sample_resp 404 (Inl NotFoundErr)), b))\<rparr>"

lemma sample_sdk_service: "model_service (sample_sdk code) (\<lambda>b. b)"
  unfolding model_service_def
  by (auto simp: sample_sdk_def sample_resp_def keyOfModel_def split: option.splits)

definition sample_workload :: workload_api where
  "sample_workload = \<lparr>
     waServiceGet = (\<lambda>ns n. Inl NotFoundErr),
     waTemplateGet = (\<lambda>kind ns n. Inr (JStr ''template'')),
     waDecodeTemplate = (\<lambda>t. Inr (JObj [(''template'', t)]))\<rparr>"

definition plain_model :: model_deployment where
  "plain_model = \<lparr>mdName = ''m'', mdNamespace = ''ns'', mdGeneration = 1, mdLabels = [(''team'', ''a'')],
     mdDeletionTimestamp = None, mdFinalizers = [],
     mdSpec = \<lparr>spModel = ''llm'', spEnabled = True,
       spModelSourceRef = \<lparr>orAPIVersion = ''apps/v1'', orKind = ''Deployment'', orNamespace = ''ns'',
         orName = ''d''\<rparr>,
       spServiceRef = None, spMetricServiceRef = None, spEnvironment = ''production'', spPolicies = [],
       spServerlessConfig = None, spOffloadingConfig = None\<rparr>,
     mdStatus = \<lparr>stOffloadingStatus = False, stServingPort = 80, stMetricPort = 0, stWorkspace = [],
       stCreatedAtOnBeamlit = 0, stUpdatedAtOnBeamlit = 0\<rparr>\<rparr>"

definition sample_policy :: policy where
  "sample_policy = \<lparr>poName = ''p'', poNamespace = ''ns'', poGeneration = 1, poDeletionTimestamp = None,
     poFinalizers = [policyFinalizer], poSpec = \<lparr>posDisplayName = ''P'', posType = ''flavor'',
       posLocations = [], posFlavors = [\<lparr>pofType = ''cpu'', pofName = ''t4''\<rparr>]\<rparr>, poWorkspace = []\<rparr>"

definition zero_policy :: sdk_policy where
  "zero_policy = \<lparr>pyMetadata = Some \<lparr>smName = None, smDisplayName = None, smEnvironment = None,
       smLabels = None, smWorkspace = None, smCreatedAt = None, smUpdatedAt = None\<rparr>,
     pySpec = Some \<lparr>pyType = None, pyLocations = None, pyFlavors = None\<rparr>\<rparr>"

text \<open>A cluster that holds one policy, and a reconciler that knows none.\<close>

definition sample_policy_client :: "policy policy_client" where
  "sample_policy_client = \<lparr>pkGet = (\<lambda>k ns n. Inr k), pkUpdate = (\<lambda>p k. (Inr p, p)),
     pkStatusUpdate = (\<lambda>p k. (Inr p, p))\<rparr>"

definition sample_reconciler :: "(policy, string \<times> string \<rightharpoonup> sdk_model) policyReconciler" where
  "sample_reconciler =
     \<lparr>pcManagedPolicies = Map.empty, pcCluster = sample_policy, pcRemote = Map.empty\<rparr>"

section \<open>Policies\<close>

lemma Policy_Reconcile_live:
  assumes "pkGet client (pcCluster r) (fst req) (snd req) = Inr policy"
    and "poDeletionTimestamp policy = None" and "policyFinalizer \<in> set (poFinalizers policy)"
  shows "Policy_Reconcile client sdk zero req r =
    (case createOrUpdatePolicy sdk zero policy r of
       (Ok _, r') \<Rightarrow> (Ok False, r')
     | (Err e, r') \<Rightarrow> policyFailed client req policy e r'
     | (Panic p, r') \<Rightarrow> (Panic p, r'))"
  using assms by (simp add: Policy_Reconcile_def)

lemma keeps_createOrUpdatePolicy:
  assumes "\<And>r b. P r \<Longrightarrow> P (r\<lparr>pcRemote := b\<rparr>)"
  shows "keeps P (createOrUpdatePolicy sdk zero policy)"
proof -
  have remote: "keeps P (onBeamlit m)" for m :: "('b, 'c) go"
    using assms by (auto simp: keeps_def onBeamlit_def zoom_def split: prod.splits)
  have "keeps P (ToBeamlitPolicy zero policy)"
    unfolding ToBeamlitPolicy_def Let_def by (intro keeps_intros)
  then show ?thesis
    unfolding createOrUpdatePolicy_def by (intro keeps_intros remote)
qed

section \<open>Properties\<close>



text \<open>
  A policy whose creation fails is not tried again. The first \<open>Reconcile\<close> returns the error but
  records the generation as handled; the next one, which the returned error asks for, answers
  success, although the service was not called again and never got the policy.
\<close>
theorem failed_policy_never_retried:
  assumes "pkGet client (pcCluster r) ns n = Inr policy"
    and "poDeletionTimestamp policy = None" and "policyFinalizer \<in> set (poFinalizers policy)"
    and "poNamespace policy = ns" and "poName policy = n"
    and "createOrUpdatePolicy sdk zero policy r = (Err e, r')" and "e \<noteq> ConflictErr"
    and "pkStatusUpdate client policy (pcCluster r') = (Inr policy, k)"
    and "pkGet client k ns n = Inr policy"
  shows "\<exists>r1. Policy_Reconcile client sdk zero (ns, n) r = (Err e, r1)
    \<and> Policy_Reconcile client sdk zero (ns, n) r1 = (Ok False, r1)"
proof -
  let ?r1 = "r'\<lparr>pcCluster := k, pcManagedPolicies := (pcManagedPolicies r')(n \<mapsto>
    \<lparr>mpLastGeneratedID = poGeneration policy, mpNamespacedName = (ns, n)\<rparr>)\<rparr>"
  have "Policy_Reconcile client sdk zero (ns, n) r = (Err e, ?r1)"
    using assms
    by (simp add: Policy_Reconcile_live policyFailed_def onPolicies_def bindG_def zoom_def tell_def
        ret_def raise_def)
  moreover have "createOrUpdatePolicy sdk zero policy ?r1 = (Ok policy, ?r1)"
    using assms(4,5) by (simp add: createOrUpdatePolicy_def ret_def)
  then have "Policy_Reconcile client sdk zero (ns, n) ?r1 = (Ok False, ?r1)"
    using assms(2,3,9) by (simp add: Policy_Reconcile_live)
  ultimately show ?thesis by blast
qed

theorem failed_policy_never_retried_witness:
  "\<exists>e r1. Policy_Reconcile sample_policy_client (sample_sdk 404) zero_policy (''ns'', ''p'')
      sample_reconciler = (Err e, r1)
    \<and> Policy_Reconcile sample_policy_client (sample_sdk 404) zero_policy (''ns'', ''p'') r1
      = (Ok False, r1)"
proof -
  let ?e = "failedWith ''update Policy'' (sample_resp 500 (Inl NotFoundErr) :: sdk_policy sdk_response)"
  have "createOrUpdatePolicy (sample_sdk 404) zero_policy sample_policy sample_reconciler
      = (Err ?e, sample_reconciler)"
    by (simp add: createOrUpdatePolicy_def sample_reconciler_def sample_policy_def zero_policy_def
        ToBeamlitPolicy_def onBeamlit_def zoom_def CreateOrUpdatePolicy_def sample_sdk_def sample_resp_def
        ask_eq tell_eq decoded_def raise_def)
  then have "\<exists>r1. Policy_Reconcile sample_policy_client (sample_sdk 404) zero_policy (''ns'', ''p'')
      sample_reconciler = (Err ?e, r1)
    \<and> Policy_Reconcile sample_policy_client (sample_sdk 404) zero_policy (''ns'', ''p'') r1 = (Ok False, r1)"
    by (intro failed_policy_never_retried [where policy = sample_policy and k = sample_policy])
      (simp_all add: sample_policy_client_def sample_reconciler_def sample_policy_def failedWith_def)
  then show ?thesis by blast
qed

text \<open>
  A policy that was created is not recorded. After a successful \<open>Reconcile\<close> of a live policy the
  managed policies and the cluster are unchanged: the workspace that the service answered is not
  stored, and the next \<open>Reconcile\<close> sends the policy again.
\<close>
theorem created_policy_not_recorded:
  assumes "pkGet client (pcCluster r) (fst req) (snd req) = Inr policy"
    and "poDeletionTimestamp policy = None" and "policyFinalizer \<in> set (poFinalizers policy)"
    and "Policy_Reconcile client sdk zero req r = (Ok requeue, r')"
  shows "pcManagedPolicies r' = pcManagedPolicies r \<and> pcCluster r' = pcCluster r"
proof -
  let ?P = "\<lambda>x. pcManagedPolicies x = pcManagedPolicies r \<and> pcCluster x = pcCluster r"
  obtain res r1 where run: "createOrUpdatePolicy sdk zero policy r = (res, r1)" by fastforce
  have same: "?P r1"
    using keepsD [OF keeps_createOrUpdatePolicy [where P = ?P and sdk = sdk and zero = zero and policy = policy],
        of r] run by simp
  show ?thesis
  proof (cases res)
    case (Err e)
    with assms(4) run have "policyFailed client req policy e r1 = (Ok requeue, r')"
      by (simp add: Policy_Reconcile_live [OF assms(1-3)])
    then have "r' = r1"
      by (auto simp: policyFailed_def go_simps split: if_splits)
    with same show ?thesis by simp
  qed (use assms(4) run same in \<open>simp_all add: Policy_Reconcile_live [OF assms(1-3)]\<close>)
qed

theorem created_policy_not_recorded_witness:
  "\<exists>requeue r'. Policy_Reconcile sample_policy_client
      ((sample_sdk 404)\<lparr>bCreatePolicy := \<lambda>p b. (Inr (sample_resp 200 (Inr (p\<lparr>pyMetadata :=
         map_option (\<lambda>m. m\<lparr>smWorkspace := Some ''w''\<rparr>) (pyMetadata p)\<rparr>))), b)\<rparr>)
      zero_policy (''ns'', ''p'') sample_reconciler = (Ok requeue, r')
    \<and> pcManagedPolicies r' = Map.empty \<and> poWorkspace (pcCluster r') = []"
proof -
  let ?sdk = "(sample_sdk 404)\<lparr>bCreatePolicy := \<lambda>p b. (Inr (sample_resp 200 (Inr (p\<lparr>pyMetadata :=
         map_option (\<lambda>m. m\<lparr>smWorkspace := Some ''w''\<rparr>) (pyMetadata p)\<rparr>))), b)\<rparr>"
  let ?run = "Policy_Reconcile sample_policy_client ?sdk zero_policy (''ns'', ''p'') sample_reconciler"
  have "\<exists>p. createOrUpdatePolicy ?sdk zero_policy sample_policy sample_reconciler
      = (Ok p, sample_reconciler)"
    by (simp add: createOrUpdatePolicy_def sample_reconciler_def sample_policy_def zero_policy_def
        ToBeamlitPolicy_def onBeamlit_def zoom_def CreateOrUpdatePolicy_def sample_sdk_def sample_resp_def
        ask_eq tell_eq decoded_def ret_def)
  then obtain r' where run: "?run = (Ok False, r')"
    by (auto simp: Policy_Reconcile_def sample_policy_client_def sample_reconciler_def sample_policy_def)
  have "pcManagedPolicies r' = pcManagedPolicies sample_reconciler
      \<and> pcCluster r' = pcCluster sample_reconciler"
    by (rule created_policy_not_recorded [OF _ _ _ run, where policy = sample_policy])
      (simp_all add: sample_policy_client_def sample_reconciler_def sample_policy_def)
  with run show ?thesis by (auto simp: sample_reconciler_def sample_policy_def)
qed

text \<open>
  Where the client panics: when the service answers a lookup of a policy with a status other than
  200 and 404, the code reads the status of a response it has not got yet; when a model without labels
  is to be marked as offloaded, it writes to a nil map.
\<close>
theorem beamlit_client_panics:
  assumes "pyMetadata policy = Some meta" and "smName meta = Some name"
    and "bGetPolicy sdk b name = Inr presp" and "rsStatus presp \<noteq> 200" and "rsStatus presp \<noteq> 404"
    and "bGetModel sdk b n (Some e) = Inr resp" and "rsStatus resp < 299"
    and "rsDecoded resp = Inr m" and "sdMetadata m = Some mmeta" and "smLabels mmeta = None"
  shows "CreateOrUpdatePolicy sdk policy b = (Panic NilDeref, b)
    \<and> NotifyOnModelOffloading sdk n e offloading b = (Panic NilMapWrite, b)"
  using assms
  by (simp add: CreateOrUpdatePolicy_def NotifyOnModelOffloading_def ask_eq decoded_def panic_def)

theorem beamlit_client_panics_witness:
  "CreateOrUpdatePolicy (sample_sdk 503) (zero_policy\<lparr>pyMetadata :=
      Some ((the (pyMetadata zero_policy))\<lparr>smName := Some ''p''\<rparr>)\<rparr>)
      [(''llm'', ''production'') \<mapsto> \<lparr>sdMetadata = pyMetadata zero_policy, sdSpec = None\<rparr>]
      = (Panic NilDeref, [(''llm'', ''production'') \<mapsto> \<lparr>sdMetadata = pyMetadata zero_policy, sdSpec = None\<rparr>])
    \<and> NotifyOnModelOffloading (sample_sdk 503) ''llm'' ''production'' True
      [(''llm'', ''production'') \<mapsto> \<lparr>sdMetadata = pyMetadata zero_policy, sdSpec = None\<rparr>]
      = (Panic NilMapWrite, [(''llm'', ''production'') \<mapsto> \<lparr>sdMetadata = pyMetadata zero_policy, sdSpec = None\<rparr>])"
  using beamlit_client_panics [where name = "''p''" and sdk = "sample_sdk 503"
      and policy = "zero_policy\<lparr>pyMetadata := Some ((the (pyMetadata zero_policy))\<lparr>smName := Some ''p''\<rparr>)\<rparr>"
      and meta = "(the (pyMetadata zero_policy))\<lparr>smName := Some ''p''\<rparr>"
      and presp = "sample_resp 503 (Inl NotFoundErr)" and n = "''llm''" and e = "''production''"
      and m = "\<lparr>sdMetadata = pyMetadata zero_policy, sdSpec = None\<rparr>"
      and resp = "sample_resp 200 (Inr \<lparr>sdMetadata = pyMetadata zero_policy, sdSpec = None\<rparr>)"
      and mmeta = "the (pyMetadata zero_policy)" and offloading = True
      and b = "[(''llm'', ''production'') \<mapsto> \<lparr>sdMetadata = pyMetadata zero_policy, sdSpec = None\<rparr>]"]
  by (simp add: zero_policy_def sample_sdk_def sample_resp_def)

end
