(* ===== verification/Model_Controller.thy ===== *)
theory Model_Controller
  imports Offloader Configurer Prometheus_Informer Health_Informer Beamlit_Client
begin

text \<open>
  The model deployment reconciler (\<^verbatim>\<open>internal/controller/modeldeployment_controller.go\<close>): it
  creates models on Beamlit, puts the gateway in front of their services, and moves traffic when
  the informers report.

  The state holds the components the reconciler drives: the offloader with the gateway behind it,
  the configurer with the cluster behind it, the two informers, and the remote service. What is not
  in the repository answers through \<open>reconcile_env\<close>: the Kubernetes API, the Beamlit SDK, the network to
  the gateway, the parser of timestamps. Each handler runs as one step; the two goroutines that run
  them are interleaved by \<open>controller_step\<close>.
\<close>

section \<open>The metric informer in use\<close>

datatype metricInformer = K8sInformer k8sMetricInformer | PromInformer prometheusMetricInformer

fun MetricInformer_Register :: "string \<Rightarrow> metric_registration \<Rightarrow> (metricInformer, unit) go" where
  "MetricInformer_Register model g (K8sInformer k) =
     (case K8sMetric_Register model g k of (r, k') \<Rightarrow> (r, K8sInformer k'))"
| "MetricInformer_Register model g (PromInformer p) =
     (case Prom_Register model g p of (r, p') \<Rightarrow> (r, PromInformer p'))"

fun MetricInformer_Unregister :: "string \<Rightarrow> (metricInformer, unit) go" where
  "MetricInformer_Unregister model (K8sInformer k) =
     (case K8sMetric_Unregister model k of (r, k') \<Rightarrow> (r, K8sInformer k'))"
| "MetricInformer_Unregister model (PromInformer p) =
     (case Prom_Unregister model p of (r, p') \<Rightarrow> (r, PromInformer p'))"

section \<open>State and environment\<close>

record managedModel =
  mmNamespace :: string
  mmName :: string
  mmHealthy :: bool
  mmLastGeneration :: int

record ('k, 'b) reconciler =
  rcOffloader :: offloader
  rcConfigurer :: "'k configurer"
  rcMetricInformer :: metricInformer
  rcHealthInformer :: k8sHealthInformer
  rcOngoingOffloadings :: "string \<rightharpoonup> int"
  rcModelState :: "string \<rightharpoonup> bool"
  rcManagedModels :: "string \<rightharpoonup> managedModel"
  rcBeamlitModels :: "string \<rightharpoonup> string"
  rcDefaultRemoteBackend :: "remote_backend option"
  rcRemote :: 'b

record ('k, 'b) reconcile_env =
  reKube :: "'k kube_api"
  reGet :: "'k \<Rightarrow> string \<Rightarrow> string \<Rightarrow> model_deployment reply"
  reUpdate :: "model_deployment \<Rightarrow> 'k \<Rightarrow> model_deployment reply \<times> 'k"
  reStatusUpdate :: "model_deployment \<Rightarrow> 'k \<Rightarrow> model_deployment reply \<times> 'k"
  reTemplateGet :: "'k \<Rightarrow> string \<Rightarrow> string \<Rightarrow> string \<Rightarrow> json reply"
  reDecodeTemplate :: "json \<Rightarrow> json reply"
  reSdk :: "'b beamlit_sdk"
  reSend :: "api_request \<Rightarrow> (proxy, api_response) go"
  reParseTime :: "string \<Rightarrow> int reply"
  reFin :: "nat \<Rightarrow> bool"
  reDrift :: "nat \<Rightarrow> 'k \<Rightarrow> 'k"

definition modelDeploymentFinalizer :: string where
  "modelDeploymentFinalizer = ''modeldeployment.beamlit.com/finalizer''"

definition modelKey :: "model_deployment \<Rightarrow> string" where
  "modelKey m = slash_key (mdNamespace m) (mdName m)"

definition claimKey :: "model_deployment \<Rightarrow> string" where
  "claimKey m = slash_key (spEnvironment (mdSpec m)) (spModel (mdSpec m))"

definition onConfigurer :: "('k configurer, 'a) go \<Rightarrow> (('k, 'b) reconciler, 'a) go" where
  "onConfigurer = zoom rcConfigurer (\<lambda>c r. r\<lparr>rcConfigurer := c\<rparr>)"

definition onMetrics :: "(metricInformer, 'a) go \<Rightarrow> (('k, 'b) reconciler, 'a) go" where
  "onMetrics = zoom rcMetricInformer (\<lambda>i r. r\<lparr>rcMetricInformer := i\<rparr>)"

definition onHealth :: "(k8sHealthInformer, 'a) go \<Rightarrow> (('k, 'b) reconciler, 'a) go" where
  "onHealth = zoom rcHealthInformer (\<lambda>i r. r\<lparr>rcHealthInformer := i\<rparr>)"

definition onRemote :: "('b, 'a) go \<Rightarrow> (('k, 'b) reconciler, 'a) go" where
  "onRemote = zoom rcRemote (\<lambda>b r. r\<lparr>rcRemote := b\<rparr>)"

abbreviation clusterOf :: "('k, 'b) reconciler \<Rightarrow> 'k" where
  "clusterOf r \<equiv> cfCluster (rcConfigurer r)"

definition offloadEnv :: "('k, 'b) reconcile_env \<Rightarrow> 'k \<Rightarrow> offload_env" where
  "offloadEnv env k = \<lparr>oeServiceGet = kServiceGet (reKube env) k, oeSend = reSend env\<rparr>"

definition onOffloader ::
  "('k, 'b) reconcile_env \<Rightarrow> (offload_env \<Rightarrow> (offloader, 'a) go) \<Rightarrow> (('k, 'b) reconciler, 'a) go" where
  "onOffloader env f =
     bindG (reads clusterOf) (\<lambda>k.
     zoom rcOffloader (\<lambda>d r. r\<lparr>rcOffloader := d\<rparr>) (f (offloadEnv env k)))"

definition workloadOf :: "('k, 'b) reconcile_env \<Rightarrow> 'k \<Rightarrow> workload_api" where
  "workloadOf env k =
     \<lparr>waServiceGet = kServiceGet (reKube env) k, waTemplateGet = reTemplateGet env k,
      waDecodeTemplate = reDecodeTemplate env\<rparr>"

definition forgetModel :: "string \<Rightarrow> ('k, 'b) reconciler \<Rightarrow> ('k, 'b) reconciler" where
  "forgetModel key r =
     r\<lparr>rcOngoingOffloadings := (rcOngoingOffloadings r)(key := None),
       rcModelState := (rcModelState r)(key := None),
       rcManagedModels := (rcManagedModels r)(key := None)\<rparr>"

definition storeOffloading :: "string \<Rightarrow> int \<Rightarrow> ('k, 'b) reconciler \<Rightarrow> ('k, 'b) reconciler" where
  "storeOffloading key p r = r\<lparr>rcOngoingOffloadings := (rcOngoingOffloadings r)(key \<mapsto> p)\<rparr>"

definition storeState :: "string \<Rightarrow> bool \<Rightarrow> ('k, 'b) reconciler \<Rightarrow> ('k, 'b) reconciler" where
  "storeState key b r = r\<lparr>rcModelState := (rcModelState r)(key \<mapsto> b)\<rparr>"

section \<open>Configuring and finalizing\<close>

text \<open>The model with the default remote backend where it names none.\<close>

definition withRemoteBackend ::
  "remote_backend option \<Rightarrow> offloading_config \<Rightarrow> model_deployment \<Rightarrow> model_deployment" where
  "withRemoteBackend def oc m =
     (if ofRemoteBackend oc = None
      then m\<lparr>mdSpec := (mdSpec m)\<lparr>spOffloadingConfig := Some (oc\<lparr>ofRemoteBackend := def\<rparr>)\<rparr>\<rparr> else m)"

definition remoteOf :: "model_deployment \<Rightarrow> remote_backend option" where
  "remoteOf m = (case spOffloadingConfig (mdSpec m) of None \<Rightarrow> None | Some oc \<Rightarrow> ofRemoteBackend oc)"

definition beamlitBackend :: "service_reference \<Rightarrow> service_reference" where
  "beamlitBackend ref = ref\<lparr>srRef := (srRef ref)\<lparr>orName := srName ref @ ''-beamlit''\<rparr>\<rparr>"

definition registrationFor :: "model_deployment \<Rightarrow> offloading_config \<Rightarrow> metric_registration" where
  "registrationFor m oc =
     \<lparr>mgMetrics = ofMetrics oc, mgResource = spModelSourceRef (mdSpec m),
      mgScrapeInterval = 5 * second, mgWindow = 5 * second\<rparr>"

text \<open>What \<open>configureOffloading\<close> takes down first, and what it then sets up.\<close>

definition takeDown ::
  "('k, 'b) reconcile_env \<Rightarrow> model_deployment \<Rightarrow> (('k, 'b) reconciler, unit) go" where
  "takeDown env m =
     seqG (onHealth (Health_Unregister (modelKey m)))
    (seqG (onMetrics (MetricInformer_Unregister (modelKey m)))
    (seqG (onConfigurer (Configurer_Unconfigure (reKube env) (reFin env) (reDrift env)
             (spServiceRef (mdSpec m))))
    (seqG (onOffloader env (\<lambda>oe. Offloader_Cleanup oe m))
          (writes (forgetModel (modelKey m))))))"

definition setUp ::
  "('k, 'b) reconcile_env \<Rightarrow> model_deployment \<Rightarrow> offloading_config
   \<Rightarrow> (('k, 'b) reconciler, model_deployment) go" where
  "setUp env m oc =
     bindG (reads (\<lambda>r. withRemoteBackend (rcDefaultRemoteBackend r) oc m)) (\<lambda>m'.
     seqG (onConfigurer (Configurer_Configure (reKube env) (spServiceRef (mdSpec m'))))
    (seqG (writes (storeOffloading (modelKey m) 0))
    (seqG (writes (storeState (modelKey m) True))
    (seqG (onMetrics (MetricInformer_Register (modelKey m) (registrationFor m' oc)))
    (seqG (onHealth (Health_Register (modelKey m) (spModelSourceRef (mdSpec m'))))
    (bindG (deref (spServiceRef (mdSpec m'))) (\<lambda>ref.
     seqG (onOffloader env (\<lambda>oe. Offloader_Configure oe m' (Some (beamlitBackend ref)) (remoteOf m') 0))
          (ret m'))))))))"

definition configureOffloading ::
  "('k, 'b) reconcile_env \<Rightarrow> model_deployment \<Rightarrow> (('k, 'b) reconciler, model_deployment) go" where
  "configureOffloading env m =
     seqG (takeDown env m)
       (case spOffloadingConfig (mdSpec m) of
          None \<Rightarrow> ret m
        | Some oc \<Rightarrow> if \<not> spEnabled (mdSpec m) then ret m else setUp env m oc)"

definition releaseClaim :: "model_deployment \<Rightarrow> ('k, 'b) reconciler \<Rightarrow> ('k, 'b) reconciler" where
  "releaseClaim m r = r\<lparr>rcBeamlitModels := (rcBeamlitModels r)(claimKey m := None)\<rparr>"

definition finalizeModel ::
  "('k, 'b) reconcile_env \<Rightarrow> model_deployment \<Rightarrow> (('k, 'b) reconciler, unit) go" where
  "finalizeModel env m =
     seqG (writes (releaseClaim m))
    (seqG (writes (forgetModel (modelKey m)))
     (case spOffloadingConfig (mdSpec m) of
        None \<Rightarrow> ret ()
      | Some _ \<Rightarrow>
          seqG (onMetrics (MetricInformer_Unregister (modelKey m)))
         (seqG (onHealth (Health_Unregister (modelKey m)))
         (seqG (onConfigurer (Configurer_Unconfigure (reKube env) (reFin env) (reDrift env)
                  (spServiceRef (mdSpec m))))
         (seqG (onOffloader env (\<lambda>oe. Offloader_Cleanup oe m))
               (onRemote (DeleteModelDeployment (reSdk env) (spModel (mdSpec m))
                  (spEnvironment (mdSpec m)))))))))"

section \<open>Reconciling\<close>

text \<open>The port that a pod serves behind a service reference, if there is one.\<close>

definition podPort ::
  "('k, 'b) reconcile_env \<Rightarrow> service_reference option \<Rightarrow> int \<Rightarrow> (('k, 'b) reconciler, int) go" where
  "podPort env ref current =
     (case ref of
        None \<Rightarrow> ret current
      | Some s \<Rightarrow>
          bindG (onConfigurer (readCluster (\<lambda>k. RetrievePodPort (workloadOf env k) s))) (\<lambda>p.
          ret (i32 p)))"

definition withPorts :: "int \<Rightarrow> int \<Rightarrow> model_deployment \<Rightarrow> model_deployment" where
  "withPorts servingPort metricPort m =
     m\<lparr>mdStatus := (mdStatus m)\<lparr>stServingPort := servingPort, stMetricPort := metricPort\<rparr>\<rparr>"

text \<open>The answer of Beamlit, copied into the status; a missing field is read through nil.\<close>

definition withAnswer ::
  "('k, 'b) reconcile_env \<Rightarrow> sdk_model \<Rightarrow> model_deployment \<Rightarrow> ('s, model_deployment) go" where
  "withAnswer env updated m =
     bindG (deref (sdMetadata updated)) (\<lambda>meta.
     bindG (deref (smWorkspace meta)) (\<lambda>ws.
     bindG (deref (smCreatedAt meta)) (\<lambda>created.
     bindG (answer (reParseTime env created)) (\<lambda>createdAt.
     bindG (deref (smUpdatedAt meta)) (\<lambda>updatedText.
     bindG (answer (reParseTime env updatedText)) (\<lambda>updatedAt.
     ret (m\<lparr>mdStatus := (mdStatus m)\<lparr>stWorkspace := ws, stCreatedAtOnBeamlit := createdAt,
            stUpdatedAtOnBeamlit := updatedAt\<rparr>\<rparr>)))))))"

definition claimedByOther :: "model_deployment \<Rightarrow> ('k, 'b) reconciler \<Rightarrow> bool" where
  "claimedByOther m r \<longleftrightarrow>
     (case rcBeamlitModels r (claimKey m) of None \<Rightarrow> False | Some owner \<Rightarrow> owner \<noteq> mdName m)"

definition upToDate :: "model_deployment \<Rightarrow> ('k, 'b) reconciler \<Rightarrow> bool" where
  "upToDate m r \<longleftrightarrow>
     (case rcManagedModels r (modelKey m) of
        None \<Rightarrow> False | Some v \<Rightarrow> mmLastGeneration v = mdGeneration m)"

definition claimModel :: "model_deployment \<Rightarrow> ('k, 'b) reconciler \<Rightarrow> ('k, 'b) reconciler" where
  "claimModel m r = r\<lparr>rcBeamlitModels := (rcBeamlitModels r)(claimKey m \<mapsto> mdName m)\<rparr>"

definition recordModel :: "model_deployment \<Rightarrow> ('k, 'b) reconciler \<Rightarrow> ('k, 'b) reconciler" where
  "recordModel m r = r\<lparr>rcManagedModels := (rcManagedModels r)(modelKey m \<mapsto>
     \<lparr>mmNamespace = mdNamespace m, mmName = mdName m, mmHealthy = True,
      mmLastGeneration = mdGeneration m\<rparr>)\<rparr>"

definition createOrUpdate ::
  "('k, 'b) reconcile_env \<Rightarrow> model_deployment \<Rightarrow> (('k, 'b) reconciler, unit) go" where
  "createOrUpdate env m =
     bindG (reads (\<lambda>r. claimedByOther m r \<or> upToDate m r)) (\<lambda>skip.
     if skip then ret ()
     else
       bindG (podPort env (spServiceRef (mdSpec m)) (stServingPort (mdStatus m))) (\<lambda>servingPort.
       bindG (podPort env (spMetricServiceRef (mdSpec m)) (stMetricPort (mdStatus m))) (\<lambda>metricPort.
       bindG (onConfigurer (readCluster (\<lambda>k. ToBeamlitModelDeployment (workloadOf env k)
                (withPorts servingPort metricPort m)))) (\<lambda>beamlitModel.
       seqG (writes (claimModel m))
      (bindG (onRemote (CreateOrUpdateModel (reSdk env) beamlitModel)) (\<lambda>updated.
       bindG (withAnswer env updated (withPorts servingPort metricPort m)) (\<lambda>m1.
       bindG (configureOffloading env m1) (\<lambda>m2.
       bindG (onConfigurer (writeCluster (reStatusUpdate env m2))) (\<lambda>m3.
       writes (recordModel m3))))))))))"

text \<open>The result says whether the request is to be put back in the queue.\<close>

definition reconcileLive ::
  "('k, 'b) reconcile_env \<Rightarrow> model_deployment \<Rightarrow> (('k, 'b) reconciler, bool) go" where
  "reconcileLive env m r =
     (case createOrUpdate env m r of
        (Ok _, r') \<Rightarrow> (Ok False, r')
      | (Err e, r') \<Rightarrow> if e = ConflictErr then (Ok True, r') else (Err e, forgetModel (modelKey m) r')
      | (Panic p, r') \<Rightarrow> (Panic p, r'))"

definition Reconcile ::
  "('k, 'b) reconcile_env \<Rightarrow> string \<times> string \<Rightarrow> (('k, 'b) reconciler, bool) go" where
  "Reconcile env req r =
     (case reGet env (clusterOf r) (fst req) (snd req) of
        Inl NotFoundErr \<Rightarrow> (Ok False, r)
      | Inl e \<Rightarrow> (Err e, r)
      | Inr m \<Rightarrow>
          if mdDeletionTimestamp m \<noteq> None then
            (if modelDeploymentFinalizer \<in> set (mdFinalizers m) then
               seqG (finalizeModel env m)
              (seqG (onConfigurer (writeCluster (reUpdate env
                       (m\<lparr>mdFinalizers := removeAll modelDeploymentFinalizer (mdFinalizers m)\<rparr>))))
                    (ret False)) r
             else (Ok False, r))
          else if modelDeploymentFinalizer \<notin> set (mdFinalizers m) then
            seqG (onConfigurer (writeCluster (reUpdate env
                    (m\<lparr>mdFinalizers := mdFinalizers m @ [modelDeploymentFinalizer]\<rparr>))))
                 (ret False) r
          else reconcileLive env m r)"

section \<open>The callbacks\<close>

definition notifyOnBeamlit ::
  "('k, 'b) reconcile_env \<Rightarrow> model_deployment \<Rightarrow> bool \<Rightarrow> (('k, 'b) reconciler, unit) go" where
  "notifyOnBeamlit env m offloading =
     onRemote (NotifyOnModelOffloading (reSdk env) (spModel (mdSpec m)) (spEnvironment (mdSpec m))
       offloading)"

definition percentageOf :: "model_deployment \<Rightarrow> ('s, int) go" where
  "percentageOf m =
     bindG (deref (spOffloadingConfig (mdSpec m))) (\<lambda>oc.
     bindG (deref (ofBehavior oc)) (\<lambda>b. ret (obPercentage b)))"

text \<open>Looking up the local service of a model and configuring the split at the gateway.\<close>

definition offloadTo ::
  "('k, 'b) reconcile_env \<Rightarrow> model_deployment \<Rightarrow> int \<Rightarrow> (('k, 'b) reconciler, unit) go" where
  "offloadTo env m p =
     bindG (onConfigurer (GetLocalBeamlitService (spServiceRef (mdSpec m)))) (\<lambda>localRef.
     bindG (deref (spOffloadingConfig (mdSpec m))) (\<lambda>oc.
     onOffloader env (\<lambda>oe. Offloader_Configure oe m (Some localRef) (ofRemoteBackend oc) p)))"

definition metricCallback ::
  "('k, 'b) reconcile_env \<Rightarrow> model_deployment \<Rightarrow> bool \<Rightarrow> (('k, 'b) reconciler, unit) go" where
  "metricCallback env m rch =
     bindG (reads (\<lambda>r. (rcModelState r (modelKey m), rcOngoingOffloadings r (modelKey m))))
       (\<lambda>(state, ongoing).
       if state = Some False then ret ()
       else case ongoing of
         None \<Rightarrow> ret ()
       | Some v \<Rightarrow>
           if \<not> rch then
             (if v \<noteq> 0 then
                seqG (writes (\<lambda>r. r\<lparr>rcOngoingOffloadings :=
                        (rcOngoingOffloadings r)(modelKey m := None)\<rparr>))
               (seqG (offloadTo env m 0)
                     (logged (notifyOnBeamlit env m False)))
              else ret ())
           else
             bindG (percentageOf m) (\<lambda>p.
               if v \<noteq> p then
                 seqG (offloadTo env m p)
                (seqG (writes (storeOffloading (modelKey m) p))
                      (logged (notifyOnBeamlit env m True)))
               else ret ()))"

definition healthCheckCallback ::
  "('k, 'b) reconcile_env \<Rightarrow> model_deployment \<Rightarrow> bool \<Rightarrow> (('k, 'b) reconciler, unit) go" where
  "healthCheckCallback env m healthy =
     (if \<not> healthy then
        seqG (offloadTo env m 100)
       (seqG (writes (storeOffloading (modelKey m) 100))
       (seqG (logged (notifyOnBeamlit env m True))
             (writes (storeState (modelKey m) False))))
      else
        bindG (reads (\<lambda>r. rcOngoingOffloadings r (modelKey m))) (\<lambda>ongoing.
          case ongoing of
            None \<Rightarrow> ret ()
          | Some v \<Rightarrow>
              bindG (percentageOf m) (\<lambda>p.
                if v = p then ret ()
                else seqG (offloadTo env m p)
                    (seqG (writes (storeOffloading (modelKey m) p))
                    (seqG (logged (notifyOnBeamlit env m True))
                          (writes (storeState (modelKey m) True)))))))"

section \<open>The informer loop\<close>

datatype informer_update = HealthUpdate healthStatus | MetricUpdate metricStatus

definition withDefault :: "model_deployment \<Rightarrow> (('k, 'b) reconciler, model_deployment) go" where
  "withDefault m =
     bindG (deref (spOffloadingConfig (mdSpec m))) (\<lambda>oc.
     reads (\<lambda>r. withRemoteBackend (rcDefaultRemoteBackend r) oc m))"

definition updatedModel :: "informer_update \<Rightarrow> string" where
  "updatedModel ev = (case ev of HealthUpdate hs \<Rightarrow> hsModelName hs | MetricUpdate ms \<Rightarrow> msModelName ms)"

text \<open>
  One turn of \<open>WatchForInformerUpdates\<close>: updates of models that are not managed are dropped, errors
  are logged.
\<close>

definition informerTurn ::
  "('k, 'b) reconcile_env \<Rightarrow> informer_update \<Rightarrow> (('k, 'b) reconciler, unit) go" where
  "informerTurn env ev r =
     (case rcManagedModels r (updatedModel ev) of
        None \<Rightarrow> (Ok (), r)
      | Some v \<Rightarrow>
          if (case ev of MetricUpdate _ \<Rightarrow> \<not> mmHealthy v | HealthUpdate _ \<Rightarrow> False) then (Ok (), r)
          else (case reGet env (clusterOf r) (mmNamespace v) (mmName v) of
             Inl e \<Rightarrow> (Ok (), r)
           | Inr m \<Rightarrow>
               bindG (withDefault m) (\<lambda>m'.
                 case ev of
                   HealthUpdate hs \<Rightarrow> logged (healthCheckCallback env m' (hsHealthy hs))
                 | MetricUpdate ms \<Rightarrow> logged (metricCallback env m' (msReached ms))) r))"

section \<open>Runs\<close>

definition newReconciler ::
  "proxy \<Rightarrow> 'k \<Rightarrow> metricInformer \<Rightarrow> remote_backend option \<Rightarrow> 'b \<Rightarrow> ('k, 'b) reconciler" where
  "newReconciler gw k i def b =
     \<lparr>rcOffloader = newBeamlitGatewayOffloader gw, rcConfigurer = newKubernetesConfigurer k,
      rcMetricInformer = i, rcHealthInformer = newK8SHealthInformer,
      rcOngoingOffloadings = Map.empty, rcModelState = Map.empty, rcManagedModels = Map.empty,
      rcBeamlitModels = Map.empty, rcDefaultRemoteBackend = def, rcRemote = b\<rparr>"

fun scheduleMetrics :: "metricInformer \<Rightarrow> metricInformer" where
  "scheduleMetrics (K8sInformer k) = K8sInformer (K8sMetric_schedule k)"
| "scheduleMetrics (PromInformer p) = PromInformer p"

text \<open>
  A step of the running controller: a request is reconciled, an update of an informer is handled,
  the configurer is told its gateway, the goroutines of the watchers get to run, or the cluster and
  the remote service change on their own. A panic ends the process: it has no step.
\<close>

inductive controller_step ::
  "('k, 'b) reconcile_env \<Rightarrow> ('k, 'b) reconciler \<Rightarrow> ('k, 'b) reconciler \<Rightarrow> bool" for env where
  reconcile: "Reconcile env req r = (res, r') \<Longrightarrow> \<not> is_panic res \<Longrightarrow> controller_step env r r'"
| informer: "informerTurn env ev r = (res, r') \<Longrightarrow> \<not> is_panic res \<Longrightarrow> controller_step env r r'"
| start: "onConfigurer (Configurer_Start gw) r = (res, r') \<Longrightarrow> controller_step env r r'"
| goroutines: "controller_step env r (r\<lparr>rcMetricInformer := scheduleMetrics (rcMetricInformer r),
     rcHealthInformer := Health_schedule (rcHealthInformer r)\<rparr>)"
| outside: "controller_step env r (r\<lparr>rcConfigurer := (rcConfigurer r)\<lparr>cfCluster := k\<rparr>, rcRemote := b\<rparr>)"

inductive_cases controller_stepE: "controller_step env r r'"

definition reachable ::
  "('k, 'b) reconcile_env \<Rightarrow> ('k, 'b) reconciler \<Rightarrow> ('k, 'b) reconciler \<Rightarrow> bool" where
  "reachable env = (controller_step env)\<^sup>*\<^sup>*"

end
