(* ===== verification/Model_Facts.thy ===== *)
theory Model_Facts
  imports Model_Controller Offloader_Facts Configurer_Facts
begin

text \<open>
  What the model deployment reconciler guarantees: which entries its handlers touch, that a model is
  reconciled once per generation, that a failure or a deletion leaves nothing behind, the
  invariants of the running controller; and where it fails.
\<close>

section \<open>Frames\<close>

text \<open>A predicate that does not look at a component is kept by the operations on it.\<close>

lemma keeps_zoom: "(\<And>r t. P r \<Longrightarrow> P (put t r)) \<Longrightarrow> keeps P (zoom get put m)"
  by (auto simp: keeps_def zoom_def split: prod.splits)

lemma keeps_onConfigurer: "(\<And>r c. P r \<Longrightarrow> P (r\<lparr>rcConfigurer := c\<rparr>)) \<Longrightarrow> keeps P (onConfigurer m)"
  unfolding onConfigurer_def by (rule keeps_zoom)

lemma keeps_onMetrics: "(\<And>r i. P r \<Longrightarrow> P (r\<lparr>rcMetricInformer := i\<rparr>)) \<Longrightarrow> keeps P (onMetrics m)"
  unfolding onMetrics_def by (rule keeps_zoom)

lemma keeps_onHealth: "(\<And>r i. P r \<Longrightarrow> P (r\<lparr>rcHealthInformer := i\<rparr>)) \<Longrightarrow> keeps P (onHealth m)"
  unfolding onHealth_def by (rule keeps_zoom)

lemma keeps_onRemote: "(\<And>r b. P r \<Longrightarrow> P (r\<lparr>rcRemote := b\<rparr>)) \<Longrightarrow> keeps P (onRemote m)"
  unfolding onRemote_def by (rule keeps_zoom)

lemma keeps_onOffloader: "(\<And>r d. P r \<Longrightarrow> P (r\<lparr>rcOffloader := d\<rparr>)) \<Longrightarrow> keeps P (onOffloader env f)"
  unfolding onOffloader_def by (intro keeps_bindG keeps_reads keeps_zoom)

text \<open>
  The predicates that look only at the reconciler's own maps: everything but the updates of the maps
  keeps them.
\<close>

definition own_maps :: "(('k, 'b) reconciler \<Rightarrow> bool) \<Rightarrow> bool" where
  "own_maps P \<longleftrightarrow> (\<forall>r. P r \<longrightarrow> (\<forall>c. P (r\<lparr>rcConfigurer := c\<rparr>)) \<and> (\<forall>i. P (r\<lparr>rcMetricInformer := i\<rparr>))
     \<and> (\<forall>i. P (r\<lparr>rcHealthInformer := i\<rparr>)) \<and> (\<forall>b. P (r\<lparr>rcRemote := b\<rparr>)) \<and> (\<forall>d. P (r\<lparr>rcOffloader := d\<rparr>)))"

lemma keeps_components:
  assumes "own_maps P"
  shows "keeps P (onConfigurer mc)" "keeps P (onMetrics mm)" "keeps P (onHealth mh)"
    "keeps P (onRemote mr)" "keeps P (onOffloader env f)" "keeps P (notifyOnBeamlit env m b)"
  using assms unfolding own_maps_def notifyOnBeamlit_def
  by (auto intro!: keeps_onConfigurer keeps_onMetrics keeps_onHealth keeps_onRemote keeps_onOffloader)

lemma keeps_offloadTo: "own_maps P \<Longrightarrow> keeps P (offloadTo env m p)"
  unfolding offloadTo_def by (intro keeps_intros keeps_components)

lemma keeps_podPort: "own_maps P \<Longrightarrow> keeps P (podPort env ref p)"
  by (cases ref) (auto simp: podPort_def intro!: keeps_intros keeps_components)

lemma keeps_percentageOf: "keeps P (percentageOf m)"
  unfolding percentageOf_def by (intro keeps_intros)

lemma keeps_withAnswer: "keeps P (withAnswer env updated m)"
  unfolding withAnswer_def by (intro keeps_intros)

lemma keeps_takeDown:
  assumes "own_maps P" and "\<And>r. P r \<Longrightarrow> P (forgetModel (modelKey m) r)"
  shows "keeps P (takeDown env m)"
  unfolding takeDown_def by (intro keeps_intros keeps_components keeps_writes assms)

lemma keeps_setUp:
  assumes "own_maps P" and "\<And>r. P r \<Longrightarrow> P (storeOffloading (modelKey m) 0 r)"
    and "\<And>r. P r \<Longrightarrow> P (storeState (modelKey m) True r)"
  shows "keeps P (setUp env m oc)"
  unfolding setUp_def by (intro keeps_intros keeps_components keeps_writes assms)

lemma keeps_configureOffloading:
  assumes "own_maps P" and "\<And>r. P r \<Longrightarrow> P (forgetModel (modelKey m) r)"
    and "\<And>r. P r \<Longrightarrow> P (storeOffloading (modelKey m) 0 r)"
    and "\<And>r. P r \<Longrightarrow> P (storeState (modelKey m) True r)"
  shows "keeps P (configureOffloading env m)"
  unfolding configureOffloading_def
  using keeps_takeDown [OF assms(1,2)] keeps_setUp [OF assms(1,3,4)]
  by (auto intro!: keeps_intros split: option.splits)

lemma modelKey_updates [simp]:
  "modelKey (withPorts a b m) = modelKey m"
  "modelKey (withRemoteBackend def oc m) = modelKey m"
  by (simp_all add: modelKey_def withPorts_def withRemoteBackend_def)

lemma withAnswer_Ok:
  assumes "withAnswer env updated m s = (Ok m1, s')"
  shows "modelKey m1 = modelKey m \<and> mdSpec m1 = mdSpec m \<and> mdGeneration m1 = mdGeneration m
    \<and> mdName m1 = mdName m \<and> s' = s"
  using assms by (auto simp: withAnswer_def go_simps modelKey_def)

text \<open>The model that \<open>configureOffloading\<close> hands back differs in the remote backend at most.\<close>

lemma configureOffloading_Ok:
  assumes "configureOffloading env m r = (Ok m', r')"
  shows "m' = m \<or> (\<exists>oc def. m' = withRemoteBackend def oc m)"
  using assms
  by (auto simp: configureOffloading_def setUp_def go_simps split: option.splits if_splits)

section \<open>Invariants of the running controller\<close>

text \<open>
  A model that is marked unhealthy is recorded as fully offloaded; recorded percentages are
  percentages; managed models are filed under their own key and flagged healthy.
\<close>

definition controller_inv :: "('k, 'b) reconciler \<Rightarrow> bool" where
  "controller_inv r \<longleftrightarrow>
     (\<forall>key. rcModelState r key = Some False \<longrightarrow> rcOngoingOffloadings r key = Some 100)
     \<and> (\<forall>key p. rcOngoingOffloadings r key = Some p \<longrightarrow> 0 \<le> p \<and> p \<le> 100)
     \<and> (\<forall>key v. rcManagedModels r key = Some v \<longrightarrow>
          mmHealthy v \<and> key = slash_key (mmNamespace v) (mmName v))"

lemma own_maps_inv: "own_maps controller_inv" "own_maps (\<lambda>r. controller_inv r \<and> rcModelState r key \<noteq> Some False)"
  by (simp_all add: own_maps_def controller_inv_def)

lemma inv_updates:
  assumes "controller_inv r"
  shows "controller_inv (forgetModel key r)" and "controller_inv (claimModel m r)"
    and "controller_inv (releaseClaim m r)" and "controller_inv (recordModel m r)"
    and "rcModelState r key \<noteq> Some False \<Longrightarrow> 0 \<le> p \<Longrightarrow> p \<le> 100 \<Longrightarrow> controller_inv (storeOffloading key p r)"
    and "controller_inv (storeState key True r)"
    and "controller_inv (storeOffloading key 100 r)"
  using assms by (simp_all add: controller_inv_def forgetModel_def claimModel_def releaseClaim_def
      recordModel_def storeOffloading_def storeState_def modelKey_def)

text \<open>A sequence whose first part establishes what the second part needs.\<close>

lemma keeps_seqG_strong:
  assumes "keeps P m" and "\<And>s x t. P s \<Longrightarrow> m s = (Ok x, t) \<Longrightarrow> Q t" and "keeps Q k"
    and "\<And>s. Q s \<Longrightarrow> P s"
  shows "keeps P (seqG m k)"
proof (rule keepsI)
  fix s assume "P s"
  show "P (snd (seqG m k s))"
  proof (cases "fst (m s)")
    case (Ok x)
    then obtain t where m: "m s = (Ok x, t)" by (metis prod.collapse)
    with \<open>P s\<close> assms(2) have "Q t" by blast
    with assms(3,4) m show ?thesis by (simp add: seqG_def keepsD)
  qed (use \<open>P s\<close> assms(1) in \<open>auto simp: seqG_def bindG_def keeps_def split: prod.splits outcome.splits\<close>)
qed

lemma takeDown_forgets:
  assumes "takeDown env m r = (Ok (), r')"
  shows "rcModelState r' (modelKey m) = None" and "rcOngoingOffloadings r' (modelKey m) = None"
    and "rcManagedModels r' (modelKey m) = None"
  using assms by (auto simp: takeDown_def go_simps forgetModel_def)

lemma setUp_keeps_inv:
  "keeps (\<lambda>r. controller_inv r \<and> rcModelState r (modelKey m) \<noteq> Some False) (setUp env m oc)"
  by (rule keeps_setUp) (auto simp: own_maps_inv inv_updates,
      simp_all add: storeOffloading_def storeState_def)

lemma configureOffloading_keeps_inv: "keeps controller_inv (configureOffloading env m)"
  unfolding configureOffloading_def
proof (rule keeps_seqG_strong [where Q = "\<lambda>r. controller_inv r \<and> rcModelState r (modelKey m) \<noteq> Some False"])
  show keep: "keeps controller_inv (takeDown env m)"
    by (rule keeps_takeDown) (simp_all add: own_maps_inv inv_updates)
  show "controller_inv t \<and> rcModelState t (modelKey m) \<noteq> Some False"
    if "controller_inv s" "takeDown env m s = (Ok x, t)" for s x t
    using keepsD [OF keep that(1)] takeDown_forgets(1) [of env m s t] that(2) by simp
qed (auto intro!: keeps_intros setUp_keeps_inv split: option.splits)

lemma createOrUpdate_keeps_inv: "keeps controller_inv (createOrUpdate env m)"
  unfolding createOrUpdate_def
  by (intro keeps_intros keeps_podPort keeps_components keeps_withAnswer configureOffloading_keeps_inv
      keeps_writes own_maps_inv) (simp_all add: inv_updates)

lemma finalizeModel_keeps_inv: "keeps controller_inv (finalizeModel env m)"
  unfolding finalizeModel_def
  by (auto intro!: keeps_intros keeps_components keeps_writes own_maps_inv inv_updates
      split: option.splits)

lemma reconcileLive_eq:
  "snd (reconcileLive env m r) = (case createOrUpdate env m r of
     (Err e, r') \<Rightarrow> if e = ConflictErr then r' else forgetModel (modelKey m) r' | (_, r') \<Rightarrow> r')"
  by (auto simp: reconcileLive_def split: prod.splits outcome.splits)

lemma reconcileLive_keeps_inv: "keeps controller_inv (reconcileLive env m)"
proof (rule keepsI)
  fix r :: "('a, 'b) reconciler" assume "controller_inv r"
  from keepsD [OF createOrUpdate_keeps_inv this] have "controller_inv (snd (createOrUpdate env m r))" .
  then show "controller_inv (snd (reconcileLive env m r))"
    by (auto simp: reconcileLive_eq inv_updates split: prod.splits outcome.splits)
qed

lemma Reconcile_keeps_inv: "keeps controller_inv (Reconcile env req)"
proof (rule keepsI)
  fix r :: "('a, 'b) reconciler" assume inv: "controller_inv r"
  have deleted: "keeps controller_inv (seqG (finalizeModel env m) (seqG (onConfigurer f) (ret x)))"
    for m and x :: bool and f :: "('a configurer, model_deployment) go"
    by (intro keeps_intros keeps_components finalizeModel_keeps_inv own_maps_inv)
  have written: "keeps controller_inv (seqG (onConfigurer f) (ret x))"
    for x :: bool and f :: "('a configurer, model_deployment) go"
    by (intro keeps_intros keeps_components own_maps_inv)
  show "controller_inv (snd (Reconcile env req r))"
    using inv keepsD [OF reconcileLive_keeps_inv inv] keepsD [OF deleted inv] keepsD [OF written inv]
    by (simp add: Reconcile_def split: sum.splits go_error.splits)
qed

text \<open>The percentages that the schema of the resource admits.\<close>

definition valid_percentage :: "model_deployment \<Rightarrow> bool" where
  "valid_percentage m \<longleftrightarrow> (\<forall>oc b. spOffloadingConfig (mdSpec m) = Some oc \<and> ofBehavior oc = Some b
     \<longrightarrow> 0 \<le> obPercentage b \<and> obPercentage b \<le> 100)"

lemma percentageOf_Ok:
  assumes "valid_percentage m" and "percentageOf m s = (Ok p, s')"
  shows "s' = s" "0 \<le> p" "p \<le> 100"
  using assms by (auto simp: percentageOf_def go_simps valid_percentage_def)

lemma percentageOf_state: "snd (percentageOf m s) = s"
  using keepsD [OF keeps_percentageOf, of "\<lambda>x. x = s" s] by simp

text \<open>The operations of a callback that do not touch the maps.\<close>

lemma own_maps_state: "own_maps (\<lambda>r. rcModelState r = ms \<and> rcOngoingOffloadings r = oo \<and> rcManagedModels r = mm)"
  by (simp add: own_maps_def)

abbreviation same_maps :: "('k, 'b) reconciler \<Rightarrow> ('k, 'b) reconciler \<Rightarrow> bool" where
  "same_maps r r' \<equiv> rcModelState r' = rcModelState r \<and> rcOngoingOffloadings r' = rcOngoingOffloadings r
     \<and> rcManagedModels r' = rcManagedModels r"

lemma offloadTo_maps: "offloadTo env m p r = (res, r') \<Longrightarrow> same_maps r r'"
  using keepsD [OF keeps_offloadTo [OF own_maps_state], of r _ _ _ env m p] by (metis snd_conv)

lemma notify_maps: "logged (notifyOnBeamlit env m b) r = (res, r') \<Longrightarrow> same_maps r r'"
  using keepsD [OF keeps_logged [OF keeps_components(6) [OF own_maps_state]], of r _ _ _ env m b]
  by (metis snd_conv)

lemma inv_same_maps: "controller_inv r \<Longrightarrow> same_maps r r' \<Longrightarrow> controller_inv r'"
  by (simp add: controller_inv_def)

lemma percentageOf_cases:
  assumes "valid_percentage m"
  shows "(\<exists>p. (percentageOf m :: ('s, int) go) = ret p \<and> 0 \<le> p \<and> p \<le> 100)
    \<or> (percentageOf m :: ('s, int) go) = panic NilDeref"
proof (cases "spOffloadingConfig (mdSpec m)")
  case None
  then show ?thesis by (simp add: percentageOf_def fun_eq_iff panic_def)
next
  case (Some oc)
  then show ?thesis using assms
    by (cases "ofBehavior oc") (auto simp: percentageOf_def fun_eq_iff panic_def valid_percentage_def)
qed

lemma metricCallback_keeps_inv:
  assumes "valid_percentage m"
  shows "keeps controller_inv (metricCallback env m rch)"
proof (rule keepsI)
  fix r :: "('a, 'b) reconciler" assume inv: "controller_inv r"
  let ?Q = "\<lambda>r. controller_inv r \<and> rcModelState r (modelKey m) \<noteq> Some False"
  have drop: "keeps ?Q (writes (\<lambda>r. r\<lparr>rcOngoingOffloadings := (rcOngoingOffloadings r)(modelKey m := None)\<rparr>))"
    by (rule keeps_writes) (auto simp: controller_inv_def)
  have store: "keeps ?Q (writes (storeOffloading (modelKey m) p))" if "0 \<le> p" "p \<le> 100" for p
    using that by (intro keeps_writes) (simp add: inv_updates, simp add: storeOffloading_def)
  note own = own_maps_inv(2) [of "modelKey m"]
  have home: "keeps ?Q (seqG (writes (\<lambda>r. r\<lparr>rcOngoingOffloadings := (rcOngoingOffloadings r)(modelKey m := None)\<rparr>))
      (seqG (offloadTo env m 0) (logged (notifyOnBeamlit env m False))))"
    by (intro keeps_intros drop keeps_offloadTo keeps_components own)
  have away: "keeps ?Q (seqG (offloadTo env m p) (seqG (writes (storeOffloading (modelKey m) p))
      (logged (notifyOnBeamlit env m True))))" if "0 \<le> p" "p \<le> 100" for p
    by (intro keeps_intros store that keeps_offloadTo keeps_components own)
  show "controller_inv (snd (metricCallback env m rch r))"
  proof (cases "rcModelState r (modelKey m) = Some False \<or> rcOngoingOffloadings r (modelKey m) = None")
    case True
    with inv show ?thesis by (auto simp: metricCallback_def ret_def)
  next
    case False
    then have "?Q r" using inv by simp
    with keepsD [OF home this] keepsD [OF away this] False
      percentageOf_cases [OF assms, where 's = "('a, 'b) reconciler"] show ?thesis
      by (auto simp: metricCallback_def ret_def panic_def)
  qed
qed

lemma healthCheckCallback_inv:
  fixes r :: "('k, 'b) reconciler"
  assumes "valid_percentage m" and "controller_inv r" and "healthCheckCallback env m healthy r = (Ok (), r')"
  shows "controller_inv r'"
proof (cases healthy)
  case False
  with assms(3) obtain r1 r2 where "offloadTo env m 100 r = (Ok (), r1)"
    and "logged (notifyOnBeamlit env m True) (storeOffloading (modelKey m) 100 r1) = (Ok (), r2)"
    and r': "r' = storeState (modelKey m) False r2"
    by (auto simp: healthCheckCallback_def seqG_Ok_iff writes_def)
  then have "same_maps r r1" and "same_maps (storeOffloading (modelKey m) 100 r1) r2"
    using offloadTo_maps notify_maps by blast+
  with assms(2) show ?thesis
    by (simp add: r' controller_inv_def storeState_def storeOffloading_def)
next
  case True
  show ?thesis
  proof (cases "rcOngoingOffloadings r (modelKey m)")
    case None
    with assms(2,3) True show ?thesis by (simp add: healthCheckCallback_def ret_def)
  next
    case (Some v)
    consider (1) p where "(percentageOf m :: (('k, 'b) reconciler, int) go) = ret p" "0 \<le> p" "p \<le> 100"
      | (2) "(percentageOf m :: (('k, 'b) reconciler, int) go) = panic NilDeref"
      using percentageOf_cases [OF assms(1)] by blast
    then show ?thesis
    proof cases
      case (1 p)
      show ?thesis
      proof (cases "v = p")
        case True
        with \<open>healthy\<close> Some 1 assms(2,3) show ?thesis by (simp add: healthCheckCallback_def ret_def)
      next
        case False
        with \<open>healthy\<close> Some 1 assms(3) obtain r1 r2 where "offloadTo env m p r = (Ok (), r1)"
          and "logged (notifyOnBeamlit env m True) (storeOffloading (modelKey m) p r1) = (Ok (), r2)"
          and r': "r' = storeState (modelKey m) True r2"
          by (auto simp: healthCheckCallback_def seqG_Ok_iff writes_def)
        then have "same_maps r r1" and "same_maps (storeOffloading (modelKey m) p r1) r2"
          using offloadTo_maps notify_maps by blast+
        with assms(2) 1 show ?thesis
          by (simp add: r' controller_inv_def storeState_def storeOffloading_def)
      qed
    next
      case 2
      with \<open>healthy\<close> Some assms(3) show ?thesis by (simp add: healthCheckCallback_def panic_def)
    qed
  qed
qed

lemma withDefault_Ok:
  "withDefault m r = (Ok m', r') \<longleftrightarrow> (\<exists>oc. spOffloadingConfig (mdSpec m) = Some oc
     \<and> m' = withRemoteBackend (rcDefaultRemoteBackend r) oc m) \<and> r' = r"
  by (auto simp: withDefault_def go_simps)

lemma withRemoteBackend_sel [simp]:
  "mdName (withRemoteBackend def oc m) = mdName m" "mdNamespace (withRemoteBackend def oc m) = mdNamespace m"
  "spServiceRef (mdSpec (withRemoteBackend def oc m)) = spServiceRef (mdSpec m)"
  "spModel (mdSpec (withRemoteBackend def oc m)) = spModel (mdSpec m)"
  "mdGeneration (withRemoteBackend def oc m) = mdGeneration m"
  "mdStatus (withRemoteBackend def oc m) = mdStatus m"
  by (simp_all add: withRemoteBackend_def)

lemma valid_percentage_default:
  "spOffloadingConfig (mdSpec m) = Some oc \<Longrightarrow> valid_percentage (withRemoteBackend def oc m) = valid_percentage m"
  by (auto simp: valid_percentage_def withRemoteBackend_def)

text \<open>The handler that an update reaches.\<close>

definition callback ::
  "('k, 'b) reconcile_env \<Rightarrow> informer_update \<Rightarrow> model_deployment \<Rightarrow> (('k, 'b) reconciler, unit) go" where
  "callback env ev m = (case ev of
     HealthUpdate hs \<Rightarrow> healthCheckCallback env m (hsHealthy hs)
   | MetricUpdate ms \<Rightarrow> metricCallback env m (msReached ms))"

lemma informerTurn_eq:
  assumes "rcManagedModels r (updatedModel ev) = Some v" and "mmHealthy v"
    and "reGet env (clusterOf r) (mmNamespace v) (mmName v) = Inr m"
    and "spOffloadingConfig (mdSpec m) = Some oc"
  shows "informerTurn env ev r
    = logged (callback env ev (withRemoteBackend (rcDefaultRemoteBackend r) oc m)) r"
  using assms by (cases ev) (simp_all add: informerTurn_def withDefault_def callback_def)

lemma informerTurn_idle:
  assumes "rcManagedModels r (updatedModel ev) = None \<or> (\<exists>v e. rcManagedModels r (updatedModel ev) = Some v
      \<and> reGet env (clusterOf r) (mmNamespace v) (mmName v) = Inl e)"
  shows "informerTurn env ev r = (Ok (), r)"
  using assms by (cases ev) (auto simp: informerTurn_def)

lemma callback_not_panic_inv:
  assumes "valid_percentage m" and "controller_inv r" and "callback env ev m r = (res, r')"
    and "\<not> is_panic res"
  shows "controller_inv r'"
proof (cases ev)
  case (MetricUpdate ms)
  with keepsD [OF metricCallback_keeps_inv [OF assms(1)] assms(2)] assms(3) show ?thesis
    by (metis callback_def informer_update.simps(6) snd_conv)
next
  case (HealthUpdate hs)
  with assms(3) have run: "healthCheckCallback env m (hsHealthy hs) r = (res, r')" by (simp add: callback_def)
  show ?thesis
  proof (cases res)
    case (Ok x)
    with run healthCheckCallback_inv [OF assms(1,2)] show ?thesis by simp
  next
    case (Err e)
    have "same_maps r r'"
      using run Err by (auto simp: healthCheckCallback_def seqG_def bindG_def writes_def logged_def
          ret_def percentageOf_def deref_def panic_def reads_def dest!: offloadTo_maps
          split: if_splits option.splits prod.splits outcome.splits)
    with assms(2) show ?thesis by (rule inv_same_maps)
  qed (use assms(4) in simp)
qed

lemma informerTurn_inv:
  assumes "\<forall>k ns n m. reGet env k ns n = Inr m \<longrightarrow> valid_percentage m" and "controller_inv r"
    and "informerTurn env ev r = (res, r')" and "\<not> is_panic res"
  shows "controller_inv r'"
proof (cases "rcManagedModels r (updatedModel ev)")
  case None
  with assms(2,3) show ?thesis by (simp add: informerTurn_idle)
next
  case (Some v)
  then have "mmHealthy v" using assms(2) by (simp add: controller_inv_def)
  show ?thesis
  proof (cases "reGet env (clusterOf r) (mmNamespace v) (mmName v)")
    case (Inl e)
    with Some assms(2,3) show ?thesis by (simp add: informerTurn_idle)
  next
    case (Inr m)
    show ?thesis
    proof (cases "spOffloadingConfig (mdSpec m)")
      case None
      with Some Inr \<open>mmHealthy v\<close> assms(3,4) show ?thesis
        by (cases ev) (auto simp: informerTurn_def withDefault_def panic_def)
    next
      case (Some oc)
      let ?m = "withRemoteBackend (rcDefaultRemoteBackend r) oc m"
      have "valid_percentage ?m" using assms(1) Inr Some by (simp add: valid_percentage_default)
      obtain res0 where run: "callback env ev ?m r = (res0, r')" and "\<not> is_panic res0"
        using assms(3,4) informerTurn_eq [OF \<open>rcManagedModels r _ = Some v\<close> \<open>mmHealthy v\<close> Inr Some]
        by (auto simp: logged_def split: prod.splits outcome.splits)
      with callback_not_panic_inv [OF \<open>valid_percentage ?m\<close> assms(2)] show ?thesis by blast
    qed
  qed
qed

lemma step_keeps_inv:
  assumes "\<forall>k ns n m. reGet env k ns n = Inr m \<longrightarrow> valid_percentage m"
    and "controller_step env r r'" and "controller_inv r"
  shows "controller_inv r'"
  using assms(2)
proof cases
  case (reconcile req res)
  with keepsD [OF Reconcile_keeps_inv assms(3)] show ?thesis by (metis snd_conv)
next
  case (informer ev res)
  with informerTurn_inv [OF assms(1,3)] show ?thesis by blast
qed (use assms(3) in \<open>auto simp: controller_inv_def onConfigurer_def zoom_def split: prod.splits\<close>)

lemma reachable_inv:
  assumes "\<forall>k ns n m. reGet env k ns n = Inr m \<longrightarrow> valid_percentage m"
    and "reachable env (newReconciler gw k0 i def b0) r"
  shows "controller_inv r"
  using assms(2) unfolding reachable_def
  by induction (auto simp: step_keeps_inv [OF assms(1)], simp add: controller_inv_def newReconciler_def)

section \<open>Moving traffic\<close>

text \<open>
  The state of affairs in which a callback can reach the gateway: the configurer manages the
  service of the model, the cluster has it, and the model names a remote backend.
\<close>

definition gateway_ready ::
  "('k, 'b) reconcile_env \<Rightarrow> yaml_codec \<Rightarrow> model_deployment \<Rightarrow> ('k, 'b) reconciler \<Rightarrow> service_reference
   \<Rightarrow> service \<Rightarrow> ns_name \<Rightarrow> remote_backend \<Rightarrow> bool" where
  "gateway_ready env y m r ref s bl rb \<longleftrightarrow>
     reSend env = serveAPI y \<and> spServiceRef (mdSpec m) = Some ref
     \<and> cfBeamlitServices (rcConfigurer r) (keyOf ref) = Some bl
     \<and> kServiceGet (reKube env) (clusterOf r) (srNamespace ref) (srName ref) = Inr s
     \<and> plain_name (mdName m) \<and> remoteOf m = Some rb \<and> distinct (map fst (rbHeadersToAdd rb))
     \<and> remote_auth_ok rb"

definition localRefOf :: "service_reference \<Rightarrow> ns_name \<Rightarrow> service_reference" where
  "localRefOf ref bl =
     \<lparr>srRef = \<lparr>orAPIVersion = [], orKind = [], orNamespace = fst bl, orName = snd bl\<rparr>,
      srTargetPort = srTargetPort ref\<rparr>"

lemma offloadTo_eq:
  assumes "gateway_ready env y m r ref s bl rb" and "0 \<le> w" and "w \<le> 100"
  shows "\<exists>ws d'. offloadTo env m w r = (Ok (), r\<lparr>rcOffloader := d'\<rparr>)
    \<and> gateway d' = snd (RegisterRoute (routeOf ws m s (localRefOf ref bl) rb w) (gateway (rcOffloader r)))"
proof -
  obtain oc where oc: "spOffloadingConfig (mdSpec m) = Some oc" "ofRemoteBackend oc = Some rb"
    using assms(1) by (auto simp: gateway_ready_def remoteOf_def split: option.splits)
  have "GetLocalBeamlitService (Some ref) (rcConfigurer r) = (Ok (localRefOf ref bl), rcConfigurer r)"
    using assms(1) by (simp add: GetLocalBeamlitService_def gateway_ready_def localRefOf_def ret_def
        split: prod.splits)
  then have "offloadTo env m w r = zoom rcOffloader (\<lambda>d r. r\<lparr>rcOffloader := d\<rparr>)
      (Offloader_Configure (offloadEnv env (clusterOf r)) m (Some (localRefOf ref bl)) (Some rb) w) r"
    using assms(1) oc
    by (simp add: offloadTo_def onConfigurer_def zoom_def onOffloader_def gateway_ready_def bindG_def
        reads_def ret_def)
  moreover
  let ?ws = "workspace (rememberWorkspace m (rcOffloader r))"
  let ?d = "(rememberWorkspace m (rcOffloader r))\<lparr>
         managedRoutes := (managedRoutes (rcOffloader r))(mdName m \<mapsto> True),
         gateway := snd (RegisterRoute (routeOf ?ws m s (localRefOf ref bl) rb w) (gateway (rcOffloader r)))\<rparr>"
  have "Offloader_Configure (offloadEnv env (clusterOf r)) m (Some (localRefOf ref bl)) (Some rb) w
      (rcOffloader r) = (Ok (), ?d)"
    using assms by (intro Configure_eq) (auto simp: gateway_ready_def offloadEnv_def)
  ultimately have "offloadTo env m w r = (Ok (), r\<lparr>rcOffloader := ?d\<rparr>)" by (simp add: zoom_def)
  then show ?thesis by (intro exI [of _ ?ws] exI [of _ ?d]) simp
qed

text \<open>What a callback does, once it acts: the share it asks for, and the record it leaves.\<close>

definition acts :: "informer_update \<Rightarrow> int \<Rightarrow> bool option \<Rightarrow> int option \<Rightarrow> bool" where
  "acts ev p state ongoing \<longleftrightarrow> (case ev of
     HealthUpdate hs \<Rightarrow> \<not> hsHealthy hs \<or> (ongoing \<noteq> None \<and> ongoing \<noteq> Some p)
   | MetricUpdate ms \<Rightarrow> state \<noteq> Some False \<and> ongoing \<noteq> None
       \<and> ongoing \<noteq> Some (if msReached ms then p else 0))"

definition targetShare :: "informer_update \<Rightarrow> int \<Rightarrow> int" where
  "targetShare ev p = (case ev of
     HealthUpdate hs \<Rightarrow> if hsHealthy hs then p else 100
   | MetricUpdate ms \<Rightarrow> if msReached ms then p else 0)"

definition recordedShare :: "informer_update \<Rightarrow> int \<Rightarrow> int option" where
  "recordedShare ev p = (case ev of
     HealthUpdate hs \<Rightarrow> Some (if hsHealthy hs then p else 100)
   | MetricUpdate ms \<Rightarrow> if msReached ms then Some p else None)"

lemma percentageOf_eq:
  "spOffloadingConfig (mdSpec m) = Some oc \<Longrightarrow> ofBehavior oc = Some b \<Longrightarrow> percentageOf m = ret (obPercentage b)"
  by (simp add: percentageOf_def)

lemma gateway_ready_drop [simp]:
  "gateway_ready env y m (r\<lparr>rcOngoingOffloadings := oo\<rparr>) ref s bl rb = gateway_ready env y m r ref s bl rb"
  by (simp add: gateway_ready_def)

text \<open>After the gateway was reached, nothing in a callback changes it again.\<close>

lemma after_offload:
  assumes "offloadTo env m w r = (Ok (), r1)"
    and "keeps (\<lambda>x. rcOffloader x = rcOffloader r1 \<and> rcOngoingOffloadings x key = rcOngoingOffloadings r2 key) k"
    and "r2 = f r1" and "rcOffloader r2 = rcOffloader r1"
  shows "rcOffloader (snd (seqG (offloadTo env m w) (seqG (writes f) k) r)) = rcOffloader r1
    \<and> rcOngoingOffloadings (snd (seqG (offloadTo env m w) (seqG (writes f) k) r)) key
      = rcOngoingOffloadings r2 key"
  using assms keepsD [OF assms(2), of r2] by (simp add: seqG_def)

lemma keeps_tail:
  "keeps (\<lambda>x. rcOffloader x = d \<and> rcOngoingOffloadings x key = v) (logged (notifyOnBeamlit env m b))"
  "keeps (\<lambda>x. rcOffloader x = d \<and> rcOngoingOffloadings x key = v)
     (seqG (logged (notifyOnBeamlit env m b)) (writes (storeState key' st)))"
  unfolding notifyOnBeamlit_def
  by (intro keeps_intros keeps_onRemote keeps_writes; simp add: storeState_def)+

lemma callback_moves:
  fixes r :: "('k, 'b) reconciler"
  assumes ready: "gateway_ready env y m r ref s bl rb"
    and oc: "spOffloadingConfig (mdSpec m) = Some oc" "ofBehavior oc = Some b" "obPercentage b = p"
    and p: "0 \<le> p" "p \<le> 100"
    and acts: "acts ev p (rcModelState r (modelKey m)) (rcOngoingOffloadings r (modelKey m))"
  defines "r' \<equiv> snd (callback env ev m r)"
  shows "\<exists>ws. gateway (rcOffloader r') = snd (RegisterRoute
      (routeOf ws m s (localRefOf ref bl) rb (targetShare ev p)) (gateway (rcOffloader r)))
    \<and> rcOngoingOffloadings r' (modelKey m) = recordedShare ev p"
proof -
  have percent: "(percentageOf m :: (('k, 'b) reconciler, int) go) = ret p"
    using percentageOf_eq [OF oc(1,2)] oc(3) by simp
  have share: "0 \<le> targetShare ev p" "targetShare ev p \<le> 100"
    using p by (auto simp: targetShare_def split: informer_update.splits)
  show ?thesis
  proof (cases "\<exists>ms. ev = MetricUpdate ms \<and> \<not> msReached ms")
    case True
    then obtain ms where ev: "ev = MetricUpdate ms" "\<not> msReached ms" by blast
    let ?r0 = "r\<lparr>rcOngoingOffloadings := (rcOngoingOffloadings r)(modelKey m := None)\<rparr>"
    obtain ws d where off: "offloadTo env m 0 ?r0 = (Ok (), ?r0\<lparr>rcOffloader := d\<rparr>)"
      and d: "gateway d = snd (RegisterRoute (routeOf ws m s (localRefOf ref bl) rb 0) (gateway (rcOffloader r)))"
      using offloadTo_eq [of env y m ?r0 ref s bl rb 0] ready by auto
    have "r' = snd (logged (notifyOnBeamlit env m False) (?r0\<lparr>rcOffloader := d\<rparr>))"
      using acts ev off
      by (auto simp: r'_def callback_def metricCallback_def acts_def seqG_def split: option.splits)
    with keepsD [OF keeps_tail(1) [of d "modelKey m" None env m False], of "?r0\<lparr>rcOffloader := d\<rparr>"] d ev
    show ?thesis by (auto simp: targetShare_def recordedShare_def)
  next
    case False
    let ?w = "targetShare ev p"
    obtain ws d where off: "offloadTo env m ?w r = (Ok (), r\<lparr>rcOffloader := d\<rparr>)"
      and d: "gateway d = snd (RegisterRoute (routeOf ws m s (localRefOf ref bl) rb ?w) (gateway (rcOffloader r)))"
      using offloadTo_eq [OF ready share] by blast
    let ?r2 = "storeOffloading (modelKey m) ?w (r\<lparr>rcOffloader := d\<rparr>)"
    have "\<exists>k :: (('k, 'b) reconciler, unit) go.
        r' = snd (seqG (offloadTo env m ?w) (seqG (writes (storeOffloading (modelKey m) ?w)) k) r)
      \<and> keeps (\<lambda>x. rcOffloader x = d \<and> rcOngoingOffloadings x (modelKey m) = Some ?w) k"
    proof (cases ev)
      case (MetricUpdate ms)
      with False acts percent show ?thesis
        by (intro exI [of _ "logged (notifyOnBeamlit env m True)"] conjI keeps_tail)
          (auto simp: r'_def callback_def metricCallback_def acts_def targetShare_def split: option.splits)
    next
      case (HealthUpdate hs)
      with acts percent show ?thesis
        by (intro exI [of _ "seqG (logged (notifyOnBeamlit env m True))
              (writes (storeState (modelKey m) (hsHealthy hs)))"] conjI keeps_tail)
          (auto simp: r'_def callback_def healthCheckCallback_def acts_def targetShare_def split: option.splits)
    qed
    then obtain k :: "(('k, 'b) reconciler, unit) go" where
        r': "r' = snd (seqG (offloadTo env m ?w) (seqG (writes (storeOffloading (modelKey m) ?w)) k) r)"
      and keep: "keeps (\<lambda>x. rcOffloader x = d \<and> rcOngoingOffloadings x (modelKey m) = Some ?w) k" by blast
    have "recordedShare ev p = Some ?w"
      using False by (auto simp: recordedShare_def targetShare_def split: informer_update.splits)
    moreover have "rcOffloader r' = d \<and> rcOngoingOffloadings r' (modelKey m) = Some ?w"
      using r' after_offload [OF off, where ?r2.0 = ?r2 and k = k and f = "storeOffloading (modelKey m) ?w"
          and key = "modelKey m"] keep by (simp add: storeOffloading_def)
    ultimately show ?thesis using d by auto
  qed
qed

section \<open>What a reconciliation touches\<close>

lemma keeps_bindG_result:
  assumes "keeps P m" and "\<And>s x t. m s = (Ok x, t) \<Longrightarrow> keeps P (k x)"
  shows "keeps P (bindG m k)"
proof (rule keepsI)
  fix s assume "P s"
  with assms(1) have "P (snd (m s))" by (rule keepsD)
  then show "P (snd (bindG m k s))"
    using assms(2) [of s] by (auto simp: bindG_def keeps_def split: prod.splits outcome.splits)
qed

lemma keeps_createOrUpdate:
  assumes "own_maps P" and "\<And>r. P r \<Longrightarrow> P (forgetModel (modelKey m) r)"
    and "\<And>r. P r \<Longrightarrow> P (storeOffloading (modelKey m) 0 r)" and "\<And>r. P r \<Longrightarrow> P (storeState (modelKey m) True r)"
    and "\<And>r. P r \<Longrightarrow> P (claimModel m r)" and "\<And>r m3. P r \<Longrightarrow> P (recordModel m3 r)"
  shows "keeps P (createOrUpdate env m)"
proof -
  have configure: "keeps P (configureOffloading env m1)"
    if "withAnswer env updated (withPorts a b m) s = (Ok m1, t)" for updated a b m1 and s t :: "('a, 'b) reconciler"
  proof -
    from withAnswer_Ok [OF that] have "modelKey m1 = modelKey m" by simp
    with assms(1-4) show ?thesis by (intro keeps_configureOffloading) simp_all
  qed
  have last: "keeps P (bindG (configureOffloading env m1) (\<lambda>m2.
      bindG (onConfigurer (writeCluster (reStatusUpdate env m2))) (\<lambda>m3. writes (recordModel m3))))"
    if "withAnswer env updated (withPorts a b m) s = (Ok m1, t)" for updated a b m1 and s t :: "('a, 'b) reconciler"
    by (intro keeps_intros keeps_components keeps_writes configure [OF that] assms(1,6))
  show ?thesis
    unfolding createOrUpdate_def
    by (intro keeps_intros keeps_podPort keeps_components keeps_writes assms(1,5)
        keeps_bindG_result [OF keeps_withAnswer] last)
qed

lemma createOrUpdate_Ok:
  assumes "createOrUpdate env m r = (Ok (), r')"
  shows "(claimedByOther m r \<or> upToDate m r) \<and> r' = r
    \<or> (\<exists>m2 m3 k k' r1. reStatusUpdate env m2 k = (Inr m3, k') \<and> r' = recordModel m3 r1
        \<and> mdNamespace m2 = mdNamespace m \<and> mdName m2 = mdName m \<and> mdGeneration m2 = mdGeneration m)"
proof (cases "claimedByOther m r \<or> upToDate m r")
  case True
  with assms show ?thesis by (simp add: createOrUpdate_def ret_def)
next
  case False
  then obtain sp mp bm updated m1 m2 m3 r0 r1 r2 r3 where
      answer: "withAnswer env updated (withPorts sp mp m) r0 = (Ok m1, r1)"
    and configure: "configureOffloading env m1 r1 = (Ok m2, r2)"
    and status: "onConfigurer (writeCluster (reStatusUpdate env m2)) r2 = (Ok m3, r3)"
    and r': "r' = recordModel m3 r3"
    using assms by (auto simp: createOrUpdate_def bindG_Ok_iff seqG_Ok_iff writes_def)
  obtain k k' where "reStatusUpdate env m2 k = (Inr m3, k')"
    using status by (auto simp: onConfigurer_def zoom_Ok_iff writeCluster_Ok_iff)
  moreover have "mdNamespace m1 = mdNamespace m" "mdName m1 = mdName m" "mdGeneration m1 = mdGeneration m"
    using answer by (auto simp: withAnswer_def go_simps withPorts_def)
  moreover have "mdNamespace m2 = mdNamespace m1" "mdName m2 = mdName m1" "mdGeneration m2 = mdGeneration m1"
    using configureOffloading_Ok [OF configure] by auto
  ultimately show ?thesis using r' by metis
qed

lemma upToDate_recordModel:
  "mdNamespace m3 = mdNamespace m \<Longrightarrow> mdName m3 = mdName m \<Longrightarrow> mdGeneration m3 = mdGeneration m
   \<Longrightarrow> upToDate m (recordModel m3 r)"
  by (simp add: upToDate_def recordModel_def modelKey_def)

section \<open>Unregistering\<close>

fun MetricInformer_watched :: "metricInformer \<Rightarrow> string \<rightharpoonup> metric_registration" where
  "MetricInformer_watched (K8sInformer k) = K8sMetric_watched k"
| "MetricInformer_watched (PromInformer p) = Prom_watched p"

lemma Health_Unregister_Ok:
  "Health_Unregister key i = (Ok (), i') \<Longrightarrow> Health_watched i' key = None"
  by (cases "map_of (hiWatchers i) key")
    (auto simp: Health_Unregister_def Health_watched_def go_simps delete_conv')

lemma MetricInformer_Unregister_Ok:
  assumes "MetricInformer_Unregister key i = (Ok (), i')"
    and "\<forall>p. i = PromInformer p \<longrightarrow> Prom_wf p"
  shows "MetricInformer_watched i' key = None"
proof (cases i)
  case (K8sInformer k)
  with assms(1) obtain k' where "K8sMetric_Unregister key k = (Ok (), k')" "i' = K8sInformer k'"
    by (auto split: prod.splits)
  then show ?thesis
    by (cases "map_of (kiWatchers k) key")
      (auto simp: K8sMetric_Unregister_def K8sMetric_watched_def go_simps delete_conv')
next
  case (PromInformer p)
  with prom.unregister_forgets [of p key] assms show ?thesis by (auto simp: split: prod.splits)
qed

lemma MetricInformer_Register_Ok:
  assumes "MetricInformer_Register key g i = (Ok (), i')"
    and "\<forall>p. i = PromInformer p \<longrightarrow> Prom_wf p"
  shows "MetricInformer_watched i' key = Some g"
proof (cases i)
  case (K8sInformer k)
  with assms(1) obtain k' where "K8sMetric_Register key g k = (Ok (), k')" "i' = K8sInformer k'"
    by (auto split: prod.splits)
  then show ?thesis
    by (auto simp: K8sMetric_Register_def K8sMetric_watched_def go_simps update_conv')
next
  case (PromInformer p)
  with prom.register_watches [of p key g] assms show ?thesis by (auto split: prod.splits)
qed

lemma Health_Register_Ok:
  "Health_Register key ref i = (Ok (), i') \<Longrightarrow> Health_watched i' key = Some ref"
  by (auto simp: Health_Register_def Health_watched_def go_simps update_conv')

lemma Configure_marks:
  assumes "Offloader_Configure env m l rb w d = (Ok (), d')"
  shows "managedRoutes d' (mdName m) = Some True"
  using assms by (auto simp: Offloader_Configure_def go_simps)

lemmas on_Ok = onConfigurer_def onMetrics_def onHealth_def onRemote_def onOffloader_def zoom_Ok_iff

text \<open>What holds of a model once it has been set up.\<close>

definition served :: "model_deployment \<Rightarrow> offloading_config \<Rightarrow> ('k, 'b) reconciler \<Rightarrow> bool" where
  "served m oc r \<longleftrightarrow>
     rcOngoingOffloadings r (modelKey m) = Some 0 \<and> rcModelState r (modelKey m) = Some True
     \<and> MetricInformer_watched (rcMetricInformer r) (modelKey m) = Some (registrationFor m oc)
     \<and> Health_watched (rcHealthInformer r) (modelKey m) = Some (spModelSourceRef (mdSpec m))
     \<and> (\<exists>ref. spServiceRef (mdSpec m) = Some ref \<and> cfBeamlitServices (rcConfigurer r) (keyOf ref) \<noteq> None)
     \<and> managedRoutes (rcOffloader r) (mdName m) = Some True"

lemma registrationFor_default [simp]:
  "registrationFor (withRemoteBackend def oc' m) oc = registrationFor m oc"
  "spModelSourceRef (mdSpec (withRemoteBackend def oc' m)) = spModelSourceRef (mdSpec m)"
  by (simp_all add: registrationFor_def withRemoteBackend_def)

lemma setUp_Ok:
  fixes r :: "('k, 'b) reconciler"
  assumes "setUp env m oc r = (Ok m', r')" and "\<forall>p. rcMetricInformer r = PromInformer p \<longrightarrow> Prom_wf p"
  shows "served m oc r'"
proof -
  let ?m = "withRemoteBackend (rcDefaultRemoteBackend r) oc m"
  obtain c i h d ref where
      cfg: "Configurer_Configure (reKube env) (spServiceRef (mdSpec m)) (rcConfigurer r) = (Ok (), c)"
    and reg: "MetricInformer_Register (modelKey m) (registrationFor m oc) (rcMetricInformer r) = (Ok (), i)"
    and health: "Health_Register (modelKey m) (spModelSourceRef (mdSpec m)) (rcHealthInformer r) = (Ok (), h)"
    and ref: "spServiceRef (mdSpec m) = Some ref"
    and off: "Offloader_Configure (offloadEnv env (cfCluster c)) ?m (Some (beamlitBackend ref)) (remoteOf ?m) 0
        (rcOffloader r) = (Ok (), d)"
    and r': "r' = r\<lparr>rcConfigurer := c, rcOngoingOffloadings := (rcOngoingOffloadings r)(modelKey m \<mapsto> 0),
        rcModelState := (rcModelState r)(modelKey m \<mapsto> True), rcMetricInformer := i,
        rcHealthInformer := h, rcOffloader := d\<rparr>"
    using assms(1)
    by (auto simp: setUp_def bindG_Ok_iff seqG_Ok_iff on_Ok reads_def writes_def ret_def deref_Ok_iff
        storeOffloading_def storeState_def)
  obtain v where "cfBeamlitServices c = (cfBeamlitServices (rcConfigurer r))(keyOf ref \<mapsto> v)"
    using Configure_services [of "reKube env" ref "rcConfigurer r" c] cfg ref by auto
  then show ?thesis
    using MetricInformer_Register_Ok [OF reg assms(2)] Health_Register_Ok [OF health]
      Configure_marks [OF off] ref
    by (simp add: served_def r')
qed

lemma MetricInformer_Unregister_wf:
  assumes "MetricInformer_Unregister key i = (Ok (), i')" and "\<forall>p. i = PromInformer p \<longrightarrow> Prom_wf p"
  shows "\<forall>p. i' = PromInformer p \<longrightarrow> Prom_wf p"
proof (cases i)
  case (PromInformer p)
  with prom.unregister_forgets [of p key] assms show ?thesis by (auto split: prod.splits)
qed (use assms in \<open>auto split: prod.splits\<close>)

lemma takeDown_wf:
  assumes "takeDown env m r = (Ok (), r')" and "\<forall>p. rcMetricInformer r = PromInformer p \<longrightarrow> Prom_wf p"
  shows "\<forall>p. rcMetricInformer r' = PromInformer p \<longrightarrow> Prom_wf p"
proof -
  obtain i where "MetricInformer_Unregister (modelKey m) (rcMetricInformer r) = (Ok (), i)"
    and "rcMetricInformer r' = i"
    using assms(1) by (auto simp: takeDown_def seqG_Ok_iff bindG_Ok_iff on_Ok reads_def writes_def forgetModel_def)
  with MetricInformer_Unregister_wf assms(2) show ?thesis by blast
qed

lemma configureOffloading_serves:
  assumes "configureOffloading env m r = (Ok m', r')" and "spEnabled (mdSpec m)"
    and "spOffloadingConfig (mdSpec m) = Some oc"
    and "\<forall>p. rcMetricInformer r = PromInformer p \<longrightarrow> Prom_wf p"
  shows "served m oc r'"
proof -
  obtain r1 where "takeDown env m r = (Ok (), r1)" and "setUp env m oc r1 = (Ok m', r')"
    using assms(1-3) by (auto simp: configureOffloading_def seqG_Ok_iff)
  with takeDown_wf assms(4) setUp_Ok show ?thesis by metis
qed

text \<open>The claim on the model is not touched by \<open>configureOffloading\<close>.\<close>

lemma configureOffloading_claims:
  assumes "configureOffloading env m r = (res, r')"
  shows "rcBeamlitModels r' = rcBeamlitModels r"
proof -
  have "keeps (\<lambda>x. rcBeamlitModels x = rcBeamlitModels r) (configureOffloading env m)"
    by (rule keeps_configureOffloading)
      (simp_all add: own_maps_def forgetModel_def storeOffloading_def storeState_def)
  from keepsD [OF this, of r] assms show ?thesis by simp
qed

lemma served_cong:
  assumes "served m1 oc r" and "modelKey m1 = modelKey m" and "mdSpec m1 = mdSpec m" and "mdName m1 = mdName m"
  shows "served m oc r"
  using assms by (simp add: served_def registrationFor_def)

lemma podPort_state: "podPort env ref p r = (Ok x, r') \<Longrightarrow> r' = r"
  by (cases ref) (auto simp: podPort_def ret_def bindG_Ok_iff on_Ok readCluster_Ok_iff)

lemma createOrUpdate_serves:
  assumes "createOrUpdate env m r = (Ok (), r')" and "\<not> claimedByOther m r" and "\<not> upToDate m r"
    and "spEnabled (mdSpec m)" and "spOffloadingConfig (mdSpec m) = Some oc"
    and "\<forall>p. rcMetricInformer r = PromInformer p \<longrightarrow> Prom_wf p"
  shows "served m oc r' \<and> rcBeamlitModels r' (claimKey m) = Some (mdName m)"
proof -
  obtain sp mp updated m1 m2 m3 rs rm b ra r2 c where
      sp: "podPort env (spServiceRef (mdSpec m)) (stServingPort (mdStatus m)) r = (Ok sp, rs)"
    and mp: "podPort env (spMetricServiceRef (mdSpec m)) (stMetricPort (mdStatus m)) rs = (Ok mp, rm)"
    and answer: "withAnswer env updated (withPorts sp mp m) ((claimModel m rm)\<lparr>rcRemote := b\<rparr>) = (Ok m1, ra)"
    and configure: "configureOffloading env m1 ra = (Ok m2, r2)"
    and status: "writeCluster (reStatusUpdate env m2) (rcConfigurer r2) = (Ok m3, c)"
    and r': "r' = recordModel m3 (r2\<lparr>rcConfigurer := c\<rparr>)"
    using assms(1-3)
    by (auto simp: createOrUpdate_def bindG_Ok_iff seqG_Ok_iff writes_def on_Ok readCluster_Ok_iff)
  have rm: "rm = r" using podPort_state [OF sp] podPort_state [OF mp] by simp
  note m1 = withAnswer_Ok [OF answer]
  have key: "modelKey m1 = modelKey m" using m1 by simp
  have spec: "mdSpec m1 = mdSpec m" "mdName m1 = mdName m" using m1 by (simp_all add: withPorts_def)
  have "served m1 oc r2"
    by (rule configureOffloading_serves [OF configure])
      (use assms(4-6) spec key rm m1 in \<open>simp_all add: claimModel_def\<close>)
  moreover obtain k where "c = (rcConfigurer r2)\<lparr>cfCluster := k\<rparr>"
    using status by (auto simp: writeCluster_Ok_iff)
  ultimately have "served m1 oc r'" and "rcBeamlitModels r' = rcBeamlitModels r2"
    by (simp_all add: r' served_def recordModel_def)
  with served_cong [OF _ key spec] configureOffloading_claims [OF configure] m1 show ?thesis
    by (simp add: claimModel_def)
qed

section \<open>Finalizing\<close>

definition absent :: "model_deployment \<Rightarrow> ('k, 'b) reconciler \<Rightarrow> bool" where
  "absent m r \<longleftrightarrow>
     rcOngoingOffloadings r (modelKey m) = None \<and> rcModelState r (modelKey m) = None
     \<and> rcManagedModels r (modelKey m) = None \<and> rcBeamlitModels r (claimKey m) = None
     \<and> MetricInformer_watched (rcMetricInformer r) (modelKey m) = None
     \<and> Health_watched (rcHealthInformer r) (modelKey m) = None
     \<and> (\<forall>ref. spServiceRef (mdSpec m) = Some ref \<longrightarrow> cfBeamlitServices (rcConfigurer r) (keyOf ref) = None)
     \<and> managedRoutes (rcOffloader r) (mdName m) = None"

lemma Cleanup_unmarks: "Offloader_Cleanup env m d = (Ok (), d') \<Longrightarrow> managedRoutes d' (mdName m) = None"
  by (auto simp: Offloader_Cleanup_def split: option.splits prod.splits outcome.splits)

lemma finalizeModel_clears:
  fixes r :: "('k, 'b) reconciler"
  assumes "finalizeModel env m r = (Ok (), r')" and "spOffloadingConfig (mdSpec m) \<noteq> None"
    and "\<forall>p. rcMetricInformer r = PromInformer p \<longrightarrow> Prom_wf p"
  shows "absent m r'"
proof -
  obtain oc where "spOffloadingConfig (mdSpec m) = Some oc" using assms(2) by blast
  then obtain i h c d b where
      unreg: "MetricInformer_Unregister (modelKey m) (rcMetricInformer r) = (Ok (), i)"
    and health: "Health_Unregister (modelKey m) (rcHealthInformer r) = (Ok (), h)"
    and unconf: "Configurer_Unconfigure (reKube env) (reFin env) (reDrift env) (spServiceRef (mdSpec m))
        (rcConfigurer r) = (Ok (), c)"
    and clean: "Offloader_Cleanup (offloadEnv env (cfCluster c)) m (rcOffloader r) = (Ok (), d)"
    and r': "r' = (forgetModel (modelKey m) (releaseClaim m r))\<lparr>rcMetricInformer := i, rcHealthInformer := h,
        rcConfigurer := c, rcOffloader := d, rcRemote := b\<rparr>"
    using assms(1)
    by (auto simp: finalizeModel_def seqG_Ok_iff bindG_Ok_iff on_Ok reads_def writes_def forgetModel_def
        releaseClaim_def)
  have "cfBeamlitServices c (keyOf ref) = None" if "spServiceRef (mdSpec m) = Some ref" for ref
    using Unconfigure_services [of "reKube env" "reFin env" "reDrift env" ref "rcConfigurer r" c] unconf that
    by simp
  then show ?thesis
    using MetricInformer_Unregister_Ok [OF unreg assms(3)] Health_Unregister_Ok [OF health]
      Cleanup_unmarks [OF clean]
    by (simp add: absent_def r' forgetModel_def releaseClaim_def)
qed

end
