(* ===== verification/Model_Samples.thy ===== *)
theory Model_Samples
  imports Model_Facts Beamlit_Facts
begin

text \<open>
  A sample environment of the model controller: a cluster that does not change, a remote service
  that keeps what it is sent, a gateway, and one model. Creating the model succeeds there, which
  shows that the hypotheses of the properties can hold.
\<close>

section \<open>A sample controller\<close>

definition live_model :: model_deployment where
  "live_model = (sample_model ''ns'')\<lparr>mdFinalizers := [modelDeploymentFinalizer]\<rparr>"

definition answered :: "sdk_model \<Rightarrow> sdk_model" where
  "answered m = m\<lparr>sdMetadata := map_option (\<lambda>meta. meta\<lparr>smWorkspace := Some ''ws'',
     smCreatedAt := Some ''2024-01-01T00:00:00Z'', smUpdatedAt := Some ''2024-01-01T00:00:00Z''\<rparr>)
     (sdMetadata m)\<rparr>"

definition answering_sdk :: "(string \<times> string \<rightharpoonup> sdk_model) beamlit_sdk" where
  "answering_sdk = (sample_sdk 200)\<lparr>
     bCreateModel := (\<lambda>m b. (Inr (sample_resp 200 (Inr (answered m))), b(keyOfModel m \<mapsto> answered m))),
     bUpdateModel := (\<lambda>n m b. (Inr (sample_resp 200 (Inr (answered m))), b(keyOfModel m \<mapsto> answered m)))\<rparr>"

definition controller_env :: "(unit, string \<times> string \<rightharpoonup> sdk_model) reconcile_env" where
  "controller_env = \<lparr>
     reKube = still_api, reGet = (\<lambda>k ns n. Inr live_model),
     reUpdate = (\<lambda>m k. (Inr m, k)), reStatusUpdate = (\<lambda>m k. (Inr m, k)),
     reTemplateGet = (\<lambda>k kind ns n. Inr (JStr ''template'')), reDecodeTemplate = Inr,
     reSdk = answering_sdk, reSend = serveAPI sample_yaml, reParseTime = (\<lambda>_. Inr 0),
     reFin = (\<lambda>_. False), reDrift = (\<lambda>_ k. k)\<rparr>"

definition fresh_controller :: "(unit, string \<times> string \<rightharpoonup> sdk_model) reconciler" where
  "fresh_controller = (newReconciler New () (K8sInformer newK8sMetricInformer) (Some sample_remote) Map.empty)
     \<lparr>rcConfigurer := still_configurer\<rparr>"

definition fresh_ref :: service_reference where
  "fresh_ref = \<lparr>srRef = \<lparr>orAPIVersion = ''v1'', orKind = ''Service'', orNamespace = ''ns'', orName = ''m''\<rparr>,
     srTargetPort = 80\<rparr>"

definition fresh_configured :: "unit configurer" where
  "fresh_configured = snd (Configurer_Configure still_api (Some fresh_ref) still_configurer)"

lemma fresh_configures:
  "Configurer_Configure still_api (Some fresh_ref) still_configurer = (Ok (), fresh_configured)"
  unfolding fresh_configured_def by (rule fst_is_Ok) code_simp

lemma live_model_sel:
  "mdName live_model = ''m''" "mdNamespace live_model = ''ns''" "mdGeneration live_model = 1"
  "spServiceRef (mdSpec live_model) = Some fresh_ref" "spMetricServiceRef (mdSpec live_model) = None"
  "spOffloadingConfig (mdSpec live_model) = Some \<lparr>ofRemoteBackend = None, ofMetrics = [],
     ofBehavior = Some \<lparr>obPercentage = 30\<rparr>\<rparr>"
  "spEnabled (mdSpec live_model)" "mdDeletionTimestamp live_model = None"
  "modelDeploymentFinalizer \<in> set (mdFinalizers live_model)"
  "modelKey live_model = ''ns/m''" "spModel (mdSpec live_model) = ''m''"
  "spEnvironment (mdSpec live_model) = ''production''" "stMetricPort (mdStatus live_model) = 0"
  by (simp_all add: live_model_def sample_model_def fresh_ref_def modelKey_def slash_key_def)

lemma fresh_sel:
  "rcConfigurer fresh_controller = still_configurer" "rcManagedModels fresh_controller = Map.empty"
  "rcBeamlitModels fresh_controller = Map.empty" "rcRemote fresh_controller = Map.empty"
  "rcMetricInformer fresh_controller = K8sInformer newK8sMetricInformer"
  "rcHealthInformer fresh_controller = newK8SHealthInformer"
  "rcOffloader fresh_controller = newBeamlitGatewayOffloader New"
  "rcDefaultRemoteBackend fresh_controller = Some sample_remote"
  by (simp_all add: fresh_controller_def newReconciler_def)

lemma env_sel:
  "reKube controller_env = still_api" "reSdk controller_env = answering_sdk"
  "reSend controller_env = serveAPI sample_yaml" "reGet controller_env k ns n = Inr live_model"
  "reStatusUpdate controller_env m k = (Inr m, k)" "reParseTime controller_env t = Inr 0"
  by (simp_all add: controller_env_def)

lemma fresh_ports:
  "podPort controller_env (Some fresh_ref) x fresh_controller = (Ok 8080, fresh_controller)"
  "podPort controller_env None x r = (Ok x, r)"
  by (simp_all add: podPort_def ret_def onConfigurer_def zoom_def readCluster_def RetrievePodPort_def
     workloadOf_def env_sel still_api_def fresh_ref_def sample_k8s_service_def bindG_def reads_def i32_def
     fresh_controller_def)

definition fresh_model :: sdk_model where
  "fresh_model = projr (ToBeamlitModelDeployment (workloadOf controller_env ()) (withPorts 8080 0 live_model))"

lemma fresh_converts:
  "ToBeamlitModelDeployment (workloadOf controller_env ()) (withPorts 8080 0 live_model) = Inr fresh_model"
  by (simp add: fresh_model_def ToBeamlitModelDeployment_def retrievePodTemplate_def workloadOf_def
      Let_def live_model_def sample_model_def controller_env_def withPorts_def)

lemma fresh_upserts:
  "CreateOrUpdateModel answering_sdk fresh_model Map.empty
   = (Ok (answered fresh_model), [keyOfModel fresh_model \<mapsto> answered fresh_model])"
  using converted_identity [OF fresh_converts]
  by (auto simp: CreateOrUpdateModel_def answering_sdk_def sample_sdk_def ask_eq createModel_def tell_eq
      decoded_def sample_resp_def ret_def)

definition fresh_status :: model_deployment where
  "fresh_status = live_model\<lparr>mdStatus := \<lparr>stOffloadingStatus = False, stServingPort = 8080,
     stMetricPort = 0, stWorkspace = ''ws'',
     stCreatedAtOnBeamlit = 0, stUpdatedAtOnBeamlit = 0\<rparr>\<rparr>"

lemma fresh_answers:
  "withAnswer controller_env (answered fresh_model) (withPorts 8080 0 live_model) r = (Ok fresh_status, r)"
  using converted_identity [OF fresh_converts]
  by (auto simp: withAnswer_def answered_def env_sel ret_def fresh_status_def withPorts_def
      live_model_def sample_model_def)

lemma fresh_takes_down:
  "takeDown controller_env fresh_status (fresh_controller\<lparr>rcBeamlitModels := bm, rcRemote := b\<rparr>)
   = (Ok (), fresh_controller\<lparr>rcBeamlitModels := bm, rcRemote := b\<rparr>)"
  by (simp add: takeDown_def onHealth_def onMetrics_def onConfigurer_def onOffloader_def zoom_def seqG_def
      bindG_def reads_def writes_def Health_Unregister_def K8sMetric_Unregister_def newK8SHealthInformer_def
      newK8sMetricInformer_def ret_def Configurer_Unconfigure_def Offloader_Cleanup_def
      newBeamlitGatewayOffloader_def newReconciler_def fresh_controller_def still_configurer_def
      newKubernetesConfigurer_def forgetModel_def fresh_status_def live_model_sel)

abbreviation fresh_claimed :: "(unit, string \<times> string \<rightharpoonup> sdk_model) reconciler" where
  "fresh_claimed \<equiv> (claimModel live_model fresh_controller)
     \<lparr>rcRemote := [keyOfModel fresh_model \<mapsto> answered fresh_model]\<rparr>"

lemma fresh_service: "kServiceGet still_api k ns n = Inr (sample_k8s_service n ''10.0.0.1'')"
  by (simp add: still_api_def)

lemma status_sel:
  "mdName fresh_status = ''m''" "modelKey fresh_status = ''ns/m''"
  "mdSpec fresh_status = mdSpec live_model" "mdGeneration fresh_status = 1" "mdNamespace fresh_status = ''ns''"
  by (simp_all add: fresh_status_def live_model_sel modelKey_def slash_key_def)

lemma fresh_offloads:
  "\<exists>d. Offloader_Configure (offloadEnv controller_env k)
     (withRemoteBackend (Some sample_remote) oc fresh_status) (Some l) (Some sample_remote) 0
     (newBeamlitGatewayOffloader New) = (Ok (), d)"
  using Configure_eq [where env = "offloadEnv controller_env k" and rb = sample_remote and w = 0
      and model = "withRemoteBackend (Some sample_remote) oc fresh_status" and ref = fresh_ref and l = l
      and y = sample_yaml and d = "newBeamlitGatewayOffloader New"]
  by (simp add: offloadEnv_def env_sel fresh_service status_sel live_model_sel sample_off)

lemma fresh_sets_up:
  "\<exists>m' r'. setUp controller_env fresh_status \<lparr>ofRemoteBackend = None, ofMetrics = [],
     ofBehavior = Some \<lparr>obPercentage = 30\<rparr>\<rparr> fresh_claimed = (Ok m', r')"
proof -
  let ?oc = "\<lparr>ofRemoteBackend = None, ofMetrics = [], ofBehavior = Some \<lparr>obPercentage = 30\<rparr>\<rparr>"
  obtain d where d: "Offloader_Configure (offloadEnv controller_env ())
     (withRemoteBackend (Some sample_remote) ?oc fresh_status) (Some (beamlitBackend fresh_ref)) (Some sample_remote) 0
     (newBeamlitGatewayOffloader New) = (Ok (), d)"
    using fresh_offloads by blast
  have rem: "remoteOf (withRemoteBackend (Some sample_remote) ?oc fresh_status) = Some sample_remote"
    by (simp add: remoteOf_def withRemoteBackend_def)
  show ?thesis
    by (simp add: setUp_def onConfigurer_def onMetrics_def onHealth_def onOffloader_def zoom_def seqG_def
       bindG_def reads_def writes_def claimModel_def fresh_sel env_sel status_sel live_model_sel
       fresh_configures K8sMetric_Register_def Health_Register_def
       newK8sMetricInformer_def newK8SHealthInformer_def ret_def storeOffloading_def storeState_def d rem)
qed

lemma fresh_controller_same [simp]:
  "fresh_controller\<lparr>rcConfigurer := still_configurer\<rparr> = fresh_controller"
  "rcRemote (claimModel m r) = rcRemote r"
  by (simp_all add: fresh_controller_def newReconciler_def claimModel_def)

lemma fresh_created: "\<exists>r'. createOrUpdate controller_env live_model fresh_controller = (Ok (), r')"
proof -
  obtain m' r' where "configureOffloading controller_env fresh_status fresh_claimed = (Ok m', r')"
    using fresh_sets_up fresh_takes_down
    by (auto simp: configureOffloading_def seqG_def status_sel live_model_sel claimModel_def)
  then show ?thesis
    using fresh_ports fresh_converts fresh_upserts
    by (auto simp: fresh_answers createOrUpdate_def claimedByOther_def upToDate_def fresh_sel
      live_model_sel onConfigurer_def onRemote_def zoom_def readCluster_def
      writeCluster_def env_sel ret_def writes_def)
qed
end
