(* ===== verification/Model_Properties.thy ===== *)
theory Model_Properties
  imports Model_Samples
begin

text \<open>
  The properties of the running model controller, each shown to apply in the sample environment.
\<close>

section \<open>A managed model\<close>

definition managed_configurer :: "unit configurer" where
  "managed_configurer = still_configurer\<lparr>cfBeamlitServices := [(''ns'', ''m'') \<mapsto> (''ns'', ''m-beamlit'')],
     cfInitialEndpoints := [(''ns'', ''m'') \<mapsto> [(''ns'', ''s'')]],
     cfStopChans := [(''ns'', ''m'') \<mapsto> [0, 1]], cfNextChan := 2\<rparr>"

definition managed_controller ::
  "int \<Rightarrow> bool \<Rightarrow> (unit, string \<times> string \<rightharpoonup> sdk_model) reconciler" where
  "managed_controller v healthy = fresh_controller\<lparr>
     rcConfigurer := managed_configurer,
     rcOngoingOffloadings := [''ns/m'' \<mapsto> v], rcModelState := [''ns/m'' \<mapsto> healthy],
     rcManagedModels := [''ns/m'' \<mapsto> \<lparr>mmNamespace = ''ns'', mmName = ''m'', mmHealthy = True,
       mmLastGeneration = 1\<rparr>]\<rparr>"

abbreviation live_offloading :: offloading_config where
  "live_offloading \<equiv> \<lparr>ofRemoteBackend = None, ofMetrics = [], ofBehavior = Some \<lparr>obPercentage = 30\<rparr>\<rparr>"

abbreviation live_service :: service where
  "live_service \<equiv> sample_k8s_service ''m'' ''10.0.0.1''"

lemma managed_sel:
  "rcManagedModels (managed_controller v healthy) ''ns/m'' = Some \<lparr>mmNamespace = ''ns'', mmName = ''m'',
     mmHealthy = True, mmLastGeneration = 1\<rparr>"
  "rcOngoingOffloadings (managed_controller v healthy) ''ns/m'' = Some v"
  "rcModelState (managed_controller v healthy) ''ns/m'' = Some healthy"
  "rcDefaultRemoteBackend (managed_controller v healthy) = Some sample_remote"
  "rcRemote (managed_controller v healthy) = Map.empty"
  by (simp_all add: managed_controller_def fresh_sel)

lemma managed_ready:
  "gateway_ready controller_env sample_yaml (withRemoteBackend (Some sample_remote) live_offloading live_model)
     (managed_controller v healthy) fresh_ref live_service (''ns'', ''m-beamlit'') sample_remote"
  by (simp add: gateway_ready_def managed_controller_def managed_configurer_def env_sel live_model_sel sample_off fresh_service
      remoteOf_def) (simp add: fresh_ref_def withRemoteBackend_def keyOf_def)

lemma managed_request:
  "extractHost (qHost sample_req) \<in> set (hostnamesOf live_service)"
  "rbHost sample_remote \<noteq> bHost (localBackendOf (localRefOf fresh_ref (''ns'', ''m-beamlit'')) w)"
  by (simp_all add: hostnamesOf_def sample_req_def extractHost_def sample_k8s_service_def sample_off
      localBackendOf_def localRefOf_def)

text \<open>Creating the model from the start of the controller.\<close>

lemma fresh_reconciles: "\<exists>r'. Reconcile controller_env (''ns'', ''m'') fresh_controller = (Ok False, r')
    \<and> createOrUpdate controller_env live_model fresh_controller = (Ok (), r')"
  using fresh_created by (auto simp: Reconcile_def reconcileLive_def env_sel live_model_sel)

lemma fresh_unclaimed: "\<not> claimedByOther live_model fresh_controller" "\<not> upToDate live_model fresh_controller"
  by (simp_all add: claimedByOther_def upToDate_def fresh_sel)

lemma fresh_reachable:
  "reachable controller_env (newReconciler New () (K8sInformer newK8sMetricInformer) (Some sample_remote) Map.empty)
     fresh_controller"
  unfolding reachable_def
  by (rule r_into_rtranclp, rule controller_step.start [where gw = "sample_ref ''gw''" and res = "Ok ()"])
    (simp add: onConfigurer_def Configurer_Start_def writes_def fresh_controller_def still_configurer_def
      newReconciler_def)

lemma fresh_serves:
  assumes "createOrUpdate controller_env live_model fresh_controller = (Ok (), r)"
  shows "rcOngoingOffloadings r ''ns/m'' = Some 0"
  using createOrUpdate_serves [OF assms fresh_unclaimed live_model_sel(7,6)]
  by (simp add: served_def fresh_sel live_model_sel)

section \<open>Traffic\<close>

lemma update_registers:
  assumes "rcManagedModels r (updatedModel ev) = Some v" and "mmHealthy v"
    and "reGet env (clusterOf r) (mmNamespace v) (mmName v) = Inr m"
    and oc: "spOffloadingConfig (mdSpec m) = Some oc" "ofBehavior oc = Some b" "obPercentage b = p"
    and p: "0 \<le> p" "p \<le> 100"
    and ready: "gateway_ready env y (withRemoteBackend (rcDefaultRemoteBackend r) oc m) r ref s bl rb"
    and acts: "acts ev p (rcModelState r (modelKey m)) (rcOngoingOffloadings r (modelKey m))"
    and r': "r' = snd (informerTurn env ev r)"
  shows "\<exists>ws. gateway (rcOffloader r') = snd (RegisterRoute (routeOf ws (withRemoteBackend (rcDefaultRemoteBackend r) oc m)
      s (localRefOf ref bl) rb (targetShare ev p)) (gateway (rcOffloader r)))
    \<and> rcOngoingOffloadings r' (modelKey m) = recordedShare ev p"
proof -
  let ?m = "withRemoteBackend (rcDefaultRemoteBackend r) oc m"
  have run: "r' = snd (callback env ev ?m r)"
    using informerTurn_eq [OF assms(1-3) oc(1)] by (simp add: r' snd_logged)
  obtain oc' where oc': "spOffloadingConfig (mdSpec ?m) = Some oc'" "ofBehavior oc' = Some b"
    using oc by (cases "ofRemoteBackend oc") (auto simp: withRemoteBackend_def)
  show ?thesis using callback_moves [OF ready oc' oc(3) p, of ev] acts run by auto
qed

lemma update_moves_traffic:
  assumes "rcManagedModels r (updatedModel ev) = Some v" and "mmHealthy v"
    and "reGet env (clusterOf r) (mmNamespace v) (mmName v) = Inr m"
    and oc: "spOffloadingConfig (mdSpec m) = Some oc" "ofBehavior oc = Some b" "obPercentage b = p"
    and p: "0 \<le> p" "p \<le> 100"
    and ready: "gateway_ready env y (withRemoteBackend (rcDefaultRemoteBackend r) oc m) r ref s bl rb"
    and acts: "acts ev p (rcModelState r (modelKey m)) (rcOngoingOffloadings r (modelKey m))"
    and tokens: "\<forall>c. \<exists>t. oToken orc c = Inr t"
    and host: "extractHost (qHost rin) \<in> set (hostnamesOf s)"
    and other: "rbHost rb \<noteq> bHost (localBackendOf (localRefOf ref bl) (targetShare ev p))"
    and r': "r' = snd (informerTurn env ev r)"
  shows "draws_to orc (gateway (rcOffloader r')) rin rout (rbHost rb) = targetShare ev p
    \<and> draws_to orc (gateway (rcOffloader r')) rin rout
        (bHost (localBackendOf (localRefOf ref bl) (targetShare ev p))) = 100 - targetShare ev p
    \<and> rcOngoingOffloadings r' (modelKey m) = recordedShare ev p"
proof -
  obtain ws where gw: "gateway (rcOffloader r') = snd (RegisterRoute (routeOf ws
      (withRemoteBackend (rcDefaultRemoteBackend r) oc m) s (localRefOf ref bl) rb (targetShare ev p)) (gateway (rcOffloader r)))"
    and rec: "rcOngoingOffloadings r' (modelKey m) = recordedShare ev p"
    using update_registers [OF assms(1-3) oc p ready acts r'] by blast
  have share: "0 \<le> targetShare ev p" "targetShare ev p \<le> 100"
    using p by (auto simp: targetShare_def split: informer_update.splits)
  have auth: "remote_auth_ok rb" using ready by (simp add: gateway_ready_def)
  show ?thesis
    using routed_split [OF share auth tokens host other gw] rec by simp
qed



section \<open>Invariants of the running controller\<close>



section \<open>Reconciling\<close>

text \<open>
  C9. A model is reconciled once per generation. When a live model was reconciled and is read back
  with no more than its status changed, a second \<open>Reconcile\<close> leaves everything as it is: the
  reconciler, the cluster, the gateway and the remote service. Status updates are assumed to keep
  name, namespace and generation of the object, as the status subresource does.
\<close>
theorem reconcile_is_idempotent:
  assumes live: "mdDeletionTimestamp m = None" "modelDeploymentFinalizer \<in> set (mdFinalizers m)"
    and first: "reGet env (clusterOf r) ns n = Inr m" "Reconcile env (ns, n) r = (Ok False, r')"
    and second: "reGet env (clusterOf r') ns n = Inr (m\<lparr>mdStatus := st\<rparr>)"
    and status: "\<forall>m2 k m3 k'. reStatusUpdate env m2 k = (Inr m3, k') \<longrightarrow>
      mdNamespace m3 = mdNamespace m2 \<and> mdName m3 = mdName m2 \<and> mdGeneration m3 = mdGeneration m2"
  shows "Reconcile env (ns, n) r' = (Ok False, r')"
proof -
  have "reconcileLive env m r = (Ok False, r')" using live first by (simp add: Reconcile_def)
  then have "createOrUpdate env m r = (Ok (), r')"
    by (auto simp: reconcileLive_def split: prod.splits outcome.splits if_splits)
  then have "claimedByOther m r' \<or> upToDate m r'"
    using createOrUpdate_Ok [of env m r r'] status by (metis upToDate_recordModel)
  moreover have "claimedByOther (m\<lparr>mdStatus := st\<rparr>) r' = claimedByOther m r'"
    and "upToDate (m\<lparr>mdStatus := st\<rparr>) r' = upToDate m r'"
    by (simp_all add: claimedByOther_def upToDate_def claimKey_def modelKey_def split: option.splits)
  ultimately show ?thesis
    using live second by (auto simp: Reconcile_def reconcileLive_def createOrUpdate_def ret_def)
qed

theorem reconcile_is_idempotent_witness:
  "\<exists>r. Reconcile controller_env (''ns'', ''m'') fresh_controller = (Ok False, r)
     \<and> Reconcile controller_env (''ns'', ''m'') r = (Ok False, r)"
proof -
  obtain r where run: "Reconcile controller_env (''ns'', ''m'') fresh_controller = (Ok False, r)"
    using fresh_reconciles by blast
  have "Reconcile controller_env (''ns'', ''m'') r = (Ok False, r)"
    by (rule reconcile_is_idempotent [OF live_model_sel(8,9) env_sel(4) run, of "mdStatus live_model"])
      (simp_all add: env_sel)
  with run show ?thesis by blast
qed


definition failing_env :: "(unit, string \<times> string \<rightharpoonup> sdk_model) reconcile_env" where
  "failing_env = controller_env\<lparr>reKube := still_api\<lparr>kServiceGet := \<lambda>_ _ _. Inl NotFoundErr\<rparr>\<rparr>"




text \<open>What a finalized model leaves behind.\<close>

lemma finalized_absent:
  assumes "reGet env (clusterOf r) ns n = Inr m" and "mdDeletionTimestamp m \<noteq> None"
    and "modelDeploymentFinalizer \<in> set (mdFinalizers m)" and "spOffloadingConfig (mdSpec m) \<noteq> None"
    and "\<forall>p. rcMetricInformer r = PromInformer p \<longrightarrow> Prom_wf p"
    and "Reconcile env (ns, n) r = (Ok False, r')"
  shows "absent m r'"
proof -
  obtain r1 c where run: "finalizeModel env m r = (Ok (), r1)"
    and written: "writeCluster (reUpdate env (m\<lparr>mdFinalizers :=
        removeAll modelDeploymentFinalizer (mdFinalizers m)\<rparr>)) (rcConfigurer r1) = (Ok c, rcConfigurer r')"
    and r': "r' = r1\<lparr>rcConfigurer := rcConfigurer r'\<rparr>"
    using assms by (auto simp: Reconcile_def seqG_Ok_iff on_Ok ret_def)
  have "absent m r1" by (rule finalizeModel_clears [OF run assms(4,5)])
  moreover have "cfBeamlitServices (rcConfigurer r') = cfBeamlitServices (rcConfigurer r1)"
    using written by (auto simp: writeCluster_Ok_iff)
  ultimately show ?thesis
    by (subst r', subst absent_def) (simp add: absent_def)
qed


definition deleted_model :: model_deployment where
  "deleted_model = live_model\<lparr>mdDeletionTimestamp := Some 7\<rparr>"

definition deleting_env :: "(unit, string \<times> string \<rightharpoonup> sdk_model) reconcile_env" where
  "deleting_env = controller_env\<lparr>reGet := \<lambda>_ _ _. Inr deleted_model\<rparr>"

definition managed_released :: "unit configurer" where
  "managed_released = snd (Configurer_Unconfigure still_api (\<lambda>_. False) (\<lambda>_ k. k) (Some fresh_ref)
     managed_configurer)"

lemma managed_releases:
  "Configurer_Unconfigure still_api (\<lambda>_. False) (\<lambda>_ k. k) (Some fresh_ref)
     managed_configurer
   = (Ok (), managed_released)"
  unfolding managed_released_def by (rule fst_is_Ok) code_simp

lemma deleted_sel:
  "mdDeletionTimestamp deleted_model = Some 7" "mdFinalizers deleted_model = mdFinalizers live_model"
  "mdSpec deleted_model = mdSpec live_model" "modelKey deleted_model = ''ns/m''" "mdName deleted_model = ''m''"
  using live_model_sel by (simp_all add: deleted_model_def modelKey_def)

lemma deleting_sel:
  "reGet deleting_env k ns n = Inr deleted_model" "reKube deleting_env = still_api"
  "reFin deleting_env = (\<lambda>_. False)" "reDrift deleting_env = (\<lambda>_ k. k)"
  "reUpdate deleting_env = (\<lambda>m k. (Inr m, k))" "reSdk deleting_env = answering_sdk"
  "reSend deleting_env = serveAPI sample_yaml"
  by (simp_all add: deleting_env_def controller_env_def)

lemma managed_informer: "rcMetricInformer (managed_controller v healthy) = K8sInformer newK8sMetricInformer"
  by (simp add: managed_controller_def fresh_sel)

lemma fresh_name: "srName fresh_ref = ''m''" "srNamespace fresh_ref = ''ns''"
  by (simp_all add: fresh_ref_def)

lemma deleting_reconciles: "\<exists>r. Reconcile deleting_env (''ns'', ''m'') (managed_controller 0 True) = (Ok False, r)
    \<and> rcRemote r = Map.empty"
  using managed_releases live_model_sel(9)
  by (simp add: Reconcile_def deleting_sel deleted_sel finalizeModel_def live_model_sel managed_controller_def onMetrics_def
      onHealth_def onConfigurer_def onOffloader_def onRemote_def zoom_def seqG_def bindG_def writes_def
      reads_def releaseClaim_def forgetModel_def fresh_sel Health_Unregister_def K8sMetric_Unregister_def
      newK8SHealthInformer_def newK8sMetricInformer_def ret_def Offloader_Cleanup_def
      newBeamlitGatewayOffloader_def DeleteModelDeployment_def answering_sdk_def sample_sdk_def tell_eq
      sample_resp_def writeCluster_def)


section \<open>Where the callbacks stop\<close>

text \<open>
  C35. After a metric has recovered, the model is not offloaded by its metrics again. Bringing the
  traffic home deletes the record of the share, and without a record both callbacks return at once:
  a later report that the metric is reached, or that the model is healthy, changes nothing, until
  the model is reconfigured or reported unhealthy. This holds whether the gateway could be reached
  or not.
\<close>
theorem metric_recovery_is_final:
  assumes "rcModelState r (modelKey m) \<noteq> Some False" and "rcOngoingOffloadings r (modelKey m) = Some v"
    and "v \<noteq> 0" and r': "r' = snd (metricCallback env m False r)" and "modelKey m' = modelKey m"
  shows "metricCallback env m' rch r' = (Ok (), r') \<and> healthCheckCallback env m' True r' = (Ok (), r')"
proof -
  let ?P = "\<lambda>x. rcOngoingOffloadings x (modelKey m) = None"
  let ?rest = "seqG (offloadTo env m 0) (logged (notifyOnBeamlit env m False))"
  let ?r = "r\<lparr>rcOngoingOffloadings := (rcOngoingOffloadings r)(modelKey m := None)\<rparr>"
  have "r' = snd (?rest ?r)"
    using assms(1-3) by (simp add: r' metricCallback_def)
  moreover have keep: "keeps ?P ?rest"
    by (intro keeps_intros keeps_offloadTo keeps_components) (simp_all add: own_maps_def)
  ultimately have "?P r'" using keepsD [OF keep, of ?r] by simp
  with assms(5) show ?thesis by (simp add: metricCallback_def healthCheckCallback_def ret_def)
qed

theorem metric_recovery_is_final_witness:
  "\<exists>r'. r' = snd (metricCallback controller_env live_model False (managed_controller 30 True))
     \<and> metricCallback controller_env live_model True r' = (Ok (), r')"
  using metric_recovery_is_final [of "managed_controller 30 True" live_model 30, OF _ _ _ refl refl]
  by (simp add: managed_sel live_model_sel)

text \<open>
  C36. With an offloading percentage of 100, the default of the resource, a model that was reported
  unhealthy once stays offloaded: the share that is recorded for the failure is the percentage of the
  model, so that the healthy report finds nothing to do and leaves the mark that makes every
  metric update return at once.
\<close>
theorem full_percentage_never_recovers:
  assumes "spOffloadingConfig (mdSpec m) = Some oc" and "ofBehavior oc = Some b" and "obPercentage b = 100"
    and "healthCheckCallback env m False r = (Ok (), r')"
  shows "rcOngoingOffloadings r' (modelKey m) = Some 100
    \<and> healthCheckCallback env m True r' = (Ok (), r') \<and> metricCallback env m rch r' = (Ok (), r')"
proof -
  obtain r1 r2 where "logged (notifyOnBeamlit env m True) (storeOffloading (modelKey m) 100 r1) = (Ok (), r2)"
    and r': "r' = storeState (modelKey m) False r2"
    using assms(4) by (auto simp: healthCheckCallback_def seqG_Ok_iff writes_def)
  from notify_maps [OF this(1)] have "rcOngoingOffloadings r' (modelKey m) = Some 100"
    and "rcModelState r' (modelKey m) = Some False"
    by (simp_all add: r' storeState_def storeOffloading_def)
  with assms(1-3) show ?thesis
    by (simp add: healthCheckCallback_def metricCallback_def percentageOf_eq ret_def)
qed

definition full_model :: model_deployment where
  "full_model = live_model\<lparr>mdSpec := (mdSpec live_model)\<lparr>spOffloadingConfig :=
     Some \<lparr>ofRemoteBackend = Some sample_remote, ofMetrics = [], ofBehavior = Some \<lparr>obPercentage = 100\<rparr>\<rparr>\<rparr>\<rparr>"

lemma full_ready:
  "gateway_ready controller_env sample_yaml full_model (managed_controller v healthy) fresh_ref live_service
     (''ns'', ''m-beamlit'') sample_remote"
  using managed_ready [of v healthy] by (simp add: gateway_ready_def full_model_def remoteOf_def)

lemma notify_unknown: "\<exists>err. NotifyOnModelOffloading answering_sdk name e b Map.empty = (Err err, Map.empty)"
  by (simp add: NotifyOnModelOffloading_def answering_sdk_def sample_sdk_def ask_eq decoded_def sample_resp_def
      raise_def)

theorem full_percentage_never_recovers_witness:
  "\<exists>r'. healthCheckCallback controller_env full_model False (managed_controller 0 True) = (Ok (), r')
     \<and> healthCheckCallback controller_env full_model True r' = (Ok (), r')"
proof -
  obtain ws d where off: "offloadTo controller_env full_model 100 (managed_controller 0 True)
      = (Ok (), (managed_controller 0 True)\<lparr>rcOffloader := d\<rparr>)"
    using offloadTo_eq [OF full_ready, of 100 0 True] by auto
  have "\<exists>r'. healthCheckCallback controller_env full_model False (managed_controller 0 True) = (Ok (), r')"
    using notify_unknown [of "spModel (mdSpec full_model)" "spEnvironment (mdSpec full_model)" True]
    by (auto simp: healthCheckCallback_def seqG_def off logged_def notifyOnBeamlit_def onRemote_def zoom_def
        storeOffloading_def managed_sel env_sel bindG_def writes_def)
  then obtain r' where run: "healthCheckCallback controller_env full_model False (managed_controller 0 True) = (Ok (), r')"
    by blast
  from full_percentage_never_recovers [OF _ _ _ run] run show ?thesis by (simp add: full_model_def)
qed

text \<open>
  C37. A new model is offloaded by its first healthy report. Right after a model was created nothing
  is offloaded, yet a report that it is healthy, which the health informer sends when the workload
  becomes ready, sends the percentage of its traffic to the remote backend, although no metric was
  reached.
\<close>
theorem healthy_report_offloads_new_model:
  assumes run: "createOrUpdate env m r = (Ok (), r1)" "\<not> claimedByOther m r" "\<not> upToDate m r"
      "spEnabled (mdSpec m)" "spOffloadingConfig (mdSpec m) = Some oc"
      "\<forall>p. rcMetricInformer r = PromInformer p \<longrightarrow> Prom_wf p"
    and p: "ofBehavior oc = Some b" "obPercentage b = p" "0 < p" "p \<le> 100"
    and ready: "gateway_ready env y (withRemoteBackend def oc m) r1 ref s bl rb"
    and tokens: "\<forall>c. \<exists>t. oToken orc c = Inr t"
    and host: "extractHost (qHost rin) \<in> set (hostnamesOf s)"
    and other: "rbHost rb \<noteq> bHost (localBackendOf (localRefOf ref bl) p)"
    and r2: "r2 = snd (healthCheckCallback env (withRemoteBackend def oc m) True r1)"
  shows "rcOngoingOffloadings r1 (modelKey m) = Some 0
    \<and> draws_to orc (gateway (rcOffloader r2)) rin rout (rbHost rb) = p"
proof -
  let ?ev = "HealthUpdate \<lparr>hsModelName = modelKey m, hsHealthy = True\<rparr>"
  let ?m = "withRemoteBackend def oc m"
  have served: "served m oc r1" using createOrUpdate_serves [OF run] by simp
  have r2': "r2 = snd (callback env ?ev ?m r1)" by (simp add: r2 callback_def)
  have oc': "spOffloadingConfig (mdSpec ?m) = Some (if ofRemoteBackend oc = None then oc\<lparr>ofRemoteBackend := def\<rparr> else oc)"
    using run(5) by (simp add: withRemoteBackend_def)
  have "acts ?ev p (rcModelState r1 (modelKey ?m)) (rcOngoingOffloadings r1 (modelKey ?m))"
    using served p(3) by (simp add: served_def acts_def)
  moreover have "ofBehavior (if ofRemoteBackend oc = None then oc\<lparr>ofRemoteBackend := def\<rparr> else oc) = Some b"
    using p(1) by simp
  ultimately obtain ws where
    gw: "gateway (rcOffloader r2) = snd (RegisterRoute (routeOf ws ?m s (localRefOf ref bl) rb p)
      (gateway (rcOffloader r1)))"
    using callback_moves [OF ready oc' _ p(2) _ p(4), of ?ev] p(3) by (auto simp: r2' targetShare_def)
  have "remote_auth_ok rb" using ready by (simp add: gateway_ready_def)
  with routed_split(1) [OF _ p(4) _ tokens host other gw] p(3) served show ?thesis
    by (simp add: served_def)
qed

lemma fresh_local_differs:
  "rbHost sample_remote \<noteq> bHost (localBackendOf (localRefOf fresh_ref bl) w)"
proof
  have digits: "show_int 80 = ''80''" by code_simp
  assume "rbHost sample_remote = bHost (localBackendOf (localRefOf fresh_ref bl) w)"
  then have "last (rbHost sample_remote) = last (bHost (localBackendOf (localRefOf fresh_ref bl) w))" by simp
  then show False by (simp add: sample_remote_def localBackendOf_def localRefOf_def fresh_ref_def digits)
qed

theorem healthy_report_offloads_new_model_witness:
  "\<exists>r1. createOrUpdate controller_env live_model fresh_controller = (Ok (), r1)
     \<and> draws_to (sample_env 0) (gateway (rcOffloader (snd (healthCheckCallback controller_env
          (withRemoteBackend (Some sample_remote) live_offloading live_model) True r1))))
         sample_req sample_req ''run.beamlit.com'' = 30"
proof -
  obtain r1 where run: "createOrUpdate controller_env live_model fresh_controller = (Ok (), r1)"
    using fresh_created by blast
  have k8s: "\<forall>p. rcMetricInformer fresh_controller = PromInformer p \<longrightarrow> Prom_wf p" by (simp add: fresh_sel)
  obtain bl where "cfBeamlitServices (rcConfigurer r1) (keyOf fresh_ref) = Some bl"
    using createOrUpdate_serves [OF run fresh_unclaimed live_model_sel(7,6) k8s]
    by (auto simp: served_def live_model_sel)
  then have ready: "gateway_ready controller_env sample_yaml
      (withRemoteBackend (Some sample_remote) live_offloading live_model) r1 fresh_ref live_service bl sample_remote"
    using managed_ready [of 0 True] by (simp add: gateway_ready_def fresh_ref_def env_sel fresh_service)
  show ?thesis
    using healthy_report_offloads_new_model [OF run fresh_unclaimed live_model_sel(7,6) k8s _ _ _ _ ready
        sample_off(8) managed_request(1) fresh_local_differs refl, where p = 30 and rout = sample_req
        and b = "\<lparr>obPercentage = 30\<rparr>"] run
    by (auto simp: sample_off)
qed

end
