(* ===== verification/Controller_Threads.thy ===== *)
theory Controller_Threads
  imports Model_Controller
begin

text \<open>
  The handlers of the model controller as threads. \<open>Reconcile\<close> runs on the worker of the manager and
  \<open>WatchForInformerUpdates\<close> on a goroutine of its own, and both work on the same maps without a lock,
  so that one can run between any two operations of the other. A thread is a handler cut at each
  operation on the shared state: a load, store or delete of a map, a call of a component, a read of
  the cluster. \<open>run_thread\<close> runs one without interruption; \<open>fine_step\<close> interleaves the two goroutines.
\<close>

section \<open>Threads\<close>

text \<open>
  A thread has ended with an outcome, or has an operation to perform and goes on in a way that depends on
  the state the operation found.
\<close>

datatype ('s, 'a) thread =
    Ended "'a outcome"
  | Op "'s \<Rightarrow> 's" "'s \<Rightarrow> ('s, 'a) thread"

primrec run_thread :: "('s, 'a) thread \<Rightarrow> ('s, 'a) go" where
  "run_thread (Ended res) = (\<lambda>s. (res, s))"
| "run_thread (Op f k) = (\<lambda>s. run_thread (k s) (f s))"

text \<open>An operation that nothing interrupts.\<close>

definition op :: "('s, 'a) go \<Rightarrow> ('s, 'a) thread" where
  "op m = Op (\<lambda>s. snd (m s)) (\<lambda>s. Ended (fst (m s)))"

primrec bindT :: "('s, 'a) thread \<Rightarrow> ('a \<Rightarrow> ('s, 'b) thread) \<Rightarrow> ('s, 'b) thread" where
  "bindT (Ended res) k = (case res of Ok x \<Rightarrow> k x | Err e \<Rightarrow> Ended (Err e) | Panic p \<Rightarrow> Ended (Panic p))"
| "bindT (Op f c) k = Op f (\<lambda>s. bindT (c s) k)"

definition seqT :: "('s, 'a) thread \<Rightarrow> ('s, 'b) thread \<Rightarrow> ('s, 'b) thread" where
  "seqT t k = bindT t (\<lambda>_. k)"

definition retT :: "'a \<Rightarrow> ('s, 'a) thread" where
  "retT x = Ended (Ok x)"

text \<open>What a thread does with the error of another.\<close>

primrec catchT :: "('s, 'a) thread \<Rightarrow> ('a outcome \<Rightarrow> ('s, 'b) thread) \<Rightarrow> ('s, 'b) thread" where
  "catchT (Ended res) k = k res"
| "catchT (Op f c) k = Op f (\<lambda>s. catchT (c s) k)"

definition loggedT :: "('s, unit) thread \<Rightarrow> ('s, unit) thread" where
  "loggedT t = catchT t (\<lambda>res. Ended (case res of Err _ \<Rightarrow> Ok () | _ \<Rightarrow> res))"

section \<open>The single operations on the maps\<close>

definition deleteOngoing :: "string \<Rightarrow> ('k, 'b) reconciler \<Rightarrow> ('k, 'b) reconciler" where
  "deleteOngoing key r = r\<lparr>rcOngoingOffloadings := (rcOngoingOffloadings r)(key := None)\<rparr>"

definition deleteState :: "string \<Rightarrow> ('k, 'b) reconciler \<Rightarrow> ('k, 'b) reconciler" where
  "deleteState key r = r\<lparr>rcModelState := (rcModelState r)(key := None)\<rparr>"

definition deleteManaged :: "string \<Rightarrow> ('k, 'b) reconciler \<Rightarrow> ('k, 'b) reconciler" where
  "deleteManaged key r = r\<lparr>rcManagedModels := (rcManagedModels r)(key := None)\<rparr>"

definition forgetT :: "string \<Rightarrow> (('k, 'b) reconciler, unit) thread" where
  "forgetT key =
     seqT (op (writes (deleteOngoing key)))
    (seqT (op (writes (deleteState key)))
          (op (writes (deleteManaged key))))"

section \<open>The handlers\<close>

definition takeDownT ::
  "('k, 'b) reconcile_env \<Rightarrow> model_deployment \<Rightarrow> (('k, 'b) reconciler, unit) thread" where
  "takeDownT env m =
     seqT (op (onHealth (Health_Unregister (modelKey m))))
    (seqT (op (onMetrics (MetricInformer_Unregister (modelKey m))))
    (seqT (op (onConfigurer (Configurer_Unconfigure (reKube env) (reFin env) (reDrift env)
             (spServiceRef (mdSpec m)))))
    (seqT (op (onOffloader env (\<lambda>oe. Offloader_Cleanup oe m)))
          (forgetT (modelKey m)))))"

definition setUpT ::
  "('k, 'b) reconcile_env \<Rightarrow> model_deployment \<Rightarrow> offloading_config
   \<Rightarrow> (('k, 'b) reconciler, model_deployment) thread" where
  "setUpT env m oc =
     bindT (op (reads (\<lambda>r. withRemoteBackend (rcDefaultRemoteBackend r) oc m))) (\<lambda>m'.
     seqT (op (onConfigurer (Configurer_Configure (reKube env) (spServiceRef (mdSpec m')))))
    (seqT (op (writes (storeOffloading (modelKey m) 0)))
    (seqT (op (writes (storeState (modelKey m) True)))
    (seqT (op (onMetrics (MetricInformer_Register (modelKey m) (registrationFor m' oc))))
    (seqT (op (onHealth (Health_Register (modelKey m) (spModelSourceRef (mdSpec m')))))
    (bindT (op (deref (spServiceRef (mdSpec m')))) (\<lambda>ref.
     seqT (op (onOffloader env (\<lambda>oe. Offloader_Configure oe m' (Some (beamlitBackend ref)) (remoteOf m') 0)))
          (retT m'))))))))"

definition configureOffloadingT ::
  "('k, 'b) reconcile_env \<Rightarrow> model_deployment \<Rightarrow> (('k, 'b) reconciler, model_deployment) thread" where
  "configureOffloadingT env m =
     seqT (takeDownT env m)
       (case spOffloadingConfig (mdSpec m) of
          None \<Rightarrow> retT m
        | Some oc \<Rightarrow> if \<not> spEnabled (mdSpec m) then retT m else setUpT env m oc)"

definition finalizeModelT ::
  "('k, 'b) reconcile_env \<Rightarrow> model_deployment \<Rightarrow> (('k, 'b) reconciler, unit) thread" where
  "finalizeModelT env m =
     seqT (op (writes (releaseClaim m)))
    (seqT (forgetT (modelKey m))
     (case spOffloadingConfig (mdSpec m) of
        None \<Rightarrow> retT ()
      | Some _ \<Rightarrow>
          seqT (op (onMetrics (MetricInformer_Unregister (modelKey m))))
         (seqT (op (onHealth (Health_Unregister (modelKey m))))
         (seqT (op (onConfigurer (Configurer_Unconfigure (reKube env) (reFin env) (reDrift env)
                  (spServiceRef (mdSpec m)))))
         (seqT (op (onOffloader env (\<lambda>oe. Offloader_Cleanup oe m)))
               (op (onRemote (DeleteModelDeployment (reSdk env) (spModel (mdSpec m))
                  (spEnvironment (mdSpec m))))))))))"

definition createOrUpdateT ::
  "('k, 'b) reconcile_env \<Rightarrow> model_deployment \<Rightarrow> (('k, 'b) reconciler, unit) thread" where
  "createOrUpdateT env m =
     bindT (op (reads (claimedByOther m))) (\<lambda>claimed.
     if claimed then retT ()
     else bindT (op (reads (upToDate m))) (\<lambda>current.
     if current then retT ()
     else
       bindT (op (podPort env (spServiceRef (mdSpec m)) (stServingPort (mdStatus m)))) (\<lambda>servingPort.
       bindT (op (podPort env (spMetricServiceRef (mdSpec m)) (stMetricPort (mdStatus m)))) (\<lambda>metricPort.
       bindT (op (onConfigurer (readCluster (\<lambda>k. ToBeamlitModelDeployment (workloadOf env k)
                (withPorts servingPort metricPort m))))) (\<lambda>beamlitModel.
       seqT (op (writes (claimModel m)))
      (bindT (op (onRemote (CreateOrUpdateModel (reSdk env) beamlitModel))) (\<lambda>updated.
       bindT (op (withAnswer env updated (withPorts servingPort metricPort m))) (\<lambda>m1.
       bindT (configureOffloadingT env m1) (\<lambda>m2.
       bindT (op (onConfigurer (writeCluster (reStatusUpdate env m2)))) (\<lambda>m3.
       op (writes (recordModel m3))))))))))))"

definition reconcileLiveT ::
  "('k, 'b) reconcile_env \<Rightarrow> model_deployment \<Rightarrow> (('k, 'b) reconciler, bool) thread" where
  "reconcileLiveT env m =
     catchT (createOrUpdateT env m) (\<lambda>res.
       case res of
         Ok _ \<Rightarrow> retT False
       | Err e \<Rightarrow>
           if e = ConflictErr then retT True
           else seqT (op (writes (deleteState (modelKey m))))
               (seqT (op (writes (deleteOngoing (modelKey m))))
               (seqT (op (writes (deleteManaged (modelKey m))))
                     (Ended (Err e))))
       | Panic p \<Rightarrow> Ended (Panic p))"

definition ReconcileT ::
  "('k, 'b) reconcile_env \<Rightarrow> string \<times> string \<Rightarrow> (('k, 'b) reconciler, bool) thread" where
  "ReconcileT env req =
     bindT (op (reads (\<lambda>r. reGet env (clusterOf r) (fst req) (snd req)))) (\<lambda>found.
       case found of
         Inl NotFoundErr \<Rightarrow> retT False
       | Inl e \<Rightarrow> Ended (Err e)
       | Inr m \<Rightarrow>
           if mdDeletionTimestamp m \<noteq> None then
             (if modelDeploymentFinalizer \<in> set (mdFinalizers m) then
                seqT (finalizeModelT env m)
               (seqT (op (onConfigurer (writeCluster (reUpdate env
                        (m\<lparr>mdFinalizers := removeAll modelDeploymentFinalizer (mdFinalizers m)\<rparr>)))))
                     (retT False))
              else retT False)
           else if modelDeploymentFinalizer \<notin> set (mdFinalizers m) then
             seqT (op (onConfigurer (writeCluster (reUpdate env
                     (m\<lparr>mdFinalizers := mdFinalizers m @ [modelDeploymentFinalizer]\<rparr>)))))
                  (retT False)
           else reconcileLiveT env m)"

definition offloadToT ::
  "('k, 'b) reconcile_env \<Rightarrow> model_deployment \<Rightarrow> int \<Rightarrow> (('k, 'b) reconciler, unit) thread" where
  "offloadToT env m p =
     bindT (op (onConfigurer (GetLocalBeamlitService (spServiceRef (mdSpec m))))) (\<lambda>localRef.
     bindT (op (deref (spOffloadingConfig (mdSpec m)))) (\<lambda>oc.
     op (onOffloader env (\<lambda>oe. Offloader_Configure oe m (Some localRef) (ofRemoteBackend oc) p))))"

definition metricCallbackT ::
  "('k, 'b) reconcile_env \<Rightarrow> model_deployment \<Rightarrow> bool \<Rightarrow> (('k, 'b) reconciler, unit) thread" where
  "metricCallbackT env m rch =
     bindT (op (reads (\<lambda>r. rcModelState r (modelKey m)))) (\<lambda>state.
     if state = Some False then retT ()
     else bindT (op (reads (\<lambda>r. rcOngoingOffloadings r (modelKey m)))) (\<lambda>ongoing.
       case ongoing of
         None \<Rightarrow> retT ()
       | Some v \<Rightarrow>
           if \<not> rch then
             (if v \<noteq> 0 then
                seqT (op (writes (deleteOngoing (modelKey m))))
               (seqT (offloadToT env m 0)
                     (loggedT (op (notifyOnBeamlit env m False))))
              else retT ())
           else
             bindT (op (percentageOf m)) (\<lambda>p.
               if v \<noteq> p then
                 seqT (offloadToT env m p)
                (seqT (op (writes (storeOffloading (modelKey m) p)))
                      (loggedT (op (notifyOnBeamlit env m True))))
               else retT ())))"

definition healthCheckCallbackT ::
  "('k, 'b) reconcile_env \<Rightarrow> model_deployment \<Rightarrow> bool \<Rightarrow> (('k, 'b) reconciler, unit) thread" where
  "healthCheckCallbackT env m healthy =
     (if \<not> healthy then
        seqT (offloadToT env m 100)
       (seqT (op (writes (storeOffloading (modelKey m) 100)))
       (seqT (loggedT (op (notifyOnBeamlit env m True)))
             (op (writes (storeState (modelKey m) False)))))
      else
        bindT (op (reads (\<lambda>r. rcOngoingOffloadings r (modelKey m)))) (\<lambda>ongoing.
          case ongoing of
            None \<Rightarrow> retT ()
          | Some v \<Rightarrow>
              bindT (op (percentageOf m)) (\<lambda>p.
                if v = p then retT ()
                else seqT (offloadToT env m p)
                    (seqT (op (writes (storeOffloading (modelKey m) p)))
                    (seqT (loggedT (op (notifyOnBeamlit env m True)))
                          (op (writes (storeState (modelKey m) True))))))))"

definition informerTurnT ::
  "('k, 'b) reconcile_env \<Rightarrow> informer_update \<Rightarrow> (('k, 'b) reconciler, unit) thread" where
  "informerTurnT env ev =
     bindT (op (reads (\<lambda>r. rcManagedModels r (updatedModel ev)))) (\<lambda>managed.
       case managed of
         None \<Rightarrow> retT ()
       | Some v \<Rightarrow>
           if (case ev of MetricUpdate _ \<Rightarrow> \<not> mmHealthy v | HealthUpdate _ \<Rightarrow> False) then retT ()
           else bindT (op (reads (\<lambda>r. reGet env (clusterOf r) (mmNamespace v) (mmName v)))) (\<lambda>found.
             case found of
               Inl e \<Rightarrow> retT ()
             | Inr m \<Rightarrow>
                 bindT (op (withDefault m)) (\<lambda>m'.
                   case ev of
                     HealthUpdate hs \<Rightarrow> loggedT (healthCheckCallbackT env m' (hsHealthy hs))
                   | MetricUpdate ms \<Rightarrow> loggedT (metricCallbackT env m' (msReached ms)))))"

section \<open>Interleaving\<close>

text \<open>
  The two goroutines: the worker is idle or inside a \<open>Reconcile\<close>, the informer loop waits for an
  update or is inside the handling of one. A goroutine that panics has no further step.
\<close>

record ('k, 'b) goroutines =
  gWorker :: "(('k, 'b) reconciler, bool) thread option"
  gInformer :: "(('k, 'b) reconciler, unit) thread option"
  gState :: "('k, 'b) reconciler"

inductive fine_step ::
  "('k, 'b) reconcile_env \<Rightarrow> ('k, 'b) goroutines \<Rightarrow> ('k, 'b) goroutines \<Rightarrow> bool" for env where
  worker_starts: "gWorker g = None \<Longrightarrow> fine_step env g (g\<lparr>gWorker := Some (ReconcileT env req)\<rparr>)"
| worker_runs: "gWorker g = Some (Op f k) \<Longrightarrow>
     fine_step env g (g\<lparr>gWorker := Some (k (gState g)), gState := f (gState g)\<rparr>)"
| worker_ends: "gWorker g = Some (Ended res) \<Longrightarrow> \<not> is_panic res \<Longrightarrow> fine_step env g (g\<lparr>gWorker := None\<rparr>)"
| informer_starts: "gInformer g = None \<Longrightarrow> fine_step env g (g\<lparr>gInformer := Some (informerTurnT env ev)\<rparr>)"
| informer_runs: "gInformer g = Some (Op f k) \<Longrightarrow>
     fine_step env g (g\<lparr>gInformer := Some (k (gState g)), gState := f (gState g)\<rparr>)"
| informer_ends: "gInformer g = Some (Ended res) \<Longrightarrow> \<not> is_panic res \<Longrightarrow> fine_step env g (g\<lparr>gInformer := None\<rparr>)"
| others_run: "(case onConfigurer (Configurer_Start gw) (gState g) of (res, r) \<Rightarrow> r = r') \<or>
     r' = (gState g)\<lparr>rcMetricInformer := scheduleMetrics (rcMetricInformer (gState g)),
       rcHealthInformer := Health_schedule (rcHealthInformer (gState g))\<rparr> \<or>
     r' = (gState g)\<lparr>rcConfigurer := (rcConfigurer (gState g))\<lparr>cfCluster := k\<rparr>, rcRemote := b\<rparr>
     \<Longrightarrow> fine_step env g (g\<lparr>gState := r'\<rparr>)"

definition idle :: "('k, 'b) reconciler \<Rightarrow> ('k, 'b) goroutines" where
  "idle r = \<lparr>gWorker = None, gInformer = None, gState = r\<rparr>"

definition fine_reachable ::
  "('k, 'b) reconcile_env \<Rightarrow> ('k, 'b) goroutines \<Rightarrow> ('k, 'b) goroutines \<Rightarrow> bool" where
  "fine_reachable env = (fine_step env)\<^sup>*\<^sup>*"

end
