(* ===== verification/Thread_Facts.thy ===== *)
theory Thread_Facts
  imports Controller_Threads Model_Facts
begin

text \<open>
  What survives when the two goroutines of the controller interleave at every operation: the handlers
  are the threads run alone, a run of whole handlers is a run of the goroutines, the maps keep their
  types; and an interleaving that no run of whole handlers has.
\<close>

section \<open>Running a thread alone\<close>

named_theorems run_simps "threads run without interruption"

lemma run_op [run_simps]: "run_thread (op m) = m"
  by (simp add: op_def)

lemma run_retT [run_simps]: "run_thread (retT x) = ret x"
  by (simp add: retT_def ret_def fun_eq_iff)

lemma run_bindT [run_simps]: "run_thread (bindT t k) = bindG (run_thread t) (\<lambda>x. run_thread (k x))"
  by (induction t) (auto simp: bindG_def fun_eq_iff split: outcome.splits)

lemma run_seqT [run_simps]: "run_thread (seqT t k) = seqG (run_thread t) (run_thread k)"
  by (simp add: seqT_def seqG_def run_bindT)

lemma run_catchT [run_simps]:
  "run_thread (catchT t k) = (\<lambda>s. case run_thread t s of (res, s') \<Rightarrow> run_thread (k res) s')"
  by (induction t) (auto simp: fun_eq_iff)

lemma run_loggedT [run_simps]: "run_thread (loggedT t) = logged (run_thread t)"
  by (auto simp: loggedT_def run_catchT logged_def fun_eq_iff split: prod.splits outcome.splits)

lemma run_if [run_simps]: "run_thread (if b then t else u) = (if b then run_thread t else run_thread u)"
  by simp

lemma forget_steps: "deleteManaged key (deleteState key (deleteOngoing key r)) = forgetModel key r"
    "deleteManaged key (deleteOngoing key (deleteState key r)) = forgetModel key r"
  by (simp_all add: deleteManaged_def deleteState_def deleteOngoing_def forgetModel_def)

lemma run_forgetT [run_simps]: "run_thread (forgetT key) = writes (forgetModel key)"
  by (simp add: forgetT_def run_simps fun_eq_iff forget_steps writes_def)

lemma run_takeDownT [run_simps]: "run_thread (takeDownT env m) = takeDown env m"
  by (simp add: takeDownT_def takeDown_def run_simps)

lemma run_setUpT [run_simps]: "run_thread (setUpT env m oc) = setUp env m oc"
  by (simp add: setUpT_def setUp_def run_simps)

lemma run_configureOffloadingT [run_simps]: "run_thread (configureOffloadingT env m) = configureOffloading env m"
  by (simp add: configureOffloadingT_def configureOffloading_def run_simps split: option.splits)

lemma run_finalizeModelT [run_simps]: "run_thread (finalizeModelT env m) = finalizeModel env m"
  by (simp add: finalizeModelT_def finalizeModel_def run_simps split: option.splits)

lemma run_createOrUpdateT [run_simps]: "run_thread (createOrUpdateT env m) = createOrUpdate env m"
  by (simp add: createOrUpdateT_def createOrUpdate_def run_simps fun_eq_iff)

lemma run_reconcileLiveT [run_simps]: "run_thread (reconcileLiveT env m) = reconcileLive env m"
  by (simp add: reconcileLiveT_def reconcileLive_def run_simps fun_eq_iff ret_def forget_steps
      split: prod.splits outcome.splits)

lemma run_offloadToT [run_simps]: "run_thread (offloadToT env m p) = offloadTo env m p"
  by (simp add: offloadToT_def offloadTo_def run_simps)

lemma run_metricCallbackT [run_simps]: "run_thread (metricCallbackT env m b) = metricCallback env m b"
  by (simp add: metricCallbackT_def metricCallback_def run_simps fun_eq_iff deleteOngoing_def [abs_def]
      cong: if_cong split: option.splits)

lemma run_healthCheckCallbackT [run_simps]: "run_thread (healthCheckCallbackT env m b) = healthCheckCallback env m b"
  by (simp add: healthCheckCallbackT_def healthCheckCallback_def run_simps fun_eq_iff cong: if_cong
      split: option.splits)

lemma run_ReconcileT: "run_thread (ReconcileT env req) = Reconcile env req"
  by (simp add: ReconcileT_def Reconcile_def run_simps fun_eq_iff ret_def split: sum.splits go_error.splits)

lemma run_informerTurnT: "run_thread (informerTurnT env ev) = informerTurn env ev"
  by (simp add: informerTurnT_def informerTurn_def run_simps fun_eq_iff ret_def split: option.splits sum.splits
      informer_update.splits)


section \<open>Threads that keep a predicate\<close>

text \<open>Every operation of the thread keeps \<open>P\<close>, wherever the thread is resumed.\<close>

primrec keepsT :: "('s \<Rightarrow> bool) \<Rightarrow> ('s, 'a) thread \<Rightarrow> bool" where
  "keepsT P (Ended res) \<longleftrightarrow> True"
| "keepsT P (Op f k) \<longleftrightarrow> (\<forall>s. P s \<longrightarrow> P (f s) \<and> keepsT P (k s))"

named_theorems keepsT_intros "rules that propagate a predicate through the operations of a thread"

lemma keepsT_op [keepsT_intros]: "keeps P m \<Longrightarrow> keepsT P (op m)"
  by (simp add: op_def keeps_def)

lemma keepsT_bindT [keepsT_intros]: "keepsT P t \<Longrightarrow> (\<And>x. keepsT P (k x)) \<Longrightarrow> keepsT P (bindT t k)"
  by (induction t) (auto split: outcome.splits)

lemma keepsT_seqT [keepsT_intros]: "keepsT P t \<Longrightarrow> keepsT P k \<Longrightarrow> keepsT P (seqT t k)"
  by (simp add: seqT_def keepsT_bindT)

lemma keepsT_retT [keepsT_intros]: "keepsT P (retT x)"
  by (simp add: retT_def)

lemma keepsT_Ended [keepsT_intros]: "keepsT P (Ended res)"
  by simp

lemma keepsT_catchT [keepsT_intros]: "keepsT P t \<Longrightarrow> (\<And>res. keepsT P (k res)) \<Longrightarrow> keepsT P (catchT t k)"
  by (induction t) auto

lemma keepsT_loggedT [keepsT_intros]: "keepsT P t \<Longrightarrow> keepsT P (loggedT t)"
  unfolding loggedT_def by (intro keepsT_intros)

lemma keepsT_if [keepsT_intros]: "keepsT P t \<Longrightarrow> keepsT P u \<Longrightarrow> keepsT P (if b then t else u)"
  by simp

lemma keepsT_bind_op:
  assumes "keeps P m" and "\<And>s x t. m s = (Ok x, t) \<Longrightarrow> keepsT P (k x)"
  shows "keepsT P (bindT (op m) k)"
  using assms by (auto simp: op_def keeps_def split: outcome.splits) (metis prod.collapse)

text \<open>The values a thread can end with.\<close>

primrec yields :: "('a \<Rightarrow> bool) \<Rightarrow> ('s, 'a) thread \<Rightarrow> bool" where
  "yields Q (Ended res) \<longleftrightarrow> (\<forall>x. res = Ok x \<longrightarrow> Q x)"
| "yields Q (Op f k) \<longleftrightarrow> (\<forall>s. yields Q (k s))"

lemma yields_bindT: "(\<And>x. yields Q (k x)) \<Longrightarrow> yields Q (bindT t k)"
  by (induction t) (auto split: outcome.splits)

lemma yields_seqT: "yields Q k \<Longrightarrow> yields Q (seqT t k)"
  by (simp add: seqT_def yields_bindT)

lemma yields_retT: "Q x \<Longrightarrow> yields Q (retT x)"
  by (simp add: retT_def)

lemma yields_bind_reads: "(\<And>s. yields Q (k (f s))) \<Longrightarrow> yields Q (bindT (op (reads f)) k)"
  by (simp add: op_def reads_def)

lemma keepsT_bind_yields:
  "keepsT P t \<Longrightarrow> yields Q t \<Longrightarrow> (\<And>x. Q x \<Longrightarrow> keepsT P (k x)) \<Longrightarrow> keepsT P (bindT t k)"
  by (induction t) (auto split: outcome.splits)

lemma keepsT_bind_reads: "(\<And>s. P s \<Longrightarrow> keepsT P (k (f s))) \<Longrightarrow> keepsT P (bindT (op (reads f)) k)"
  by (simp add: op_def reads_def)

lemma setUpT_yields: "yields (\<lambda>m'. modelKey m' = modelKey m) (setUpT env m oc)"
  unfolding setUpT_def
  by (rule yields_bind_reads) (intro yields_seqT yields_bindT yields_retT, simp)

lemma configureOffloadingT_yields: "yields (\<lambda>m'. modelKey m' = modelKey m) (configureOffloadingT env m)"
  unfolding configureOffloadingT_def
  by (auto intro!: yields_seqT yields_retT setUpT_yields split: option.splits)

section \<open>Predicates on the maps\<close>

text \<open>
  The interface between a predicate on the maps and the operations of the handlers: \<open>P\<close> does not look at
  the components, and it survives each single operation on the entries of the models in \<open>K\<close>. The
  handlers of such models then keep \<open>P\<close> at every operation.
\<close>

locale map_predicate =
  fixes P :: "('k, 'b) reconciler \<Rightarrow> bool" and K :: "string set"
  assumes own: "own_maps P"
    and claims: "P r \<Longrightarrow> P (claimModel m r)" "P r \<Longrightarrow> P (releaseClaim m r)"
    and deletes: "key \<in> K \<Longrightarrow> P r \<Longrightarrow> P (deleteOngoing key r)" "key \<in> K \<Longrightarrow> P r \<Longrightarrow> P (deleteState key r)"
      "key \<in> K \<Longrightarrow> P r \<Longrightarrow> P (deleteManaged key r)"
    and stores: "key \<in> K \<Longrightarrow> P r \<Longrightarrow> P (storeState key b r)"
      "key \<in> K \<Longrightarrow> 0 \<le> p \<Longrightarrow> p \<le> 100 \<Longrightarrow> P r \<Longrightarrow> P (storeOffloading key p r)"
    and records: "modelKey m \<in> K \<Longrightarrow> P r \<Longrightarrow> P (recordModel m r)"
begin

lemma components:
  "keepsT P (op (onConfigurer mc))" "keepsT P (op (onMetrics mm))" "keepsT P (op (onHealth mh))"
  "keepsT P (op (onRemote mr))" "keepsT P (op (onOffloader env f))" "keepsT P (op (notifyOnBeamlit env m b))"
  "keepsT P (op (podPort env ref p))" "keepsT P (op (reads g))" "keepsT P (op (deref x))"
  by (intro keepsT_op keeps_components keeps_podPort keeps_reads keeps_deref own)+

lemma writes:
  "keepsT P (op (writes (claimModel m)))" "keepsT P (op (writes (releaseClaim m)))"
  "key \<in> K \<Longrightarrow> keepsT P (op (writes (deleteOngoing key)))" "key \<in> K \<Longrightarrow> keepsT P (op (writes (deleteState key)))"
  "key \<in> K \<Longrightarrow> keepsT P (op (writes (deleteManaged key)))" "key \<in> K \<Longrightarrow> keepsT P (op (writes (storeState key b)))"
  "key \<in> K \<Longrightarrow> 0 \<le> p \<Longrightarrow> p \<le> 100 \<Longrightarrow> keepsT P (op (writes (storeOffloading key p)))"
  "modelKey m \<in> K \<Longrightarrow> keepsT P (op (writes (recordModel m)))"
  by (intro keepsT_op keeps_writes; simp add: claims deletes stores records)+

lemmas flow = keepsT_seqT keepsT_if keepsT_retT keepsT_Ended keepsT_loggedT components writes

lemma forgetT: "key \<in> K \<Longrightarrow> keepsT P (forgetT key)"
  unfolding forgetT_def by (intro flow)

lemma takeDownT: "modelKey m \<in> K \<Longrightarrow> keepsT P (takeDownT env m)"
  unfolding takeDownT_def by (intro flow forgetT)

lemma setUpT: "modelKey m \<in> K \<Longrightarrow> keepsT P (setUpT env m oc)"
  unfolding setUpT_def by (intro keepsT_bindT flow) simp_all

lemma configureOffloadingT: "modelKey m \<in> K \<Longrightarrow> keepsT P (configureOffloadingT env m)"
  unfolding configureOffloadingT_def by (auto intro!: flow takeDownT setUpT split: option.splits)

lemma finalizeModelT: "modelKey m \<in> K \<Longrightarrow> keepsT P (finalizeModelT env m)"
  unfolding finalizeModelT_def by (auto intro!: flow forgetT split: option.splits)

lemma offloadToT: "keepsT P (offloadToT env m p)"
  unfolding offloadToT_def by (intro keepsT_bindT components)

text \<open>The status subresource hands back an object of the same models.\<close>

lemma answered_model:
  assumes status: "\<forall>m k m' k'. reStatusUpdate env m k = (Inr m', k') \<longrightarrow> modelKey m \<in> K \<longrightarrow> modelKey m' \<in> K"
    and key: "modelKey m \<in> K"
  shows "keepsT P (bindT (op (withAnswer env updated (withPorts a b m))) (\<lambda>m1.
    bindT (configureOffloadingT env m1) (\<lambda>m2.
    bindT (op (onConfigurer (writeCluster (reStatusUpdate env m2)))) (\<lambda>m3. op (writes (recordModel m3))))))"
proof (rule keepsT_bind_op)
  fix r m1 r' assume "withAnswer env updated (withPorts a b m) r = (Ok m1, r')"
  then have m1: "modelKey m1 \<in> K" using withAnswer_Ok [of env updated "withPorts a b m" r m1 r'] key by simp
  show "keepsT P (bindT (configureOffloadingT env m1) (\<lambda>m2.
      bindT (op (onConfigurer (writeCluster (reStatusUpdate env m2)))) (\<lambda>m3. op (writes (recordModel m3)))))"
  proof (rule keepsT_bind_yields [OF configureOffloadingT [OF m1] configureOffloadingT_yields])
    fix m2 assume m2: "modelKey m2 = modelKey m1"
    show "keepsT P (bindT (op (onConfigurer (writeCluster (reStatusUpdate env m2)))) (\<lambda>m3. op (writes (recordModel m3))))"
    proof (rule keepsT_bind_op)
      fix r :: "('k, 'b) reconciler" and m3 r' assume "onConfigurer (writeCluster (reStatusUpdate env m2)) r = (Ok m3, r')"
      then obtain k where "reStatusUpdate env m2 (clusterOf r) = (Inr m3, k)"
        by (auto simp: onConfigurer_def zoom_Ok_iff writeCluster_Ok_iff)
      from status [rule_format, OF this] m1 m2 show "keepsT P (op (writes (recordModel m3)))" by (intro writes) simp
    qed (intro keeps_components own)
  qed
qed (rule keeps_withAnswer)

lemma reconcileLiveT:
  assumes status: "\<forall>m k m' k'. reStatusUpdate env m k = (Inr m', k') \<longrightarrow> modelKey m \<in> K \<longrightarrow> modelKey m' \<in> K"
    and "modelKey m \<in> K"
  shows "keepsT P (reconcileLiveT env m)"
  unfolding reconcileLiveT_def createOrUpdateT_def
  using assms(2)
  by (intro keepsT_catchT keepsT_bindT [OF components(8)] keepsT_bindT [OF components(7)] keepsT_bindT [OF components(1)]
      keepsT_bindT [OF components(4)] answered_model [OF status] flow)
    (auto intro!: flow split: outcome.splits)

lemma ReconcileT:
  assumes status: "\<forall>m k m' k'. reStatusUpdate env m k = (Inr m', k') \<longrightarrow> modelKey m \<in> K \<longrightarrow> modelKey m' \<in> K"
    and get: "\<And>k m. reGet env k (fst req) (snd req) = Inr m \<Longrightarrow> modelKey m \<in> K"
  shows "keepsT P (ReconcileT env req)"
  unfolding ReconcileT_def
proof (rule keepsT_bind_op [OF keeps_reads])
  fix r :: "('k, 'b) reconciler" and found r'
  assume "reads (\<lambda>r. reGet env (clusterOf r) (fst req) (snd req)) r = (Ok found, r')"
  then have "modelKey m \<in> K" if "found = Inr m" for m using get that by (auto simp: reads_def)
  then show "keepsT P (case found of Inl NotFoundErr \<Rightarrow> retT False | Inl e \<Rightarrow> Ended (Err e) | Inr m \<Rightarrow>
      if mdDeletionTimestamp m \<noteq> None then
        (if modelDeploymentFinalizer \<in> set (mdFinalizers m) then
           seqT (finalizeModelT env m) (seqT (op (onConfigurer (writeCluster (reUpdate env
             (m\<lparr>mdFinalizers := removeAll modelDeploymentFinalizer (mdFinalizers m)\<rparr>))))) (retT False))
         else retT False)
      else if modelDeploymentFinalizer \<notin> set (mdFinalizers m) then
        seqT (op (onConfigurer (writeCluster (reUpdate env
          (m\<lparr>mdFinalizers := mdFinalizers m @ [modelDeploymentFinalizer]\<rparr>))))) (retT False)
      else reconcileLiveT env m)"
    by (auto intro!: flow finalizeModelT reconcileLiveT [OF status] split: sum.splits go_error.splits)
qed

lemma percentage:
  assumes "valid_percentage m" and "\<And>p. 0 \<le> p \<Longrightarrow> p \<le> 100 \<Longrightarrow> keepsT P (k p)"
  shows "keepsT P (bindT (op (percentageOf m)) k)"
  by (rule keepsT_bind_op) (auto intro: keeps_percentageOf assms(2) dest: percentageOf_Ok [OF assms(1)])

lemma metricCallbackT:
  "valid_percentage m \<Longrightarrow> modelKey m \<in> K \<Longrightarrow> keepsT P (metricCallbackT env m rch)"
  unfolding metricCallbackT_def
  by (intro keepsT_bindT [OF components(8)] keepsT_if keepsT_retT)
    (auto intro!: percentage flow offloadToT split: option.splits)

lemma healthCheckCallbackT:
  "valid_percentage m \<Longrightarrow> modelKey m \<in> K \<Longrightarrow> keepsT P (healthCheckCallbackT env m healthy)"
  unfolding healthCheckCallbackT_def
  by (intro keepsT_bindT [OF components(8)] flow offloadToT) (auto intro!: percentage flow offloadToT split: option.splits)

lemma updateT:
  assumes "valid_percentage m" and "modelKey m \<in> K"
  shows "keepsT P (bindT (op (withDefault m)) (\<lambda>m'. case ev of
      HealthUpdate hs \<Rightarrow> loggedT (healthCheckCallbackT env m' (hsHealthy hs))
    | MetricUpdate ms \<Rightarrow> loggedT (metricCallbackT env m' (msReached ms))))"
proof (rule keepsT_bind_op)
  show "keeps P (withDefault m)" unfolding withDefault_def by (intro keeps_intros)
  fix r :: "('k, 'b) reconciler" and m' r' assume "withDefault m r = (Ok m', r')"
  then have "valid_percentage m'" and "modelKey m' \<in> K"
    using assms by (auto simp: withDefault_Ok valid_percentage_default)
  then show "keepsT P (case ev of HealthUpdate hs \<Rightarrow> loggedT (healthCheckCallbackT env m' (hsHealthy hs))
      | MetricUpdate ms \<Rightarrow> loggedT (metricCallbackT env m' (msReached ms)))"
    by (auto intro!: keepsT_loggedT healthCheckCallbackT metricCallbackT split: informer_update.splits)
qed

lemma informerTurnT:
  assumes valid: "\<And>k ns n m. reGet env k ns n = Inr m \<Longrightarrow> valid_percentage m"
    and key: "\<And>r v k m. P r \<Longrightarrow> rcManagedModels r (updatedModel ev) = Some v
      \<Longrightarrow> reGet env k (mmNamespace v) (mmName v) = Inr m \<Longrightarrow> modelKey m \<in> K"
  shows "keepsT P (informerTurnT env ev)"
proof -
  have get: "keepsT P (bindT (op (reads (\<lambda>r. reGet env (clusterOf r) (mmNamespace v) (mmName v)))) (\<lambda>found. case found of
      Inl e \<Rightarrow> retT ()
    | Inr m \<Rightarrow> bindT (op (withDefault m)) (\<lambda>m'. case ev of
        HealthUpdate hs \<Rightarrow> loggedT (healthCheckCallbackT env m' (hsHealthy hs))
      | MetricUpdate ms \<Rightarrow> loggedT (metricCallbackT env m' (msReached ms)))))"
    if "\<And>k m. reGet env k (mmNamespace v) (mmName v) = Inr m \<Longrightarrow> modelKey m \<in> K" for v
    using that valid
    by (intro keepsT_bind_op keeps_reads) (auto simp: reads_def intro!: keepsT_retT updateT split: sum.splits)
  show ?thesis
    unfolding informerTurnT_def
  proof (rule keepsT_bind_reads)
    fix r assume "P r"
    then show "keepsT P (case rcManagedModels r (updatedModel ev) of None \<Rightarrow> retT () | Some v \<Rightarrow>
        if (case ev of MetricUpdate _ \<Rightarrow> \<not> mmHealthy v | HealthUpdate _ \<Rightarrow> False) then retT ()
        else bindT (op (reads (\<lambda>r. reGet env (clusterOf r) (mmNamespace v) (mmName v)))) (\<lambda>found. case found of
            Inl e \<Rightarrow> retT ()
          | Inr m \<Rightarrow> bindT (op (withDefault m)) (\<lambda>m'. case ev of
              HealthUpdate hs \<Rightarrow> loggedT (healthCheckCallbackT env m' (hsHealthy hs))
            | MetricUpdate ms \<Rightarrow> loggedT (metricCallbackT env m' (msReached ms)))))"
      by (auto intro!: keepsT_retT get key [of r] split: option.splits)
  qed
qed

end

text \<open>The part of the controller's invariant that every single operation keeps, for all models.\<close>

definition map_types :: "('k, 'b) reconciler \<Rightarrow> bool" where
  "map_types r \<longleftrightarrow>
     (\<forall>key p. rcOngoingOffloadings r key = Some p \<longrightarrow> 0 \<le> p \<and> p \<le> 100)
     \<and> (\<forall>key v. rcManagedModels r key = Some v \<longrightarrow>
          mmHealthy v \<and> key = slash_key (mmNamespace v) (mmName v))"

lemmas map_ops = claimModel_def releaseClaim_def deleteOngoing_def deleteState_def deleteManaged_def storeState_def
  storeOffloading_def recordModel_def modelKey_def

interpretation types: map_predicate map_types UNIV
  by unfold_locales (simp_all add: own_maps_def map_types_def map_ops)

text \<open>The same, with what the maps hold for one model, for the handlers of the others.\<close>

definition entries_are ::
  "string \<Rightarrow> int option \<times> bool option \<times> managedModel option \<Rightarrow> ('k, 'b) reconciler \<Rightarrow> bool" where
  "entries_are key e r \<longleftrightarrow> (rcOngoingOffloadings r key, rcModelState r key, rcManagedModels r key) = e"

interpretation others: map_predicate "\<lambda>r. map_types r \<and> entries_are key e r" "- {key}" for key e
  by unfold_locales (simp_all add: own_maps_def map_types_def entries_are_def map_ops)

section \<open>The goroutines\<close>

text \<open>The state has \<open>P\<close> and what is left of each handler keeps it.\<close>

definition kept :: "(('k, 'b) reconciler \<Rightarrow> bool) \<Rightarrow> ('k, 'b) goroutines \<Rightarrow> bool" where
  "kept P g \<longleftrightarrow> P (gState g) \<and> pred_option (keepsT P) (gWorker g) \<and> pred_option (keepsT P) (gInformer g)"

lemma kept_idle: "kept P (idle r) \<longleftrightarrow> P r"
  by (simp add: kept_def idle_def)

text \<open>A step keeps \<open>P\<close> unless it starts a handler that does not.\<close>

lemma kept_fine_step:
  assumes "fine_step env g g'" and "kept P g" and own: "own_maps P"
    and "\<And>t. gWorker g = None \<Longrightarrow> gWorker g' = Some t \<Longrightarrow> keepsT P t"
    and "\<And>t. gInformer g = None \<Longrightarrow> gInformer g' = Some t \<Longrightarrow> keepsT P t"
  shows "kept P g'"
  using assms(1,2)
proof cases
  case (others_run gw r' k b)
  then have "P r'" using assms(2) own
    by (auto simp: kept_def own_maps_def onConfigurer_def zoom_def split: prod.splits)
  then show ?thesis using others_run assms(2) by (simp add: kept_def)
qed (use assms(2,4,5) in \<open>simp_all add: kept_def\<close>)

lemma typed_fine_reachable:
  assumes "fine_reachable env g g'" and "kept map_types g"
    and "\<forall>k ns n m. reGet env k ns n = Inr m \<longrightarrow> valid_percentage m"
  shows "kept map_types g'"
  using assms(1,2) unfolding fine_reachable_def
proof (induction rule: rtranclp_induct)
  case (step g1 g2)
  note step.hyps(2)
  then show ?case
  proof (rule kept_fine_step)
    fix t assume "gWorker g1 = None" "gWorker g2 = Some t"
    with step.hyps(2) obtain req where "t = ReconcileT env req" by cases auto
    then show "keepsT map_types t" using types.ReconcileT [of env req] by simp
  next
    fix t assume "gInformer g1 = None" "gInformer g2 = Some t"
    with step.hyps(2) obtain ev where "t = informerTurnT env ev" by cases auto
    then show "keepsT map_types t" using types.informerTurnT [of env ev] assms(3) by simp
  qed (use step types.own in simp_all)
qed

text \<open>A step that starts no handler of the model \<open>key\<close>.\<close>

definition spares :: "('k, 'b) reconcile_env \<Rightarrow> string \<Rightarrow> ('k, 'b) goroutines \<Rightarrow> ('k, 'b) goroutines \<Rightarrow> bool" where
  "spares env key g g' \<longleftrightarrow> fine_step env g g'
     \<and> (\<forall>t. gWorker g = None \<longrightarrow> gWorker g' = Some t \<longrightarrow> (\<exists>ns n. slash_key ns n \<noteq> key \<and> t = ReconcileT env (ns, n)))
     \<and> (\<forall>t. gInformer g = None \<longrightarrow> gInformer g' = Some t \<longrightarrow> (\<exists>ev. updatedModel ev \<noteq> key \<and> t = informerTurnT env ev))"

lemma spared_entries:
  assumes "(spares env key)\<^sup>*\<^sup>* g g'" and "kept (\<lambda>r. map_types r \<and> entries_are key e r) g"
    and get: "\<forall>k ns n m. reGet env k ns n = Inr m \<longrightarrow> modelKey m = slash_key ns n \<and> valid_percentage m"
    and status: "\<forall>m k m' k'. reStatusUpdate env m k = (Inr m', k') \<longrightarrow> modelKey m' = modelKey m"
  shows "kept (\<lambda>r. map_types r \<and> entries_are key e r) g'"
  using assms(1,2)
proof (induction rule: rtranclp_induct)
  case (step g1 g2)
  from step.hyps(2) have "fine_step env g1 g2" by (simp add: spares_def)
  then show ?case
  proof (rule kept_fine_step)
    fix t assume "gWorker g1 = None" "gWorker g2 = Some t"
    with step.hyps(2) obtain ns n where t: "slash_key ns n \<noteq> key" "t = ReconcileT env (ns, n)"
      unfolding spares_def by blast
    show "keepsT (\<lambda>r. map_types r \<and> entries_are key e r) t"
      unfolding t(2) by (rule others.ReconcileT) (use get status t(1) in auto)
  next
    fix t assume "gInformer g1 = None" "gInformer g2 = Some t"
    with step.hyps(2) obtain ev where t: "updatedModel ev \<noteq> key" "t = informerTurnT env ev"
      unfolding spares_def by blast
    show "keepsT (\<lambda>r. map_types r \<and> entries_are key e r) t"
      unfolding t(2) by (rule others.informerTurnT) (use get t(1) in \<open>auto simp: map_types_def\<close>)
  qed (use step others.own in simp_all)
qed

lemma spared_start:
  "gWorker g = None \<Longrightarrow> slash_key ns n \<noteq> key \<Longrightarrow> spares env key g (g\<lparr>gWorker := Some (ReconcileT env (ns, n))\<rparr>)"
  unfolding spares_def by (auto intro: fine_step.worker_starts)

lemma spared_run:
  assumes "gWorker g = Some t" and "run_thread t (gState g) = (res, r')"
  shows "(spares env key)\<^sup>*\<^sup>* g (g\<lparr>gWorker := Some (Ended res), gState := r'\<rparr>)"
  using assms
proof (induction t arbitrary: g)
  case (Op f k)
  let ?g = "g\<lparr>gWorker := Some (k (gState g)), gState := f (gState g)\<rparr>"
  have "spares env key g ?g"
    using fine_step.worker_runs [OF Op.prems(1), of env] Op.prems(1) by (simp add: spares_def)
  moreover have "(spares env key)\<^sup>*\<^sup>* ?g (?g\<lparr>gWorker := Some (Ended res), gState := r'\<rparr>)"
    by (rule Op.IH [of "k (gState g)"]) (use Op.prems in simp_all)
  ultimately show ?case by (auto intro: converse_rtranclp_into_rtranclp)
next
  case (Ended out)
  then have "g\<lparr>gWorker := Some (Ended res), gState := r'\<rparr> = g" by simp
  then show ?case by simp
qed

text \<open>
  A goroutine can run to the end of its handler, or to the end of a part of it, while the other one
  waits.
\<close>

lemma fine_trans: "fine_reachable env a b \<Longrightarrow> fine_reachable env b c \<Longrightarrow> fine_reachable env a c"
  unfolding fine_reachable_def by (rule rtranclp_trans)

lemma fine_first: "fine_step env a b \<Longrightarrow> fine_reachable env b c \<Longrightarrow> fine_reachable env a c"
  unfolding fine_reachable_def by (rule converse_rtranclp_into_rtranclp)

lemma fine_refl: "fine_reachable env a a"
  unfolding fine_reachable_def by simp

lemma worker_completes:
  assumes "gWorker g = Some t" and "run_thread t (gState g) = (res, r')" and "\<not> is_panic res"
  shows "fine_reachable env g (g\<lparr>gWorker := None, gState := r'\<rparr>)"
  using assms
proof (induction t arbitrary: g)
  case (Ended out)
  then have "g\<lparr>gWorker := None, gState := r'\<rparr> = g\<lparr>gWorker := None\<rparr>" by simp
  with Ended fine_step.worker_ends [of g out env] show ?case by (auto intro: fine_first [OF _ fine_refl])
next
  case (Op f k)
  let ?g = "g\<lparr>gWorker := Some (k (gState g)), gState := f (gState g)\<rparr>"
  have "fine_reachable env ?g (?g\<lparr>gWorker := None, gState := r'\<rparr>)"
    by (rule Op.IH [of "k (gState g)"]) (use Op.prems in simp_all)
  with fine_step.worker_runs [of g f k env] Op.prems(1) show ?case by (auto intro: fine_first)
qed

lemma informer_completes:
  assumes "gInformer g = Some t" and "run_thread t (gState g) = (res, r')" and "\<not> is_panic res"
  shows "fine_reachable env g (g\<lparr>gInformer := None, gState := r'\<rparr>)"
  using assms
proof (induction t arbitrary: g)
  case (Ended out)
  then have "g\<lparr>gInformer := None, gState := r'\<rparr> = g\<lparr>gInformer := None\<rparr>" by simp
  with Ended fine_step.informer_ends [of g out env] show ?case by (auto intro: fine_first [OF _ fine_refl])
next
  case (Op f k)
  let ?g = "g\<lparr>gInformer := Some (k (gState g)), gState := f (gState g)\<rparr>"
  have "fine_reachable env ?g (?g\<lparr>gInformer := None, gState := r'\<rparr>)"
    by (rule Op.IH [of "k (gState g)"]) (use Op.prems in simp_all)
  with fine_step.informer_runs [of g f k env] Op.prems(1) show ?case by (auto intro: fine_first)
qed

lemma informer_advances:
  assumes "gInformer g = Some (catchT (bindT t k) h)" and "run_thread t (gState g) = (Ok x, r')"
  shows "fine_reachable env g (g\<lparr>gInformer := Some (catchT (k x) h), gState := r'\<rparr>)"
  using assms
proof (induction t arbitrary: g)
  case (Ended out)
  then have "g\<lparr>gInformer := Some (catchT (k x) h), gState := r'\<rparr> = g" by (cases g) auto
  then show ?case by (simp add: fine_refl)
next
  case (Op f c)
  let ?g = "g\<lparr>gInformer := Some (catchT (bindT (c (gState g)) k) h), gState := f (gState g)\<rparr>"
  have "fine_reachable env ?g (?g\<lparr>gInformer := Some (catchT (k x) h), gState := r'\<rparr>)"
    by (rule Op.IH [of "c (gState g)"]) (use Op.prems in simp_all)
  with fine_step.informer_runs [of g f "\<lambda>s. catchT (bindT (c s) k) h" env] Op.prems(1) show ?case
    by (auto intro: fine_first)
qed

lemma informer_starts_with:
  assumes "gInformer g = Some (bindT t k)" and "run_thread t (gState g) = (Ok x, r')"
  shows "fine_reachable env g (g\<lparr>gInformer := Some (k x), gState := r'\<rparr>)"
  using assms
proof (induction t arbitrary: g)
  case (Ended out)
  then have "g\<lparr>gInformer := Some (k x), gState := r'\<rparr> = g" by (cases g) auto
  then show ?case by (simp add: fine_refl)
next
  case (Op f c)
  let ?g = "g\<lparr>gInformer := Some (bindT (c (gState g)) k), gState := f (gState g)\<rparr>"
  have "fine_reachable env ?g (?g\<lparr>gInformer := Some (k x), gState := r'\<rparr>)"
    by (rule Op.IH [of "c (gState g)"]) (use Op.prems in simp_all)
  with fine_step.informer_runs [of g f "\<lambda>s. bindT (c s) k" env] Op.prems(1) show ?case
    by (auto intro: fine_first)
qed

lemma bindT_assoc: "bindT (bindT t k) l = bindT t (\<lambda>x. bindT (k x) l)"
  by (induction t) (auto split: outcome.splits)

lemma worker_reconciles:
  assumes "gWorker g = None" and "Reconcile env req (gState g) = (res, r')" and "\<not> is_panic res"
  shows "fine_reachable env g (g\<lparr>gState := r'\<rparr>)"
proof -
  have "fine_reachable env (g\<lparr>gWorker := Some (ReconcileT env req)\<rparr>)
      (g\<lparr>gWorker := Some (ReconcileT env req)\<rparr>\<lparr>gWorker := None, gState := r'\<rparr>)"
    by (rule worker_completes [where t = "ReconcileT env req" and res = res]) (use assms in \<open>simp_all add: run_ReconcileT\<close>)
  moreover have "g\<lparr>gWorker := Some (ReconcileT env req)\<rparr>\<lparr>gWorker := None, gState := r'\<rparr> = g\<lparr>gState := r'\<rparr>"
    using assms(1) by (cases g) simp
  ultimately show ?thesis using fine_first [OF fine_step.worker_starts [OF assms(1), of env req]] by simp
qed

lemma informer_turns:
  assumes "gInformer g = None" and "informerTurn env ev (gState g) = (res, r')" and "\<not> is_panic res"
  shows "fine_reachable env g (g\<lparr>gState := r'\<rparr>)"
proof -
  have "fine_reachable env (g\<lparr>gInformer := Some (informerTurnT env ev)\<rparr>)
      (g\<lparr>gInformer := Some (informerTurnT env ev)\<rparr>\<lparr>gInformer := None, gState := r'\<rparr>)"
    by (rule informer_completes [where t = "informerTurnT env ev" and res = res]) (use assms in \<open>simp_all add: run_informerTurnT\<close>)
  moreover have "g\<lparr>gInformer := Some (informerTurnT env ev)\<rparr>\<lparr>gInformer := None, gState := r'\<rparr> = g\<lparr>gState := r'\<rparr>"
    using assms(1) by (cases g) simp
  ultimately show ?thesis using fine_first [OF fine_step.informer_starts [OF assms(1), of env ev]] by simp
qed

lemma coarse_step_is_fine:
  assumes "controller_step env r r'"
  shows "fine_reachable env (idle r) (idle r')"
proof -
  have upd: "(idle r)\<lparr>gState := r'\<rparr> = idle r'" by (simp add: idle_def)
  have others: "fine_reachable env (idle r) ((idle r)\<lparr>gState := x\<rparr>)" if "fine_step env (idle r) ((idle r)\<lparr>gState := x\<rparr>)" for x
    using that by (rule fine_first [OF _ fine_refl])
  from assms show ?thesis
  proof cases
    case (reconcile req res)
    then show ?thesis using worker_reconciles [of "idle r" env req res r'] by (simp add: upd) (simp add: idle_def)
  next
    case (informer ev res)
    then show ?thesis using informer_turns [of "idle r" env ev res r'] by (simp add: upd) (simp add: idle_def)
  next
    case (start gw res)
    then show ?thesis using others [OF fine_step.others_run [where gw = gw and g = "idle r" and r' = r']]
      by (simp add: upd) (simp add: idle_def)
  next
    case goroutines
    then show ?thesis using others [OF fine_step.others_run [where g = "idle r" and r' = r']]
      by (simp add: upd) (simp add: idle_def)
  next
    case (outside b k)
    then show ?thesis using others [OF fine_step.others_run [where g = "idle r" and r' = r' and k = k and b = b]]
      by (simp add: upd) (simp add: idle_def)
  qed
qed

lemma coarse_run_is_fine:
  assumes "reachable env r r'"
  shows "fine_reachable env (idle r) (idle r')"
  using assms unfolding reachable_def
  by induction (auto intro: fine_refl fine_trans coarse_step_is_fine)

section \<open>An update that meets a deletion\<close>

text \<open>
  The health callback up to the point where it has looked up the local service, and what is left of it
  then.
\<close>

definition offloadRest ::
  "('k, 'b) reconcile_env \<Rightarrow> model_deployment \<Rightarrow> service_reference \<Rightarrow> (('k, 'b) reconciler, unit) thread" where
  "offloadRest env m l =
     seqT (bindT (op (deref (spOffloadingConfig (mdSpec m)))) (\<lambda>oc.
        op (onOffloader env (\<lambda>oe. Offloader_Configure oe m (Some l) (ofRemoteBackend oc) 100))))
    (seqT (op (writes (storeOffloading (modelKey m) 100)))
    (seqT (loggedT (op (notifyOnBeamlit env m True)))
          (op (writes (storeState (modelKey m) False)))))"

lemma unhealthy_callback:
  "healthCheckCallbackT env m False =
     bindT (op (onConfigurer (GetLocalBeamlitService (spServiceRef (mdSpec m))))) (offloadRest env m)"
  by (simp add: healthCheckCallbackT_def offloadToT_def seqT_def bindT_assoc offloadRest_def [abs_def])

abbreviation turning :: "(('k, 'b) reconciler, unit) thread \<Rightarrow> ('k, 'b) reconciler \<Rightarrow> ('k, 'b) goroutines" where
  "turning t r \<equiv> (idle r)\<lparr>gInformer := Some t\<rparr>"

lemma turning_bindT: "run_thread t r = (Ok x, r) \<Longrightarrow> fine_reachable env (turning (bindT t k) r) (turning (k x) r)"
  using informer_starts_with [of "turning (bindT t k) r" t k x r env] by (simp add: idle_def)

lemma turning_catchT:
  "run_thread t r = (Ok x, r) \<Longrightarrow> fine_reachable env (turning (catchT (bindT t k) h) r) (turning (catchT (k x) h) r)"
  using informer_advances [of "turning (catchT (bindT t k) h) r" t k h x r env] by (simp add: idle_def)

lemma callback_reaches_lookup:
  fixes r :: "('k, 'b) reconciler"
  assumes "rcManagedModels r key = Some v" and "reGet env (clusterOf r) (mmNamespace v) (mmName v) = Inr m"
    and "spOffloadingConfig (mdSpec m) = Some oc"
    and "GetLocalBeamlitService (spServiceRef (mdSpec m)) (rcConfigurer r) = (Ok l, rcConfigurer r)"
  defines "m' \<equiv> withRemoteBackend (rcDefaultRemoteBackend r) oc m"
  shows "fine_reachable env (idle r) (turning (loggedT (offloadRest env m' l)) r)"
proof -
  let ?ev = "HealthUpdate \<lparr>hsModelName = key, hsHealthy = False\<rparr>"
  let ?default = "bindT (op (withDefault m)) (\<lambda>m'. loggedT (healthCheckCallbackT env m' False))"
  let ?get = "bindT (op (reads (\<lambda>r. reGet env (clusterOf r) (mmNamespace v) (mmName v)))) (\<lambda>found. case found of
    Inl e \<Rightarrow> retT () | Inr m \<Rightarrow> bindT (op (withDefault m)) (\<lambda>m'. loggedT (healthCheckCallbackT env m' False)))"
  have ref: "spServiceRef (mdSpec m') = spServiceRef (mdSpec m)" by (simp add: m'_def withRemoteBackend_def)
  have "fine_reachable env (idle r) (turning (informerTurnT env ?ev) r)"
    by (rule fine_first [OF fine_step.informer_starts fine_refl]) (simp add: idle_def)
  moreover have "fine_reachable env (turning (informerTurnT env ?ev) r) (turning ?get r)"
    unfolding informerTurnT_def
    by (rule turning_bindT [where x = "Some v", THEN fine_trans])
      (use assms(1) in \<open>simp_all add: run_op reads_def updatedModel_def fine_refl\<close>)
  moreover have "fine_reachable env (turning ?get r) (turning ?default r)"
    by (rule turning_bindT [where x = "Inr m", THEN fine_trans]) (use assms(2) in \<open>simp_all add: run_op reads_def fine_refl\<close>)
  moreover have "fine_reachable env (turning ?default r) (turning (loggedT (healthCheckCallbackT env m' False)) r)"
    by (rule turning_bindT) (use assms(3) in \<open>simp add: run_op withDefault_Ok m'_def\<close>)
  moreover have "fine_reachable env (turning (loggedT (healthCheckCallbackT env m' False)) r)
      (turning (loggedT (offloadRest env m' l)) r)"
    unfolding loggedT_def unhealthy_callback
    by (rule turning_catchT) (use assms(4) in \<open>simp add: run_op onConfigurer_def zoom_def ref\<close>)
  ultimately show ?thesis by (blast intro: fine_trans)
qed

lemma logged_Ok: "m s = (Ok x, t) \<Longrightarrow> logged m s = (Ok x, t)"
  by (simp add: logged_def)

lemma rest_of_callback:
  assumes "spOffloadingConfig (mdSpec m) = Some oc" and "ofRemoteBackend oc = Some rb"
    and "Offloader_Configure (offloadEnv env (clusterOf r)) m (Some l) (Some rb) 100 (rcOffloader r) = (Ok (), d)"
    and "\<not> is_panic (fst (NotifyOnModelOffloading (reSdk env) (spModel (mdSpec m)) (spEnvironment (mdSpec m)) True (rcRemote r)))"
  shows "\<exists>b. run_thread (loggedT (offloadRest env m l)) r
    = (Ok (), storeState (modelKey m) False (storeOffloading (modelKey m) 100 (r\<lparr>rcOffloader := d, rcRemote := b\<rparr>)))"
proof -
  let ?r = "storeOffloading (modelKey m) 100 (r\<lparr>rcOffloader := d\<rparr>)"
  obtain res b where
    n: "NotifyOnModelOffloading (reSdk env) (spModel (mdSpec m)) (spEnvironment (mdSpec m)) True (rcRemote ?r) = (res, b)"
    by (cases "NotifyOnModelOffloading (reSdk env) (spModel (mdSpec m)) (spEnvironment (mdSpec m)) True (rcRemote ?r)")
  then have "\<not> is_panic res" using assms(4) by (simp add: storeOffloading_def)
  with n have b: "logged (notifyOnBeamlit env m True) ?r = (Ok (), ?r\<lparr>rcRemote := b\<rparr>)"
    by (cases res) (simp_all add: logged_def notifyOnBeamlit_def onRemote_def zoom_def)
  have "?r\<lparr>rcRemote := b\<rparr> = storeOffloading (modelKey m) 100 (r\<lparr>rcOffloader := d, rcRemote := b\<rparr>)"
    by (simp add: storeOffloading_def)
  moreover have "onOffloader env (\<lambda>oe. Offloader_Configure oe m (Some l) (Some rb) 100) r = (Ok (), r\<lparr>rcOffloader := d\<rparr>)"
    using assms(3) by (simp add: onOffloader_def zoom_def)
  ultimately show ?thesis using assms(1,2) b
    by (intro exI [of _ b]) (simp add: run_simps offloadRest_def logged_Ok seqG_def writes_def)
qed

text \<open>The offloader stores the route of the model whatever it held before.\<close>

lemma ready_configures:
  assumes "gateway_ready env y m r ref s bl rb" and "kServiceGet (reKube env) k (srNamespace ref) (srName ref) = Inr s"
  shows "\<exists>ws d'. Offloader_Configure (offloadEnv env k) m (Some (localRefOf ref bl)) (Some rb) 100 d = (Ok (), d')
    \<and> persistence (gateway d') (mdName m) = Some (routeOf ws m s (localRefOf ref bl) rb 100)"
proof -
  have "Offloader_Configure (offloadEnv env k) m (Some (localRefOf ref bl)) (Some rb) 100 d =
    (Ok (), (rememberWorkspace m d)\<lparr>managedRoutes := (managedRoutes d)(mdName m \<mapsto> True),
       gateway := snd (RegisterRoute (routeOf (workspace (rememberWorkspace m d)) m s (localRefOf ref bl) rb 100) (gateway d))\<rparr>)"
    using assms by (intro Configure_eq) (auto simp: gateway_ready_def offloadEnv_def)
  moreover have "rName (routeOf ws m s l rb 100) = mdName m" for ws l by (simp add: routeOf_def)
  ultimately show ?thesis by (auto simp: gw.stored_register)
qed

lemma interrupted_callback:
  fixes r :: "('k, 'b) reconciler"
  assumes managed: "rcManagedModels r key = Some v" "reGet env (clusterOf r) (mmNamespace v) (mmName v) = Inr m"
    and oc: "spOffloadingConfig (mdSpec m) = Some oc"
    and ready: "gateway_ready env y (withRemoteBackend (rcDefaultRemoteBackend r) oc m) r ref s bl rb"
    and run: "Reconcile env req r = (res, r1)" "\<not> is_panic res"
    and service: "kServiceGet (reKube env) (clusterOf r1) (srNamespace ref) (srName ref) = Inr s"
    and notify: "\<not> is_panic (fst (NotifyOnModelOffloading (reSdk env) (spModel (mdSpec m))
      (spEnvironment (mdSpec m)) True (rcRemote r1)))"
  defines "m' \<equiv> withRemoteBackend (rcDefaultRemoteBackend r) oc m"
  shows "\<exists>d b ws. fine_reachable env (idle r) (idle (storeState (modelKey m) False (storeOffloading (modelKey m) 100
      (r1\<lparr>rcOffloader := d, rcRemote := b\<rparr>))))
    \<and> persistence (gateway d) (mdName m) = Some (routeOf ws m' s (localRefOf ref bl) rb 100)"
proof -
  let ?l = "localRefOf ref bl"
  let ?rest = "loggedT (offloadRest env m' ?l)"
  have sel: "modelKey m' = modelKey m" "mdName m' = mdName m" "spServiceRef (mdSpec m) = Some ref"
      "spModel (mdSpec m') = spModel (mdSpec m)" "spEnvironment (mdSpec m') = spEnvironment (mdSpec m)"
    using ready by (auto simp: m'_def gateway_ready_def withRemoteBackend_def modelKey_def split: if_splits)
  obtain oc' where oc': "spOffloadingConfig (mdSpec m') = Some oc'" "ofRemoteBackend oc' = Some rb"
    using ready by (auto simp: m'_def gateway_ready_def remoteOf_def split: option.splits)
  obtain ws d where d: "Offloader_Configure (offloadEnv env (clusterOf r1)) m' (Some ?l) (Some rb) 100 (rcOffloader r1) = (Ok (), d)"
      "persistence (gateway d) (mdName m) = Some (routeOf ws m' s ?l rb 100)"
    using ready_configures [OF ready service, of "rcOffloader r1"] by (auto simp: m'_def [symmetric] sel)
  obtain b where b: "run_thread ?rest r1
      = (Ok (), storeState (modelKey m) False (storeOffloading (modelKey m) 100 (r1\<lparr>rcOffloader := d, rcRemote := b\<rparr>)))"
    using rest_of_callback [OF oc' d(1)] notify by (auto simp: sel)
  have "GetLocalBeamlitService (Some ref) (rcConfigurer r) = (Ok ?l, rcConfigurer r)"
    using ready by (simp add: GetLocalBeamlitService_def gateway_ready_def localRefOf_def ret_def split: prod.splits)
  then have "fine_reachable env (idle r) (turning ?rest r)"
    unfolding m'_def by (intro callback_reaches_lookup [OF managed oc]) (simp add: sel)
  moreover have "fine_reachable env (turning ?rest r) (turning ?rest r1)"
    using worker_reconciles [of "turning ?rest r" env req res r1] run by (simp add: idle_def)
  moreover have "fine_reachable env (turning ?rest r1) (idle (snd (run_thread ?rest r1)))"
    using informer_completes [of "turning ?rest r1" ?rest "Ok ()" "snd (run_thread ?rest r1)" env] b by (simp add: idle_def)
  ultimately have "fine_reachable env (idle r) (idle (snd (run_thread ?rest r1)))" by (blast intro: fine_trans)
  then show ?thesis using d(2) unfolding b snd_conv by blast
qed

end
