(* ===== verification/Thread_Properties.thy ===== *)
theory Thread_Properties
  imports Thread_Facts Model_Properties
begin

text \<open>
  The properties of the controller whose two goroutines interleave at every operation on the shared
  state.
\<close>



text \<open>
  C20. The maps of the controller keep their types however the two goroutines interleave: at every moment,
  a recorded share is a percentage, and a managed model is filed under its own key and flagged healthy.
\<close>
theorem interleaved_maps_stay_typed:
  assumes "\<forall>k ns n m. reGet env k ns n = Inr m \<longrightarrow> valid_percentage m"
    and "fine_reachable env (idle (newReconciler gw k0 i def b0)) g"
  shows "(rcOngoingOffloadings (gState g) key = Some p \<longrightarrow> 0 \<le> p \<and> p \<le> 100)
    \<and> (rcManagedModels (gState g) key = Some v \<longrightarrow> mmHealthy v \<and> key = slash_key (mmNamespace v) (mmName v))"
proof -
  have "kept map_types (idle (newReconciler gw k0 i def b0))"
    by (simp add: kept_idle map_types_def newReconciler_def)
  from typed_fine_reachable [OF assms(2) this assms(1)] show ?thesis
    by (simp add: kept_def map_types_def)
qed

theorem interleaved_maps_stay_typed_witness:
  "\<exists>r p. fine_reachable controller_env (idle (newReconciler New () (K8sInformer newK8sMetricInformer)
       (Some sample_remote) Map.empty)) (idle r) \<and> rcOngoingOffloadings r ''ns/m'' = Some p \<and> 0 \<le> p \<and> p \<le> 100"
proof -
  obtain r where run: "Reconcile controller_env (''ns'', ''m'') fresh_controller = (Ok False, r)"
    and ongoing: "rcOngoingOffloadings r ''ns/m'' = Some 0"
    using fresh_reconciles fresh_serves by blast
  have "controller_step controller_env fresh_controller r"
    by (rule controller_step.reconcile [OF run]) simp
  with fresh_reachable have reach: "fine_reachable controller_env
      (idle (newReconciler New () (K8sInformer newK8sMetricInformer) (Some sample_remote) Map.empty)) (idle r)"
    using coarse_run_is_fine coarse_step_is_fine fine_trans by blast
  have valid: "\<forall>k ns n m. reGet controller_env k ns n = Inr m \<longrightarrow> valid_percentage m"
    by (simp add: env_sel valid_percentage_def live_model_sel)
  from interleaved_maps_stay_typed [OF valid reach, of "''ns/m''" 0] reach ongoing show ?thesis
    by (auto simp: idle_def)
qed



text \<open>An API that has every model that is asked for.\<close>

definition crowded_env :: "(unit, string \<times> string \<rightharpoonup> sdk_model) reconcile_env" where
  "crowded_env = controller_env\<lparr>reGet := \<lambda>_ ns n. Inr (live_model\<lparr>mdNamespace := ns, mdName := n\<rparr>)\<rparr>"


text \<open>
  C32. A model that is deleted while an update of it is handled comes back. Take a managed model that is being
  deleted and whose \<open>Reconcile\<close> succeeds and leaves nothing of the model behind. If that
  \<open>Reconcile\<close> runs while the handler of an unhealthy report has just looked up the local service of
  the model, then the handler goes on to store the route of the model in the gateway, with all the
  traffic sent to the remote backend, and to record the share and the unhealthy mark of a model that
  is not managed any more; the object is gone, so that nothing removes them again.
\<close>
theorem deleted_model_is_routed_again:
  assumes managed: "rcManagedModels r key = Some v" "reGet env (clusterOf r) (mmNamespace v) (mmName v) = Inr m"
    and deleted: "modelKey m = key" "mdDeletionTimestamp m \<noteq> None" "modelDeploymentFinalizer \<in> set (mdFinalizers m)"
    and oc: "spOffloadingConfig (mdSpec m) = Some oc"
    and ready: "gateway_ready env y (withRemoteBackend (rcDefaultRemoteBackend r) oc m) r ref s bl rb"
    and wf: "\<forall>p. rcMetricInformer r = PromInformer p \<longrightarrow> Prom_wf p"
    and run: "Reconcile env (mmNamespace v, mmName v) r = (Ok False, r1)"
    and service: "kServiceGet (reKube env) (clusterOf r1) (srNamespace ref) (srName ref) = Inr s"
    and notify: "\<not> is_panic (fst (NotifyOnModelOffloading (reSdk env) (spModel (mdSpec m))
      (spEnvironment (mdSpec m)) True (rcRemote r1)))"
  shows "absent m r1 \<and> (\<exists>r2 ws. fine_reachable env (idle r) (idle r2) \<and> rcManagedModels r2 key = None
    \<and> rcOngoingOffloadings r2 key = Some 100 \<and> rcModelState r2 key = Some False
    \<and> persistence (gateway (rcOffloader r2)) (mdName m)
        = Some (routeOf ws (withRemoteBackend (rcDefaultRemoteBackend r) oc m) s (localRefOf ref bl) rb 100))"
proof -
  have gone: "absent m r1"
    by (rule finalized_absent [OF managed(2) deleted(2,3) _ wf run]) (simp add: oc)
  obtain d b ws where "fine_reachable env (idle r) (idle (storeState key False (storeOffloading key 100
      (r1\<lparr>rcOffloader := d, rcRemote := b\<rparr>))))"
    and "persistence (gateway d) (mdName m)
        = Some (routeOf ws (withRemoteBackend (rcDefaultRemoteBackend r) oc m) s (localRefOf ref bl) rb 100)"
    using interrupted_callback [OF managed oc ready run _ service notify] deleted(1) by auto
  with gone show ?thesis
    by (intro conjI exI) (assumption | simp add: storeState_def storeOffloading_def absent_def deleted(1))+
qed

theorem deleted_model_is_routed_again_witness:
  "\<exists>r1 r2 ws. Reconcile deleting_env (''ns'', ''m'') (managed_controller 0 True) = (Ok False, r1) \<and> absent deleted_model r1
    \<and> fine_reachable deleting_env (idle (managed_controller 0 True)) (idle r2) \<and> rcManagedModels r2 ''ns/m'' = None
    \<and> rcOngoingOffloadings r2 ''ns/m'' = Some 100 \<and> rcModelState r2 ''ns/m'' = Some False
    \<and> persistence (gateway (rcOffloader r2)) ''m'' = Some (routeOf ws
        (withRemoteBackend (Some sample_remote) live_offloading deleted_model) live_service
        (localRefOf fresh_ref (''ns'', ''m-beamlit'')) sample_remote 100)"
proof -
  obtain r1 where run: "Reconcile deleting_env (''ns'', ''m'') (managed_controller 0 True) = (Ok False, r1)"
      "rcRemote r1 = Map.empty"
    using deleting_reconciles by blast
  have ready: "gateway_ready deleting_env sample_yaml (withRemoteBackend (Some sample_remote) live_offloading deleted_model)
     (managed_controller 0 True) fresh_ref live_service (''ns'', ''m-beamlit'') sample_remote"
    using managed_ready [of 0 True]
    by (simp add: gateway_ready_def deleting_sel env_sel remoteOf_def withRemoteBackend_def deleted_sel live_model_sel)
  show ?thesis
    using deleted_model_is_routed_again [where r = "managed_controller 0 True" and key = "''ns/m''" and m = deleted_model
        and env = deleting_env and ?r1.0 = r1 and oc = live_offloading and y = sample_yaml and ref = fresh_ref
        and s = live_service and bl = "(''ns'', ''m-beamlit'')" and rb = sample_remote] run ready live_model_sel(9)
      notify_unknown [of "''m''" "''production''" True]
    by (auto simp: managed_sel deleting_sel deleted_sel live_model_sel fresh_service managed_informer fresh_name)
qed

end
