(* ===== verification/Controller_Setup.thy ===== *)
theory Controller_Setup
  imports Model_Controller Policy_Controller
begin

text \<open>
  The configuration of the controller (\<^verbatim>\<open>internal/config\<close>), the factories of the informers and of the
  Beamlit client, and the wiring in \<^verbatim>\<open>cmd/main.go\<close>. The state is the configuration that \<open>main\<close> fills
  in; \<open>os.Exit(1)\<close> is an error. A JSON file is decoded into the fields here; reading the file, the YAML
  decoder, the clients of Kubernetes, Prometheus and Beamlit and the manager of controller-runtime
  answer through \<open>setup_env\<close>. At the end, \<open>main\<close> with the way the process ends, and the two functions with
  empty bodies: the reconciler of tools and \<open>PolicyUpdate\<close>.
\<close>

section \<open>The configuration\<close>

record proxy_service_config =
  pxNamespace :: "string option"
  pxName :: "string option"
  pxPort :: "int option"
  pxAdminPort :: "int option"

record prometheus_config =
  paAddress :: string

record metric_informers_config =
  micType :: string
  micPrometheus :: "prometheus_config option"

record default_backend_config =
  dbHost :: "string option"
  dbAuthConfig :: "auth_config option"
  dbPathPrefix :: "string option"
  dbHeadersToAdd :: "(string \<times> string) list option"
  dbScheme :: "string option"

record config =
  cgMetricsAddr :: "string option"
  cgEnableLeaderElection :: "bool option"
  cgProbeAddr :: "string option"
  cgSecureMetrics :: "bool option"
  cgEnableHTTP2 :: "bool option"
  cgNamespaces :: "string option"
  cgMetricInformer :: "metric_informers_config option"
  cgProxyService :: proxy_service_config
  cgDefaultRemoteBackend :: default_backend_config
  cgDeploymentEnabled :: "bool option"
  cgDeploymentType :: "string option"

definition zeroConfig :: config where
  "zeroConfig =
     \<lparr>cgMetricsAddr = None, cgEnableLeaderElection = None, cgProbeAddr = None, cgSecureMetrics = None,
      cgEnableHTTP2 = None, cgNamespaces = None, cgMetricInformer = None,
      cgProxyService = \<lparr>pxNamespace = None, pxName = None, pxPort = None, pxAdminPort = None\<rparr>,
      cgDefaultRemoteBackend = \<lparr>dbHost = None, dbAuthConfig = None, dbPathPrefix = None,
        dbHeadersToAdd = None, dbScheme = None\<rparr>,
      cgDeploymentEnabled = None, cgDeploymentType = None\<rparr>"

definition Config_Validate :: "(config, unit) go" where
  "Config_Validate =
     bindG (reads cgProxyService) (\<lambda>p.
       if pxNamespace p = None \<or> pxName p = None \<or> pxPort p = None \<or> pxAdminPort p = None
       then raise (Errorf ''proxy service is not configured'') else ret ())"

definition Config_Default :: "config \<Rightarrow> config" where
  "Config_Default c = c\<lparr>cgEnableHTTP2 := Some False, cgSecureMetrics := Some False,
     cgNamespaces := Some ''default'', cgEnableLeaderElection := Some False,
     cgMetricsAddr := Some '':8080'', cgProbeAddr := Some '':8081'',
     cgMetricInformer := Some \<lparr>micType = ''kubernetes'', micPrometheus = None\<rparr>\<rparr>"

subsection \<open>The file\<close>

text \<open>
  \<open>encoding/json\<close> decodes into the configuration that holds the defaults: the keys of an object are
  taken in order and matched to the fields without regard to case; unknown keys are skipped; null
  makes a pointer nil and leaves anything else as it is; an object for a pointer that is set is
  decoded into what it points to. YAML comes from a third-party package, and its decoder is a
  parameter.
\<close>

type_synonym 'c field = "string \<times> (json \<Rightarrow> 'c \<Rightarrow> 'c reply)"

definition fieldFor :: "'c field list \<Rightarrow> string \<Rightarrow> (json \<Rightarrow> 'c \<Rightarrow> 'c reply) option" where
  "fieldFor fs key =
     (case filter (\<lambda>(name, f). map to_lower name = map to_lower key) fs of
        [] \<Rightarrow> None | (name, f) # _ \<Rightarrow> Some f)"

fun intoFields :: "'c field list \<Rightarrow> (string \<times> json) list \<Rightarrow> 'c \<Rightarrow> 'c reply" where
  "intoFields fs [] c = Inr c"
| "intoFields fs ((key, j) # kvs) c =
     (case fieldFor fs key of
        None \<Rightarrow> intoFields fs kvs c
      | Some f \<Rightarrow> bindR (f j c) (intoFields fs kvs))"

fun intoStruct :: "'c field list \<Rightarrow> json \<Rightarrow> 'c \<Rightarrow> 'c reply" where
  "intoStruct fs JNull c = Inr c"
| "intoStruct fs (JObj kvs) c = intoFields fs kvs c"
| "intoStruct fs _ c = Inl unmarshalTypeError"

text \<open>A field that is a struct, a pointer to a struct, a pointer to a scalar, or a string.\<close>

definition structField ::
  "string \<Rightarrow> 'a field list \<Rightarrow> ('c \<Rightarrow> 'a) \<Rightarrow> ('a \<Rightarrow> 'c \<Rightarrow> 'c) \<Rightarrow> 'c field" where
  "structField name fs get put =
     (name, \<lambda>j c. bindR (intoStruct fs j (get c)) (\<lambda>a. Inr (put a c)))"

definition structPtrField ::
  "string \<Rightarrow> 'a field list \<Rightarrow> 'a \<Rightarrow> ('c \<Rightarrow> 'a option) \<Rightarrow> ('a option \<Rightarrow> 'c \<Rightarrow> 'c) \<Rightarrow> 'c field" where
  "structPtrField name fs zero get put =
     (name, \<lambda>j c. if j = JNull then Inr (put None c)
        else bindR (intoStruct fs j (case get c of None \<Rightarrow> zero | Some a \<Rightarrow> a)) (\<lambda>a. Inr (put (Some a) c)))"

definition ptrField :: "string \<Rightarrow> (json \<Rightarrow> 'a reply) \<Rightarrow> ('a option \<Rightarrow> 'c \<Rightarrow> 'c) \<Rightarrow> 'c field" where
  "ptrField name dec put =
     (name, \<lambda>j c. if j = JNull then Inr (put None c) else bindR (dec j) (\<lambda>a. Inr (put (Some a) c)))"

definition stringField :: "string \<Rightarrow> (string \<Rightarrow> 'c \<Rightarrow> 'c) \<Rightarrow> 'c field" where
  "stringField name put =
     (name, \<lambda>j c. if j = JNull then Inr c else bindR (decodeString j) (\<lambda>s. Inr (put s c)))"

fun decodeBool :: "json \<Rightarrow> bool reply" where
  "decodeBool (JBool b) = Inr b"
| "decodeBool _ = Inl unmarshalTypeError"

definition oauthFields :: "oauth_config field list" where
  "oauthFields =
     [stringField ''clientId'' (\<lambda>v c. c\<lparr>ocClientID := v\<rparr>),
      stringField ''clientSecret'' (\<lambda>v c. c\<lparr>ocClientSecret := v\<rparr>),
      stringField ''tokenUrl'' (\<lambda>v c. c\<lparr>ocTokenURL := v\<rparr>)]"

definition authFields :: "auth_config field list" where
  "authFields =
     [stringField ''type'' (\<lambda>v c. c\<lparr>acType := v\<rparr>),
      structPtrField ''oauthConfig'' oauthFields \<lparr>ocClientID = [], ocClientSecret = [], ocTokenURL = []\<rparr>
        acOAuthConfig (\<lambda>v c. c\<lparr>acOAuthConfig := v\<rparr>)]"

definition proxyFields :: "proxy_service_config field list" where
  "proxyFields =
     [ptrField ''namespace'' decodeString (\<lambda>v c. c\<lparr>pxNamespace := v\<rparr>),
      ptrField ''name'' decodeString (\<lambda>v c. c\<lparr>pxName := v\<rparr>),
      ptrField ''port'' decodeInt (\<lambda>v c. c\<lparr>pxPort := v\<rparr>),
      ptrField ''admin_port'' decodeInt (\<lambda>v c. c\<lparr>pxAdminPort := v\<rparr>)]"

definition informerFields :: "metric_informers_config field list" where
  "informerFields =
     [stringField ''type'' (\<lambda>v c. c\<lparr>micType := v\<rparr>),
      structPtrField ''prometheus'' [stringField ''address'' (\<lambda>v c. c\<lparr>paAddress := v\<rparr>)] \<lparr>paAddress = []\<rparr>
        micPrometheus (\<lambda>v c. c\<lparr>micPrometheus := v\<rparr>)]"

text \<open>A map that is set keeps its entries, and those of the object are added to it.\<close>

definition headersField :: "default_backend_config field" where
  "headersField =
     (''headers'', \<lambda>j c. if j = JNull then Inr (c\<lparr>dbHeadersToAdd := None\<rparr>)
        else bindR (decodeStringMap j) (\<lambda>m.
          Inr (c\<lparr>dbHeadersToAdd := Some (putAll m (case dbHeadersToAdd c of None \<Rightarrow> [] | Some h \<Rightarrow> h))\<rparr>)))"

definition backendFields :: "default_backend_config field list" where
  "backendFields =
     [ptrField ''host'' decodeString (\<lambda>v c. c\<lparr>dbHost := v\<rparr>),
      structPtrField ''auth_config'' authFields \<lparr>acType = [], acOAuthConfig = None\<rparr>
        dbAuthConfig (\<lambda>v c. c\<lparr>dbAuthConfig := v\<rparr>),
      ptrField ''path_prefix'' decodeString (\<lambda>v c. c\<lparr>dbPathPrefix := v\<rparr>),
      headersField,
      ptrField ''scheme'' decodeString (\<lambda>v c. c\<lparr>dbScheme := v\<rparr>)]"

text \<open>The nested configuration of the deployment has a type and an empty struct.\<close>

definition deploymentFields :: "config field list" where
  "deploymentFields =
     [ptrField ''enabled'' decodeBool (\<lambda>v c. c\<lparr>cgDeploymentEnabled := v\<rparr>),
      (''configuration'', intoStruct
        [ptrField ''type'' decodeString (\<lambda>v c. c\<lparr>cgDeploymentType := v\<rparr>),
         (''beamlit'', intoStruct [])])]"

definition configFields :: "config field list" where
  "configFields =
     [ptrField ''metrics_addr'' decodeString (\<lambda>v c. c\<lparr>cgMetricsAddr := v\<rparr>),
      ptrField ''enable_leader_election'' decodeBool (\<lambda>v c. c\<lparr>cgEnableLeaderElection := v\<rparr>),
      ptrField ''probe_addr'' decodeString (\<lambda>v c. c\<lparr>cgProbeAddr := v\<rparr>),
      ptrField ''secure_metrics'' decodeBool (\<lambda>v c. c\<lparr>cgSecureMetrics := v\<rparr>),
      ptrField ''enable_http2'' decodeBool (\<lambda>v c. c\<lparr>cgEnableHTTP2 := v\<rparr>),
      ptrField ''namespaces'' decodeString (\<lambda>v c. c\<lparr>cgNamespaces := v\<rparr>),
      structPtrField ''metric_informer'' informerFields \<lparr>micType = [], micPrometheus = None\<rparr>
        cgMetricInformer (\<lambda>v c. c\<lparr>cgMetricInformer := v\<rparr>),
      structField ''proxy_service'' proxyFields cgProxyService (\<lambda>v c. c\<lparr>cgProxyService := v\<rparr>),
      structField ''default_remote_backend'' backendFields cgDefaultRemoteBackend
        (\<lambda>v c. c\<lparr>cgDefaultRemoteBackend := v\<rparr>),
      (''deployment'', intoStruct deploymentFields)]"

definition decodeConfig :: "body \<Rightarrow> (config, unit) go" where
  "decodeConfig content =
     (case content of
        Text s \<Rightarrow> raise (Errorf ''invalid character looking for beginning of value'')
      | JsonDoc j \<Rightarrow>
          bindG (reads (intoStruct configFields j)) (\<lambda>res.
          bindG (answer res) (\<lambda>c. writes (\<lambda>_. c))))"

definition FromFile :: "(body \<Rightarrow> (config, unit) go) \<Rightarrow> string \<Rightarrow> body \<Rightarrow> (config, unit) go" where
  "FromFile yaml name content =
     (if has_suffix name ''.yaml'' \<or> has_suffix name ''.yml'' then yaml content
      else decodeConfig content)"

section \<open>The environment of the process\<close>

text \<open>
  The options of the manager. An empty set of namespaces stands for the cache that watches all.
\<close>

record ctrl_options =
  coMetricsAddr :: string
  coSecureServing :: bool
  coDisableHTTP2 :: bool
  coProbeAddr :: string
  coLeaderElection :: bool
  coNamespaces :: "string set"

text \<open>The clients of the metric informer, each of which its constructor makes or fails to make.\<close>

record metric_clients =
  mcDiscovery :: "unit reply"
  mcResource :: "unit reply"
  mcExternal :: "unit reply"
  mcKubernetes :: "unit reply"
  mcScale :: "unit reply"

record setup_env =
  seOpen :: "string \<Rightarrow> body reply"
  seYaml :: "body \<Rightarrow> (config, unit) go"
  seGetConfig :: "unit reply"
  seNewManager :: "ctrl_options \<Rightarrow> unit reply"
  seMetricClients :: metric_clients
  sePromClient :: "string \<Rightarrow> unit reply"
  seClientset :: "unit reply"
  seGetenv :: "string \<Rightarrow> string"
  seSdkClient :: "string \<Rightarrow> credentials \<Rightarrow> unit reply"
  seRegister :: "string \<Rightarrow> unit reply"

section \<open>Factories\<close>

definition connectMetrics :: "metric_clients \<Rightarrow> k8sMetricInformer reply" where
  "connectMetrics mc =
     bindR (mcDiscovery mc) (\<lambda>_. bindR (mcResource mc) (\<lambda>_. bindR (mcExternal mc) (\<lambda>_.
     bindR (mcKubernetes mc) (\<lambda>_. bindR (mcScale mc) (\<lambda>_. Inr newK8sMetricInformer)))))"

definition NewMetricInformer :: "setup_env \<Rightarrow> string \<Rightarrow> int \<Rightarrow> metricInformer reply" where
  "NewMetricInformer se host informerType =
     (if informerType = 0 then
        bindR (connectMetrics (seMetricClients se)) (\<lambda>k. Inr (K8sInformer k))
      else if informerType = 1 then
        bindR (sePromClient se host) (\<lambda>_. Inr (PromInformer newPrometheusMetricInformer))
      else Inl (Errorf (''unknown metric informer type: '' @ show_int informerType)))"

definition NewHealthInformer :: "setup_env \<Rightarrow> int \<Rightarrow> k8sHealthInformer reply" where
  "NewHealthInformer se informerType =
     (if informerType = 0 then bindR (seClientset se) (\<lambda>_. Inr newK8SHealthInformer)
      else Inl (Errorf (''unknown health informer type: '' @ show_int informerType)))"

record beamlit_client =
  bcBaseURL :: string
  bcToken :: beamlitToken
  bcCredentials :: credentials

text \<open>The SDK is given the HTTP client of the token.\<close>

definition NewClient :: "setup_env \<Rightarrow> beamlit_client reply" where
  "NewClient se =
     bindR (NewBeamlitToken (seGetenv se ''BEAMLIT_BASE_URL'') (seGetenv se ''BEAMLIT_TOKEN'')) (\<lambda>token.
       let env = seGetenv se ''BEAMLIT_BASE_URL'';
           baseURL = (if env = [] then defaultBaseURL else env);
           (cred, token') = Token_client token
       in bindR (seSdkClient se baseURL cred)
            (\<lambda>_. Inr \<lparr>bcBaseURL = baseURL, bcToken = token', bcCredentials = cred\<rparr>))"

section \<open>main\<close>

definition namespacesOf :: "string \<Rightarrow> string set" where
  "namespacesOf s = (if s = [] then {} else set (split_on CHR '','' s))"

definition managerOptions :: "(config, ctrl_options) go" where
  "managerOptions =
     bindG (reads cgEnableHTTP2) (\<lambda>h. bindG (deref h) (\<lambda>http2.
     bindG (reads cgMetricsAddr) (\<lambda>a. bindG (deref a) (\<lambda>metricsAddr.
     bindG (reads cgSecureMetrics) (\<lambda>s. bindG (deref s) (\<lambda>secure.
     bindG (reads cgProbeAddr) (\<lambda>p. bindG (deref p) (\<lambda>probeAddr.
     bindG (reads cgEnableLeaderElection) (\<lambda>l. bindG (deref l) (\<lambda>leader.
     bindG (reads cgNamespaces) (\<lambda>n. bindG (deref n) (\<lambda>namespaces.
     ret \<lparr>coMetricsAddr = metricsAddr, coSecureServing = secure, coDisableHTTP2 = (\<not> http2),
          coProbeAddr = probeAddr, coLeaderElection = leader,
          coNamespaces = namespacesOf namespaces\<rparr>))))))))))))"

text \<open>The Kubernetes informer is always made first, even when the Prometheus one replaces it.\<close>

definition metricInformerOf :: "setup_env \<Rightarrow> (config, metricInformer) go" where
  "metricInformerOf se =
     bindG (answer (NewMetricInformer se [] 0)) (\<lambda>k8s.
     bindG (reads cgMetricInformer) (\<lambda>mc.
       case mc of
         None \<Rightarrow> ret k8s
       | Some m \<Rightarrow>
           if micType m \<noteq> ''prometheus'' then ret k8s
           else bindG (deref (micPrometheus m)) (\<lambda>p.
                answer (NewMetricInformer se (paAddress p) 1))))"

definition gatewayServiceOf :: "(config, service_reference) go" where
  "gatewayServiceOf =
     bindG (reads cgProxyService) (\<lambda>p.
     bindG (deref (pxNamespace p)) (\<lambda>ns.
     bindG (deref (pxName p)) (\<lambda>name.
     bindG (deref (pxPort p)) (\<lambda>port.
     ret \<lparr>srRef = \<lparr>orAPIVersion = [], orKind = [], orNamespace = ns, orName = name\<rparr>,
          srTargetPort = i32 port\<rparr>))))"

definition gatewayAddrOf :: "(config, string) go" where
  "gatewayAddrOf =
     bindG (reads cgProxyService) (\<lambda>p.
     bindG (deref (pxName p)) (\<lambda>name.
     bindG (deref (pxNamespace p)) (\<lambda>ns.
     bindG (deref (pxAdminPort p)) (\<lambda>port.
     ret (name @ ''.'' @ ns @ ''.svc.cluster.local:'' @ show_int port)))))"

definition defaultBackendOf :: "config \<Rightarrow> remote_backend option" where
  "defaultBackendOf c =
     (let d = cgDefaultRemoteBackend c in
      map_option (\<lambda>host. \<lparr>rbHost = host, rbAuthConfig = dbAuthConfig d,
        rbPathPrefix = (case dbPathPrefix d of None \<Rightarrow> [] | Some p \<Rightarrow> p),
        rbHeadersToAdd = (case dbHeadersToAdd d of None \<Rightarrow> [] | Some h \<Rightarrow> h),
        rbScheme = (case dbScheme d of None \<Rightarrow> [] | Some s \<Rightarrow> s)\<rparr>) (dbHost d))"

definition newPolicyReconciler :: "'k \<Rightarrow> 'b \<Rightarrow> ('k, 'b) policyReconciler" where
  "newPolicyReconciler k b = \<lparr>pcManagedPolicies = Map.empty, pcCluster = k, pcRemote = b\<rparr>"

text \<open>
  What \<open>main\<close> has built when it starts the manager: the goroutine that starts the configurer is given
  \<open>suGateway\<close>, the offloader talks to \<open>suGatewayAddr\<close>.
\<close>

record ('k, 'b) controller_setup =
  suOptions :: ctrl_options
  suClient :: beamlit_client
  suGateway :: service_reference
  suGatewayAddr :: string
  suReconciler :: "('k, 'b) reconciler"
  suPolicies :: "('k, 'b) policyReconciler"

definition loadConfig :: "setup_env \<Rightarrow> string \<Rightarrow> (config, unit) go" where
  "loadConfig se cfgPath =
     seqG (writes Config_Default)
    (bindG (answer (seOpen se cfgPath)) (\<lambda>content.
     seqG (FromFile (seYaml se) cfgPath content)
          Config_Validate))"

definition registerAll :: "setup_env \<Rightarrow> ('s, unit) go" where
  "registerAll se =
     forEach (\<lambda>what. answer (seRegister se what))
       [''ModelDeployment'', ''Policy'', ''ToolDeployment'', ''healthz'', ''readyz'']"

definition setUpController ::
  "setup_env \<Rightarrow> string \<Rightarrow> proxy \<Rightarrow> 'k \<Rightarrow> 'b \<Rightarrow> (config, ('k, 'b) controller_setup) go" where
  "setUpController se cfgPath gw k b =
     seqG (loadConfig se cfgPath)
    (bindG managerOptions (\<lambda>options.
     seqG (answer (seGetConfig se))
    (seqG (answer (seNewManager se options))
    (bindG (metricInformerOf se) (\<lambda>metricInformer.
     bindG (answer (NewHealthInformer se 0)) (\<lambda>healthInformer.
     seqG (answer (seClientset se))
    (bindG (answer (NewClient se)) (\<lambda>client.
     bindG (answer (NewConfigurer ''kubernetes'' k)) (\<lambda>configurer.
     bindG gatewayServiceOf (\<lambda>gateway.
     bindG gatewayAddrOf (\<lambda>addr.
     bindG (answer (NewOffloader ''beamlit-gateway'' gw)) (\<lambda>offloader.
     bindG (reads defaultBackendOf) (\<lambda>def.
     seqG (registerAll se)
          (ret \<lparr>suOptions = options, suClient = client, suGateway = gateway, suGatewayAddr = addr,
             suReconciler = \<lparr>rcOffloader = offloader, rcConfigurer = configurer,
               rcMetricInformer = metricInformer, rcHealthInformer = healthInformer,
               rcOngoingOffloadings = Map.empty, rcModelState = Map.empty,
               rcManagedModels = Map.empty, rcBeamlitModels = Map.empty,
               rcDefaultRemoteBackend = def, rcRemote = b\<rparr>,
             suPolicies = newPolicyReconciler k b\<rparr>))))))))))))))"

text \<open>
  The end of the process: an exit status, or a crash. The flag \<open>config\<close> is empty when it is not given;
  \<open>start\<close> is what the manager returns when its context ends or it fails.
\<close>

datatype process_end = ExitStatus int | Crashed go_panic

definition main ::
  "setup_env \<Rightarrow> string option \<Rightarrow> proxy \<Rightarrow> 'k \<Rightarrow> 'b \<Rightarrow> (('k, 'b) controller_setup \<Rightarrow> go_error option) \<Rightarrow> process_end" where
  "main se configFlag gw k b start =
     (let cfgPath = (case configFlag of None \<Rightarrow> [] | Some path \<Rightarrow> path) in
      case setUpController se cfgPath gw k b zeroConfig of
        (Ok su, _) \<Rightarrow> (case start su of None \<Rightarrow> ExitStatus 0 | Some e \<Rightarrow> ExitStatus 1)
      | (Err e, _) \<Rightarrow> ExitStatus 1
      | (Panic p, _) \<Rightarrow> Crashed p)"

section \<open>The reconciler of tools\<close>

text \<open>The ToolDeployment resource is the scaffold of the generator, and its reconciler does nothing.\<close>

record tool_deployment =
  tdNamespace :: string
  tdName :: string
  tdFoo :: string

definition ToolDeployment_Reconcile :: "string \<times> string \<Rightarrow> ('s, bool) go" where
  "ToolDeployment_Reconcile req = ret False"

text \<open>\<open>PolicyUpdate\<close> returns at once: what it was meant to do is commented out.\<close>

definition PolicyUpdate :: "('s, unit) go" where
  "PolicyUpdate = ret ()"

end
