(* ===== verification/Setup_Facts.thy ===== *)
theory Setup_Facts
  imports Controller_Setup Model_Samples
begin

text \<open>
  What the wiring in \<^verbatim>\<open>cmd/main.go\<close> guarantees: the controller starts empty, with the informer and the
  default backend that the configuration asks for; and which configurations pass the validation but
  stop the process.
\<close>

section \<open>A sample process\<close>

definition sample_config :: config where
  "sample_config = (Config_Default zeroConfig)\<lparr>
     cgProxyService := \<lparr>pxNamespace = Some ''beamlit'', pxName = Some ''gateway'', pxPort = Some 8080,
       pxAdminPort = Some 8081\<rparr>\<rparr>"

definition sample_process :: "config \<Rightarrow> setup_env" where
  "sample_process c = \<lparr>
     seOpen = (\<lambda>_. Inr (Text [])), seYaml = (\<lambda>_. writes (\<lambda>_. c)),
     seGetConfig = Inr (), seNewManager = (\<lambda>_. Inr ()),
     seMetricClients = \<lparr>mcDiscovery = Inr (), mcResource = Inr (), mcExternal = Inr (), mcKubernetes = Inr (),
       mcScale = Inr ()\<rparr>,
     sePromClient = (\<lambda>_. Inr ()), seClientset = Inr (), seGetenv = (\<lambda>_. []),
     seSdkClient = (\<lambda>_ _. Inr ()), seRegister = (\<lambda>_. Inr ())\<rparr>"

section \<open>Starting\<close>

text \<open>The informer that a configuration asks for.\<close>

definition usesPrometheus :: "config \<Rightarrow> bool" where
  "usesPrometheus c \<longleftrightarrow> (case cgMetricInformer c of None \<Rightarrow> False | Some m \<Rightarrow> micType m = ''prometheus'')"

lemma metricInformerOf_Ok:
  assumes "metricInformerOf se c = (Ok i, c')"
  shows "c' = c \<and> i = (if usesPrometheus c then PromInformer newPrometheusMetricInformer
      else K8sInformer newK8sMetricInformer)"
  using assms
  by (auto simp: metricInformerOf_def NewMetricInformer_def connectMetrics_def usesPrometheus_def go_simps
      split: option.splits if_splits)

lemma managerOptions_Ok:
  assumes "managerOptions c = (Ok options, c')"
  shows "c' = c \<and> (\<exists>ns. cgNamespaces c = Some ns \<and> coNamespaces options = namespacesOf ns)"
  using assms by (auto simp: managerOptions_def go_simps)

lemma Config_Validate_Ok: "Config_Validate c = (Ok (), c') \<longleftrightarrow> c' = c \<and> pxNamespace (cgProxyService c) \<noteq> None
    \<and> pxName (cgProxyService c) \<noteq> None \<and> pxPort (cgProxyService c) \<noteq> None \<and> pxAdminPort (cgProxyService c) \<noteq> None"
  by (auto simp: Config_Validate_def ret_def raise_def)

lemma loadConfig_Ok:
  assumes "loadConfig se path c0 = (Ok (), c)"
  shows "Config_Validate c = (Ok (), c)"
  using assms by (auto simp: loadConfig_def go_simps Config_Validate_Ok)

lemma gatewayServiceOf_Ok:
  assumes "gatewayServiceOf c = (Ok s, c')"
  shows "c' = c \<and> Some (srNamespace s) = pxNamespace (cgProxyService c) \<and> Some (srName s) = pxName (cgProxyService c)"
  using assms by (auto simp: gatewayServiceOf_def go_simps)

text \<open>
  C13. The controller starts empty. When \<open>main\<close> reaches the start of the manager, the configuration is
  valid, the reconciler is a new one that manages no model, with the Prometheus informer exactly
  when the configuration asks for it and with the configured default backend, and the configurer
  is about to be started with the gateway service that the configuration names.
\<close>
theorem setup_builds_new_controller:
  assumes "setUpController se path gw k b c0 = (Ok su, c)"
  shows "Config_Validate c = (Ok (), c)
    \<and> suReconciler su = newReconciler gw k (if usesPrometheus c then PromInformer newPrometheusMetricInformer
         else K8sInformer newK8sMetricInformer) (defaultBackendOf c) b
    \<and> Some (srNamespace (suGateway su)) = pxNamespace (cgProxyService c)
    \<and> Some (srName (suGateway su)) = pxName (cgProxyService c)"
proof -
  obtain options i h s d c1 c2 c3 where load: "loadConfig se path c0 = (Ok (), c1)"
    and options: "managerOptions c1 = (Ok options, c2)"
    and i: "metricInformerOf se c2 = (Ok i, c3)"
    and h: "NewHealthInformer se 0 = Inr h"
    and gw: "gatewayServiceOf c3 = (Ok s, c)"
    and su: "suReconciler su = \<lparr>rcOffloader = newBeamlitGatewayOffloader gw,
          rcConfigurer = newKubernetesConfigurer k, rcMetricInformer = i, rcHealthInformer = h,
          rcOngoingOffloadings = Map.empty, rcModelState = Map.empty, rcManagedModels = Map.empty,
          rcBeamlitModels = Map.empty, rcDefaultRemoteBackend = defaultBackendOf c, rcRemote = b\<rparr>"
      "suGateway su = s"
    using assms
    by (auto simp: setUpController_def bindG_Ok_iff seqG_Ok_iff answer_Ok_iff ret_def reads_def
        NewConfigurer_def NewOffloader_def gatewayAddrOf_def gatewayServiceOf_def deref_Ok_iff registerAll_def)
  note kept = managerOptions_Ok [OF options] metricInformerOf_Ok [OF i] gatewayServiceOf_Ok [OF gw]
  moreover have "h = newK8SHealthInformer" using h by (simp add: NewHealthInformer_def)
  ultimately show ?thesis using loadConfig_Ok [OF load] su by (simp add: newReconciler_def)
qed

lemmas setup_defs = setUpController_def loadConfig_def FromFile_def has_suffix_def Config_Validate_def
  managerOptions_def metricInformerOf_def NewMetricInformer_def connectMetrics_def NewHealthInformer_def NewClient_def
  Token_client_def
  NewBeamlitToken_def retrieveInfoFromEnv_def NewConfigurer_def gatewayServiceOf_def gatewayAddrOf_def
  NewOffloader_def registerAll_def

lemmas sample_setup_defs = sample_process_def sample_config_def zeroConfig_def Config_Default_def

lemma sample_setup:
  "\<exists>su. setUpController (sample_process sample_config) ''config.yaml'' New () () zeroConfig = (Ok su, sample_config)"
  by (simp add: setup_defs sample_setup_defs) (simp add: seqG_def ret_def bindG_def writes_def reads_def)

theorem setup_builds_new_controller_witness:
  "\<exists>su. setUpController (sample_process sample_config) ''config.yaml'' New () () zeroConfig = (Ok su, sample_config)
     \<and> suReconciler su = newReconciler New () (K8sInformer newK8sMetricInformer) None ()"
proof -
  obtain su where run: "setUpController (sample_process sample_config) ''config.yaml'' New () () zeroConfig
      = (Ok su, sample_config)"
    using sample_setup by blast
  from setup_builds_new_controller [OF run] run show ?thesis
    by (simp add: usesPrometheus_def defaultBackendOf_def sample_setup_defs)
qed

section \<open>Configuration files\<close>

lemma loadConfig_json:
  assumes "seOpen se path = Inr (JsonDoc j)" and "\<not> has_suffix path ''.yaml''" "\<not> has_suffix path ''.yml''"
    and "intoStruct configFields j (Config_Default c0) = Inr c" and "Config_Validate c = (Ok (), c)"
  shows "loadConfig se path c0 = (Ok (), c)"
proof -
  have "decodeConfig (JsonDoc j) (Config_Default c0) = (Ok (), c)"
    using assms(4) by (simp add: decodeConfig_def writes_def)
  with assms show ?thesis by (simp add: loadConfig_def FromFile_def seqG_def)
qed

text \<open>
  A JSON file that has the section of the gateway and nothing else is a valid configuration: every other
  setting keeps its default.
\<close>
lemma proxy_section_is_enough:
  assumes "seOpen se path = Inr (JsonDoc (JObj [(''proxy_service'', px)]))"
    and "\<not> has_suffix path ''.yaml''" "\<not> has_suffix path ''.yml''"
    and "intoStruct proxyFields px (cgProxyService zeroConfig) = Inr p"
    and "pxNamespace p \<noteq> None" "pxName p \<noteq> None" "pxPort p \<noteq> None" "pxAdminPort p \<noteq> None"
  shows "loadConfig se path zeroConfig = (Ok (), (Config_Default zeroConfig)\<lparr>cgProxyService := p\<rparr>)"
proof -
  have "cgProxyService (Config_Default zeroConfig) = cgProxyService zeroConfig" by (simp add: Config_Default_def)
  then have "intoStruct configFields (JObj [(''proxy_service'', px)]) (Config_Default zeroConfig)
      = Inr ((Config_Default zeroConfig)\<lparr>cgProxyService := p\<rparr>)"
    using assms(4)
    by (simp add: configFields_def fieldFor_def structField_def structPtrField_def ptrField_def to_lower_def Let_def)
  then show ?thesis using assms(5-) by (intro loadConfig_json [OF assms(1-3)]) (simp_all add: Config_Validate_Ok)
qed

text \<open>
  The same file with one of the defaulted settings set to null passes the validation, and \<open>main\<close> crashes when
  it reads the setting.
\<close>
theorem null_setting_crashes:
  assumes "seOpen se path = Inr (JsonDoc (JObj [(''proxy_service'', px), (key, JNull)]))"
    and "\<not> has_suffix path ''.yaml''" "\<not> has_suffix path ''.yml''"
    and "key \<in> {''metrics_addr'', ''enable_leader_election'', ''probe_addr'', ''secure_metrics'', ''enable_http2'', ''namespaces''}"
    and "intoStruct proxyFields px (cgProxyService zeroConfig) = Inr p"
    and "pxNamespace p \<noteq> None" "pxName p \<noteq> None" "pxPort p \<noteq> None" "pxAdminPort p \<noteq> None"
  shows "main se (Some path) gw k b start = Crashed NilDeref"
proof -
  let ?c = "(Config_Default zeroConfig)\<lparr>cgProxyService := p\<rparr>"
  have "cgProxyService (Config_Default zeroConfig) = cgProxyService zeroConfig" by (simp add: Config_Default_def)
  then have "\<exists>c. intoStruct configFields (JObj [(''proxy_service'', px), (key, JNull)]) (Config_Default zeroConfig) = Inr c
      \<and> cgProxyService c = p \<and> (\<exists>x. managerOptions c = (Panic NilDeref, x))"
    using assms(4,5)
    by (auto simp: configFields_def fieldFor_def structField_def structPtrField_def ptrField_def to_lower_def Let_def
        managerOptions_def Config_Default_def panic_def)
  then obtain c x where c: "intoStruct configFields (JObj [(''proxy_service'', px), (key, JNull)]) (Config_Default zeroConfig) = Inr c"
      "cgProxyService c = p" and m: "managerOptions c = (Panic NilDeref, x)"
    by blast
  have "loadConfig se path zeroConfig = (Ok (), c)"
    using assms(6-) c by (intro loadConfig_json [OF assms(1-3)]) (simp_all add: Config_Validate_Ok)
  with m show ?thesis by (simp add: main_def setUpController_def seqG_def)
qed

definition gateway_section :: json where
  "gateway_section = JObj [(''namespace'', JStr ''beamlit''), (''name'', JStr ''gateway''), (''port'', JNum 8080),
     (''admin_port'', JNum 8081)]"

lemma gateway_section_decodes:
  "intoStruct proxyFields gateway_section (cgProxyService zeroConfig) = Inr (cgProxyService sample_config)"
  by (simp add: gateway_section_def proxyFields_def ptrField_def fieldFor_def to_lower_def Let_def zeroConfig_def
      sample_config_def)

theorem null_setting_crashes_witness:
  "main ((sample_process sample_config)\<lparr>seOpen := \<lambda>_. Inr (JsonDoc (JObj [(''proxy_service'', gateway_section),
     (''enable_http2'', JNull)]))\<rparr>) (Some ''config.json'') New () () (\<lambda>_. None) = Crashed NilDeref"
  by (rule null_setting_crashes [OF _ _ _ _ gateway_section_decodes])
    (auto simp: sample_process_def sample_config_def has_suffix_def)

text \<open>The token keeps the configuration it was first used with, however often it is used.\<close>

lemma token_reuses_cfg:
  "cfgOf (snd (Token_client t)) = cfgOf t" "snd (Token_client (snd (Token_client t))) = snd (Token_client t)"
  "fst (GetToken fetch (snd (Token_client t))) = replied (fetch (cfgOf t))"
  by (simp_all add: Token_client_def GetToken_def cfgOf_def)

section \<open>Configurations that pass the validation\<close>

text \<open>
  The validation does not look at the metric informer. A configuration that asks for Prometheus
  and has no section for it is valid, and \<open>main\<close> panics when it reads the address.
\<close>
theorem prometheus_without_section_panics:
  assumes "loadConfig se path c0 = (Ok (), c)" and "managerOptions c = (Ok options, c)"
    and "seGetConfig se = Inr ()" and "seNewManager se options = Inr ()" and "connectMetrics (seMetricClients se) = Inr i"
    and "cgMetricInformer c = Some \<lparr>micType = ''prometheus'', micPrometheus = None\<rparr>"
  shows "setUpController se path gw k b c0 = (Panic NilDeref, c)"
  using assms by (simp add: setUpController_def metricInformerOf_def NewMetricInformer_def seqG_def)

definition prometheus_config_only :: config where
  "prometheus_config_only = sample_config\<lparr>cgMetricInformer := Some \<lparr>micType = ''prometheus'', micPrometheus = None\<rparr>\<rparr>"

theorem prometheus_without_section_panics_witness:
  "setUpController (sample_process prometheus_config_only) ''config.yaml'' New () () zeroConfig
   = (Panic NilDeref, prometheus_config_only)"
proof -
  have load: "loadConfig (sample_process prometheus_config_only) ''config.yaml'' zeroConfig = (Ok (), prometheus_config_only)"
    by (simp add: setup_defs prometheus_config_only_def sample_setup_defs) (simp add: seqG_def ret_def)
  have "\<exists>options. managerOptions prometheus_config_only = (Ok options, prometheus_config_only)"
    by (simp add: managerOptions_def prometheus_config_only_def sample_setup_defs ret_def)
  then obtain options where options: "managerOptions prometheus_config_only = (Ok options, prometheus_config_only)"
    by blast
  show ?thesis
    by (rule prometheus_without_section_panics [OF load options])
      (simp_all add: sample_process_def prometheus_config_only_def connectMetrics_def)
qed

lemma setUp_needs_backend:
  assumes "setUp env m oc r = (Ok m', r')" and "ofRemoteBackend oc = None"
  shows "rcDefaultRemoteBackend r \<noteq> None"
proof
  assume none: "rcDefaultRemoteBackend r = None"
  obtain oe d d' l where "Offloader_Configure oe (withRemoteBackend (rcDefaultRemoteBackend r) oc m) l
      (remoteOf (withRemoteBackend (rcDefaultRemoteBackend r) oc m)) 0 d = (Ok (), d')"
    using assms(1) by (auto simp: setUp_def bindG_Ok_iff seqG_Ok_iff on_Ok reads_def ret_def)
  moreover have "remoteOf (withRemoteBackend (rcDefaultRemoteBackend r) oc m) = None"
    using assms(2) none by (simp add: remoteOf_def withRemoteBackend_def)
  ultimately show False by (auto simp: Offloader_Configure_def bindG_Ok_iff seqG_Ok_iff deref_Ok_iff)
qed

lemma createOrUpdate_configures:
  assumes "createOrUpdate env m r = (Ok (), r')" and "\<not> claimedByOther m r" and "\<not> upToDate m r"
  shows "\<exists>m1 m2 r1 r2. configureOffloading env m1 r1 = (Ok m2, r2) \<and> mdSpec m1 = mdSpec m
    \<and> rcDefaultRemoteBackend r1 = rcDefaultRemoteBackend r"
proof -
  obtain sp mp updated m1 m2 rs rm b ra r2 where
      ports: "podPort env (spServiceRef (mdSpec m)) (stServingPort (mdStatus m)) r = (Ok sp, rs)"
      "podPort env (spMetricServiceRef (mdSpec m)) (stMetricPort (mdStatus m)) rs = (Ok mp, rm)"
    and answer: "withAnswer env updated (withPorts sp mp m) ((claimModel m rm)\<lparr>rcRemote := b\<rparr>) = (Ok m1, ra)"
    and configure: "configureOffloading env m1 ra = (Ok m2, r2)"
    using assms by (auto simp: createOrUpdate_def bindG_Ok_iff seqG_Ok_iff writes_def on_Ok readCluster_Ok_iff)
  have "mdSpec m1 = mdSpec m" and "ra = (claimModel m r)\<lparr>rcRemote := b\<rparr>"
    using withAnswer_Ok [OF answer] podPort_state [OF ports(1)] podPort_state [OF ports(2)]
    by (simp_all add: withPorts_def)
  with configure show ?thesis by (intro exI conjI) (assumption, simp, simp add: claimModel_def)
qed

text \<open>
  C38. Without a default backend no model that names none can be created. When the configuration has
  no host for the default backend, a model with offloading enabled and no remote backend of its
  own is never set up: \<open>createOrUpdate\<close> does not return successfully, whatever the cluster, the
  gateway and Beamlit answer.
\<close>
theorem missing_default_backend_stops_model:
  assumes "dbHost (cgDefaultRemoteBackend c) = None" and "rcDefaultRemoteBackend r = defaultBackendOf c"
    and "\<not> claimedByOther m r" and "\<not> upToDate m r" and "spEnabled (mdSpec m)"
    and "spOffloadingConfig (mdSpec m) = Some oc" and "ofRemoteBackend oc = None"
  shows "\<not> is_ok (fst (createOrUpdate env m r))"
proof
  assume "is_ok (fst (createOrUpdate env m r))"
  then obtain r' where "createOrUpdate env m r = (Ok (), r')" by (cases "createOrUpdate env m r") (auto elim: is_ok.elims)
  then obtain m1 m2 r1 r2 where run: "configureOffloading env m1 r1 = (Ok m2, r2)" and spec: "mdSpec m1 = mdSpec m"
    and def: "rcDefaultRemoteBackend r1 = rcDefaultRemoteBackend r"
    using createOrUpdate_configures assms(3,4) by blast
  obtain r3 where down: "takeDown env m1 r1 = (Ok (), r3)" and up: "setUp env m1 oc r3 = (Ok m2, r2)"
    using run assms(5,6) spec by (auto simp: configureOffloading_def seqG_Ok_iff)
  have keep: "keeps (\<lambda>x. rcDefaultRemoteBackend x = rcDefaultRemoteBackend r) (takeDown env m1)"
    by (rule keeps_takeDown) (simp_all add: own_maps_def forgetModel_def)
  have "rcDefaultRemoteBackend r3 = rcDefaultRemoteBackend r"
    using keepsD [OF keep, of r1] def down by simp
  moreover have "rcDefaultRemoteBackend r = None"
    using assms(1,2) by (simp add: defaultBackendOf_def)
  ultimately show False using setUp_needs_backend [OF up assms(7)] by simp
qed

theorem missing_default_backend_stops_model_witness:
  "\<not> is_ok (fst (createOrUpdate controller_env live_model (fresh_controller\<lparr>rcDefaultRemoteBackend := None\<rparr>)))"
  by (rule missing_default_backend_stops_model [of sample_config _ _ _, OF _ _ _ _ live_model_sel(7,6)])
    (simp_all add: defaultBackendOf_def sample_setup_defs claimedByOther_def upToDate_def fresh_sel)

end
