(* ===== verification/Memory.thy ===== *)
theory Memory
  imports Go_Prelude
begin

text \<open>
  Memory with addresses, for the code whose purpose is that two objects share none of it: the deep
  copies. A heap maps addresses to cells; a cell holds one struct, array or map, and its pointers are
  addresses of other cells. What an object denotes is a relation between a heap, the object, the set of
  cells it reaches (its footprint) and a value without addresses. The locale \<open>deep_copier\<close> is the
  contract of a deep copy; pointers, slices, maps and structs of copiers are copiers.
\<close>

type_synonym addr = nat

record 'c heap =
  hCells :: "addr \<rightharpoonup> 'c"
  hNext :: addr

text \<open>How the cells of one type are told from the others.\<close>

record ('c, 'a) kind =
  kInj :: "'a \<Rightarrow> 'c"
  kPrj :: "'c \<Rightarrow> 'a option"

definition kind_ok :: "('c, 'a) kind \<Rightarrow> bool" where
  "kind_ok k \<longleftrightarrow> (\<forall>x. kPrj k (kInj k x) = Some x)"

text \<open>
  \<open>new\<close> and \<open>make\<close> take an address that was never used. The zero value it holds is not represented: a
  cell that is read before it is written is a panic, so that a proof shows that none is.
\<close>

definition newCell :: "('c heap, addr) go" where
  "newCell h = (Ok (hNext h), h\<lparr>hNext := Suc (hNext h)\<rparr>)"

definition load :: "('c, 'a) kind \<Rightarrow> addr \<Rightarrow> ('c heap, 'a) go" where
  "load k a h =
     (case hCells h a of
        None \<Rightarrow> (Panic NilDeref, h)
      | Some c \<Rightarrow> (case kPrj k c of None \<Rightarrow> (Panic NilDeref, h) | Some x \<Rightarrow> (Ok x, h)))"

definition store :: "('c, 'a) kind \<Rightarrow> addr \<Rightarrow> 'a \<Rightarrow> ('c heap, unit) go" where
  "store k a x = writes (\<lambda>h. h\<lparr>hCells := (hCells h)(a \<mapsto> kInj k x)\<rparr>)"

section \<open>Copying\<close>

text \<open>A pointer: \<open>p = new(T)\<close>, and then the struct is copied into it.\<close>

definition copyPtr :: "('c, 'a) kind \<Rightarrow> ('a \<Rightarrow> ('c heap, 'a) go) \<Rightarrow> addr option \<Rightarrow> ('c heap, addr option) go" where
  "copyPtr k into p =
     (case p of
        None \<Rightarrow> ret None
      | Some a \<Rightarrow>
          bindG newCell (\<lambda>b.
          bindG (load k a) (\<lambda>x.
          bindG (into x) (\<lambda>y.
          seqG (store k b y) (ret (Some b))))))"

text \<open>A slice is an array, an offset into it and a length.\<close>

type_synonym slice = "(addr \<times> nat \<times> nat) option"

fun mapG :: "('a \<Rightarrow> ('s, 'b) go) \<Rightarrow> 'a list \<Rightarrow> ('s, 'b list) go" where
  "mapG f [] = ret []"
| "mapG f (x # xs) = bindG (f x) (\<lambda>y. bindG (mapG f xs) (\<lambda>ys. ret (y # ys)))"

text \<open>\<open>s = make([]T, n)\<close>, and then the elements are copied in order.\<close>

definition copySlice :: "('c, 'a list) kind \<Rightarrow> ('a \<Rightarrow> ('c heap, 'a) go) \<Rightarrow> slice \<Rightarrow> ('c heap, slice) go" where
  "copySlice k into s =
     (case s of
        None \<Rightarrow> ret None
      | Some (a, off, n) \<Rightarrow>
          bindG newCell (\<lambda>b.
          bindG (load k a) (\<lambda>xs.
          bindG (mapG into (take n (drop off xs))) (\<lambda>ys.
          seqG (store k b ys) (ret (Some (b, 0, n)))))))"

section \<open>What an object denotes\<close>

type_synonym ('c, 'a, 'v) denotation = "'c heap \<Rightarrow> 'a \<Rightarrow> addr set \<Rightarrow> 'v \<Rightarrow> bool"

text \<open>A value without pointers.\<close>

definition flatR :: "('c, 'a, 'a) denotation" where
  "flatR h x F v \<longleftrightarrow> F = {} \<and> v = x"

definition ptrR :: "('c, 'a) kind \<Rightarrow> ('c, 'a, 'v) denotation \<Rightarrow> ('c, addr option, 'v option) denotation" where
  "ptrR k R h p F v \<longleftrightarrow>
     (case p of
        None \<Rightarrow> F = {} \<and> v = None
      | Some a \<Rightarrow> \<exists>c x G w. hCells h a = Some c \<and> kPrj k c = Some x \<and> R h x G w \<and> F = insert a G \<and> v = Some w)"

definition listR :: "('c, 'a, 'v) denotation \<Rightarrow> ('c, 'a list, 'v list) denotation" where
  "listR R h xs F vs \<longleftrightarrow> (\<exists>Gs. length Gs = length xs \<and> length vs = length xs
     \<and> (\<forall>i < length xs. R h (xs ! i) (Gs ! i) (vs ! i)) \<and> F = \<Union> (set Gs))"

text \<open>A nil slice and an empty one denote the same list.\<close>

definition sliceR :: "('c, 'a list) kind \<Rightarrow> ('c, 'a, 'v) denotation \<Rightarrow> ('c, slice, 'v list) denotation" where
  "sliceR k R h s F vs \<longleftrightarrow>
     (case s of
        None \<Rightarrow> F = {} \<and> vs = []
      | Some (a, off, n) \<Rightarrow> \<exists>c xs G. hCells h a = Some c \<and> kPrj k c = Some xs \<and> off + n \<le> length xs
          \<and> listR R h (take n (drop off xs)) G vs \<and> F = insert a G)"

definition pairR :: "('c, 'a, 'v) denotation \<Rightarrow> ('c, 'b, 'w) denotation \<Rightarrow> ('c, 'a \<times> 'b, 'v \<times> 'w) denotation" where
  "pairR R S h xy F vw \<longleftrightarrow> (\<exists>G H. R h (fst xy) G (fst vw) \<and> S h (snd xy) H (snd vw) \<and> F = G \<union> H)"

text \<open>
  A struct: \<open>get\<close> gives its fields with pointers, which denote a tuple, and \<open>mk\<close> makes the value of that
  tuple and of the plain fields.
\<close>

definition structR :: "('a \<Rightarrow> 'b) \<Rightarrow> ('a \<Rightarrow> 'w \<Rightarrow> 'v) \<Rightarrow> ('c, 'b, 'w) denotation \<Rightarrow> ('c, 'a, 'v) denotation" where
  "structR get mk R h x F v \<longleftrightarrow> (\<exists>w. R h (get x) F w \<and> v = mk x w)"

section \<open>The contract of a deep copy\<close>

definition heap_ok :: "'c heap \<Rightarrow> bool" where
  "heap_ok h \<longleftrightarrow> (\<forall>a. hCells h a \<noteq> None \<longrightarrow> a < hNext h)"

definition extends :: "'c heap \<Rightarrow> 'c heap \<Rightarrow> bool" where
  "extends h h' \<longleftrightarrow> hNext h \<le> hNext h' \<and> (\<forall>a < hNext h. hCells h' a = hCells h a)"

locale deep_copier =
  fixes R :: "('c, 'a, 'v) denotation" and copy :: "'a \<Rightarrow> ('c heap, 'a) go"
  assumes footprint: "R h x F v \<Longrightarrow> F \<subseteq> dom (hCells h)"
    and local: "R h x F v \<Longrightarrow> (\<And>a. a \<in> F \<Longrightarrow> hCells h' a = hCells h a) \<Longrightarrow> R h' x F v"
    and copied: "heap_ok h \<Longrightarrow> R h x F v \<Longrightarrow> \<exists>y h' F'. copy x h = (Ok y, h') \<and> heap_ok h' \<and> extends h h'
      \<and> R h' y F' v \<and> (\<forall>a \<in> F'. hNext h \<le> a)"
begin

lemma below_next: "heap_ok h \<Longrightarrow> R h x F v \<Longrightarrow> a \<in> F \<Longrightarrow> a < hNext h"
  using footprint [of h x F v] by (auto simp: heap_ok_def)

lemma stays: "heap_ok h \<Longrightarrow> R h x F v \<Longrightarrow> extends h h' \<Longrightarrow> R h' x F v"
  using local [of h x F v h'] below_next [of h x F v] by (simp add: extends_def)

text \<open>The copy and the original reach no common cell, so that writes to one do not show in the other.\<close>

lemma separate:
  assumes "heap_ok h" and "R h x F v"
  shows "\<exists>y h' F'. copy x h = (Ok y, h') \<and> heap_ok h' \<and> extends h h' \<and> R h' x F v \<and> R h' y F' v \<and> F \<inter> F' = {}
    \<and> (\<forall>h''. (\<forall>a. a \<notin> F' \<longrightarrow> hCells h'' a = hCells h' a) \<longrightarrow> R h'' x F v)
    \<and> (\<forall>h''. (\<forall>a. a \<notin> F \<longrightarrow> hCells h'' a = hCells h' a) \<longrightarrow> R h'' y F' v)"
proof -
  obtain y h' F' where y: "copy x h = (Ok y, h')" "heap_ok h'" "extends h h'" "R h' y F' v" "\<forall>a \<in> F'. hNext h \<le> a"
    using copied [OF assms] by blast
  have x: "R h' x F v" using stays [OF assms y(3)] .
  have disj: "F \<inter> F' = {}" using below_next [OF assms] y(5) by fastforce
  have "R h'' x F v" if "\<forall>a. a \<notin> F' \<longrightarrow> hCells h'' a = hCells h' a" for h''
    using local [OF x, of h''] that disj by blast
  moreover have "R h'' y F' v" if "\<forall>a. a \<notin> F \<longrightarrow> hCells h'' a = hCells h' a" for h''
    using local [OF y(4), of h''] that disj by blast
  ultimately show ?thesis using x y disj by blast
qed

end

section \<open>Copiers from copiers\<close>

lemma bindG_assoc: "bindG (bindG m k) l = bindG m (\<lambda>x. bindG (k x) l)"
  by (simp add: fun_eq_iff bindG_def split: prod.splits outcome.splits)

lemma extends_refl: "extends h h"
  by (simp add: extends_def)

lemma extends_trans: "extends h h' \<Longrightarrow> extends h' h'' \<Longrightarrow> extends h h''"
  by (auto simp: extends_def)

lemma extends_next: "extends h h' \<Longrightarrow> hNext h \<le> hNext h'"
  by (simp add: extends_def)

lemma newCell_ok:
  assumes "heap_ok h"
  shows "newCell h = (Ok (hNext h), h\<lparr>hNext := Suc (hNext h)\<rparr>)" "heap_ok (h\<lparr>hNext := Suc (hNext h)\<rparr>)"
    "extends h (h\<lparr>hNext := Suc (hNext h)\<rparr>)"
  using assms by (auto simp: newCell_def heap_ok_def extends_def less_Suc_eq)

text \<open>Writing a cell that was taken after \<open>h\<close> extends \<open>h\<close>.\<close>

lemma store_ok:
  assumes "heap_ok h'" and "extends h h'" and "hNext h \<le> b" and "b < hNext h'"
  shows "heap_ok (h'\<lparr>hCells := (hCells h')(b \<mapsto> c)\<rparr>)" "extends h (h'\<lparr>hCells := (hCells h')(b \<mapsto> c)\<rparr>)"
  using assms by (auto simp: heap_ok_def extends_def)

lemma flat_copier: "deep_copier flatR ret"
  by unfold_locales (auto simp: flatR_def ret_def extends_refl)

lemma ptrR_stored:
  assumes "kind_ok k" and "R (h\<lparr>hCells := (hCells h)(b \<mapsto> kInj k y)\<rparr>) y F v"
  shows "ptrR k R (h\<lparr>hCells := (hCells h)(b \<mapsto> kInj k y)\<rparr>) (Some b) (insert b F) (Some v)"
  using assms by (auto simp: ptrR_def kind_ok_def)

lemma ptr_copier:
  assumes "deep_copier R into" and "kind_ok k"
  shows "deep_copier (ptrR k R) (copyPtr k into)"
proof
  fix h :: "'a heap" and p F v assume R: "ptrR k R h p F v"
  show "F \<subseteq> dom (hCells h)"
    using R deep_copier.footprint [OF assms(1)] by (fastforce simp: ptrR_def split: option.splits)
  fix h' :: "'a heap" assume "\<And>a. a \<in> F \<Longrightarrow> hCells h' a = hCells h a"
  then show "ptrR k R h' p F v"
    using R deep_copier.local [OF assms(1), of h _ _ _ h']
    by (cases p) (simp add: ptrR_def, simp add: ptrR_def, metis insertCI)
next
  fix h :: "'a heap" and p F v assume h: "heap_ok h" and R: "ptrR k R h p F v"
  show "\<exists>y h' F'. copyPtr k into p h = (Ok y, h') \<and> heap_ok h' \<and> extends h h' \<and> ptrR k R h' y F' v
    \<and> (\<forall>a \<in> F'. hNext h \<le> a)"
  proof (cases p)
    case None
    then show ?thesis using R h by (auto simp: ptrR_def copyPtr_def ret_def extends_refl)
  next
    case (Some a)
    with R obtain c x G w where c: "hCells h a = Some c" "kPrj k c = Some x" and x: "R h x G w" and v: "v = Some w"
      by (auto simp: ptrR_def)
    let ?h = "h\<lparr>hNext := Suc (hNext h)\<rparr>" and ?b = "hNext h"
    note new = newCell_ok [OF h]
    obtain y h' F' where y: "into x ?h = (Ok y, h')" "heap_ok h'" "extends ?h h'" "R h' y F' w" "\<forall>a \<in> F'. Suc ?b \<le> a"
      using deep_copier.copied [OF assms(1) new(2) deep_copier.stays [OF assms(1) h x new(3)]] by auto
    let ?h' = "h'\<lparr>hCells := (hCells h')(?b \<mapsto> kInj k y)\<rparr>"
    have "heap_ok ?h'" "extends h ?h'"
      using store_ok [OF y(2) extends_trans [OF new(3) y(3)] order_refl] y(3) by (simp_all add: extends_def)
    moreover have "R ?h' y F' w"
      using y(5) by (intro deep_copier.local [OF assms(1) y(4)]) auto
    moreover have "copyPtr k into p h = (Ok (Some ?b), ?h')"
      using Some c y(1) by (simp add: copyPtr_def bindG_def newCell_def load_def store_def go_simps)
    moreover have "\<forall>a \<in> insert ?b F'. ?b \<le> a" using y(5) by auto
    ultimately show ?thesis
      using ptrR_stored [OF assms(2), of R h' ?b y F' w] unfolding v by blast
  qed
qed

text \<open>Two fields, one after the other.\<close>

definition copyPair :: "('a \<Rightarrow> ('s, 'a) go) \<Rightarrow> ('b \<Rightarrow> ('s, 'b) go) \<Rightarrow> 'a \<times> 'b \<Rightarrow> ('s, 'a \<times> 'b) go" where
  "copyPair f g xy = bindG (f (fst xy)) (\<lambda>x. bindG (g (snd xy)) (\<lambda>y. ret (x, y)))"

lemma pair_copier:
  assumes "deep_copier R f" and "deep_copier S g"
  shows "deep_copier (pairR R S) (copyPair f g)"
proof
  fix h :: "'a heap" and xy F vw assume R: "pairR R S h xy F vw"
  show "F \<subseteq> dom (hCells h)"
    using R deep_copier.footprint [OF assms(1)] deep_copier.footprint [OF assms(2)] unfolding pairR_def by blast
  fix h' :: "'a heap" assume "\<And>a. a \<in> F \<Longrightarrow> hCells h' a = hCells h a"
  then show "pairR R S h' xy F vw"
    using R deep_copier.local [OF assms(1), of h _ _ _ h'] deep_copier.local [OF assms(2), of h _ _ _ h']
    unfolding pairR_def by (metis UnCI)
next
  fix h :: "'a heap" and xy F vw assume h: "heap_ok h" and "pairR R S h xy F vw"
  then obtain G H where x: "R h (fst xy) G (fst vw)" and y: "S h (snd xy) H (snd vw)" by (auto simp: pairR_def)
  obtain x' h1 G' where x': "f (fst xy) h = (Ok x', h1)" "heap_ok h1" "extends h h1" "R h1 x' G' (fst vw)" "\<forall>a \<in> G'. hNext h \<le> a"
    using deep_copier.copied [OF assms(1) h x] by blast
  obtain y' h2 H' where y': "g (snd xy) h1 = (Ok y', h2)" "heap_ok h2" "extends h1 h2" "S h2 y' H' (snd vw)" "\<forall>a \<in> H'. hNext h1 \<le> a"
    using deep_copier.copied [OF assms(2) x'(2) deep_copier.stays [OF assms(2) h y x'(3)]] by blast
  have "R h2 x' G' (fst vw)" by (rule deep_copier.stays [OF assms(1) x'(2,4) y'(3)])
  moreover have "\<forall>a \<in> G' \<union> H'. hNext h \<le> a" using x'(5) y'(5) extends_next [OF x'(3)] by auto
  moreover have "copyPair f g xy h = (Ok (x', y'), h2)" using x'(1) y'(1) by (simp add: copyPair_def bindG_def ret_def)
  ultimately show "\<exists>z h' F'. copyPair f g xy h = (Ok z, h') \<and> heap_ok h' \<and> extends h h' \<and> pairR R S h' z F' vw
    \<and> (\<forall>a \<in> F'. hNext h \<le> a)"
    using y'(2,4) extends_trans [OF x'(3) y'(3)] unfolding pairR_def
    by (intro exI [of _ "(x', y')"] exI [of _ h2] exI [of _ "G' \<union> H'"]) auto
qed

text \<open>The elements of an array, through pairs.\<close>

lemma listR_simps:
  "listR R h [] F vs \<longleftrightarrow> F = {} \<and> vs = []"
  "listR R h (x # xs) F vs \<longleftrightarrow> (\<exists>v ws. vs = v # ws \<and> pairR R (listR R) h (x, xs) F (v, ws))"
proof -
  show "listR R h [] F vs \<longleftrightarrow> F = {} \<and> vs = []" by (auto simp: listR_def)
  have "listR R h (x # xs) F vs" if vs: "vs = v # ws" and pair: "pairR R (listR R) h (x, xs) F (v, ws)" for v ws
  proof -
    obtain G Gs where "R h x G v" "length Gs = length xs" "length ws = length xs"
        "\<forall>i < length xs. R h (xs ! i) (Gs ! i) (ws ! i)" "F = G \<union> \<Union> (set Gs)"
      using pair by (auto simp: pairR_def listR_def)
    then show ?thesis using vs
      by (auto simp: listR_def less_Suc_eq_0_disj intro!: exI [of _ "G # Gs"])
  qed
  moreover have "\<exists>v ws. vs = v # ws \<and> pairR R (listR R) h (x, xs) F (v, ws)" if list: "listR R h (x # xs) F vs"
  proof -
    obtain Gs where len: "length Gs = Suc (length xs)" "length vs = Suc (length xs)"
      and el: "\<forall>i < Suc (length xs). R h ((x # xs) ! i) (Gs ! i) (vs ! i)" and F: "F = \<Union> (set Gs)"
      using list by (auto simp: listR_def)
    then obtain G Hs v ws where "Gs = G # Hs" "vs = v # ws" by (metis length_Suc_conv)
    moreover from this el have "R h x G v" "\<forall>i < length xs. R h (xs ! i) (Hs ! i) (ws ! i)" by auto
    ultimately show ?thesis using len F by (auto simp: pairR_def listR_def)
  qed
  ultimately show "listR R h (x # xs) F vs \<longleftrightarrow> (\<exists>v ws. vs = v # ws \<and> pairR R (listR R) h (x, xs) F (v, ws))" by blast
qed

lemma list_copier:
  assumes "deep_copier R f"
  shows "deep_copier (listR R) (mapG f)"
proof
  note pair = pair_copier [OF assms]
  fix h :: "'a heap" and xs F vs assume R: "listR R h xs F vs"
  show "F \<subseteq> dom (hCells h)"
    using R deep_copier.footprint [OF assms] unfolding listR_def by (fastforce simp: in_set_conv_nth)
  fix h' :: "'a heap" assume "\<And>a. a \<in> F \<Longrightarrow> hCells h' a = hCells h a"
  then show "listR R h' xs F vs"
    using R deep_copier.local [OF assms, of h _ _ _ h'] unfolding listR_def by (metis UnionI nth_mem)
next
  fix h :: "'a heap" and xs F vs assume "heap_ok h" and "listR R h xs F vs"
  then show "\<exists>ys h' F'. mapG f xs h = (Ok ys, h') \<and> heap_ok h' \<and> extends h h' \<and> listR R h' ys F' vs
    \<and> (\<forall>a \<in> F'. hNext h \<le> a)"
  proof (induction xs arbitrary: h F vs)
    case Nil
    then show ?case by (auto simp: listR_simps ret_def extends_refl)
  next
    case (Cons x xs)
    then obtain v ws G H where vs: "vs = v # ws" and x: "R h x G v" and xs: "listR R h xs H ws"
      by (auto simp: listR_simps pairR_def)
    obtain y h1 G' where y: "f x h = (Ok y, h1)" "heap_ok h1" "extends h h1" "R h1 y G' v" "\<forall>a \<in> G'. hNext h \<le> a"
      using deep_copier.copied [OF assms Cons.prems(1) x] by blast
    have "listR R h1 xs H ws" using xs deep_copier.stays [OF assms Cons.prems(1) _ y(3)] by (auto simp: listR_def)
    from Cons.IH [OF y(2) this] obtain ys h2 H' where ys: "mapG f xs h1 = (Ok ys, h2)" "heap_ok h2" "extends h1 h2"
        "listR R h2 ys H' ws" "\<forall>a \<in> H'. hNext h1 \<le> a" by blast
    have "listR R h2 (y # ys) (G' \<union> H') vs"
      using ys(4) deep_copier.stays [OF assms y(2,4) ys(3)] by (auto simp: listR_simps pairR_def vs)
    moreover have "\<forall>a \<in> G' \<union> H'. hNext h \<le> a" using y(5) ys(5) extends_next [OF y(3)] by auto
    ultimately show ?case
      using ys(2) extends_trans [OF y(3) ys(3)] y(1) ys(1) by (auto simp: bindG_def ret_def)
  qed
qed

text \<open>A slice is copied like a pointer to its array.\<close>

lemma sliceR_array:
  "sliceR k R h (Some (a, off, n)) F vs
   \<longleftrightarrow> ptrR k (\<lambda>h xs G ws. off + n \<le> length xs \<and> listR R h (take n (drop off xs)) G ws) h (Some a) F (Some vs)"
  by (auto simp: sliceR_def ptrR_def)

lemma slice_copier:
  assumes "deep_copier R into" and "kind_ok k"
  shows "deep_copier (sliceR k R) (copySlice k into)"
proof
  note list = list_copier [OF assms(1)]
  fix h :: "'a heap" and s F vs assume R: "sliceR k R h s F vs"
  show "F \<subseteq> dom (hCells h)"
    using R deep_copier.footprint [OF list] by (fastforce simp: sliceR_def split: option.splits)
  fix h' :: "'a heap" assume same: "\<And>a. a \<in> F \<Longrightarrow> hCells h' a = hCells h a"
  show "sliceR k R h' s F vs"
  proof (cases s)
    case (Some t)
    obtain a off n where "s = Some (a, off, n)" using Some by (cases t) simp
    then show ?thesis
      using R same deep_copier.local [OF list, of h _ _ _ h'] by (simp add: sliceR_def) (metis insertCI)
  qed (use R in \<open>simp add: sliceR_def\<close>)
next
  note list = list_copier [OF assms(1)]
  fix h :: "'a heap" and s F vs assume h: "heap_ok h" and R: "sliceR k R h s F vs"
  show "\<exists>y h' F'. copySlice k into s h = (Ok y, h') \<and> heap_ok h' \<and> extends h h' \<and> sliceR k R h' y F' vs
    \<and> (\<forall>a \<in> F'. hNext h \<le> a)"
  proof (cases s)
    case None
    then show ?thesis using R h by (auto simp: sliceR_def copySlice_def ret_def extends_refl)
  next
    case (Some t)
    obtain a off n where s: "s = Some (a, off, n)" using Some by (cases t) simp
    with R obtain c xs G where c: "hCells h a = Some c" "kPrj k c = Some xs" "off + n \<le> length xs"
      and x: "listR R h (take n (drop off xs)) G vs"
      by (auto simp: sliceR_def)
    let ?h = "h\<lparr>hNext := Suc (hNext h)\<rparr>" and ?b = "hNext h"
    note new = newCell_ok [OF h]
    obtain ys h' F' where y: "mapG into (take n (drop off xs)) ?h = (Ok ys, h')" "heap_ok h'" "extends ?h h'"
        "listR R h' ys F' vs" "\<forall>a \<in> F'. Suc ?b \<le> a"
      using deep_copier.copied [OF list new(2) deep_copier.stays [OF list h x new(3)]] by auto
    let ?h' = "h'\<lparr>hCells := (hCells h')(?b \<mapsto> kInj k ys)\<rparr>"
    have len: "length ys = n" using y(4) x c(3) by (auto simp: listR_def)
    have "heap_ok ?h'" "extends h ?h'"
      using store_ok [OF y(2) extends_trans [OF new(3) y(3)] order_refl] y(3) by (simp_all add: extends_def)
    moreover have "listR R ?h' ys F' vs"
      using y(5) by (intro deep_copier.local [OF list y(4)]) auto
    moreover have "copySlice k into s h = (Ok (Some (?b, 0, n)), ?h')"
      using s c y(1) by (simp add: copySlice_def bindG_def newCell_def load_def store_def go_simps)
    moreover have "\<forall>a \<in> insert ?b F'. ?b \<le> a" using y(5) by auto
    moreover have "sliceR k R ?h' (Some (?b, 0, n)) (insert ?b F') vs" if "listR R ?h' ys F' vs"
      using that len unfolding sliceR_array by (intro ptrR_stored [OF assms(2)]) simp
    ultimately show ?thesis by blast
  qed
qed

lemma struct_copier:
  assumes "deep_copier R f" and "\<And>x y. get (put y x) = y" and "\<And>x y. mk (put y x) = mk x"
    and "\<And>x. copy x = bindG (f (get x)) (\<lambda>y. ret (put y x))"
  shows "deep_copier (structR get mk R) copy"
proof
  fix h :: "'a heap" and x F v assume R: "structR get mk R h x F v"
  show "F \<subseteq> dom (hCells h)"
    using R deep_copier.footprint [OF assms(1)] unfolding structR_def by blast
  fix h' :: "'a heap" assume "\<And>a. a \<in> F \<Longrightarrow> hCells h' a = hCells h a"
  then show "structR get mk R h' x F v"
    using R deep_copier.local [OF assms(1), of h _ _ _ h'] unfolding structR_def by blast
next
  fix h :: "'a heap" and x F v assume h: "heap_ok h" and "structR get mk R h x F v"
  then obtain w where w: "R h (get x) F w" "v = mk x w" by (auto simp: structR_def)
  from deep_copier.copied [OF assms(1) h w(1)] w(2) show "\<exists>y h' F'. copy x h = (Ok y, h') \<and> heap_ok h' \<and> extends h h'
      \<and> structR get mk R h' y F' v \<and> (\<forall>a \<in> F'. hNext h \<le> a)"
    by (force simp: structR_def assms(2-4) bindG_def ret_def)
qed

end
