(* ===== verification/Deep_Copy.thy ===== *)
theory Deep_Copy
  imports Memory Beamlit_Client
begin

text \<open>
  The deep copies of the resources (\<^verbatim>\<open>zz_generated.deepcopy.go\<close> of \<^verbatim>\<open>api/v1alpha1/deployment\<close> and
  \<^verbatim>\<open>api/v1alpha1/authorization\<close>), which the caches and clients of Kubernetes and \<open>configureOffloading\<close>
  rely on, over the memory of \<open>Memory\<close>.

  A struct in memory has the fields of the Go struct, with an address for each pointer and map and a
  slice for each slice. Every \<open>DeepCopyInto\<close> starts with \<open>*out = *in\<close>, so that what \<open>out\<close> held does not
  matter: it is the function from the struct that is copied to the struct that \<open>out\<close> holds at the end. The
  receiver is another struct than \<open>out\<close>, as it is wherever the copies are called. The copies of
  \<open>ObjectMeta\<close>, \<open>ListMeta\<close>, \<open>MetricSpec\<close> and \<open>Time\<close> are in the Kubernetes libraries: they are the record
  \<open>copy_library\<close>, over types \<open>'om\<close>, \<open>'lm\<close> and \<open>'ms\<close> of their own, whose pointers lead to cells \<open>'x\<close>.
\<close>

section \<open>Structs in memory\<close>

record type_meta =
  tmKind :: string
  tmAPIVersion :: string

record auth_mem =
  amType :: string
  amOAuthConfig :: "addr option"

record backend_mem =
  bmHost :: string
  bmAuthConfig :: "addr option"
  bmPathPrefix :: string
  bmHeadersToAdd :: "addr option"
  bmScheme :: string

record offloading_mem =
  fmRemoteBackend :: "addr option"
  fmMetrics :: slice
  fmBehavior :: "addr option"

record serverless_mem =
  lmMinNumReplicas :: int
  lmMaxNumReplicas :: int
  lmMetric :: "addr option"
  lmTarget :: "addr option"
  lmScaleUpMinimum :: "addr option"
  lmScaleDownDelay :: "addr option"
  lmStableWindow :: "addr option"
  lmLastPodRetentionPeriod :: "addr option"

record spec_mem =
  smModel :: string
  smEnabled :: bool
  smModelSourceRef :: object_ref
  smServiceRef :: "addr option"
  smMetricServiceRef :: "addr option"
  smEnvironment :: string
  smPolicies :: slice
  smServerlessConfig :: "addr option"
  smOffloadingConfig :: "addr option"

record 'om model_mem =
  omTypeMeta :: type_meta
  omObjectMeta :: 'om
  omSpec :: spec_mem
  omStatus :: model_status

text \<open>The lists of the three resources have the same fields.\<close>

record 'lm list_mem =
  imTypeMeta :: type_meta
  imListMeta :: 'lm
  imItems :: slice

record tool_spec =
  tsFoo :: string

record 'om tool_mem =
  tmTypeMeta :: type_meta
  tmObjectMeta :: 'om
  tmSpec :: tool_spec
  tmStatus :: unit

record policy_spec_mem =
  ymDisplayName :: string
  ymType :: string
  ymLocations :: slice
  ymFlavors :: slice

record policy_status =
  ysCreatedAtOnBeamlit :: int
  ysUpdatedAtOnBeamlit :: int
  ysWorkspace :: string

record 'om policy_mem =
  ymTypeMeta :: type_meta
  ymObjectMeta :: 'om
  ymSpec :: policy_spec_mem
  ymStatus :: policy_status

section \<open>Cells\<close>

datatype ('om, 'lm, 'ms, 'x) cell =
    StringCell string
  | Int32Cell int
  | HeaderMap "(string \<times> string) list"
  | OAuthCell oauth_config
  | AuthCell auth_mem
  | BackendCell backend_mem
  | BehaviorCell offloading_behavior
  | MetricArray "'ms list"
  | OffloadingCell offloading_mem
  | ServerlessCell serverless_mem
  | PolicyRefCell policy_ref
  | PolicyRefArray "policy_ref list"
  | ServiceRefCell service_reference
  | SpecCell spec_mem
  | StatusCell model_status
  | ModelCell "'om model_mem"
  | ModelArray "'om model_mem list"
  | ModelListCell "'lm list_mem"
  | ToolSpecCell tool_spec
  | ToolStatusCell unit
  | ToolCell "'om tool_mem"
  | ToolArray "'om tool_mem list"
  | ToolListCell "'lm list_mem"
  | LocationCell policy_location
  | LocationArray "policy_location list"
  | FlavorCell policy_flavor
  | FlavorArray "policy_flavor list"
  | PolicySpecCell policy_spec_mem
  | PolicyStatusCell policy_status
  | PolicyCell "'om policy_mem"
  | PolicyArray "'om policy_mem list"
  | PolicyListCell "'lm list_mem"
  | LibraryCell 'x

type_synonym ('om, 'lm, 'ms, 'x) mem = "('om, 'lm, 'ms, 'x) cell heap"

text \<open>The kind of each of them.\<close>

definition stringCells :: "(('om, 'lm, 'ms, 'x) cell, string) kind" where
  "stringCells = \<lparr>kInj = StringCell, kPrj = \<lambda>c. case c of StringCell x \<Rightarrow> Some x | _ \<Rightarrow> None\<rparr>"

definition int32Cells :: "(('om, 'lm, 'ms, 'x) cell, int) kind" where
  "int32Cells = \<lparr>kInj = Int32Cell, kPrj = \<lambda>c. case c of Int32Cell x \<Rightarrow> Some x | _ \<Rightarrow> None\<rparr>"

definition headerMaps :: "(('om, 'lm, 'ms, 'x) cell, (string \<times> string) list) kind" where
  "headerMaps = \<lparr>kInj = HeaderMap, kPrj = \<lambda>c. case c of HeaderMap x \<Rightarrow> Some x | _ \<Rightarrow> None\<rparr>"

definition oAuthCells :: "(('om, 'lm, 'ms, 'x) cell, oauth_config) kind" where
  "oAuthCells = \<lparr>kInj = OAuthCell, kPrj = \<lambda>c. case c of OAuthCell x \<Rightarrow> Some x | _ \<Rightarrow> None\<rparr>"

definition authCells :: "(('om, 'lm, 'ms, 'x) cell, auth_mem) kind" where
  "authCells = \<lparr>kInj = AuthCell, kPrj = \<lambda>c. case c of AuthCell x \<Rightarrow> Some x | _ \<Rightarrow> None\<rparr>"

definition backendCells :: "(('om, 'lm, 'ms, 'x) cell, backend_mem) kind" where
  "backendCells = \<lparr>kInj = BackendCell, kPrj = \<lambda>c. case c of BackendCell x \<Rightarrow> Some x | _ \<Rightarrow> None\<rparr>"

definition behaviorCells :: "(('om, 'lm, 'ms, 'x) cell, offloading_behavior) kind" where
  "behaviorCells = \<lparr>kInj = BehaviorCell, kPrj = \<lambda>c. case c of BehaviorCell x \<Rightarrow> Some x | _ \<Rightarrow> None\<rparr>"

definition metricArrays :: "(('om, 'lm, 'ms, 'x) cell, 'ms list) kind" where
  "metricArrays = \<lparr>kInj = MetricArray, kPrj = \<lambda>c. case c of MetricArray x \<Rightarrow> Some x | _ \<Rightarrow> None\<rparr>"

definition offloadingCells :: "(('om, 'lm, 'ms, 'x) cell, offloading_mem) kind" where
  "offloadingCells = \<lparr>kInj = OffloadingCell, kPrj = \<lambda>c. case c of OffloadingCell x \<Rightarrow> Some x | _ \<Rightarrow> None\<rparr>"

definition serverlessCells :: "(('om, 'lm, 'ms, 'x) cell, serverless_mem) kind" where
  "serverlessCells = \<lparr>kInj = ServerlessCell, kPrj = \<lambda>c. case c of ServerlessCell x \<Rightarrow> Some x | _ \<Rightarrow> None\<rparr>"

definition policyRefCells :: "(('om, 'lm, 'ms, 'x) cell, policy_ref) kind" where
  "policyRefCells = \<lparr>kInj = PolicyRefCell, kPrj = \<lambda>c. case c of PolicyRefCell x \<Rightarrow> Some x | _ \<Rightarrow> None\<rparr>"

definition policyRefArrays :: "(('om, 'lm, 'ms, 'x) cell, policy_ref list) kind" where
  "policyRefArrays = \<lparr>kInj = PolicyRefArray, kPrj = \<lambda>c. case c of PolicyRefArray x \<Rightarrow> Some x | _ \<Rightarrow> None\<rparr>"

definition serviceRefCells :: "(('om, 'lm, 'ms, 'x) cell, service_reference) kind" where
  "serviceRefCells = \<lparr>kInj = ServiceRefCell, kPrj = \<lambda>c. case c of ServiceRefCell x \<Rightarrow> Some x | _ \<Rightarrow> None\<rparr>"

definition specCells :: "(('om, 'lm, 'ms, 'x) cell, spec_mem) kind" where
  "specCells = \<lparr>kInj = SpecCell, kPrj = \<lambda>c. case c of SpecCell x \<Rightarrow> Some x | _ \<Rightarrow> None\<rparr>"

definition statusCells :: "(('om, 'lm, 'ms, 'x) cell, model_status) kind" where
  "statusCells = \<lparr>kInj = StatusCell, kPrj = \<lambda>c. case c of StatusCell x \<Rightarrow> Some x | _ \<Rightarrow> None\<rparr>"

definition modelCells :: "(('om, 'lm, 'ms, 'x) cell, 'om model_mem) kind" where
  "modelCells = \<lparr>kInj = ModelCell, kPrj = \<lambda>c. case c of ModelCell x \<Rightarrow> Some x | _ \<Rightarrow> None\<rparr>"

definition modelArrays :: "(('om, 'lm, 'ms, 'x) cell, 'om model_mem list) kind" where
  "modelArrays = \<lparr>kInj = ModelArray, kPrj = \<lambda>c. case c of ModelArray x \<Rightarrow> Some x | _ \<Rightarrow> None\<rparr>"

definition modelListCells :: "(('om, 'lm, 'ms, 'x) cell, 'lm list_mem) kind" where
  "modelListCells = \<lparr>kInj = ModelListCell, kPrj = \<lambda>c. case c of ModelListCell x \<Rightarrow> Some x | _ \<Rightarrow> None\<rparr>"

definition toolSpecCells :: "(('om, 'lm, 'ms, 'x) cell, tool_spec) kind" where
  "toolSpecCells = \<lparr>kInj = ToolSpecCell, kPrj = \<lambda>c. case c of ToolSpecCell x \<Rightarrow> Some x | _ \<Rightarrow> None\<rparr>"

definition toolStatusCells :: "(('om, 'lm, 'ms, 'x) cell, unit) kind" where
  "toolStatusCells = \<lparr>kInj = ToolStatusCell, kPrj = \<lambda>c. case c of ToolStatusCell x \<Rightarrow> Some x | _ \<Rightarrow> None\<rparr>"

definition toolCells :: "(('om, 'lm, 'ms, 'x) cell, 'om tool_mem) kind" where
  "toolCells = \<lparr>kInj = ToolCell, kPrj = \<lambda>c. case c of ToolCell x \<Rightarrow> Some x | _ \<Rightarrow> None\<rparr>"

definition toolArrays :: "(('om, 'lm, 'ms, 'x) cell, 'om tool_mem list) kind" where
  "toolArrays = \<lparr>kInj = ToolArray, kPrj = \<lambda>c. case c of ToolArray x \<Rightarrow> Some x | _ \<Rightarrow> None\<rparr>"

definition toolListCells :: "(('om, 'lm, 'ms, 'x) cell, 'lm list_mem) kind" where
  "toolListCells = \<lparr>kInj = ToolListCell, kPrj = \<lambda>c. case c of ToolListCell x \<Rightarrow> Some x | _ \<Rightarrow> None\<rparr>"

definition locationCells :: "(('om, 'lm, 'ms, 'x) cell, policy_location) kind" where
  "locationCells = \<lparr>kInj = LocationCell, kPrj = \<lambda>c. case c of LocationCell x \<Rightarrow> Some x | _ \<Rightarrow> None\<rparr>"

definition locationArrays :: "(('om, 'lm, 'ms, 'x) cell, policy_location list) kind" where
  "locationArrays = \<lparr>kInj = LocationArray, kPrj = \<lambda>c. case c of LocationArray x \<Rightarrow> Some x | _ \<Rightarrow> None\<rparr>"

definition flavorCells :: "(('om, 'lm, 'ms, 'x) cell, policy_flavor) kind" where
  "flavorCells = \<lparr>kInj = FlavorCell, kPrj = \<lambda>c. case c of FlavorCell x \<Rightarrow> Some x | _ \<Rightarrow> None\<rparr>"

definition flavorArrays :: "(('om, 'lm, 'ms, 'x) cell, policy_flavor list) kind" where
  "flavorArrays = \<lparr>kInj = FlavorArray, kPrj = \<lambda>c. case c of FlavorArray x \<Rightarrow> Some x | _ \<Rightarrow> None\<rparr>"

definition policySpecCells :: "(('om, 'lm, 'ms, 'x) cell, policy_spec_mem) kind" where
  "policySpecCells = \<lparr>kInj = PolicySpecCell, kPrj = \<lambda>c. case c of PolicySpecCell x \<Rightarrow> Some x | _ \<Rightarrow> None\<rparr>"

definition policyStatusCells :: "(('om, 'lm, 'ms, 'x) cell, policy_status) kind" where
  "policyStatusCells = \<lparr>kInj = PolicyStatusCell, kPrj = \<lambda>c. case c of PolicyStatusCell x \<Rightarrow> Some x | _ \<Rightarrow> None\<rparr>"

definition policyCells :: "(('om, 'lm, 'ms, 'x) cell, 'om policy_mem) kind" where
  "policyCells = \<lparr>kInj = PolicyCell, kPrj = \<lambda>c. case c of PolicyCell x \<Rightarrow> Some x | _ \<Rightarrow> None\<rparr>"

definition policyArrays :: "(('om, 'lm, 'ms, 'x) cell, 'om policy_mem list) kind" where
  "policyArrays = \<lparr>kInj = PolicyArray, kPrj = \<lambda>c. case c of PolicyArray x \<Rightarrow> Some x | _ \<Rightarrow> None\<rparr>"

definition policyListCells :: "(('om, 'lm, 'ms, 'x) cell, 'lm list_mem) kind" where
  "policyListCells = \<lparr>kInj = PolicyListCell, kPrj = \<lambda>c. case c of PolicyListCell x \<Rightarrow> Some x | _ \<Rightarrow> None\<rparr>"

section \<open>The libraries\<close>

record ('om, 'lm, 'ms, 'x) copy_library =
  clObjectMeta :: "'om \<Rightarrow> (('om, 'lm, 'ms, 'x) mem, 'om) go"
  clListMeta :: "'lm \<Rightarrow> (('om, 'lm, 'ms, 'x) mem, 'lm) go"
  clMetricSpec :: "'ms \<Rightarrow> (('om, 'lm, 'ms, 'x) mem, 'ms) go"
  clTime :: "int \<Rightarrow> (('om, 'lm, 'ms, 'x) mem, int) go"

text \<open>The interface type that \<open>DeepCopyObject\<close> returns; its nil is \<open>None\<close>.\<close>

datatype runtime_object =
    ModelObject addr
  | ModelListObject addr
  | ToolObject addr
  | ToolListObject addr
  | PolicyObject addr
  | PolicyListObject addr

section \<open>The copies of the deployment resources\<close>

definition DeepCopyInto_OAuthConfig :: "oauth_config \<Rightarrow> (('om, 'lm, 'ms, 'x) mem, oauth_config) go" where
  "DeepCopyInto_OAuthConfig src = ret src"

definition DeepCopy_OAuthConfig :: "addr option \<Rightarrow> (('om, 'lm, 'ms, 'x) mem, addr option) go" where
  "DeepCopy_OAuthConfig = copyPtr oAuthCells DeepCopyInto_OAuthConfig"

definition DeepCopyInto_AuthConfig :: "auth_mem \<Rightarrow> (('om, 'lm, 'ms, 'x) mem, auth_mem) go" where
  "DeepCopyInto_AuthConfig src =
     bindG (copyPtr oAuthCells ret (amOAuthConfig src)) (\<lambda>p. ret (src\<lparr>amOAuthConfig := p\<rparr>))"

definition DeepCopy_AuthConfig :: "addr option \<Rightarrow> (('om, 'lm, 'ms, 'x) mem, addr option) go" where
  "DeepCopy_AuthConfig = copyPtr authCells DeepCopyInto_AuthConfig"

definition DeepCopyInto_OffloadingBehavior :: "offloading_behavior \<Rightarrow> (('om, 'lm, 'ms, 'x) mem, offloading_behavior) go" where
  "DeepCopyInto_OffloadingBehavior src = ret src"

definition DeepCopy_OffloadingBehavior :: "addr option \<Rightarrow> (('om, 'lm, 'ms, 'x) mem, addr option) go" where
  "DeepCopy_OffloadingBehavior = copyPtr behaviorCells DeepCopyInto_OffloadingBehavior"

definition DeepCopyInto_PolicyRef :: "policy_ref \<Rightarrow> (('om, 'lm, 'ms, 'x) mem, policy_ref) go" where
  "DeepCopyInto_PolicyRef src = ret src"

definition DeepCopy_PolicyRef :: "addr option \<Rightarrow> (('om, 'lm, 'ms, 'x) mem, addr option) go" where
  "DeepCopy_PolicyRef = copyPtr policyRefCells DeepCopyInto_PolicyRef"

definition DeepCopyInto_ServiceReference :: "service_reference \<Rightarrow> (('om, 'lm, 'ms, 'x) mem, service_reference) go" where
  "DeepCopyInto_ServiceReference src = ret src"

definition DeepCopy_ServiceReference :: "addr option \<Rightarrow> (('om, 'lm, 'ms, 'x) mem, addr option) go" where
  "DeepCopy_ServiceReference = copyPtr serviceRefCells DeepCopyInto_ServiceReference"

text \<open>A map: \<open>make\<close>, and then one assignment per key.\<close>

definition copyMap :: "addr option \<Rightarrow> (('om, 'lm, 'ms, 'x) mem, addr option) go" where
  "copyMap = copyPtr headerMaps (\<lambda>kvs. ret (putAll kvs []))"

definition DeepCopyInto_RemoteBackend :: "backend_mem \<Rightarrow> (('om, 'lm, 'ms, 'x) mem, backend_mem) go" where
  "DeepCopyInto_RemoteBackend src =
     bindG (copyPtr authCells DeepCopyInto_AuthConfig (bmAuthConfig src)) (\<lambda>auth.
     bindG (copyMap (bmHeadersToAdd src)) (\<lambda>headers.
     ret (src\<lparr>bmAuthConfig := auth, bmHeadersToAdd := headers\<rparr>)))"

definition DeepCopy_RemoteBackend :: "addr option \<Rightarrow> (('om, 'lm, 'ms, 'x) mem, addr option) go" where
  "DeepCopy_RemoteBackend = copyPtr backendCells DeepCopyInto_RemoteBackend"

definition DeepCopyInto_ServerlessConfig :: "serverless_mem \<Rightarrow> (('om, 'lm, 'ms, 'x) mem, serverless_mem) go" where
  "DeepCopyInto_ServerlessConfig src =
     bindG (copyPtr stringCells ret (lmMetric src)) (\<lambda>metric.
     bindG (copyPtr stringCells ret (lmTarget src)) (\<lambda>target.
     bindG (copyPtr int32Cells ret (lmScaleUpMinimum src)) (\<lambda>scaleUp.
     bindG (copyPtr stringCells ret (lmScaleDownDelay src)) (\<lambda>scaleDown.
     bindG (copyPtr stringCells ret (lmStableWindow src)) (\<lambda>window.
     bindG (copyPtr stringCells ret (lmLastPodRetentionPeriod src)) (\<lambda>retention.
     ret (src\<lparr>lmMetric := metric, lmTarget := target, lmScaleUpMinimum := scaleUp,
       lmScaleDownDelay := scaleDown, lmStableWindow := window,
       lmLastPodRetentionPeriod := retention\<rparr>)))))))"

definition DeepCopy_ServerlessConfig :: "addr option \<Rightarrow> (('om, 'lm, 'ms, 'x) mem, addr option) go" where
  "DeepCopy_ServerlessConfig = copyPtr serverlessCells DeepCopyInto_ServerlessConfig"

definition DeepCopyInto_OffloadingConfig ::
  "('om, 'lm, 'ms, 'x) copy_library \<Rightarrow> offloading_mem \<Rightarrow> (('om, 'lm, 'ms, 'x) mem, offloading_mem) go" where
  "DeepCopyInto_OffloadingConfig lib src =
     bindG (copyPtr backendCells DeepCopyInto_RemoteBackend (fmRemoteBackend src)) (\<lambda>backend.
     bindG (copySlice metricArrays (clMetricSpec lib) (fmMetrics src)) (\<lambda>metrics.
     bindG (copyPtr behaviorCells ret (fmBehavior src)) (\<lambda>behavior.
     ret (src\<lparr>fmRemoteBackend := backend, fmMetrics := metrics, fmBehavior := behavior\<rparr>))))"

definition DeepCopy_OffloadingConfig ::
  "('om, 'lm, 'ms, 'x) copy_library \<Rightarrow> addr option \<Rightarrow> (('om, 'lm, 'ms, 'x) mem, addr option) go" where
  "DeepCopy_OffloadingConfig lib = copyPtr offloadingCells (DeepCopyInto_OffloadingConfig lib)"

definition DeepCopyInto_ModelDeploymentSpec ::
  "('om, 'lm, 'ms, 'x) copy_library \<Rightarrow> spec_mem \<Rightarrow> (('om, 'lm, 'ms, 'x) mem, spec_mem) go" where
  "DeepCopyInto_ModelDeploymentSpec lib src =
     bindG (copyPtr serviceRefCells ret (smServiceRef src)) (\<lambda>service.
     bindG (copyPtr serviceRefCells ret (smMetricServiceRef src)) (\<lambda>metricService.
     bindG (copySlice policyRefArrays ret (smPolicies src)) (\<lambda>policies.
     bindG (copyPtr serverlessCells DeepCopyInto_ServerlessConfig (smServerlessConfig src)) (\<lambda>serverless.
     bindG (copyPtr offloadingCells (DeepCopyInto_OffloadingConfig lib) (smOffloadingConfig src)) (\<lambda>offloading.
     ret (src\<lparr>smServiceRef := service, smMetricServiceRef := metricService, smPolicies := policies,
       smServerlessConfig := serverless, smOffloadingConfig := offloading\<rparr>))))))"

definition DeepCopy_ModelDeploymentSpec ::
  "('om, 'lm, 'ms, 'x) copy_library \<Rightarrow> addr option \<Rightarrow> (('om, 'lm, 'ms, 'x) mem, addr option) go" where
  "DeepCopy_ModelDeploymentSpec lib = copyPtr specCells (DeepCopyInto_ModelDeploymentSpec lib)"

definition DeepCopyInto_ModelDeploymentStatus ::
  "('om, 'lm, 'ms, 'x) copy_library \<Rightarrow> model_status \<Rightarrow> (('om, 'lm, 'ms, 'x) mem, model_status) go" where
  "DeepCopyInto_ModelDeploymentStatus lib src =
     bindG (clTime lib (stCreatedAtOnBeamlit src)) (\<lambda>created.
     bindG (clTime lib (stUpdatedAtOnBeamlit src)) (\<lambda>updated.
     ret (src\<lparr>stCreatedAtOnBeamlit := created, stUpdatedAtOnBeamlit := updated\<rparr>)))"

definition DeepCopy_ModelDeploymentStatus ::
  "('om, 'lm, 'ms, 'x) copy_library \<Rightarrow> addr option \<Rightarrow> (('om, 'lm, 'ms, 'x) mem, addr option) go" where
  "DeepCopy_ModelDeploymentStatus lib = copyPtr statusCells (DeepCopyInto_ModelDeploymentStatus lib)"

definition DeepCopyInto_ModelDeployment ::
  "('om, 'lm, 'ms, 'x) copy_library \<Rightarrow> 'om model_mem \<Rightarrow> (('om, 'lm, 'ms, 'x) mem, 'om model_mem) go" where
  "DeepCopyInto_ModelDeployment lib src =
     bindG (clObjectMeta lib (omObjectMeta src)) (\<lambda>meta.
     bindG (DeepCopyInto_ModelDeploymentSpec lib (omSpec src)) (\<lambda>spec.
     bindG (DeepCopyInto_ModelDeploymentStatus lib (omStatus src)) (\<lambda>status.
     ret (src\<lparr>omObjectMeta := meta, omSpec := spec, omStatus := status\<rparr>))))"

definition DeepCopy_ModelDeployment ::
  "('om, 'lm, 'ms, 'x) copy_library \<Rightarrow> addr option \<Rightarrow> (('om, 'lm, 'ms, 'x) mem, addr option) go" where
  "DeepCopy_ModelDeployment lib = copyPtr modelCells (DeepCopyInto_ModelDeployment lib)"

definition DeepCopyObject_ModelDeployment ::
  "('om, 'lm, 'ms, 'x) copy_library \<Rightarrow> addr option \<Rightarrow> (('om, 'lm, 'ms, 'x) mem, runtime_object option) go" where
  "DeepCopyObject_ModelDeployment lib p = bindG (DeepCopy_ModelDeployment lib p) (\<lambda>c. ret (map_option ModelObject c))"

definition DeepCopyInto_ModelDeploymentList ::
  "('om, 'lm, 'ms, 'x) copy_library \<Rightarrow> 'lm list_mem \<Rightarrow> (('om, 'lm, 'ms, 'x) mem, 'lm list_mem) go" where
  "DeepCopyInto_ModelDeploymentList lib src =
     bindG (clListMeta lib (imListMeta src)) (\<lambda>meta.
     bindG (copySlice modelArrays (DeepCopyInto_ModelDeployment lib) (imItems src)) (\<lambda>items.
     ret (src\<lparr>imListMeta := meta, imItems := items\<rparr>)))"

definition DeepCopy_ModelDeploymentList ::
  "('om, 'lm, 'ms, 'x) copy_library \<Rightarrow> addr option \<Rightarrow> (('om, 'lm, 'ms, 'x) mem, addr option) go" where
  "DeepCopy_ModelDeploymentList lib = copyPtr modelListCells (DeepCopyInto_ModelDeploymentList lib)"

definition DeepCopyObject_ModelDeploymentList ::
  "('om, 'lm, 'ms, 'x) copy_library \<Rightarrow> addr option \<Rightarrow> (('om, 'lm, 'ms, 'x) mem, runtime_object option) go" where
  "DeepCopyObject_ModelDeploymentList lib p = bindG (DeepCopy_ModelDeploymentList lib p) (\<lambda>c. ret (map_option ModelListObject c))"

definition DeepCopyInto_ToolDeploymentSpec :: "tool_spec \<Rightarrow> (('om, 'lm, 'ms, 'x) mem, tool_spec) go" where
  "DeepCopyInto_ToolDeploymentSpec src = ret src"

definition DeepCopy_ToolDeploymentSpec :: "addr option \<Rightarrow> (('om, 'lm, 'ms, 'x) mem, addr option) go" where
  "DeepCopy_ToolDeploymentSpec = copyPtr toolSpecCells DeepCopyInto_ToolDeploymentSpec"

definition DeepCopyInto_ToolDeploymentStatus :: "unit \<Rightarrow> (('om, 'lm, 'ms, 'x) mem, unit) go" where
  "DeepCopyInto_ToolDeploymentStatus src = ret src"

definition DeepCopy_ToolDeploymentStatus :: "addr option \<Rightarrow> (('om, 'lm, 'ms, 'x) mem, addr option) go" where
  "DeepCopy_ToolDeploymentStatus = copyPtr toolStatusCells DeepCopyInto_ToolDeploymentStatus"

definition DeepCopyInto_ToolDeployment ::
  "('om, 'lm, 'ms, 'x) copy_library \<Rightarrow> 'om tool_mem \<Rightarrow> (('om, 'lm, 'ms, 'x) mem, 'om tool_mem) go" where
  "DeepCopyInto_ToolDeployment lib src =
     bindG (clObjectMeta lib (tmObjectMeta src)) (\<lambda>meta. ret (src\<lparr>tmObjectMeta := meta\<rparr>))"

definition DeepCopy_ToolDeployment ::
  "('om, 'lm, 'ms, 'x) copy_library \<Rightarrow> addr option \<Rightarrow> (('om, 'lm, 'ms, 'x) mem, addr option) go" where
  "DeepCopy_ToolDeployment lib = copyPtr toolCells (DeepCopyInto_ToolDeployment lib)"

definition DeepCopyObject_ToolDeployment ::
  "('om, 'lm, 'ms, 'x) copy_library \<Rightarrow> addr option \<Rightarrow> (('om, 'lm, 'ms, 'x) mem, runtime_object option) go" where
  "DeepCopyObject_ToolDeployment lib p = bindG (DeepCopy_ToolDeployment lib p) (\<lambda>c. ret (map_option ToolObject c))"

definition DeepCopyInto_ToolDeploymentList ::
  "('om, 'lm, 'ms, 'x) copy_library \<Rightarrow> 'lm list_mem \<Rightarrow> (('om, 'lm, 'ms, 'x) mem, 'lm list_mem) go" where
  "DeepCopyInto_ToolDeploymentList lib src =
     bindG (clListMeta lib (imListMeta src)) (\<lambda>meta.
     bindG (copySlice toolArrays (DeepCopyInto_ToolDeployment lib) (imItems src)) (\<lambda>items.
     ret (src\<lparr>imListMeta := meta, imItems := items\<rparr>)))"

definition DeepCopy_ToolDeploymentList ::
  "('om, 'lm, 'ms, 'x) copy_library \<Rightarrow> addr option \<Rightarrow> (('om, 'lm, 'ms, 'x) mem, addr option) go" where
  "DeepCopy_ToolDeploymentList lib = copyPtr toolListCells (DeepCopyInto_ToolDeploymentList lib)"

definition DeepCopyObject_ToolDeploymentList ::
  "('om, 'lm, 'ms, 'x) copy_library \<Rightarrow> addr option \<Rightarrow> (('om, 'lm, 'ms, 'x) mem, runtime_object option) go" where
  "DeepCopyObject_ToolDeploymentList lib p = bindG (DeepCopy_ToolDeploymentList lib p) (\<lambda>c. ret (map_option ToolListObject c))"

section \<open>The copies of the policies\<close>

definition DeepCopyInto_PolicyLocation :: "policy_location \<Rightarrow> (('om, 'lm, 'ms, 'x) mem, policy_location) go" where
  "DeepCopyInto_PolicyLocation src = ret src"

definition DeepCopy_PolicyLocation :: "addr option \<Rightarrow> (('om, 'lm, 'ms, 'x) mem, addr option) go" where
  "DeepCopy_PolicyLocation = copyPtr locationCells DeepCopyInto_PolicyLocation"

definition DeepCopyInto_PolicyFlavor :: "policy_flavor \<Rightarrow> (('om, 'lm, 'ms, 'x) mem, policy_flavor) go" where
  "DeepCopyInto_PolicyFlavor src = ret src"

definition DeepCopy_PolicyFlavor :: "addr option \<Rightarrow> (('om, 'lm, 'ms, 'x) mem, addr option) go" where
  "DeepCopy_PolicyFlavor = copyPtr flavorCells DeepCopyInto_PolicyFlavor"

definition DeepCopyInto_PolicySpec :: "policy_spec_mem \<Rightarrow> (('om, 'lm, 'ms, 'x) mem, policy_spec_mem) go" where
  "DeepCopyInto_PolicySpec src =
     bindG (copySlice locationArrays ret (ymLocations src)) (\<lambda>locations.
     bindG (copySlice flavorArrays ret (ymFlavors src)) (\<lambda>flavors.
     ret (src\<lparr>ymLocations := locations, ymFlavors := flavors\<rparr>)))"

definition DeepCopy_PolicySpec :: "addr option \<Rightarrow> (('om, 'lm, 'ms, 'x) mem, addr option) go" where
  "DeepCopy_PolicySpec = copyPtr policySpecCells DeepCopyInto_PolicySpec"

definition DeepCopyInto_PolicyStatus ::
  "('om, 'lm, 'ms, 'x) copy_library \<Rightarrow> policy_status \<Rightarrow> (('om, 'lm, 'ms, 'x) mem, policy_status) go" where
  "DeepCopyInto_PolicyStatus lib src =
     bindG (clTime lib (ysCreatedAtOnBeamlit src)) (\<lambda>created.
     bindG (clTime lib (ysUpdatedAtOnBeamlit src)) (\<lambda>updated.
     ret (src\<lparr>ysCreatedAtOnBeamlit := created, ysUpdatedAtOnBeamlit := updated\<rparr>)))"

definition DeepCopy_PolicyStatus ::
  "('om, 'lm, 'ms, 'x) copy_library \<Rightarrow> addr option \<Rightarrow> (('om, 'lm, 'ms, 'x) mem, addr option) go" where
  "DeepCopy_PolicyStatus lib = copyPtr policyStatusCells (DeepCopyInto_PolicyStatus lib)"

definition DeepCopyInto_Policy ::
  "('om, 'lm, 'ms, 'x) copy_library \<Rightarrow> 'om policy_mem \<Rightarrow> (('om, 'lm, 'ms, 'x) mem, 'om policy_mem) go" where
  "DeepCopyInto_Policy lib src =
     bindG (clObjectMeta lib (ymObjectMeta src)) (\<lambda>meta.
     bindG (DeepCopyInto_PolicySpec (ymSpec src)) (\<lambda>spec.
     bindG (DeepCopyInto_PolicyStatus lib (ymStatus src)) (\<lambda>status.
     ret (src\<lparr>ymObjectMeta := meta, ymSpec := spec, ymStatus := status\<rparr>))))"

definition DeepCopy_Policy ::
  "('om, 'lm, 'ms, 'x) copy_library \<Rightarrow> addr option \<Rightarrow> (('om, 'lm, 'ms, 'x) mem, addr option) go" where
  "DeepCopy_Policy lib = copyPtr policyCells (DeepCopyInto_Policy lib)"

definition DeepCopyObject_Policy ::
  "('om, 'lm, 'ms, 'x) copy_library \<Rightarrow> addr option \<Rightarrow> (('om, 'lm, 'ms, 'x) mem, runtime_object option) go" where
  "DeepCopyObject_Policy lib p = bindG (DeepCopy_Policy lib p) (\<lambda>c. ret (map_option PolicyObject c))"

definition DeepCopyInto_PolicyList ::
  "('om, 'lm, 'ms, 'x) copy_library \<Rightarrow> 'lm list_mem \<Rightarrow> (('om, 'lm, 'ms, 'x) mem, 'lm list_mem) go" where
  "DeepCopyInto_PolicyList lib src =
     bindG (clListMeta lib (imListMeta src)) (\<lambda>meta.
     bindG (copySlice policyArrays (DeepCopyInto_Policy lib) (imItems src)) (\<lambda>items.
     ret (src\<lparr>imListMeta := meta, imItems := items\<rparr>)))"

definition DeepCopy_PolicyList ::
  "('om, 'lm, 'ms, 'x) copy_library \<Rightarrow> addr option \<Rightarrow> (('om, 'lm, 'ms, 'x) mem, addr option) go" where
  "DeepCopy_PolicyList lib = copyPtr policyListCells (DeepCopyInto_PolicyList lib)"

definition DeepCopyObject_PolicyList ::
  "('om, 'lm, 'ms, 'x) copy_library \<Rightarrow> addr option \<Rightarrow> (('om, 'lm, 'ms, 'x) mem, runtime_object option) go" where
  "DeepCopyObject_PolicyList lib p = bindG (DeepCopy_PolicyList lib p) (\<lambda>c. ret (map_option PolicyListObject c))"

section \<open>The use in the controller\<close>

text \<open>\<open>configureOffloading\<close> names the copy of the service in a copy of its reference.\<close>

definition backendServiceRef :: "addr option \<Rightarrow> (('om, 'lm, 'ms, 'x) mem, addr option) go" where
  "backendServiceRef p =
     bindG (DeepCopy_ServiceReference p) (\<lambda>q.
     bindG (deref q) (\<lambda>b.
     bindG (load serviceRefCells b) (\<lambda>s.
     seqG (store serviceRefCells b (s\<lparr>srRef := (srRef s)\<lparr>orName := srName s @ ''-beamlit''\<rparr>\<rparr>))
          (ret q))))"

end
