(* ===== verification/Deep_Copy_Facts.thy ===== *)
theory Deep_Copy_Facts
  imports Deep_Copy Model_Controller Gateway_API_Facts
begin

text \<open>
  What the deep copies promise: a copy denotes the same resource as its original and the two have no
  memory in common, however deep the pointers go. Each type of the resources has a denotation, the
  relation to the pure record that the rest of the model uses for it, and its copy is a \<open>deep_copier\<close>
  for it.
\<close>

section \<open>What the structs denote\<close>

definition authR :: "(('om, 'lm, 'ms, 'x) cell, auth_mem, auth_config) denotation" where
  "authR = structR amOAuthConfig (\<lambda>x p. \<lparr>acType = amType x, acOAuthConfig = p\<rparr>) (ptrR oAuthCells flatR)"

definition headersR :: "('c, (string \<times> string) list, (string \<times> string) list) denotation" where
  "headersR h kvs F v \<longleftrightarrow> F = {} \<and> distinct (map fst kvs) \<and> v = kvs"

definition orNil :: "'a list option \<Rightarrow> 'a list" where
  "orNil p = (case p of None \<Rightarrow> [] | Some xs \<Rightarrow> xs)"

definition backendR :: "(('om, 'lm, 'ms, 'x) cell, backend_mem, remote_backend) denotation" where
  "backendR = structR (\<lambda>x. (bmAuthConfig x, bmHeadersToAdd x))
     (\<lambda>x (auth, headers). \<lparr>rbHost = bmHost x, rbAuthConfig = auth, rbPathPrefix = bmPathPrefix x,
        rbHeadersToAdd = orNil headers, rbScheme = bmScheme x\<rparr>)
     (pairR (ptrR authCells authR) (ptrR headerMaps headersR))"

definition serverlessR :: "(('om, 'lm, 'ms, 'x) cell, serverless_mem, serverless_config) denotation" where
  "serverlessR = structR
     (\<lambda>x. (lmMetric x, lmTarget x, lmScaleUpMinimum x, lmScaleDownDelay x, lmStableWindow x, lmLastPodRetentionPeriod x))
     (\<lambda>x (metric, target, scaleUp, scaleDown, window, retention).
        \<lparr>slMinNumReplicas = lmMinNumReplicas x, slMaxNumReplicas = lmMaxNumReplicas x, slMetric = metric,
         slTarget = target, slScaleUpMinimum = scaleUp, slScaleDownDelay = scaleDown,
         slStableWindow = window, slLastPodRetentionPeriod = retention\<rparr>)
     (pairR (ptrR stringCells flatR) (pairR (ptrR stringCells flatR) (pairR (ptrR int32Cells flatR)
     (pairR (ptrR stringCells flatR) (pairR (ptrR stringCells flatR) (ptrR stringCells flatR))))))"

definition offloadingR ::
  "(('om, 'lm, 'ms, 'x) cell, 'ms, metric_spec) denotation
   \<Rightarrow> (('om, 'lm, 'ms, 'x) cell, offloading_mem, offloading_config) denotation" where
  "offloadingR msR = structR (\<lambda>x. (fmRemoteBackend x, fmMetrics x, fmBehavior x))
     (\<lambda>x (backend, metrics, behavior). \<lparr>ofRemoteBackend = backend, ofMetrics = metrics, ofBehavior = behavior\<rparr>)
     (pairR (ptrR backendCells backendR) (pairR (sliceR metricArrays msR) (ptrR behaviorCells flatR)))"

definition specR ::
  "(('om, 'lm, 'ms, 'x) cell, 'ms, metric_spec) denotation
   \<Rightarrow> (('om, 'lm, 'ms, 'x) cell, spec_mem, model_spec) denotation" where
  "specR msR = structR
     (\<lambda>x. (smServiceRef x, smMetricServiceRef x, smPolicies x, smServerlessConfig x, smOffloadingConfig x))
     (\<lambda>x (service, metricService, policies, serverless, offloading).
        \<lparr>spModel = smModel x, spEnabled = smEnabled x, spModelSourceRef = smModelSourceRef x,
         spServiceRef = service, spMetricServiceRef = metricService, spEnvironment = smEnvironment x,
         spPolicies = policies, spServerlessConfig = serverless, spOffloadingConfig = offloading\<rparr>)
     (pairR (ptrR serviceRefCells flatR) (pairR (ptrR serviceRefCells flatR) (pairR (sliceR policyRefArrays flatR)
     (pairR (ptrR serverlessCells serverlessR) (ptrR offloadingCells (offloadingR msR))))))"

definition statusR :: "('c, model_status, model_status) denotation" where
  "statusR = structR (\<lambda>x. (stCreatedAtOnBeamlit x, stUpdatedAtOnBeamlit x))
     (\<lambda>x (created, updated). x\<lparr>stCreatedAtOnBeamlit := created, stUpdatedAtOnBeamlit := updated\<rparr>) (pairR flatR flatR)"

text \<open>A model denotes its type, what its metadata denotes, its spec and its status.\<close>

definition modelR ::
  "(('om, 'lm, 'ms, 'x) cell, 'om, 'mv) denotation \<Rightarrow> (('om, 'lm, 'ms, 'x) cell, 'ms, metric_spec) denotation
   \<Rightarrow> (('om, 'lm, 'ms, 'x) cell, 'om model_mem, type_meta \<times> 'mv \<times> model_spec \<times> model_status) denotation" where
  "modelR omR msR = structR (\<lambda>x. (omObjectMeta x, omSpec x, omStatus x)) (\<lambda>x w. (omTypeMeta x, w))
     (pairR omR (pairR (specR msR) statusR))"

definition itemsR ::
  "('c, 'lm, 'lv) denotation \<Rightarrow> ('c, 'a list) kind \<Rightarrow> ('c, 'a, 'v) denotation
   \<Rightarrow> ('c, 'lm list_mem, type_meta \<times> 'lv \<times> 'v list) denotation" where
  "itemsR lmR k R = structR (\<lambda>x. (imListMeta x, imItems x)) (\<lambda>x w. (imTypeMeta x, w)) (pairR lmR (sliceR k R))"

definition toolR ::
  "('c, 'om, 'mv) denotation \<Rightarrow> ('c, 'om tool_mem, type_meta \<times> 'mv \<times> tool_spec) denotation" where
  "toolR omR = structR tmObjectMeta (\<lambda>x w. (tmTypeMeta x, w, tmSpec x)) omR"

definition policySpecR :: "(('om, 'lm, 'ms, 'x) cell, policy_spec_mem, policy_spec) denotation" where
  "policySpecR = structR (\<lambda>x. (ymLocations x, ymFlavors x))
     (\<lambda>x (locations, flavors). \<lparr>posDisplayName = ymDisplayName x, posType = ymType x,
        posLocations = locations, posFlavors = flavors\<rparr>)
     (pairR (sliceR locationArrays flatR) (sliceR flavorArrays flatR))"

definition policyStatusR :: "('c, policy_status, policy_status) denotation" where
  "policyStatusR = structR (\<lambda>x. (ysCreatedAtOnBeamlit x, ysUpdatedAtOnBeamlit x))
     (\<lambda>x (created, updated). x\<lparr>ysCreatedAtOnBeamlit := created, ysUpdatedAtOnBeamlit := updated\<rparr>) (pairR flatR flatR)"

definition policyR ::
  "(('om, 'lm, 'ms, 'x) cell, 'om, 'mv) denotation
   \<Rightarrow> (('om, 'lm, 'ms, 'x) cell, 'om policy_mem, type_meta \<times> 'mv \<times> policy_spec \<times> policy_status) denotation" where
  "policyR omR = structR (\<lambda>x. (ymObjectMeta x, ymSpec x, ymStatus x)) (\<lambda>x w. (ymTypeMeta x, w))
     (pairR omR (pairR policySpecR policyStatusR))"

section \<open>The copies keep their contract\<close>

lemma kinds_ok:
  "kind_ok stringCells" "kind_ok int32Cells" "kind_ok headerMaps" "kind_ok oAuthCells" "kind_ok authCells"
  "kind_ok backendCells" "kind_ok behaviorCells" "kind_ok metricArrays" "kind_ok offloadingCells"
  "kind_ok serverlessCells" "kind_ok policyRefArrays" "kind_ok serviceRefCells" "kind_ok modelCells"
  "kind_ok modelArrays" "kind_ok modelListCells" "kind_ok toolCells" "kind_ok toolArrays" "kind_ok toolListCells"
  "kind_ok locationArrays" "kind_ok flavorArrays" "kind_ok policyCells" "kind_ok policyArrays" "kind_ok policyListCells"
  by (simp_all add: kind_ok_def stringCells_def int32Cells_def headerMaps_def oAuthCells_def authCells_def
      backendCells_def behaviorCells_def metricArrays_def offloadingCells_def serverlessCells_def
      policyRefArrays_def serviceRefCells_def modelCells_def modelArrays_def modelListCells_def toolCells_def
      toolArrays_def toolListCells_def locationArrays_def flavorArrays_def policyCells_def policyArrays_def
      policyListCells_def)

lemmas copiers = pair_copier ptr_copier slice_copier flat_copier kinds_ok
lemmas copy_unfold = copyPair_def bindG_assoc split_def

interpretation auth: deep_copier authR DeepCopyInto_AuthConfig
  unfolding authR_def
  by (rule struct_copier [where put = "\<lambda>p x. x\<lparr>amOAuthConfig := p\<rparr>"])
    (auto intro!: copiers simp: DeepCopyInto_AuthConfig_def)

lemma headers_copier: "deep_copier headersR (\<lambda>kvs. ret (putAll kvs []))"
  by unfold_locales (auto simp: headersR_def ret_def extends_refl putAll_distinct [of "[]", simplified])

interpretation backend: deep_copier backendR DeepCopyInto_RemoteBackend
  unfolding backendR_def
  by (rule struct_copier [where put = "\<lambda>(a, b) x. x\<lparr>bmAuthConfig := a, bmHeadersToAdd := b\<rparr>"
        and f = "copyPair (copyPtr authCells DeepCopyInto_AuthConfig) copyMap"])
    (auto intro!: copiers auth.deep_copier_axioms headers_copier
      simp: DeepCopyInto_RemoteBackend_def copyMap_def copy_unfold)

interpretation serverless: deep_copier serverlessR DeepCopyInto_ServerlessConfig
  unfolding serverlessR_def
  by (rule struct_copier [where put = "\<lambda>(a, b, c, d, e, f) x. x\<lparr>lmMetric := a, lmTarget := b, lmScaleUpMinimum := c,
          lmScaleDownDelay := d, lmStableWindow := e, lmLastPodRetentionPeriod := f\<rparr>"
        and f = "copyPair (copyPtr stringCells ret) (copyPair (copyPtr stringCells ret) (copyPair (copyPtr int32Cells ret)
          (copyPair (copyPtr stringCells ret) (copyPair (copyPtr stringCells ret) (copyPtr stringCells ret)))))"])
    (auto intro!: copiers simp: DeepCopyInto_ServerlessConfig_def copy_unfold)

interpretation policySpec: deep_copier policySpecR DeepCopyInto_PolicySpec
  unfolding policySpecR_def
  by (rule struct_copier [where put = "\<lambda>(a, b) x. x\<lparr>ymLocations := a, ymFlavors := b\<rparr>"
        and f = "copyPair (copySlice locationArrays ret) (copySlice flavorArrays ret)"])
    (auto intro!: copiers simp: DeepCopyInto_PolicySpec_def copy_unfold)

lemma service_reference_flat: "DeepCopyInto_ServiceReference = ret"
  by (simp add: fun_eq_iff DeepCopyInto_ServiceReference_def)

lemma service_cell: "kPrj serviceRefCells c = Some x \<longleftrightarrow> c = ServiceRefCell x"
  by (cases c) (auto simp: serviceRefCells_def)

interpretation serviceRef: deep_copier "ptrR serviceRefCells flatR" DeepCopy_ServiceReference
  unfolding DeepCopy_ServiceReference_def service_reference_flat by (intro copiers)

text \<open>
  What the libraries document of their copies: they are deep, and a time, which is never changed in
  place, is copied by assignment.
\<close>

definition library_laws ::
  "('om, 'lm, 'ms, 'x) copy_library \<Rightarrow> (('om, 'lm, 'ms, 'x) cell, 'om, 'mv) denotation
   \<Rightarrow> (('om, 'lm, 'ms, 'x) cell, 'lm, 'lv) denotation \<Rightarrow> (('om, 'lm, 'ms, 'x) cell, 'ms, metric_spec) denotation \<Rightarrow> bool" where
  "library_laws lib omR lmR msR \<longleftrightarrow> deep_copier omR (clObjectMeta lib) \<and> deep_copier lmR (clListMeta lib)
     \<and> deep_copier msR (clMetricSpec lib) \<and> (\<forall>t. clTime lib t = ret t)"

lemma offloading_copier:
  assumes "library_laws lib omR lmR msR"
  shows "deep_copier (offloadingR msR) (DeepCopyInto_OffloadingConfig lib)"
  unfolding offloadingR_def
  by (rule struct_copier [where put = "\<lambda>(a, b, c) x. x\<lparr>fmRemoteBackend := a, fmMetrics := b, fmBehavior := c\<rparr>"
        and f = "copyPair (copyPtr backendCells DeepCopyInto_RemoteBackend)
          (copyPair (copySlice metricArrays (clMetricSpec lib)) (copyPtr behaviorCells ret))"])
    (use assms in \<open>auto intro!: copiers backend.deep_copier_axioms
      simp: library_laws_def DeepCopyInto_OffloadingConfig_def copy_unfold\<close>)

lemma spec_copier:
  assumes "library_laws lib omR lmR msR"
  shows "deep_copier (specR msR) (DeepCopyInto_ModelDeploymentSpec lib)"
  unfolding specR_def
  by (rule struct_copier [where put = "\<lambda>(a, b, c, d, e) x. x\<lparr>smServiceRef := a, smMetricServiceRef := b,
          smPolicies := c, smServerlessConfig := d, smOffloadingConfig := e\<rparr>"
        and f = "copyPair (copyPtr serviceRefCells ret) (copyPair (copyPtr serviceRefCells ret)
          (copyPair (copySlice policyRefArrays ret) (copyPair (copyPtr serverlessCells DeepCopyInto_ServerlessConfig)
          (copyPtr offloadingCells (DeepCopyInto_OffloadingConfig lib)))))"])
    (use offloading_copier [OF assms] in \<open>auto intro!: copiers serverless.deep_copier_axioms
      simp: DeepCopyInto_ModelDeploymentSpec_def copy_unfold\<close>)

lemma status_copier:
  assumes "library_laws lib omR lmR msR"
  shows "deep_copier statusR (DeepCopyInto_ModelDeploymentStatus lib)"
    "deep_copier policyStatusR (DeepCopyInto_PolicyStatus lib)"
proof -
  show "deep_copier statusR (DeepCopyInto_ModelDeploymentStatus lib)"
    unfolding statusR_def
    by (rule struct_copier [where put = "\<lambda>(a, b) x. x\<lparr>stCreatedAtOnBeamlit := a, stUpdatedAtOnBeamlit := b\<rparr>"
          and f = "copyPair ret ret"])
      (use assms in \<open>auto intro!: copiers simp: library_laws_def DeepCopyInto_ModelDeploymentStatus_def copy_unfold\<close>)
  show "deep_copier policyStatusR (DeepCopyInto_PolicyStatus lib)"
    unfolding policyStatusR_def
    by (rule struct_copier [where put = "\<lambda>(a, b) x. x\<lparr>ysCreatedAtOnBeamlit := a, ysUpdatedAtOnBeamlit := b\<rparr>"
          and f = "copyPair ret ret"])
      (use assms in \<open>auto intro!: copiers simp: library_laws_def DeepCopyInto_PolicyStatus_def copy_unfold\<close>)
qed

lemma model_copier:
  assumes "library_laws lib omR lmR msR"
  shows "deep_copier (modelR omR msR) (DeepCopyInto_ModelDeployment lib)"
  unfolding modelR_def
  by (rule struct_copier [where put = "\<lambda>(a, b, c) x. x\<lparr>omObjectMeta := a, omSpec := b, omStatus := c\<rparr>"
        and f = "copyPair (clObjectMeta lib) (copyPair (DeepCopyInto_ModelDeploymentSpec lib)
          (DeepCopyInto_ModelDeploymentStatus lib))"])
    (use assms spec_copier [OF assms] status_copier [OF assms] in \<open>auto intro!: copiers
      simp: library_laws_def DeepCopyInto_ModelDeployment_def copy_unfold\<close>)

lemma tool_copier:
  assumes "library_laws lib omR lmR msR"
  shows "deep_copier (toolR omR) (DeepCopyInto_ToolDeployment lib)"
  unfolding toolR_def
  by (rule struct_copier [where put = "\<lambda>a x. x\<lparr>tmObjectMeta := a\<rparr>" and f = "clObjectMeta lib"])
    (use assms in \<open>auto simp: library_laws_def DeepCopyInto_ToolDeployment_def\<close>)

lemma policy_copier:
  assumes "library_laws lib omR lmR msR"
  shows "deep_copier (policyR omR) (DeepCopyInto_Policy lib)"
  unfolding policyR_def
  by (rule struct_copier [where put = "\<lambda>(a, b, c) x. x\<lparr>ymObjectMeta := a, ymSpec := b, ymStatus := c\<rparr>"
        and f = "copyPair (clObjectMeta lib) (copyPair DeepCopyInto_PolicySpec (DeepCopyInto_PolicyStatus lib))"])
    (use assms status_copier [OF assms] in \<open>auto intro!: copiers policySpec.deep_copier_axioms
      simp: library_laws_def DeepCopyInto_Policy_def copy_unfold\<close>)

lemma items_copier:
  assumes "library_laws lib omR lmR msR" and "deep_copier R into" and "kind_ok k"
    and "\<And>x. copy x = bindG (clListMeta lib (imListMeta x)) (\<lambda>meta. bindG (copySlice k into (imItems x)) (\<lambda>items.
      ret (x\<lparr>imListMeta := meta, imItems := items\<rparr>)))"
  shows "deep_copier (itemsR lmR k R) copy"
  unfolding itemsR_def
  by (rule struct_copier [where put = "\<lambda>(a, b) x. x\<lparr>imListMeta := a, imItems := b\<rparr>"
        and f = "copyPair (clListMeta lib) (copySlice k into)"])
    (use assms in \<open>auto intro!: copiers simp: library_laws_def copy_unfold\<close>)

lemma list_copiers:
  assumes "library_laws lib omR lmR msR"
  shows "deep_copier (itemsR lmR modelArrays (modelR omR msR)) (DeepCopyInto_ModelDeploymentList lib)"
    "deep_copier (itemsR lmR toolArrays (toolR omR)) (DeepCopyInto_ToolDeploymentList lib)"
    "deep_copier (itemsR lmR policyArrays (policyR omR)) (DeepCopyInto_PolicyList lib)"
  by (rule items_copier [OF assms model_copier [OF assms] kinds_ok(14)], simp add: DeepCopyInto_ModelDeploymentList_def)
    (rule items_copier [OF assms tool_copier [OF assms] kinds_ok(17)], simp add: DeepCopyInto_ToolDeploymentList_def,
     rule items_copier [OF assms policy_copier [OF assms] kinds_ok(22)], simp add: DeepCopyInto_PolicyList_def)

section \<open>Properties\<close>

text \<open>
  C12. A deep copy of a model is another model with the same content. In a well-formed heap, a
  \<open>ModelDeployment\<close> that reaches the cells \<open>F\<close> is copied without a panic; the copy denotes the same
  metadata, spec and status, down to the headers of its backend, its metrics and its policies; no cell
  is reached from both. Whatever is written to cells of the copy later, the original denotes what it
  did, and the other way around. The copies of the Kubernetes libraries are assumed to be deep.
\<close>
theorem model_copy_is_separate:
  assumes "library_laws lib omR lmR msR" and "heap_ok h"
    and "ptrR modelCells (modelR omR msR) h (Some a) F (Some v)"
  shows "\<exists>b h' F'. DeepCopyObject_ModelDeployment lib (Some a) h = (Ok (Some (ModelObject b)), h') \<and> heap_ok h'
    \<and> ptrR modelCells (modelR omR msR) h' (Some b) F' (Some v) \<and> F \<inter> F' = {}
    \<and> (\<forall>h''. (\<forall>x. x \<notin> F' \<longrightarrow> hCells h'' x = hCells h' x) \<longrightarrow> ptrR modelCells (modelR omR msR) h'' (Some a) F (Some v))
    \<and> (\<forall>h''. (\<forall>x. x \<notin> F \<longrightarrow> hCells h'' x = hCells h' x) \<longrightarrow> ptrR modelCells (modelR omR msR) h'' (Some b) F' (Some v))"
proof -
  have "deep_copier (ptrR modelCells (modelR omR msR)) (DeepCopy_ModelDeployment lib)"
    unfolding DeepCopy_ModelDeployment_def by (intro copiers model_copier [OF assms(1)])
  from deep_copier.separate [OF this assms(2,3)] obtain q h' F' where
    q: "DeepCopy_ModelDeployment lib (Some a) h = (Ok q, h')" "ptrR modelCells (modelR omR msR) h' q F' (Some v)"
    and rest: "heap_ok h'" "F \<inter> F' = {}"
      "\<forall>h''. (\<forall>x. x \<notin> F' \<longrightarrow> hCells h'' x = hCells h' x) \<longrightarrow> ptrR modelCells (modelR omR msR) h'' (Some a) F (Some v)"
      "\<forall>h''. (\<forall>x. x \<notin> F \<longrightarrow> hCells h'' x = hCells h' x) \<longrightarrow> ptrR modelCells (modelR omR msR) h'' q F' (Some v)"
    by blast
  obtain b where b: "q = Some b" using q(2) by (cases q) (auto simp: ptrR_def)
  have "DeepCopyObject_ModelDeployment lib (Some a) h = (Ok (Some (ModelObject b)), h')"
    using q(1) by (simp add: DeepCopyObject_ModelDeployment_def bindG_def ret_def b)
  with q(2) rest show ?thesis unfolding b by blast
qed

text \<open>
  C30. The same for a list of policies: the copy has as many items, each denotes the policy at its
  place in the original, and no item, location or flavor is shared.
\<close>
theorem policy_list_copy_is_separate:
  assumes "library_laws lib omR lmR msR" and "heap_ok h"
    and "ptrR policyListCells (itemsR lmR policyArrays (policyR omR)) h (Some a) F (Some v)"
  shows "\<exists>b h' F'. DeepCopyObject_PolicyList lib (Some a) h = (Ok (Some (PolicyListObject b)), h') \<and> heap_ok h'
    \<and> ptrR policyListCells (itemsR lmR policyArrays (policyR omR)) h' (Some b) F' (Some v) \<and> F \<inter> F' = {}
    \<and> (\<forall>h''. (\<forall>x. x \<notin> F' \<longrightarrow> hCells h'' x = hCells h' x)
         \<longrightarrow> ptrR policyListCells (itemsR lmR policyArrays (policyR omR)) h'' (Some a) F (Some v))"
proof -
  let ?R = "itemsR lmR policyArrays (policyR omR)"
  have "deep_copier (ptrR policyListCells ?R) (DeepCopy_PolicyList lib)"
    unfolding DeepCopy_PolicyList_def by (intro copiers list_copiers [OF assms(1)])
  from deep_copier.separate [OF this assms(2,3)] obtain q h' F' where
    q: "DeepCopy_PolicyList lib (Some a) h = (Ok q, h')" "ptrR policyListCells ?R h' q F' (Some v)"
    and rest: "heap_ok h'" "F \<inter> F' = {}"
      "\<forall>h''. (\<forall>x. x \<notin> F' \<longrightarrow> hCells h'' x = hCells h' x) \<longrightarrow> ptrR policyListCells ?R h'' (Some a) F (Some v)"
    by blast
  obtain b where b: "q = Some b" using q(2) by (cases q) (auto simp: ptrR_def)
  have "DeepCopyObject_PolicyList lib (Some a) h = (Ok (Some (PolicyListObject b)), h')"
    using q(1) by (simp add: DeepCopyObject_PolicyList_def bindG_def ret_def b)
  with q(2) rest show ?thesis unfolding b by blast
qed

text \<open>
  C16. \<open>configureOffloading\<close> does not rename the user's service. The reference it hands to the offloader
  denotes \<open>beamlitBackend\<close> of the model's reference, as the pure model of the handler has it, and no cell that
  was in use before is changed: the reference in the spec, which is written back to the
  cluster afterwards, keeps its name.
\<close>
theorem backend_reference_is_separate:
  assumes "heap_ok h" and "ptrR serviceRefCells flatR h (Some a) F (Some ref)"
  shows "\<exists>b h'. backendServiceRef (Some a) h = (Ok (Some b), h')
    \<and> ptrR serviceRefCells flatR h' (Some b) {b} (Some (beamlitBackend ref))
    \<and> ptrR serviceRefCells flatR h' (Some a) F (Some ref) \<and> (\<forall>x. x < hNext h \<longrightarrow> hCells h' x = hCells h x)"
proof -
  obtain q h1 F' where q: "DeepCopy_ServiceReference (Some a) h = (Ok q, h1)" "extends h h1"
      "ptrR serviceRefCells flatR h1 q F' (Some ref)" "\<forall>x \<in> F'. hNext h \<le> x"
    using serviceRef.copied [OF assms] by blast
  obtain b where b: "q = Some b" "F' = {b}" "hCells h1 b = Some (ServiceRefCell ref)"
    using q(3) by (cases q) (auto simp: ptrR_def flatR_def service_cell)
  let ?h = "h1\<lparr>hCells := (hCells h1)(b \<mapsto> ServiceRefCell (beamlitBackend ref))\<rparr>"
  have "backendServiceRef (Some a) h = (Ok (Some b), ?h)"
    using q(1) b by (simp add: backendServiceRef_def bindG_def deref_def load_def store_def serviceRefCells_def
        beamlitBackend_def go_simps)
  moreover have "ptrR serviceRefCells flatR ?h (Some b) {b} (Some (beamlitBackend ref))"
    by (simp add: ptrR_def flatR_def serviceRefCells_def)
  moreover have same: "\<forall>x. x < hNext h \<longrightarrow> hCells ?h x = hCells h x"
    using q(2,4) b(2) by (auto simp: extends_def)
  moreover have "ptrR serviceRefCells flatR ?h (Some a) F (Some ref)"
    by (rule serviceRef.local [OF assms(2)]) (use same serviceRef.below_next [OF assms] in blast)
  ultimately show ?thesis by blast
qed

section \<open>Witnesses\<close>

text \<open>Libraries whose metadata is a pointer to the finalizers, and a model that uses them.\<close>

definition libraryCells :: "(('om, 'lm, 'ms, 'x) cell, 'x) kind" where
  "libraryCells = \<lparr>kInj = LibraryCell, kPrj = \<lambda>c. case c of LibraryCell x \<Rightarrow> Some x | _ \<Rightarrow> None\<rparr>"

definition sample_library :: "(addr option, string, metric_spec, string list) copy_library" where
  "sample_library = \<lparr>clObjectMeta = copyPtr libraryCells ret, clListMeta = ret, clMetricSpec = ret, clTime = ret\<rparr>"

lemma sample_library_laws: "library_laws sample_library (ptrR libraryCells flatR) flatR flatR"
proof -
  have "kind_ok libraryCells" by (simp add: kind_ok_def libraryCells_def)
  then show ?thesis by (auto simp: library_laws_def sample_library_def intro!: copiers)
qed

definition workload_ref :: object_ref where
  "workload_ref = \<lparr>orAPIVersion = ''apps/v1'', orKind = ''Deployment'', orNamespace = ''ns'', orName = ''m''\<rparr>"

definition serving_ref :: service_reference where
  "serving_ref = \<lparr>srRef = workload_ref, srTargetPort = 80\<rparr>"

definition local_policy :: "string \<Rightarrow> policy_ref" where
  "local_policy name = \<lparr>prRefType = ''localPolicy'', prRef = workload_ref, prName = name\<rparr>"

definition served_status :: model_status where
  "served_status = \<lparr>stOffloadingStatus = False, stServingPort = 80, stMetricPort = 0, stWorkspace = ''ws'',
     stCreatedAtOnBeamlit = 1, stUpdatedAtOnBeamlit = 2\<rparr>"

definition model_type :: type_meta where
  "model_type = \<lparr>tmKind = ''ModelDeployment'', tmAPIVersion = ''v1alpha1''\<rparr>"

text \<open>Both references lead to the same cell, and the policies are the end of a longer array.\<close>

definition memory_spec :: spec_mem where
  "memory_spec = \<lparr>smModel = ''m'', smEnabled = True, smModelSourceRef = workload_ref, smServiceRef = Some 2,
     smMetricServiceRef = Some 2, smEnvironment = ''production'', smPolicies = Some (4, 1, 1), smServerlessConfig = None,
     smOffloadingConfig = Some 3\<rparr>"

definition model_heap :: "(addr option, string, metric_spec, string list) mem" where
  "model_heap = \<lparr>hCells = [0 \<mapsto> ModelCell \<lparr>omTypeMeta = model_type, omObjectMeta = Some 1, omSpec = memory_spec, omStatus = served_status\<rparr>,
     1 \<mapsto> LibraryCell [''finalizer''], 2 \<mapsto> ServiceRefCell serving_ref,
     3 \<mapsto> OffloadingCell \<lparr>fmRemoteBackend = Some 5, fmMetrics = None, fmBehavior = None\<rparr>,
     4 \<mapsto> PolicyRefArray [local_policy ''a'', local_policy ''b''],
     5 \<mapsto> BackendCell \<lparr>bmHost = ''run.beamlit.com'', bmAuthConfig = None, bmPathPrefix = [], bmHeadersToAdd = Some 6, bmScheme = ''https''\<rparr>,
     6 \<mapsto> HeaderMap [(''k'', ''v'')]], hNext = 7\<rparr>"

definition copied_spec :: model_spec where
  "copied_spec = \<lparr>spModel = ''m'', spEnabled = True, spModelSourceRef = workload_ref, spServiceRef = Some serving_ref,
     spMetricServiceRef = Some serving_ref, spEnvironment = ''production'', spPolicies = [local_policy ''b''],
     spServerlessConfig = None, spOffloadingConfig = Some \<lparr>ofRemoteBackend = Some \<lparr>rbHost = ''run.beamlit.com'',
       rbAuthConfig = None, rbPathPrefix = [], rbHeadersToAdd = [(''k'', ''v'')], rbScheme = ''https''\<rparr>,
       ofMetrics = [], ofBehavior = None\<rparr>\<rparr>"

lemmas denotes = ptrR_def structR_def pairR_def sliceR_def flatR_def listR_simps

lemmas cell_defs = backendCells_def headerMaps_def serviceRefCells_def policyRefArrays_def offloadingCells_def
  modelCells_def libraryCells_def

lemma model_heap_denotes:
  "ptrR modelCells (modelR (ptrR libraryCells flatR) flatR) model_heap (Some 0) {0, 1, 2, 3, 4, 5, 6}
     (Some (model_type, Some [''finalizer''], copied_spec, served_status))"
  by (simp add: modelR_def statusR_def specR_def offloadingR_def backendR_def headersR_def orNil_def memory_spec_def
      copied_spec_def denotes cell_defs model_heap_def) auto

theorem model_copy_is_separate_witness:
  "\<exists>b h' F'. DeepCopyObject_ModelDeployment sample_library (Some 0) model_heap = (Ok (Some (ModelObject b)), h')
     \<and> ptrR modelCells (modelR (ptrR libraryCells flatR) flatR) h' (Some b) F'
          (Some (model_type, Some [''finalizer''], copied_spec, served_status)) \<and> {0, 1, 2, 3, 4, 5, 6} \<inter> F' = {}"
proof -
  have "heap_ok model_heap" by (auto simp: heap_ok_def model_heap_def)
  from model_copy_is_separate [OF sample_library_laws this model_heap_denotes] show ?thesis
    by (elim exE conjE) (intro exI conjI, assumption+)
qed

theorem backend_reference_is_separate_witness:
  "\<exists>b h'. backendServiceRef (Some 2) model_heap = (Ok (Some b), h')
     \<and> ptrR serviceRefCells flatR h' (Some b) {b} (Some (beamlitBackend serving_ref)) \<and> hCells h' 2 = Some (ServiceRefCell serving_ref)"
proof -
  have "heap_ok model_heap" by (auto simp: heap_ok_def model_heap_def)
  moreover have "ptrR serviceRefCells flatR model_heap (Some 2) {2} (Some serving_ref)"
    by (simp add: denotes cell_defs model_heap_def)
  ultimately obtain b h' where "backendServiceRef (Some 2) model_heap = (Ok (Some b), h')"
      "ptrR serviceRefCells flatR h' (Some b) {b} (Some (beamlitBackend serving_ref))"
      "\<forall>x. x < hNext model_heap \<longrightarrow> hCells h' x = hCells model_heap x"
    using backend_reference_is_separate [of model_heap 2 "{2}" serving_ref] by blast
  then show ?thesis by (auto simp: model_heap_def)
qed

text \<open>A list of one policy.\<close>

definition policy_heap :: "(addr option, string, metric_spec, string list) mem" where
  "policy_heap = \<lparr>hCells = [0 \<mapsto> PolicyListCell \<lparr>imTypeMeta = model_type, imListMeta = ''1'', imItems = Some (1, 0, 1)\<rparr>,
     1 \<mapsto> PolicyArray [\<lparr>ymTypeMeta = model_type, ymObjectMeta = None,
       ymSpec = \<lparr>ymDisplayName = ''p'', ymType = ''location'', ymLocations = Some (2, 0, 1), ymFlavors = None\<rparr>,
       ymStatus = \<lparr>ysCreatedAtOnBeamlit = 1, ysUpdatedAtOnBeamlit = 2, ysWorkspace = ''ws''\<rparr>\<rparr>],
     2 \<mapsto> LocationArray [\<lparr>polType = ''continent'', polName = ''eu''\<rparr>]], hNext = 3\<rparr>"

definition listed_policy :: "type_meta \<times> string list option \<times> policy_spec \<times> policy_status" where
  "listed_policy = (model_type, None, \<lparr>posDisplayName = ''p'', posType = ''location'',
     posLocations = [\<lparr>polType = ''continent'', polName = ''eu''\<rparr>], posFlavors = []\<rparr>,
     \<lparr>ysCreatedAtOnBeamlit = 1, ysUpdatedAtOnBeamlit = 2, ysWorkspace = ''ws''\<rparr>)"

theorem policy_list_copy_is_separate_witness:
  "\<exists>b h' F'. DeepCopyObject_PolicyList sample_library (Some 0) policy_heap = (Ok (Some (PolicyListObject b)), h')
     \<and> ptrR policyListCells (itemsR flatR policyArrays (policyR (ptrR libraryCells flatR))) h' (Some b) F'
          (Some (model_type, ''1'', [listed_policy])) \<and> {0, 1, 2} \<inter> F' = {}"
proof -
  have "heap_ok policy_heap" by (auto simp: heap_ok_def policy_heap_def)
  moreover have "ptrR policyListCells (itemsR flatR policyArrays (policyR (ptrR libraryCells flatR))) policy_heap (Some 0) {0, 1, 2}
      (Some (model_type, ''1'', [listed_policy]))"
    by (simp add: itemsR_def policyR_def policySpecR_def policyStatusR_def denotes policyListCells_def policyArrays_def
        locationArrays_def policy_heap_def listed_policy_def)
  ultimately show ?thesis
    by (rule policy_list_copy_is_separate [OF sample_library_laws, THEN exE]) (elim exE conjE, intro exI conjI, assumption+)
qed

end
