(* ===== verification/Spec2Isabelle.thy ===== *)
theory Spec2Isabelle
  imports Gateway_Server_Facts Informer_Liveness Offloader_Facts Configurer_Facts Beamlit_Facts
    Model_Properties Thread_Properties Setup_Facts Deep_Copy_Facts
begin

text \<open>
  A verification of the Beamlit controller and of the gateway it drives.

  \<^bold>\<open>The program.\<close> A ModelDeployment resource describes a model that a Kubernetes cluster serves. The
  controller creates the model on Beamlit, puts the Beamlit gateway in front of the model's service,
  watches the metrics and the health of its workload, and tells the gateway which share of the
  requests to send to the remote copy. The parts, and how they call each other:

  \<^item> the gateway: a reverse proxy that picks a backend by weight for each request and fails over when
    a backend fails, with a management API that stores routes (\<^verbatim>\<open>src/gateway\<close>);
  \<^item> the offloader, which turns a model and a share into a route and sends it through the client of
    that API (\<^verbatim>\<open>src/internal/dataplane/offloader\<close>);
  \<^item> the configurer, which takes over the endpoint slices of the model's service and makes a copy of
    the service for the gateway (\<^verbatim>\<open>src/internal/dataplane/configurer\<close>);
  \<^item> the metric informers (Kubernetes and Prometheus) and the health informer, which report to the
    controller over channels (\<^verbatim>\<open>src/internal/informers\<close>);
  \<^item> the client of the Beamlit API and the conversions to its types (\<^verbatim>\<open>src/internal/beamlit\<close>,
    \<^verbatim>\<open>src/internal/controller/helper\<close>);
  \<^item> the reconcilers of models and policies (\<^verbatim>\<open>src/internal/controller\<close>), configured and wired by
    \<^verbatim>\<open>src/internal/config\<close> and \<^verbatim>\<open>src/cmd/main.go\<close>.

  \<^bold>\<open>How code becomes definitions.\<close> \<open>Go_Prelude\<close> has the type \<open>('s, 'a) go\<close>: a function on the state \<open>'s\<close>
  that returns a value, an error or a panic, and the state at that point; \<open>bindG\<close>, \<open>seqG\<close> and \<open>zoom\<close>
  compose statements and calls of sub-components, \<open>deref\<close> is reading through a pointer. A struct is a
  record with a field per field, a pointer an \<open>option\<close>, a Go map a map, or an association list where
  the code iterates over it. Integers are \<open>int\<close> with \<open>i64\<close> and \<open>i32\<close> at the operations that can leave
  the range. Operations carry the names of the source, prefixed by their component where two
  components share a name. Code that is not in the repository answers through a record of
  functions that is an argument of the operations: \<open>env_answers\<close> (HTTP, OAuth, the random source),
  \<open>serve_env\<close> (what the backends answer to the transport of the reverse proxy, and the writes to the client),
  \<open>yaml_codec\<close>, \<open>metric_env\<close> and \<open>prom_env\<close> (the metrics, scale, pod and Prometheus clients),
  \<open>quantity_ops\<close> (resource quantities), \<open>kube_api\<close>, \<open>workload_api\<close>, \<open>policy_client\<close> and
  \<open>reconcile_env\<close> (the API of the cluster, over an abstract cluster state), \<open>beamlit_sdk\<close> (over an
  abstract state of the service), \<open>setup_env\<close> (files, environment variables, constructors of clients).

  \<^bold>\<open>Theories.\<close>
  \<^item> \<open>Route_Store\<close>: \<^verbatim>\<open>gateway/internal/persistence\<close> and the route types. The interface is the locale
    \<open>persistence_v1alpha1\<close>, interpreted on the in-memory store and, in \<open>Gateway_Facts\<close>, on the proxy.
  \<^item> \<open>Gateway_Proxy\<close>: \<^verbatim>\<open>gateway/internal/proxy\<close>. \<open>Gateway_Facts\<close>: the proxy refines a map of routes, its
    indexes cover the stored routes, a request reaches a backend chosen exactly by weight, the error
    path always answers; and the requests it fails.
  \<^item> \<open>Gateway_API\<close>: \<^verbatim>\<open>gateway/api\<close> and \<^verbatim>\<open>gateway/clientset\<close>. \<open>Gateway_API_Facts\<close>: JSON round trip of
    routes, client calls act as direct calls.
  \<^item> \<open>Gateway_Server\<close>: \<^verbatim>\<open>gateway/cmd\<close>, the listeners of \<^verbatim>\<open>gateway/api/router.go\<close> and the handler of
    \<^verbatim>\<open>gateway/internal/proxy/proxy.go\<close>, with the reverse proxy of the standard library between the hooks
    \<open>RewriteV1Alpha1\<close>, \<open>ModifyResponse\<close> and \<open>ErrorHandler\<close>. \<open>Gateway_Server_Facts\<close>: what the client of the gateway
    receives from a whole request, that every request ends, the answers that are lost, and that the running
    gateway keeps its routes well formed under any sequence of requests to its two listeners.
  \<^item> \<open>Deployment_Types\<close>, \<open>Kube_Types\<close>: the resources. \<open>Metric_Condition\<close> and \<open>Metric_Facts\<close>: comparison of
    metrics, thresholds, and the condition as a set of reached metrics with the time since when.
  \<^item> \<open>Informer_Registry\<close>: the locale of what the three informers promise, interpreted in
    \<open>Metric_Informer\<close>, \<open>Prometheus_Informer\<close> and \<open>Health_Informer\<close>, which model a scrape, a query and an
    event. \<open>Informer_Facts\<close>: a scrape agrees with the readings, no report is early, registrations
    refine a map. \<open>Informer_Liveness\<close>: a metric that stays reached is reported.
  \<^item> \<open>Offloader\<close>, \<open>Offloader_Facts\<close>: the split of the traffic is the percentage asked for; the gateway
    stores what the offloader manages.
  \<^item> \<open>Configurer\<close>, \<open>Configurer_Facts\<close>: the calls on services and slices; the contract that the controller
    uses is the locale \<open>service_configurer\<close>, interpreted there.
  \<^item> \<open>Beamlit_Client\<close>, \<open>Policy_Controller\<close>, \<open>Beamlit_Facts\<close>: the client, the conversions and the policy
    reconciler.
  \<^item> \<open>Model_Controller\<close>: the reconciler of models, the informer loop and the callbacks, and
    \<open>controller_step\<close>, the interleaving of everything that can happen. \<open>Model_Facts\<close> has the frame
    lemmas and invariants, \<open>Model_Samples\<close> an environment in which a model is created,
    \<open>Model_Properties\<close> the properties.
  \<^item> \<open>Controller_Threads\<close>: the handlers of the controller once more, as threads that can be interrupted
    before every access to the shared maps and before every call of another component. \<open>Thread_Facts\<close>: run
    without interruption they are the handlers of \<open>Model_Controller\<close>; a predicate on maps that the single
    accesses keep holds under every interleaving (locale \<open>map_predicate\<close>). \<open>Thread_Properties\<close>: what
    interleaved handlers keep, and the deletion that a callback undoes.
  \<^item> \<open>Controller_Setup\<close>, \<open>Setup_Facts\<close>: the configuration and its decoding, the factories, \<open>main\<close> up to the
    start of the manager, and the reconciler of tools.
  \<^item> \<open>Memory\<close>, \<open>Deep_Copy\<close>, \<open>Deep_Copy_Facts\<close>: the deep copies of the resources
    (\<^verbatim>\<open>api/v1alpha1/*/zz_generated.deepcopy.go\<close>) over an explicit heap. The locale \<open>deep_copier\<close> of \<open>Memory\<close> is the
    contract of a copy, which pointers, slices and structs of copiers inherit; every type of the resources
    has a relation to the pure record that the other theories use, and its copy denotes the same
    record and shares no cell with its original.
  \<^item> this theory: the properties that span the informers, the controller and the gateway: from a metric
    that stays reached to the traffic, and from a workload without replicas to what the clients receive.

  \<^bold>\<open>Choices and bounds.\<close> In \<open>controller_step\<close> a handler runs as one step; steps of the reconciler goroutine
  and of the informer goroutine interleave in any order, and goroutines of watchers get to run at any time.
  In \<open>fine_step\<close> the handlers interleave between their single operations; there a call of the offloader,
  the configurer, an informer or a client is one operation, an access to a map is atomic, and the crash of
  the Go runtime on simultaneous accesses to a plain map is not represented. A cached client
  reads the state of the cluster. Times are nanoseconds, and every call of \<open>time.Now\<close> inside a
  scrape may see another time. The loops of the source are total recursive functions, so no fuel is used:
  the four attempts of the failover and the five turns of the wait in \<open>Unconfigure\<close> are the constants
  of the code; the endless loops of the goroutines are recursions over the sequence of what they receive
  (\<open>scrapes\<close>, \<open>K8sMetric_Start\<close>, \<open>Health_Start\<close>, \<open>mirrorLoop\<close>, \<open>informerTurn\<close> under \<open>controller_step\<close>,
  \<open>gatewayTurn\<close> under \<open>gateway_step\<close>). A request of the gateway is one step. Whether the body of a request has
  been read and closed is the field \<open>qBodyClosed\<close>. JSON is modelled on documents, in which nil
  and empty slices and maps are the same; the configuration file is turned into such a document by a
  parameter, the YAML decoder, and the fields are decoded by the model. Aliasing matters to the deep copies
  alone, which have the heap; elsewhere a struct behind a pointer is a value. In a deep copy the receiver and \<open>out\<close>
  are different structs, a cell that \<open>new\<close> made is a panic to read before it is written, the elements of a new
  array are stored when all are copied, and nil and empty slices denote the same list.

  \<^bold>\<open>Not modelled.\<close> Mocks, test utilities and scheme registration; the configuration file
  and environment of the gateway, which are read into viper and not used by any other code; trailers, upgraded
  connections and the streaming of the reverse proxy, whose copies are whole; logging, signal handling and
  the command-line flags of the controller; the work queue, the caches and leader election of
  controller-runtime; the token refresh inside the OAuth library. \<open>PolicyUpdate\<close>, \<open>watchService\<close> and the
  reconciler of tools have empty bodies and are modelled as that.
\<close>

section \<open>From a metric to the traffic\<close>

text \<open>
  C1. A model whose metric stays reached is offloaded. Take the watcher that the controller
  registers for a model when it is set up, and scrapes in which one of its metrics is always read
  as reached and which last for more than the window of five seconds. If the controller manages the
  model, has not marked it unhealthy and has another share recorded than the percentage of the
  model, then the last scrape sends a report, and the turn of the informer loop that handles this
  report leaves the gateway so that exactly the percentage of the draws send a request to the remote
  backend.
\<close>
theorem sustained_metric_moves_traffic:
  assumes q: "quantity_laws q" "\<forall>x \<in> set (ofMetrics oc). wf_metric x"
      "sorted_wrt (\<lambda>a b. \<not> spec_eq q a b) (ofMetrics oc)" "j < length (ofMetrics oc)"
    and held: "\<forall>e \<in> set (env0 # envs @ [env]).
      \<exists>rs. reads_as q (newWatcher (modelKey m) (registrationFor m oc)) e rs \<and> rs ! j"
    and time: "\<forall>i. eNow (env0 i) \<le> start" "eNow (env (length (ofMetrics oc))) - start > 5 * second"
    and managed: "rcManagedModels r (modelKey m) = Some v" "mmHealthy v"
      "reGet cenv (clusterOf r) (mmNamespace v) (mmName v) = Inr m"
    and oc: "spOffloadingConfig (mdSpec m) = Some oc" "ofBehavior oc = Some b" "obPercentage b = p"
      "0 \<le> p" "p \<le> 100"
    and ready: "gateway_ready cenv y (withRemoteBackend (rcDefaultRemoteBackend r) oc m) r ref s bl rb"
    and state: "rcModelState r (modelKey m) \<noteq> Some False" "rcOngoingOffloadings r (modelKey m) = Some u" "u \<noteq> p"
    and request: "\<forall>c. \<exists>t. oToken orc c = Inr t" "extractHost (qHost rin) \<in> set (hostnamesOf s)"
      "rbHost rb \<noteq> bHost (localBackendOf (localRefOf ref bl) p)"
  shows "\<exists>evs w st w'. scrapes q (env0 # envs) (newWatcher (modelKey m) (registrationFor m oc)) = (Ok evs, w)
    \<and> scrape q env w = (Ok (Report st), w')
    \<and> draws_to orc (gateway (rcOffloader (snd (informerTurn cenv (MetricUpdate st) r)))) rin rout (rbHost rb) = p"
proof -
  let ?g = "registrationFor m oc" and ?st = "\<lparr>msModelName = modelKey m, msReached = True\<rparr>"
  have g: "mgMetrics ?g = ofMetrics oc" "mgWindow ?g = 5 * second" by (simp_all add: registrationFor_def)
  have "\<exists>evs w w'. scrapes q (env0 # envs) (newWatcher (modelKey m) ?g) = (Ok evs, w)
      \<and> scrape q env w = (Ok (Report ?st), w')"
    by (rule sustained_report [where j = j and start = start])
      (use q held time in \<open>simp_all add: g second_def\<close>)
  moreover have "acts (MetricUpdate ?st) p (rcModelState r (modelKey m)) (rcOngoingOffloadings r (modelKey m))"
    using state by (simp add: acts_def)
  moreover have share: "targetShare (MetricUpdate ?st) p = p" by (simp add: targetShare_def)
  ultimately show ?thesis
    using update_moves_traffic [OF _ managed(2,3) oc ready, of "MetricUpdate ?st" orc rin "snd (informerTurn cenv (MetricUpdate ?st) r)" rout]
      managed(1) request
    by (auto simp: updatedModel_def)
qed

definition watched_offloading :: offloading_config where
  "watched_offloading = \<lparr>ofRemoteBackend = None, ofMetrics = [cpu_metric], ofBehavior = Some \<lparr>obPercentage = 30\<rparr>\<rparr>"

definition watched_model :: model_deployment where
  "watched_model = live_model\<lparr>mdSpec := (mdSpec live_model)\<lparr>spOffloadingConfig := Some watched_offloading\<rparr>\<rparr>"

definition watched_env :: "(unit, string \<times> string \<rightharpoonup> sdk_model) reconcile_env" where
  "watched_env = controller_env\<lparr>reGet := \<lambda>_ _ _. Inr watched_model\<rparr>"

lemma watched_ready:
  "gateway_ready watched_env sample_yaml (withRemoteBackend (Some sample_remote) watched_offloading watched_model)
     (managed_controller 0 True) fresh_ref live_service (''ns'', ''m-beamlit'') sample_remote"
  using managed_ready [of 0 True]
  by (simp add: gateway_ready_def watched_env_def watched_model_def watched_offloading_def remoteOf_def
      withRemoteBackend_def)

theorem sustained_metric_moves_traffic_witness:
  "\<exists>evs w st w'. scrapes sample_quantities [\<lambda>_. sample_menv 1 90 100 0, \<lambda>_. sample_menv 1 90 100 3000000000]
       (newWatcher ''ns/m'' (registrationFor watched_model watched_offloading)) = (Ok evs, w)
     \<and> scrape sample_quantities (\<lambda>_. sample_menv 1 90 100 5000000001) w = (Ok (Report st), w')
     \<and> draws_to (sample_env 0) (gateway (rcOffloader (snd (informerTurn watched_env (MetricUpdate st)
          (managed_controller 0 True))))) sample_req sample_req ''run.beamlit.com'' = 30"
proof -
  let ?w = "newWatcher ''ns/m'' (registrationFor watched_model watched_offloading)"
  have key: "modelKey watched_model = ''ns/m''"
    using live_model_sel by (simp add: watched_model_def modelKey_def)
  have reads: "\<exists>rs. reads_as sample_quantities ?w (\<lambda>_. sample_menv 1 90 100 t) rs \<and> rs ! 0" for t
    by (intro exI [of _ "[True]"])
      (simp add: reads_as_def newWatcher_def registrationFor_def watched_offloading_def sample_reading)
  show ?thesis
    using sustained_metric_moves_traffic [where m = watched_model and oc = watched_offloading and j = 0
        and r = "managed_controller 0 True" and cenv = watched_env and q = sample_quantities and start = 0
        and ?env0.0 = "\<lambda>_. sample_menv 1 90 100 0" and envs = "[\<lambda>_. sample_menv 1 90 100 3000000000]"
        and env = "\<lambda>_. sample_menv 1 90 100 5000000001" and p = 30 and u = 0 and rout = sample_req
        and b = "\<lparr>obPercentage = 30\<rparr>" and y = sample_yaml, OF sample_quantity_laws _ _ _ _ _ _ _ _ _ _ _ _ _ _ _ _ _ _
        sample_off(8) managed_request]
      reads watched_ready
    by (simp add: key managed_sel watched_env_def cpu_metric_wf second_def sample_off)
      (simp add: watched_model_def watched_offloading_def cpu_metric_wf)
qed

section \<open>From the health of a workload to the client\<close>

text \<open>
  C11. Clients of a model whose workload is down are served by the remote copy. Take the watcher that the
  health informer makes when the controller registers the model, and an event that shows its Deployment,
  StatefulSet or DaemonSet without a ready replica. The watcher reports it, and once the informer loop
  of the controller has handled the report, every request that the gateway gets for the model's service,
  whatever the draw, goes to the remote backend, with the workspace and the model in its path, and the
  client receives the status and the body of the remote answer.
\<close>
theorem unhealthy_workload_is_served_remotely:
  assumes watch: "Health_Register (modelKey m) (spModelSourceRef (mdSpec m)) k = (Ok (), k1)"
      "map_of (hiWatchers k1) (modelKey m) = Some h"
    and event: "(orKind (spModelSourceRef (mdSpec m)), mk) \<in> {(''Deployment'', DeploymentObj), (''StatefulSet'', StatefulSetObj),
        (''DaemonSet'', DaemonSetObj)}" "isTarget h wl" "wlReadyReplicas wl \<le> 0"
    and managed: "rcManagedModels r (modelKey m) = Some v" "mmHealthy v"
      "reGet cenv (clusterOf r) (mmNamespace v) (mmName v) = Inr m"
    and oc: "spOffloadingConfig (mdSpec m) = Some oc" "ofBehavior oc = Some b" "0 \<le> obPercentage b" "obPercentage b \<le> 100"
    and ready: "gateway_ready cenv y (withRemoteBackend (rcDefaultRemoteBackend r) oc m) r ref s bl rb"
    and client: "extractHost (qHost rin) \<in> set (hostnamesOf s)" "answering (seRewrite env)" "is_print (upgradeType (qHeader rin))"
    and backends: "\<forall>q. \<exists>resp. seRoundTrip env q = Inr resp \<and> pStatusCode resp < 399 \<and> pStatusCode resp \<noteq> 101
      \<and> pBodyErr resp = None \<and> \<not> pBodyClosed resp"
  shows "\<exists>hs ws q resp w. handleEvent h (mk wl) = [Health hs]
    \<and> sent_to (remoteBackendOf ws (withRemoteBackend (rcDefaultRemoteBackend r) oc m) rb 100) rin q
    \<and> seRoundTrip env q = Inr resp
    \<and> ServeHTTP env (gateway (rcOffloader (snd (informerTurn cenv (HealthUpdate hs) r)))) rin freshWriter = (Ok (), w)
    \<and> wStatus w = Some (pStatusCode resp) \<and> wBody w = pBody resp"
proof -
  let ?hs = "\<lparr>hsModelName = modelKey m, hsHealthy = False\<rparr>" and ?m = "withRemoteBackend (rcDefaultRemoteBackend r) oc m"
  let ?g = "gateway (rcOffloader (snd (informerTurn cenv (HealthUpdate ?hs) r)))"
  have report: "handleEvent h (mk wl) = [Health ?hs]"
    using registered_watcher [OF watch] event by (auto simp: handleEvent_def reportHealth_def)
  obtain ws where gw: "?g = snd (RegisterRoute (routeOf ws ?m s (localRefOf ref bl) rb 100) (gateway (rcOffloader r)))"
    using update_registers [OF _ managed(2,3) oc(1,2) refl oc(3,4) ready _ refl, of "HealthUpdate ?hs"] managed(1)
    by (auto simp: updatedModel_def acts_def targetShare_def)
  let ?r = "routeOf ws ?m s (localRefOf ref bl) rb 100"
  have ok: "route_ok ?r" "sum_list (map bWeight (rBackends ?r)) = 100"
    using offloaded_route_ok [of 100 rb] ready by (simp_all add: gateway_ready_def)
  have "routed ?g rin ?r" using routed_registered [of rin ?r] client(1) by (simp add: gw routeOf_sel)
  from drawn_backend_answers [OF this ok(1) _ client(2,3)] ok(2) backends obtain c q resp w where
    c: "c \<in> set (rBackends ?r)" "0 < bWeight c" "sent_to c rin q" and rest: "seRoundTrip env q = Inr resp"
      "ServeHTTP env ?g rin freshWriter = (Ok (), w)" "wStatus w = Some (pStatusCode resp)" "wBody w = pBody resp"
    by auto
  have "c = remoteBackendOf ws ?m rb 100" using c(1,2) by (auto simp: routeOf_sel localBackendOf_def)
  with c(3) rest report show ?thesis by blast
qed

theorem unhealthy_workload_is_served_remotely_witness:
  "\<exists>k1 h hs ws q w. Health_Register ''ns/m'' (spModelSourceRef (mdSpec live_model)) newK8SHealthInformer = (Ok (), k1)
    \<and> map_of (hiWatchers k1) ''ns/m'' = Some h
    \<and> handleEvent h (DeploymentObj \<lparr>wlNamespace = ''ns'', wlName = ''m'', wlReplicas = 1, wlReadyReplicas = 0\<rparr>) = [Health hs]
    \<and> sent_to (remoteBackendOf ws (withRemoteBackend (Some sample_remote) live_offloading live_model) sample_remote 100) sample_req q
    \<and> ServeHTTP (sample_serve (Inr (Gateway_Facts.sample_resp 200))) (gateway (rcOffloader (snd (informerTurn controller_env (HealthUpdate hs)
         (managed_controller 0 True))))) sample_req freshWriter = (Ok (), w)
    \<and> wStatus w = Some 200 \<and> wBody w = ''ok''"
proof -
  let ?src = "spModelSourceRef (mdSpec live_model)" and ?h = "\<lparr>hwModel = ''ns/m'', hwWatchTarget = spModelSourceRef (mdSpec live_model), hwCancel = False\<rparr>"
  have src: "?src = \<lparr>orAPIVersion = ''apps/v1'', orKind = ''Deployment'', orNamespace = ''ns'', orName = ''m''\<rparr>"
    by (simp add: live_model_def sample_model_def)
  have reg: "Health_Register ''ns/m'' ?src newK8SHealthInformer = (Ok (), newK8SHealthInformer\<lparr>hiWatchers := [(''ns/m'', ?h)]\<rparr>)"
    by (simp add: Health_Register_def newK8SHealthInformer_def go_simps bindG_def)
  show ?thesis
    using unhealthy_workload_is_served_remotely [where m = live_model and k = newK8SHealthInformer
        and ?k1.0 = "newK8SHealthInformer\<lparr>hiWatchers := [(''ns/m'', ?h)]\<rparr>" and h = ?h and mk = DeploymentObj
        and wl = "\<lparr>wlNamespace = ''ns'', wlName = ''m'', wlReplicas = 1, wlReadyReplicas = 0\<rparr>"
        and r = "managed_controller 0 True" and cenv = controller_env and y = sample_yaml and oc = live_offloading
        and env = "sample_serve (Inr (Gateway_Facts.sample_resp 200))" and rin = sample_req and b = "\<lparr>obPercentage = 30\<rparr>",
        OF _ _ _ _ _ _ _ _ live_model_sel(6) _ _ _ _ managed_request(1)]
      reg managed_ready [of 0 True]
    by (simp add: src live_model_sel managed_sel env_sel isTarget_def sample_serve_def sample_answering Gateway_Facts.sample_resp_def)
qed

end
